(* ===== verification/Prelude.thy ===== *)
theory Prelude
  imports Main "HOL-Library.Word"
begin

text \<open>
  What the components share.  The program is C and C++ that drives a network card through
  DPDK, a library outside the repository.  A component is therefore a program that keeps a
  state of its own and makes calls whose answers it cannot compute.  This theory holds that
  notion of program, the C integer types, and the generic facts about both.

  A program of type \<open>('c, 'r, 's, 'x, 'a) io\<close> reads an environment, a state \<open>'s\<close> and the
  trace of the calls made so far.  It gives \<open>None\<close> where the code never returns, and else
  the outcome (\<open>Inl\<close> when the process is ended, by \<open>rte_exit\<close> or a failing access, and
  \<open>Inr\<close> the returned value), the new state and the longer trace.  The environment is an
  arbitrary function from the number of the call and the call to its answer: along one run
  that is as general as an answer that depends on the whole history, since the history is
  fixed by the number of calls made.
\<close>

section \<open>C integer types\<close>

type_synonym u8 = "8 word"
type_synonym u16 = "16 word"
type_synonym u32 = "32 word"
type_synonym u64 = "64 word"

text \<open>
  A C \<open>int\<close> is an \<open>int\<close> kept in its range by the code (signed overflow is undefined in C);
  a conversion to \<open>int\<close> from a wider or an unsigned type wraps, as gcc does it.
\<close>

definition to_cint :: "int \<Rightarrow> int" where
  "to_cint z = signed_take_bit 31 z"

definition in_cint :: "int \<Rightarrow> bool" where
  "in_cint z \<longleftrightarrow> - (2 ^ 31) \<le> z \<and> z < 2 ^ 31"

lemma to_cint_in_range: "in_cint (to_cint z)"
  using signed_take_bit_int_less_exp [of 31 z] signed_take_bit_int_greater_eq_minus_exp [of 31 z]
  by (simp add: to_cint_def in_cint_def)

lemma to_cint_id: "in_cint z \<Longrightarrow> to_cint z = z"
  by (simp add: to_cint_def in_cint_def signed_take_bit_int_eq_self)

text \<open>C division and remainder on signed operands truncate towards zero.\<close>

definition c_div :: "int \<Rightarrow> int \<Rightarrow> int" where
  "c_div a b = sgn a * sgn b * (\<bar>a\<bar> div \<bar>b\<bar>)"

definition c_mod :: "int \<Rightarrow> int \<Rightarrow> int" where
  "c_mod a b = a - b * c_div a b"

lemma c_div_nonneg: "0 \<le> a \<Longrightarrow> 0 < b \<Longrightarrow> c_div a b = a div b"
  by (cases "a = 0") (auto simp: c_div_def sgn_if)

lemma c_mod_nonneg: "0 \<le> a \<Longrightarrow> 0 < b \<Longrightarrow> c_mod a b = a mod b"
  by (simp add: c_mod_def c_div_nonneg minus_mult_div_eq_mod)

section \<open>Programs with calls to outside code\<close>

type_synonym ('c, 'r) env = "nat \<Rightarrow> 'c \<Rightarrow> 'r"
type_synonym ('c, 'r) trace = "('c \<times> 'r) list"
type_synonym ('c, 'r, 's, 'x, 'a) io =
  "('c, 'r) env \<Rightarrow> 's \<Rightarrow> ('c, 'r) trace \<Rightarrow> (('x + 'a) \<times> 's \<times> ('c, 'r) trace) option"

named_theorems io_simps \<open>how each construct of a program runs\<close>
named_theorems io_rules \<open>partial correctness rules for the constructs of a program\<close>

definition io_ret :: "'a \<Rightarrow> ('c, 'r, 's, 'x, 'a) io" where
  "io_ret a = (\<lambda>e s t. Some (Inr a, s, t))"

definition io_exit :: "'x \<Rightarrow> ('c, 'r, 's, 'x, 'a) io" where
  "io_exit x = (\<lambda>e s t. Some (Inl x, s, t))"

definition io_bind ::
  "('c, 'r, 's, 'x, 'a) io \<Rightarrow> ('a \<Rightarrow> ('c, 'r, 's, 'x, 'b) io) \<Rightarrow> ('c, 'r, 's, 'x, 'b) io" where
  "io_bind m f = (\<lambda>e s t. case m e s t of
       None \<Rightarrow> None
     | Some (Inl x, s', t') \<Rightarrow> Some (Inl x, s', t')
     | Some (Inr a, s', t') \<Rightarrow> f a e s' t')"

definition io_then ::
  "('c, 'r, 's, 'x, 'a) io \<Rightarrow> ('c, 'r, 's, 'x, 'b) io \<Rightarrow> ('c, 'r, 's, 'x, 'b) io" where
  "io_then m k = io_bind m (\<lambda>_. k)"

definition io_call :: "'c \<Rightarrow> ('c, 'r, 's, 'x, 'r) io" where
  "io_call c = (\<lambda>e s t. Some (Inr (e (length t) c), s, t @ [(c, e (length t) c)]))"

definition io_get :: "('s \<Rightarrow> 'a) \<Rightarrow> ('c, 'r, 's, 'x, 'a) io" where
  "io_get f = (\<lambda>e s t. Some (Inr (f s), s, t))"

definition io_modify :: "('s \<Rightarrow> 's) \<Rightarrow> ('c, 'r, 's, 'x, unit) io" where
  "io_modify f = (\<lambda>e s t. Some (Inr (), f s, t))"

text \<open>A statement run for its effect only.\<close>

definition io_do :: "'c \<Rightarrow> ('c, 'r, 's, 'x, unit) io" where
  "io_do c = io_bind (io_call c) (\<lambda>_. io_ret ())"

definition io_when :: "bool \<Rightarrow> ('c, 'r, 's, 'x, unit) io \<Rightarrow> ('c, 'r, 's, 'x, unit) io" where
  "io_when b m = (if b then m else io_ret ())"

primrec io_for :: "'b list \<Rightarrow> ('b \<Rightarrow> ('c, 'r, 's, 'x, unit) io) \<Rightarrow> ('c, 'r, 's, 'x, unit) io" where
  "io_for [] f = io_ret ()"
| "io_for (x # xs) f = io_then (f x) (io_for xs f)"

text \<open>
  A loop: the body says whether the loop goes on.  The loop that goes on for ever is \<open>None\<close>.
\<close>

partial_function (option) io_loop ::
  "('c, 'r, 's, 'x, bool) io \<Rightarrow> ('c, 'r, 's, 'x, unit) io" where
  "io_loop body e s t =
     Option.bind (body e s t) (\<lambda>(res, s', t'). case res of
         Inl x \<Rightarrow> Some (Inl x, s', t')
       | Inr go \<Rightarrow> if go then io_loop body e s' t' else Some (Inr (), s', t'))"

lemma io_ret_run [io_simps]: "io_ret a e s t = Some (Inr a, s, t)"
  by (simp add: io_ret_def)

lemma io_exit_run [io_simps]: "io_exit x e s t = Some (Inl x, s, t)"
  by (simp add: io_exit_def)

lemma io_call_run [io_simps]:
  "io_call c e s t = Some (Inr (e (length t) c), s, t @ [(c, e (length t) c)])"
  by (simp add: io_call_def)

lemma io_get_run [io_simps]: "io_get f e s t = Some (Inr (f s), s, t)"
  by (simp add: io_get_def)

lemma io_modify_run [io_simps]: "io_modify f e s t = Some (Inr (), f s, t)"
  by (simp add: io_modify_def)

lemma io_bind_run [io_simps]:
  "io_bind m f e s t = (case m e s t of
       None \<Rightarrow> None
     | Some (Inl x, s', t') \<Rightarrow> Some (Inl x, s', t')
     | Some (Inr a, s', t') \<Rightarrow> f a e s' t')"
  by (simp add: io_bind_def)

lemma io_then_run [io_simps]:
  "io_then m k e s t = (case m e s t of
       None \<Rightarrow> None
     | Some (Inl x, s', t') \<Rightarrow> Some (Inl x, s', t')
     | Some (Inr a, s', t') \<Rightarrow> k e s' t')"
  by (simp add: io_then_def io_bind_def)

lemma io_do_run [io_simps]:
  "io_do c e s t = Some (Inr (), s, t @ [(c, e (length t) c)])"
  by (simp add: io_do_def io_simps)

lemma io_when_run [io_simps]:
  "io_when b m e s t = (if b then m e s t else Some (Inr (), s, t))"
  by (simp add: io_when_def io_ret_def)

text \<open>Programs that run alike are equal, and sequencing is associative.\<close>

lemma io_bind_assoc: "io_bind (io_bind m f) g = io_bind m (\<lambda>a. io_bind (f a) g)"
  by (auto simp: io_bind_def fun_eq_iff split: option.splits sum.splits)

lemma io_ret_bind [simp]: "io_bind (io_ret a) f = f a"
  by (simp add: io_bind_def io_ret_def)

lemma io_then_assoc: "io_then (io_then m k) l = io_then m (io_then k l)"
  by (simp add: io_then_def io_bind_assoc)

lemma io_ret_then [simp]: "io_then (io_ret a) k = k"
  by (simp add: io_then_def)

lemma io_loop_stop:
  "body e s t = Some (Inr False, s', t') \<Longrightarrow> io_loop body e s t = Some (Inr (), s', t')"
  by (subst io_loop.simps) simp

lemma io_loop_go:
  "body e s t = Some (Inr True, s', t') \<Longrightarrow> io_loop body e s t = io_loop body e s' t'"
  by (subst io_loop.simps) simp

lemma io_then_ret [simp]: "io_then m (io_ret ()) = m"
  by (auto simp: io_then_def io_bind_def io_ret_def fun_eq_iff split: option.splits sum.splits)

lemma io_for_append:
  "io_for (xs @ ys) f = io_then (io_for xs f) (io_for ys f)"
  by (induction xs) (simp_all add: io_then_assoc)

section \<open>What holds after a program\<close>

text \<open>
  \<open>io_wp e m Q E s t\<close>: run from \<open>s\<close> and \<open>t\<close>, the program \<open>m\<close> ends, if it ends, in \<open>Q\<close>
  of its value, or in \<open>E\<close> of its exit.  The equations of \<open>io_wp\<close> compute that condition
  construct by construct.
\<close>

named_theorems io_wp_simps \<open>the weakest condition of each construct of a program\<close>

definition io_wp ::
  "('c, 'r) env \<Rightarrow> ('c, 'r, 's, 'x, 'a) io \<Rightarrow> ('a \<Rightarrow> 's \<Rightarrow> ('c, 'r) trace \<Rightarrow> bool) \<Rightarrow>
   ('x \<Rightarrow> 's \<Rightarrow> ('c, 'r) trace \<Rightarrow> bool) \<Rightarrow> 's \<Rightarrow> ('c, 'r) trace \<Rightarrow> bool" where
  "io_wp e m Q E s t = (case m e s t of
       None \<Rightarrow> True
     | Some (Inl x, s', t') \<Rightarrow> E x s' t'
     | Some (Inr a, s', t') \<Rightarrow> Q a s' t')"

lemma io_wp_ret [io_wp_simps]: "io_wp e (io_ret a) Q E s t = Q a s t"
  by (simp add: io_wp_def io_simps)

lemma io_wp_exit [io_wp_simps]: "io_wp e (io_exit x) Q E s t = E x s t"
  by (simp add: io_wp_def io_simps)

lemma io_wp_call [io_wp_simps]:
  "io_wp e (io_call c) Q E s t = Q (e (length t) c) s (t @ [(c, e (length t) c)])"
  by (simp add: io_wp_def io_simps)

lemma io_wp_get [io_wp_simps]: "io_wp e (io_get f) Q E s t = Q (f s) s t"
  by (simp add: io_wp_def io_simps)

lemma io_wp_modify [io_wp_simps]: "io_wp e (io_modify f) Q E s t = Q () (f s) t"
  by (simp add: io_wp_def io_simps)

lemma io_wp_bind [io_wp_simps]:
  "io_wp e (io_bind m f) Q E s t = io_wp e m (\<lambda>a. io_wp e (f a) Q E) E s t"
  by (simp add: io_wp_def io_simps split: option.splits sum.splits)

lemma io_wp_then [io_wp_simps]:
  "io_wp e (io_then m k) Q E s t = io_wp e m (\<lambda>_. io_wp e k Q E) E s t"
  by (simp add: io_then_def io_wp_bind)

lemma io_wp_do [io_wp_simps]:
  "io_wp e (io_do c) Q E s t = Q () s (t @ [(c, e (length t) c)])"
  by (simp add: io_wp_def io_simps)

lemma io_wp_when [io_wp_simps]:
  "io_wp e (io_when b m) Q E s t = (if b then io_wp e m Q E s t else Q () s t)"
  by (simp add: io_wp_def io_simps)

lemma io_wp_mono [io_rules]:
  assumes "io_wp e m Q E s t"
    and "\<And>a s' t'. Q a s' t' \<Longrightarrow> Q' a s' t'"
    and "\<And>x s' t'. E x s' t' \<Longrightarrow> E' x s' t'"
  shows "io_wp e m Q' E' s t"
  using assms by (auto simp: io_wp_def split: option.splits sum.splits)

lemma io_wp_for [io_rules]:
  assumes "I s t"
    and "\<And>x s t. x \<in> set xs \<Longrightarrow> I s t \<Longrightarrow> io_wp e (f x) (\<lambda>_. I) E s t"
  shows "io_wp e (io_for xs f) (\<lambda>_. I) E s t"
  using assms
proof (induction xs arbitrary: s t)
  case Nil
  then show ?case by (simp add: io_wp_simps)
next
  case (Cons x xs)
  have "io_wp e (f x) (\<lambda>_. io_wp e (io_for xs f) (\<lambda>_. I) E) E s t"
  proof (rule io_wp_mono)
    show "io_wp e (f x) (\<lambda>_. I) E s t" using Cons.prems by simp
  next
    fix a s' t'
    assume "I s' t'"
    then show "io_wp e (io_for xs f) (\<lambda>_. I) E s' t'"
      by (rule Cons.IH) (use Cons.prems in simp)
  qed simp
  then show ?case by (simp add: io_wp_simps)
qed

lemma io_loop_result:
  assumes ret: "io_loop body e s t = Some r"
    and init: "I s t"
    and body: "\<And>s t. I s t \<Longrightarrow> io_wp e body (\<lambda>go s t. if go then I s t else Q s t) E s t"
  shows "case r of (Inl x, s', t') \<Rightarrow> E x s' t' | (Inr a, s', t') \<Rightarrow> Q s' t'"
proof -
  let ?R = "\<lambda>r. case r of (Inl x, s', t') \<Rightarrow> E x s' t' | (Inr a, s', t') \<Rightarrow> Q s' t'"
  have "body = body \<longrightarrow> e = e \<longrightarrow> I s t \<longrightarrow> ?R r"
  proof (rule io_loop.raw_induct [where P = "\<lambda>b e' s t r. b = body \<longrightarrow> e' = e \<longrightarrow> I s t \<longrightarrow> ?R r",
        OF _ ret], intro impI)
    fix loop b e' s t r
    assume IH: "\<And>b e' s t r. loop b e' s t = Some r \<Longrightarrow> b = body \<longrightarrow> e' = e \<longrightarrow> I s t \<longrightarrow> ?R r"
      and eq: "Option.bind (b e' s t) (\<lambda>(res, s', t'). case res of
          Inl x \<Rightarrow> Some (Inl x, s', t')
        | Inr go \<Rightarrow> if go then loop b e' s' t' else Some (Inr (), s', t')) = Some r"
      and be: "b = body" "e' = e" and I: "I s t"
    from eq obtain res s' t' where run: "body e s t = Some (res, s', t')"
      by (auto simp: be split: Option.bind_splits)
    show "?R r"
    proof (cases res)
      case (Inl x)
      with run eq body [OF I] show ?thesis by (auto simp: be io_wp_def)
    next
      case (Inr go)
      with run body [OF I] have "if go then I s' t' else Q s' t'" by (simp add: io_wp_def)
      with run eq Inr show ?thesis using IH [of b e' s' t' r] by (auto simp: be split: if_splits)
    qed
  qed
  with init show ?thesis by blast
qed

lemma io_wp_loop [io_rules]:
  assumes "I s t"
    and "\<And>s t. I s t \<Longrightarrow> io_wp e body (\<lambda>go s t. if go then I s t else Q s t) E s t"
  shows "io_wp e (io_loop body) (\<lambda>_. Q) E s t"
proof (cases "io_loop body e s t")
  case None
  then show ?thesis by (simp add: io_wp_def)
next
  case (Some r)
  from io_loop_result [OF Some, of I Q E] assms Some show ?thesis
    by (auto simp: io_wp_def split: sum.splits)
qed

section \<open>Calls a program does not make\<close>

text \<open>
  \<open>io_quiet W m\<close>: whatever the outcome, \<open>m\<close> adds to the trace no call that satisfies \<open>W\<close>.
\<close>

named_theorems quiet_rules \<open>a program is quiet when its parts are\<close>

definition watched :: "('c \<Rightarrow> bool) \<Rightarrow> ('c, 'r) trace \<Rightarrow> ('c, 'r) trace" where
  "watched W t = filter (\<lambda>x. W (fst x)) t"

lemma watched_simps [simp]:
  "watched W [] = []"
  "watched W (x # t) = (if W (fst x) then x # watched W t else watched W t)"
  "watched W (t @ u) = watched W t @ watched W u"
  by (simp_all add: watched_def)

definition io_quiet :: "('c \<Rightarrow> bool) \<Rightarrow> ('c, 'r, 's, 'x, 'a) io \<Rightarrow> bool" where
  "io_quiet W m \<longleftrightarrow> (\<forall>e s t. io_wp e m
     (\<lambda>_ _ t'. watched W t' = watched W t) (\<lambda>_ _ t'. watched W t' = watched W t) s t)"

lemma io_quietD:
  assumes "io_quiet W m" and "watched W t = u"
  shows "io_wp e m (\<lambda>_ _ t'. watched W t' = u) (\<lambda>_ _ t'. watched W t' = u) s t"
  using assms by (auto simp: io_quiet_def)

lemma quiet_ret [quiet_rules]: "io_quiet W (io_ret a)"
  by (simp add: io_quiet_def io_wp_simps)

lemma quiet_exit [quiet_rules]: "io_quiet W (io_exit x)"
  by (simp add: io_quiet_def io_wp_simps)

lemma quiet_get [quiet_rules]: "io_quiet W (io_get f)"
  by (simp add: io_quiet_def io_wp_simps)

lemma quiet_modify [quiet_rules]: "io_quiet W (io_modify f)"
  by (simp add: io_quiet_def io_wp_simps)

lemma quiet_call [quiet_rules]: "\<not> W c \<Longrightarrow> io_quiet W (io_call c)"
  by (simp add: io_quiet_def io_wp_simps)

lemma quiet_do [quiet_rules]: "\<not> W c \<Longrightarrow> io_quiet W (io_do c)"
  by (simp add: io_quiet_def io_wp_simps)

lemma quiet_bind [quiet_rules]:
  assumes "io_quiet W m" and "\<And>a. io_quiet W (f a)"
  shows "io_quiet W (io_bind m f)"
  unfolding io_quiet_def
proof (intro allI, subst io_wp_bind)
  fix e s t
  show "io_wp e m (\<lambda>a. io_wp e (f a) (\<lambda>_ _ t'. watched W t' = watched W t)
      (\<lambda>_ _ t'. watched W t' = watched W t)) (\<lambda>_ _ t'. watched W t' = watched W t) s t"
    by (rule io_wp_mono [OF io_quietD [OF assms(1) refl]]) (auto intro: io_quietD [OF assms(2)])
qed

lemma quiet_then [quiet_rules]: "io_quiet W m \<Longrightarrow> io_quiet W k \<Longrightarrow> io_quiet W (io_then m k)"
  by (simp add: io_then_def quiet_bind)

lemma quiet_when [quiet_rules]: "(b \<Longrightarrow> io_quiet W m) \<Longrightarrow> io_quiet W (io_when b m)"
  by (simp add: io_when_def quiet_ret)

lemma quiet_if [quiet_rules]:
  "(b \<Longrightarrow> io_quiet W m) \<Longrightarrow> (\<not> b \<Longrightarrow> io_quiet W k) \<Longrightarrow> io_quiet W (if b then m else k)"
  by simp

lemma quiet_for [quiet_rules]:
  "(\<And>x. x \<in> set xs \<Longrightarrow> io_quiet W (f x)) \<Longrightarrow> io_quiet W (io_for xs f)"
  by (induction xs) (auto intro: quiet_rules)

lemma quiet_io_loop [quiet_rules]:
  assumes "io_quiet W body"
  shows "io_quiet W (io_loop body)"
  unfolding io_quiet_def
  by (intro allI io_wp_loop [where I = "\<lambda>_ t'. watched W t' = watched W t" for t])
     (auto intro: io_wp_mono [OF io_quietD [OF assms]])

lemma quiet_result:
  "io_quiet W m \<Longrightarrow> m e s t = Some (r, s', t') \<Longrightarrow> watched W t' = watched W t"
  using io_quietD [of W m t "watched W t" e s] by (cases r) (auto simp: io_wp_def)

section \<open>A program on a part of the state\<close>

definition io_on :: "('s \<Rightarrow> 'u) \<Rightarrow> ('u \<Rightarrow> 's \<Rightarrow> 's) \<Rightarrow>
    ('c, 'r, 'u, 'x, 'a) io \<Rightarrow> ('c, 'r, 's, 'x, 'a) io" where
  "io_on sel upd m = (\<lambda>e s t. map_option (\<lambda>(r, u, t'). (r, upd u s, t')) (m e (sel s) t))"

lemma io_on_run [io_simps]:
  "io_on sel upd m e s t = map_option (\<lambda>(r, u, t'). (r, upd u s, t')) (m e (sel s) t)"
  by (simp add: io_on_def)

lemma io_wp_on [io_wp_simps]:
  "io_wp e (io_on sel upd m) Q E s t =
   io_wp e m (\<lambda>a u. Q a (upd u s)) (\<lambda>x u. E x (upd u s)) (sel s) t"
  by (simp add: io_wp_def io_simps split: option.splits sum.splits)

lemma quiet_on [quiet_rules]: "io_quiet W m \<Longrightarrow> io_quiet W (io_on sel upd m)"
  by (simp add: io_quiet_def io_wp_simps)

section \<open>Programs that return\<close>

text \<open>\<open>io_total m\<close>: \<open>m\<close> comes to an end, whatever the environment answers.\<close>

named_theorems total_rules \<open>a program comes to an end when its parts do\<close>

definition io_total :: "('c, 'r, 's, 'x, 'a) io \<Rightarrow> bool" where
  "io_total m \<longleftrightarrow> (\<forall>e s t. m e s t \<noteq> None)"

lemma io_totalD: "io_total m \<Longrightarrow> \<exists>r s' t'. m e s t = Some (r, s', t')"
  unfolding io_total_def by (metis option.exhaust prod_cases3)

lemma total_basic [total_rules]:
  "io_total (io_ret a)" "io_total (io_exit x)" "io_total (io_get f)" "io_total (io_modify g)"
  "io_total (io_call c)" "io_total (io_do c)"
  by (simp_all add: io_total_def io_simps)

lemma total_bind [total_rules]:
  "io_total m \<Longrightarrow> (\<And>a. io_total (f a)) \<Longrightarrow> io_total (io_bind m f)"
  by (simp add: io_total_def io_bind_def split: option.splits sum.splits)

lemma total_then [total_rules]: "io_total m \<Longrightarrow> io_total k \<Longrightarrow> io_total (io_then m k)"
  by (simp add: io_then_def total_bind)

lemma total_when [total_rules]: "(b \<Longrightarrow> io_total m) \<Longrightarrow> io_total (io_when b m)"
  by (simp add: io_when_def total_basic)

lemma total_if [total_rules]:
  "(b \<Longrightarrow> io_total m) \<Longrightarrow> (\<not> b \<Longrightarrow> io_total k) \<Longrightarrow> io_total (if b then m else k)"
  by simp

lemma total_for [total_rules]:
  "(\<And>x. x \<in> set xs \<Longrightarrow> io_total (f x)) \<Longrightarrow> io_total (io_for xs f)"
  by (induction xs) (auto intro: total_rules)

lemma total_on [total_rules]: "io_total m \<Longrightarrow> io_total (io_on sel upd m)"
  by (simp add: io_total_def io_simps)

text \<open>A loop ends when each round that goes on takes something away.\<close>

lemma total_loop:
  fixes f :: "'s \<Rightarrow> nat"
  assumes "io_total body" and "\<And>e s t s' t'. body e s t = Some (Inr True, s', t') \<Longrightarrow> f s' < f s"
  shows "io_total (io_loop body)"
proof -
  have "io_loop body e s t \<noteq> None" for e s t
  proof (induction "f s" arbitrary: s t rule: less_induct)
    case less
    obtain r s' t' where run: "body e s t = Some (r, s', t')" using io_totalD [OF assms(1)] by blast
    show ?case
    proof (cases "r = Inr True")
      case True
      with run assms(2) have "io_loop body e s' t' \<noteq> None" using less by blast
      with run True show ?thesis by (simp add: io_loop_go [where body = body])
    next
      case False
      with run show ?thesis by (subst io_loop.simps) (auto split: sum.splits)
    qed
  qed
  then show ?thesis by (simp add: io_total_def)
qed

lemma io_total_wp:
  assumes "io_total m" and "io_wp e m Q (\<lambda>_ _ _. False) s t"
  shows "\<exists>a s' t'. m e s t = Some (Inr a, s', t') \<and> Q a s' t'"
proof -
  obtain r s' t' where "m e s t = Some (r, s', t')" using io_totalD [OF assms(1)] by blast
  with assms(2) show ?thesis by (cases r) (auto simp: io_wp_def)
qed

section \<open>Traces only grow\<close>

named_theorems extends_rules \<open>a program only adds calls to the trace when its parts do\<close>

definition io_extends :: "('c, 'r, 's, 'x, 'a) io \<Rightarrow> bool" where
  "io_extends m \<longleftrightarrow> (\<forall>e s t. io_wp e m (\<lambda>_ _ t'. \<exists>d. t' = t @ d) (\<lambda>_ _ t'. \<exists>d. t' = t @ d) s t)"

lemma io_extendsD: "io_extends m \<Longrightarrow> m e s t = Some (r, s', t') \<Longrightarrow> \<exists>d. t' = t @ d"
proof -
  assume "io_extends m" and run: "m e s t = Some (r, s', t')"
  then have "io_wp e m (\<lambda>_ _ t'. \<exists>d. t' = t @ d) (\<lambda>_ _ t'. \<exists>d. t' = t @ d) s t"
    by (simp add: io_extends_def)
  with run show ?thesis by (cases r) (auto simp: io_wp_def)
qed

lemma extends_basic [extends_rules]:
  "io_extends (io_ret a)" "io_extends (io_exit x)" "io_extends (io_get f)" "io_extends (io_modify g)"
  "io_extends (io_call c)" "io_extends (io_do c)"
  by (simp_all add: io_extends_def io_wp_simps)

lemma extends_bind [extends_rules]:
  assumes "io_extends m" and "\<And>a. io_extends (f a)"
  shows "io_extends (io_bind m f)"
  unfolding io_extends_def
proof (intro allI, subst io_wp_bind)
  fix e s t
  have f: "io_wp e (f a) (\<lambda>_ _ t'. \<exists>d. t' = t @ d) (\<lambda>_ _ t'. \<exists>d. t' = t @ d) s' t'"
    if "\<exists>d. t' = t @ d" for a s' t'
    by (rule io_wp_mono [OF assms(2) [unfolded io_extends_def, rule_format]]) (use that in auto)
  show "io_wp e m (\<lambda>a. io_wp e (f a) (\<lambda>_ _ t'. \<exists>d. t' = t @ d) (\<lambda>_ _ t'. \<exists>d. t' = t @ d))
      (\<lambda>_ _ t'. \<exists>d. t' = t @ d) s t"
    by (rule io_wp_mono [OF assms(1) [unfolded io_extends_def, rule_format]]) (use f in auto)
qed

lemma extends_then [extends_rules]: "io_extends m \<Longrightarrow> io_extends k \<Longrightarrow> io_extends (io_then m k)"
  by (simp add: io_then_def extends_bind)

lemma extends_when [extends_rules]: "(b \<Longrightarrow> io_extends m) \<Longrightarrow> io_extends (io_when b m)"
  by (simp add: io_when_def extends_basic)

lemma extends_if [extends_rules]:
  "(b \<Longrightarrow> io_extends m) \<Longrightarrow> (\<not> b \<Longrightarrow> io_extends k) \<Longrightarrow> io_extends (if b then m else k)"
  by simp

lemma extends_for [extends_rules]:
  "(\<And>x. x \<in> set xs \<Longrightarrow> io_extends (f x)) \<Longrightarrow> io_extends (io_for xs f)"
  by (induction xs) (auto intro: extends_rules)

lemma extends_on [extends_rules]: "io_extends m \<Longrightarrow> io_extends (io_on sel upd m)"
  by (simp add: io_extends_def io_wp_simps)

section \<open>A component's program inside another\<close>

text \<open>
  The program of one component run by another: \<open>ic\<close> embeds its calls into those of the
  caller, \<open>prj\<close> reads its answers off the caller's, \<open>fx\<close> embeds its exits, and \<open>u\<close> is the
  state it works on, which the caller gets back with the value.  The calls it makes are made
  at the place in the caller's trace where it runs.
\<close>

definition io_embed ::
  "('d \<Rightarrow> 'c) \<Rightarrow> ('r \<Rightarrow> 'q) \<Rightarrow> ('y \<Rightarrow> 'x) \<Rightarrow> 'u \<Rightarrow> ('d, 'q, 'u, 'y, 'a) io \<Rightarrow>
   ('c, 'r, 's, 'x, 'a \<times> 'u) io" where
  "io_embed ic prj fx u m = (\<lambda>e s t.
     case m (\<lambda>n c. prj (e (length t + n) (ic c))) u [] of
       None \<Rightarrow> None
     | Some (r, u', d) \<Rightarrow> Some (map_sum fx (\<lambda>a. (a, u')) r, s,
         t @ map (\<lambda>(i, c). (ic c, e (length t + i) (ic c))) (enumerate 0 (map fst d))))"

lemma total_embed [total_rules]: "io_total m \<Longrightarrow> io_total (io_embed ic prj fx u m)"
  by (auto simp: io_total_def io_embed_def split: option.splits)

lemma extends_embed [extends_rules]: "io_extends (io_embed ic prj fx u m)"
  by (auto simp: io_extends_def io_embed_def io_wp_def map_sum_def split: option.splits sum.splits)

lemma quiet_embed [quiet_rules]:
  assumes "\<And>c. \<not> W (ic c)"
  shows "io_quiet W (io_embed ic prj fx u m)"
proof -
  have "watched W (map (\<lambda>(i, c). (ic c, f i c)) xs) = []" for f and xs :: "(nat \<times> 'a) list"
    by (induction xs) (auto simp: assms)
  then show ?thesis
    by (auto simp: io_quiet_def io_embed_def io_wp_def split: option.splits sum.splits)
qed

text \<open>What holds after the embedded program, from what holds after it by itself.\<close>

lemma embed_wp:
  assumes "io_wp (\<lambda>n c. prj (e (length t + n) (ic c))) m (\<lambda>a u' _. A a u') (\<lambda>x _ _. X (fx x)) u []"
    and "\<And>a u' d. A a u' \<Longrightarrow> Q (a, u') s (t @ d)"
    and "\<And>x d. X x \<Longrightarrow> E x s (t @ d)"
  shows "io_wp e (io_embed ic prj fx u m) Q E s t"
proof (cases "m (\<lambda>n c. prj (e (length t + n) (ic c))) u []")
  case (Some x)
  obtain r u' d where x: "x = (r, u', d)" by (cases x)
  show ?thesis
  proof (cases r)
    case (Inl y)
    with Some assms(1) have "X (fx y)" by (simp add: x io_wp_def)
    from assms(3) [OF this] show ?thesis by (simp add: io_wp_def io_embed_def Some x Inl)
  next
    case (Inr a)
    with Some assms(1) have "A a u'" by (simp add: x io_wp_def)
    from assms(2) [OF this] show ?thesis by (simp add: io_wp_def io_embed_def Some x Inr)
  qed
qed (simp add: io_wp_def io_embed_def)

section \<open>What a program keeps\<close>

text \<open>\<open>io_keeps f m\<close>: whatever the outcome, \<open>m\<close> leaves \<open>f\<close> of the state as it is.\<close>

named_theorems keeps_rules \<open>a program keeps a part of the state when its parts do\<close>

definition io_keeps :: "('s \<Rightarrow> 'b) \<Rightarrow> ('c, 'r, 's, 'x, 'a) io \<Rightarrow> bool" where
  "io_keeps f m \<longleftrightarrow> (\<forall>e s t. io_wp e m (\<lambda>_ s' _. f s' = f s) (\<lambda>_ s' _. f s' = f s) s t)"

lemma io_keepsD: "io_keeps f m \<Longrightarrow> f s = b \<Longrightarrow> io_wp e m (\<lambda>_ s' _. f s' = b) (\<lambda>_ s' _. f s' = b) s t"
  by (auto simp: io_keeps_def)

lemma keeps_basic [keeps_rules]:
  "io_keeps f (io_ret a)" "io_keeps f (io_exit x)" "io_keeps f (io_get g)" "io_keeps f (io_call c)" "io_keeps f (io_do c)"
  by (simp_all add: io_keeps_def io_wp_simps)

lemma keeps_modify [keeps_rules]: "(\<And>s. f (g s) = f s) \<Longrightarrow> io_keeps f (io_modify g)"
  by (simp add: io_keeps_def io_wp_simps)

lemma keeps_bind [keeps_rules]:
  assumes "io_keeps f m" and "\<And>a. io_keeps f (k a)"
  shows "io_keeps f (io_bind m k)"
  unfolding io_keeps_def
proof (intro allI, subst io_wp_bind)
  fix e s t
  show "io_wp e m (\<lambda>a. io_wp e (k a) (\<lambda>_ s' _. f s' = f s) (\<lambda>_ s' _. f s' = f s)) (\<lambda>_ s' _. f s' = f s) s t"
    by (rule io_wp_mono [OF io_keepsD [OF assms(1) refl]]) (auto intro: io_keepsD [OF assms(2)])
qed

lemma keeps_then [keeps_rules]: "io_keeps f m \<Longrightarrow> io_keeps f k \<Longrightarrow> io_keeps f (io_then m k)"
  by (simp add: io_then_def keeps_bind)

lemma keeps_when [keeps_rules]: "(b \<Longrightarrow> io_keeps f m) \<Longrightarrow> io_keeps f (io_when b m)"
  by (simp add: io_when_def keeps_basic)

lemma keeps_if [keeps_rules]:
  "(b \<Longrightarrow> io_keeps f m) \<Longrightarrow> (\<not> b \<Longrightarrow> io_keeps f k) \<Longrightarrow> io_keeps f (if b then m else k)"
  by simp

lemma keeps_for [keeps_rules]:
  "(\<And>x. x \<in> set xs \<Longrightarrow> io_keeps f (k x)) \<Longrightarrow> io_keeps f (io_for xs k)"
  by (induction xs) (auto intro: keeps_rules)

lemma keeps_loop [keeps_rules]:
  assumes "io_keeps f body"
  shows "io_keeps f (io_loop body)"
  unfolding io_keeps_def
proof (intro allI)
  fix e s t
  show "io_wp e (io_loop body) (\<lambda>_ s' _. f s' = f s) (\<lambda>_ s' _. f s' = f s) s t"
    by (rule io_wp_loop [where I = "\<lambda>s' _. f s' = f s"], simp)
       (rule io_wp_mono [OF io_keepsD [OF assms]], auto)
qed

lemma keeps_on [keeps_rules]:
  "(\<And>u s. f (upd u s) = f s) \<Longrightarrow> io_keeps f (io_on sel upd m)"
  by (auto simp: io_keeps_def io_wp_def io_on_def split: option.splits sum.splits)

lemma keeps_embed [keeps_rules]: "io_keeps f (io_embed ic prj fx u m)"
  by (auto simp: io_keeps_def io_wp_def io_embed_def split: option.splits sum.splits)

section \<open>Calls of a trace\<close>

abbreviation calls :: "('c, 'r) trace \<Rightarrow> 'c list" where
  "calls t \<equiv> map fst t"

lemma io_wpD: "io_wp e m Q E s t \<Longrightarrow> m e s t = Some (Inr a, s', t') \<Longrightarrow> Q a s' t'"
  by (simp add: io_wp_def)

lemma io_wp_exitD: "io_wp e m Q E s t \<Longrightarrow> m e s t = Some (Inl x, s', t') \<Longrightarrow> E x s' t'"
  by (simp add: io_wp_def)

lemma io_quiet_wp:
  "io_quiet W m \<Longrightarrow> (\<And>a s' t'. watched W t' = watched W t \<Longrightarrow> Q a s' t') \<Longrightarrow>
   (\<And>x s' t'. watched W t' = watched W t \<Longrightarrow> E x s' t') \<Longrightarrow> io_wp e m Q E s t"
  by (rule io_wp_mono [OF io_quietD [OF _ refl]])

lemma watched_Nil_iff: "watched W t = [] \<longleftrightarrow> (\<forall>c \<in> set (calls t). \<not> W c)"
  by (auto simp: watched_def filter_empty_conv)

lemma io_wp_conj:
  assumes "io_wp e m Q E s t" and "io_wp e m Q' E' s t"
  shows "io_wp e m (\<lambda>a s t. Q a s t \<and> Q' a s t) (\<lambda>x s t. E x s t \<and> E' x s t) s t"
  using assms by (auto simp: io_wp_def split: option.splits sum.splits)

lemma io_quiet_total:
  assumes "io_quiet W m" and "io_total m"
  shows "case m e s t of None \<Rightarrow> False | Some (_, _, t') \<Rightarrow> watched W t' = watched W t"
proof -
  obtain r s' t' where "m e s t = Some (r, s', t')" using io_totalD [OF assms(2)] by blast
  with io_quietD [OF assms(1) refl, of e t s] show ?thesis by (cases r) (auto simp: io_wp_def)
qed

section \<open>Words\<close>

lemma unat_max: "unat (max a b) = max (unat a) (unat b)"
  by (simp add: max_def word_le_nat_alt)

lemma sint_cases:
  fixes v :: u32
  assumes n: "unat v = n"
  shows "n < 2 ^ 32" and "sint v = (if n < 2 ^ 31 then int n else int n - 2 ^ 32)"
proof -
  have v: "uint v = int n" by (simp only: uint_nat n)
  show lt: "n < 2 ^ 32" using unsigned_less [of v, where 'a = nat] by (simp add: n)
  have s: "sint v = (int n + 2 ^ 31) mod 2 ^ 32 - 2 ^ 31"
    by (simp add: sint_uint signed_take_bit_eq_take_bit_shift take_bit_eq_mod v)
  show "sint v = (if n < 2 ^ 31 then int n else int n - 2 ^ 32)"
  proof (cases "n < 2 ^ 31")
    case True
    then have "(int n + 2 ^ 31) mod 2 ^ 32 = int n + 2 ^ 31" by (intro mod_pos_pos_trivial) simp_all
    with True s show ?thesis by simp
  next
    case False
    with lt have "(int n - 2 ^ 31) mod 2 ^ 32 = int n - 2 ^ 31" by (intro mod_pos_pos_trivial) simp_all
    moreover have "(int n + 2 ^ 31) mod 2 ^ 32 = (int n - 2 ^ 31 + 2 ^ 32) mod 2 ^ 32" by (simp add: add.commute)
    ultimately have "(int n + 2 ^ 31) mod 2 ^ 32 = int n - 2 ^ 31" by (simp only: mod_add_self2)
    with False s show ?thesis by simp
  qed
qed

end
