(* ===== verification/CText.thy ===== *)
theory CText
  imports Prelude
begin

text \<open>
  The text conversions of the C and C++ standard libraries the program uses: \<open>atoi\<close>,
  \<open>strtol\<close> and \<open>strtoull\<close> (with a NULL or ignored end pointer), the decimal and hexadecimal
  output of \<open>printf\<close> and of a C++ stream, \<open>fgets\<close> and \<open>strlen\<close>.  A string is the list of its
  characters, up to the terminating NUL.
\<close>

section \<open>Digits\<close>

definition digit_val :: "char \<Rightarrow> nat option" where
  "digit_val c = (let n = (of_char c :: nat) in
     if 48 \<le> n \<and> n \<le> 57 then Some (n - 48)
     else if 97 \<le> n \<and> n \<le> 122 then Some (n - 87)
     else if 65 \<le> n \<and> n \<le> 90 then Some (n - 55)
     else None)"

definition digit_char :: "nat \<Rightarrow> char" where
  "digit_char d = (if d < 10 then char_of (48 + d) else char_of (87 + d))"

lemma of_char_of_nat: "n < 256 \<Longrightarrow> (of_char (char_of n) :: nat) = n"
  by simp

lemma digit_val_char [simp]: "d < 36 \<Longrightarrow> digit_val (digit_char d) = Some d"
  by (simp add: digit_val_def digit_char_def Let_def)

fun num_str :: "nat \<Rightarrow> nat \<Rightarrow> string" where
  "num_str b n =
     (if b < 2 \<or> n < b then [digit_char n] else num_str b (n div b) @ [digit_char (n mod b)])"

declare num_str.simps [simp del]

definition dec :: "nat \<Rightarrow> string" where
  "dec n = num_str 10 n"

definition dec_int :: "int \<Rightarrow> string" where
  "dec_int z = (if z < 0 then CHR ''-'' # dec (nat (- z)) else dec (nat z))"

definition hex :: "nat \<Rightarrow> string" where
  "hex n = num_str 16 n"

fun read_digits :: "nat \<Rightarrow> nat \<Rightarrow> string \<Rightarrow> nat" where
  "read_digits b acc [] = acc"
| "read_digits b acc (c # cs) =
     (case digit_val c of
        None \<Rightarrow> acc
      | Some d \<Rightarrow> if d < b then read_digits b (acc * b + d) cs else acc)"

definition no_digit :: "nat \<Rightarrow> string \<Rightarrow> bool" where
  "no_digit b s = (case s of [] \<Rightarrow> True | c # _ \<Rightarrow>
     (case digit_val c of None \<Rightarrow> True | Some d \<Rightarrow> b \<le> d))"

lemma read_digits_stop [simp]: "no_digit b s \<Longrightarrow> read_digits b acc s = acc"
  by (auto simp: no_digit_def split: list.splits option.splits)

lemma num_str_nonempty [simp]: "num_str b n \<noteq> []"
  by (subst num_str.simps) simp

lemma read_num_str:
  "2 \<le> b \<Longrightarrow> b \<le> 36 \<Longrightarrow>
   read_digits b acc (num_str b n @ rest) = read_digits b (acc * b ^ length (num_str b n) + n) rest"
proof (induction b n arbitrary: acc rest rule: num_str.induct)
  case (1 b n)
  show ?case
  proof (cases "n < b")
    case True
    with "1.prems" show ?thesis by (simp add: num_str.simps [of b n])
  next
    case False
    let ?k = "length (num_str b (n div b))"
    have "(acc * b ^ ?k + n div b) * b + n mod b = acc * b ^ Suc ?k + (n div b * b + n mod b)"
      by (simp add: algebra_simps)
    also have "\<dots> = acc * b ^ Suc ?k + n"
      by (simp only: div_mult_mod_eq)
    finally have eq: "(acc * b ^ ?k + n div b) * b + n mod b = acc * b ^ Suc ?k + n" .
    have "n mod b < b" and "n mod b < 36"
      using "1.prems" by (auto intro: less_le_trans [OF mod_less_divisor])
    with False "1.prems" "1.IH" eq show ?thesis
      by (simp add: num_str.simps [of b n] mult.commute)
  qed
qed

corollary read_num_str_end:
  "2 \<le> b \<Longrightarrow> b \<le> 36 \<Longrightarrow> no_digit b rest \<Longrightarrow> read_digits b 0 (num_str b n @ rest) = n"
  by (simp add: read_num_str)

lemma num_str_digits:
  "2 \<le> b \<Longrightarrow> c \<in> set (num_str b n) \<Longrightarrow> \<exists>d < b. c = digit_char d"
proof (induction b n rule: num_str.induct)
  case (1 b n)
  from "1.prems"(1) have lt: "n mod b < b" by simp
  show ?case
  proof (cases "n < b \<or> c = digit_char (n mod b)")
    case True
    with "1.prems" have "c = digit_char (n mod b)"
      by (auto simp: num_str.simps [of b n] split: if_splits)
    with lt show ?thesis by blast
  next
    case False
    with "1.prems" "1.IH" show ?thesis by (simp add: num_str.simps [of b n])
  qed
qed

lemma length_num_str: "n < b ^ k \<Longrightarrow> 2 \<le> b \<Longrightarrow> 0 < k \<Longrightarrow> length (num_str b n) \<le> k"
proof (induction b n arbitrary: k rule: num_str.induct)
  case (1 b n)
  show ?case
  proof (cases "n < b")
    case True
    with "1.prems" show ?thesis by (subst num_str.simps) simp
  next
    case False
    with "1.prems" have "k \<noteq> 1" by auto
    with "1.prems"(3) obtain k' where k: "k = Suc k'" "0 < k'" by (cases k) auto
    with "1.prems" have "n div b < b ^ k'" by (simp add: less_mult_imp_div_less mult.commute)
    with "1.IH" False "1.prems" k have "length (num_str b (n div b)) \<le> k'" by simp
    with False "1.prems" k show ?thesis by (subst num_str.simps) simp
  qed
qed

section \<open>strtol, strtoull and atoi\<close>

definition is_space :: "char \<Rightarrow> bool" where
  "is_space c = (let n = (of_char c :: nat) in n = 32 \<or> (9 \<le> n \<and> n \<le> 13))"

definition skip_space :: "string \<Rightarrow> string" where
  "skip_space s = dropWhile is_space s"

definition read_sign :: "string \<Rightarrow> bool \<times> string" where
  "read_sign s = (case s of [] \<Rightarrow> (False, [])
     | c # cs \<Rightarrow> if c = CHR ''-'' then (True, cs) else if c = CHR ''+'' then (False, cs) else (False, s))"

text \<open>The prefix \<open>0x\<close> counts only when a hexadecimal digit follows it.\<close>

fun strip_0x :: "string \<Rightarrow> string option" where
  "strip_0x (z # x # d # cs) =
     (if z = CHR ''0'' \<and> (x = CHR ''x'' \<or> x = CHR ''X'') \<and> \<not> no_digit 16 (d # cs)
      then Some (d # cs) else None)"
| "strip_0x _ = None"

definition read_base :: "nat \<Rightarrow> string \<Rightarrow> nat" where
  "read_base b s =
     (if b = 16 then read_digits 16 0 (case strip_0x s of Some s' \<Rightarrow> s' | None \<Rightarrow> s)
      else if b = 0 then
        (case strip_0x s of
           Some s' \<Rightarrow> read_digits 16 0 s'
         | None \<Rightarrow> (case s of c # _ \<Rightarrow> if c = CHR ''0'' then read_digits 8 0 s else read_digits 10 0 s
                    | [] \<Rightarrow> 0))
      else read_digits b 0 s)"

definition strtol :: "nat \<Rightarrow> string \<Rightarrow> int" where
  "strtol b s = (let (neg, s') = read_sign (skip_space s); n = int (read_base b s') in
     if neg then max (- (2 ^ 63)) (- n) else min (2 ^ 63 - 1) n)"

definition strtoull :: "nat \<Rightarrow> string \<Rightarrow> u64" where
  "strtoull b s = (let (neg, s') = read_sign (skip_space s); n = read_base b s' in
     if 2 ^ 64 \<le> n then - 1 else if neg then - (of_nat n) else of_nat n)"

definition atoi :: "string \<Rightarrow> int" where
  "atoi s = to_cint (strtol 10 s)"

lemma atoi_in_range [simp]: "in_cint (atoi s)"
  by (simp add: atoi_def to_cint_in_range)

lemma digit_char_plain:
  assumes "d < 36"
  shows "\<not> is_space (digit_char d)" "digit_char d \<noteq> CHR ''-''" "digit_char d \<noteq> CHR ''+''"
proof -
  have v: "digit_val (digit_char d) = Some d" using assms by simp
  show "\<not> is_space (digit_char d)"
    using v by (auto simp: digit_val_def is_space_def Let_def split: if_splits)
  show "digit_char d \<noteq> CHR ''-''" "digit_char d \<noteq> CHR ''+''"
    using v by (auto simp: digit_val_def Let_def)
qed

lemma num_str_head:
  assumes "2 \<le> b" "b \<le> 36"
  obtains d cs where "d < b" "num_str b n = digit_char d # cs"
proof (cases "num_str b n")
  case Nil
  then show ?thesis by simp
next
  case (Cons c cs)
  with num_str_digits [OF assms(1), of c n] that show ?thesis by auto
qed

lemma read_sign_num_str:
  "2 \<le> b \<Longrightarrow> b \<le> 36 \<Longrightarrow>
   read_sign (skip_space (num_str b n @ rest)) = (False, num_str b n @ rest)"
  by (rule num_str_head [of b n]) (auto simp: read_sign_def skip_space_def digit_char_plain)

text \<open>What is printed in decimal is read back.\<close>

lemma strtol_dec: "int n < 2 ^ 63 \<Longrightarrow> no_digit 10 rest \<Longrightarrow> strtol 10 (dec n @ rest) = int n"
  by (simp add: strtol_def dec_def read_sign_num_str read_base_def read_num_str_end)

lemma atoi_dec: "n < 2 ^ 31 \<Longrightarrow> no_digit 10 rest \<Longrightarrow> atoi (dec n @ rest) = int n"
  by (simp add: atoi_def strtol_dec to_cint_id in_cint_def)

lemma atoi_dec_neg:
  "n \<le> 2 ^ 31 \<Longrightarrow> no_digit 10 rest \<Longrightarrow> atoi (CHR ''-'' # dec n @ rest) = - int n"
  by (simp add: atoi_def strtol_def skip_space_def is_space_def read_sign_def dec_def
      read_base_def read_num_str_end to_cint_id in_cint_def)

lemma strtoull_dec: "n < 2 ^ 64 \<Longrightarrow> no_digit 10 rest \<Longrightarrow> strtoull 10 (dec n @ rest) = of_nat n"
  by (simp add: strtoull_def dec_def read_sign_num_str read_base_def read_num_str_end)

lemma no_digit_Nil [simp]: "no_digit b []"
  by (simp add: no_digit_def)

section \<open>Field widths of printf\<close>

definition pad_left :: "nat \<Rightarrow> string \<Rightarrow> string" where
  "pad_left n s = replicate (n - length s) CHR '' '' @ s"

definition pad_right :: "nat \<Rightarrow> string \<Rightarrow> string" where
  "pad_right n s = s @ replicate (n - length s) CHR '' ''"

section \<open>fgets and strlen\<close>

text \<open>
  \<open>fgets\<close> with a buffer of \<open>n + 1\<close> characters stores at most \<open>n\<close> and stops after a newline;
  at the end of the file, with nothing stored, it gives NULL.
\<close>

fun fgets_take :: "nat \<Rightarrow> string \<Rightarrow> string \<times> string" where
  "fgets_take 0 s = ([], s)"
| "fgets_take (Suc n) [] = ([], [])"
| "fgets_take (Suc n) (c # cs) =
     (if c = CHR 0x0A then ([c], cs)
      else (let (a, r) = fgets_take n cs in (c # a, r)))"

definition strlen_prefix :: "string \<Rightarrow> string" where
  "strlen_prefix s = takeWhile (\<lambda>c. c \<noteq> CHR 0x00) s"

lemma fgets_take_append: "fgets_take n s = (a, r) \<Longrightarrow> a @ r = s"
  by (induction n s arbitrary: a r rule: fgets_take.induct)
     (auto split: if_splits prod.splits)

lemma fgets_take_length: "fgets_take n s = (a, r) \<Longrightarrow> length a \<le> n"
  by (induction n s arbitrary: a r rule: fgets_take.induct)
     (fastforce split: if_splits prod.splits)+

lemma fgets_take_progress: "fgets_take (Suc n) (c # cs) = (a, r) \<Longrightarrow> length r < length (c # cs)"
  using fgets_take_append [of "Suc n" "c # cs" a r]
  by (auto split: if_splits prod.splits dest: arg_cong [where f = length])

text \<open>A newline ends the piece it is in.\<close>

lemma fgets_take_newline:
  "fgets_take n s = (a, r) \<Longrightarrow> c \<in> set (butlast a) \<Longrightarrow> c \<noteq> CHR 0x0A"
  by (induction n s arbitrary: a r rule: fgets_take.induct)
     (auto split: if_splits prod.splits)

end
