(* ===== verification/OnicRegs.thy ===== *)
theory OnicRegs
  imports Prelude
begin

text \<open>
  The register map of the card (\<open>server/src/onic_regs.h\<close>): one definition per macro, by its
  name, as a 32-bit offset in the AXI-Lite BAR.  The macros of a CMAC take its number; number
  0 selects the first subsystem and any other the second.  The lemmas show that no two
  registers of the map share an address, so that a write to one leaves the others alone.
\<close>

named_theorems reg_defs \<open>the values of the register macros\<close>

section \<open>Windows\<close>

definition SHELL_START :: u32 where
  [reg_defs]: "SHELL_START = 0x0"

definition SHELL_END :: u32 where
  [reg_defs]: "SHELL_END = 0x400000"

definition SHELL_MAXLEN :: u32 where
  [reg_defs]: "SHELL_MAXLEN = SHELL_END - SHELL_START"

definition SYSCFG_OFFSET :: u32 where
  [reg_defs]: "SYSCFG_OFFSET = 0x0"

definition QDMA_SUBSYSTEM_OFFSET :: u32 where
  [reg_defs]: "QDMA_SUBSYSTEM_OFFSET = 0x1000"

definition QDMA_FUNC_OFFSET :: "u32 \<Rightarrow> u32" where
  [reg_defs]: "QDMA_FUNC_OFFSET i = QDMA_SUBSYSTEM_OFFSET + 0x1000 * i"

definition QDMA_SUBSYS_OFFSET :: u32 where
  [reg_defs]: "QDMA_SUBSYS_OFFSET = QDMA_SUBSYSTEM_OFFSET + 0x4000"

definition QDMA_FUNC_OFFSET_QCONF :: "u32 \<Rightarrow> u32" where
  [reg_defs]: "QDMA_FUNC_OFFSET_QCONF i = QDMA_FUNC_OFFSET i + 0x0"

definition QDMA_FUNC_OFFSET_INDIR_TABLE :: "u32 \<Rightarrow> u32 \<Rightarrow> u32" where
  [reg_defs]: "QDMA_FUNC_OFFSET_INDIR_TABLE i k = QDMA_FUNC_OFFSET i + 0x400 + k * 4"

definition QDMA_FUNC_OFFSET_HASH_KEY :: "u32 \<Rightarrow> u32 \<Rightarrow> u32" where
  [reg_defs]: "QDMA_FUNC_OFFSET_HASH_KEY i k = QDMA_FUNC_OFFSET i + 0x600 + k * 4"

definition CMAC_SUBSYSTEM_0_OFFSET :: u32 where
  [reg_defs]: "CMAC_SUBSYSTEM_0_OFFSET = 0x8000"

definition CMAC_SUBSYSTEM_1_OFFSET :: u32 where
  [reg_defs]: "CMAC_SUBSYSTEM_1_OFFSET = 0xC000"

definition CMAC_SUBSYSTEM_OFFSET :: "int \<Rightarrow> u32" where
  [reg_defs]: "CMAC_SUBSYSTEM_OFFSET i = (if i = 0 then CMAC_SUBSYSTEM_0_OFFSET else CMAC_SUBSYSTEM_1_OFFSET)"

definition CMAC_OFFSET :: "int \<Rightarrow> u32" where
  [reg_defs]: "CMAC_OFFSET i = CMAC_SUBSYSTEM_OFFSET i + 0x0"

definition CMAC_QSFP_OFFSET :: "int \<Rightarrow> u32" where
  [reg_defs]: "CMAC_QSFP_OFFSET i = CMAC_SUBSYSTEM_OFFSET i + 0x2000"

definition CMAC_ADPT_OFFSET :: "int \<Rightarrow> u32" where
  [reg_defs]: "CMAC_ADPT_OFFSET i = CMAC_SUBSYSTEM_OFFSET i + 0x3000"

section \<open>Registers\<close>

definition SYSCFG_OFFSET_BUILD_STATUS :: "u32" where
  [reg_defs]: "SYSCFG_OFFSET_BUILD_STATUS = SYSCFG_OFFSET + 0x0"

definition SYSCFG_OFFSET_SYSTEM_RESET :: "u32" where
  [reg_defs]: "SYSCFG_OFFSET_SYSTEM_RESET = SYSCFG_OFFSET + 0x4"

definition SYSCFG_OFFSET_SYSTEM_STATUS :: "u32" where
  [reg_defs]: "SYSCFG_OFFSET_SYSTEM_STATUS = SYSCFG_OFFSET + 0x8"

definition SYSCFG_OFFSET_SHELL_RESET :: "u32" where
  [reg_defs]: "SYSCFG_OFFSET_SHELL_RESET = SYSCFG_OFFSET + 0xC"

definition SYSCFG_OFFSET_SHELL_STATUS :: "u32" where
  [reg_defs]: "SYSCFG_OFFSET_SHELL_STATUS = SYSCFG_OFFSET + 0x10"

definition SYSCFG_OFFSET_USER_RESET :: "u32" where
  [reg_defs]: "SYSCFG_OFFSET_USER_RESET = SYSCFG_OFFSET + 0x14"

definition SYSCFG_OFFSET_USER_STATUS :: "u32" where
  [reg_defs]: "SYSCFG_OFFSET_USER_STATUS = SYSCFG_OFFSET + 0x18"

definition CMAC_OFFSET_GT_RESET :: "int \<Rightarrow> u32" where
  [reg_defs]: "CMAC_OFFSET_GT_RESET i = CMAC_OFFSET i + 0x0000"

definition CMAC_OFFSET_RESET :: "int \<Rightarrow> u32" where
  [reg_defs]: "CMAC_OFFSET_RESET i = CMAC_OFFSET i + 0x0004"

definition CMAC_OFFSET_SWITCH_CORE_MODE :: "int \<Rightarrow> u32" where
  [reg_defs]: "CMAC_OFFSET_SWITCH_CORE_MODE i = CMAC_OFFSET i + 0x0008"

definition CMAC_OFFSET_CONF_TX_1 :: "int \<Rightarrow> u32" where
  [reg_defs]: "CMAC_OFFSET_CONF_TX_1 i = CMAC_OFFSET i + 0x000C"

definition CMAC_OFFSET_CONF_RX_1 :: "int \<Rightarrow> u32" where
  [reg_defs]: "CMAC_OFFSET_CONF_RX_1 i = CMAC_OFFSET i + 0x0014"

definition CMAC_OFFSET_CORE_MODE :: "int \<Rightarrow> u32" where
  [reg_defs]: "CMAC_OFFSET_CORE_MODE i = CMAC_OFFSET i + 0x0020"

definition CMAC_OFFSET_CORE_VERSION :: "int \<Rightarrow> u32" where
  [reg_defs]: "CMAC_OFFSET_CORE_VERSION i = CMAC_OFFSET i + 0x0024"

definition CMAC_OFFSET_CONF_TX_BIP_OVERRIDE :: "int \<Rightarrow> u32" where
  [reg_defs]: "CMAC_OFFSET_CONF_TX_BIP_OVERRIDE i = CMAC_OFFSET i + 0x002C"

definition CMAC_OFFSET_CONF_TX_FC_CTRL_1 :: "int \<Rightarrow> u32" where
  [reg_defs]: "CMAC_OFFSET_CONF_TX_FC_CTRL_1 i = CMAC_OFFSET i + 0x0030"

definition CMAC_OFFSET_CONF_TX_FC_RFRH_1 :: "int \<Rightarrow> u32" where
  [reg_defs]: "CMAC_OFFSET_CONF_TX_FC_RFRH_1 i = CMAC_OFFSET i + 0x0034"

definition CMAC_OFFSET_CONF_TX_FC_RFRH_2 :: "int \<Rightarrow> u32" where
  [reg_defs]: "CMAC_OFFSET_CONF_TX_FC_RFRH_2 i = CMAC_OFFSET i + 0x0038"

definition CMAC_OFFSET_CONF_TX_FC_RFRH_3 :: "int \<Rightarrow> u32" where
  [reg_defs]: "CMAC_OFFSET_CONF_TX_FC_RFRH_3 i = CMAC_OFFSET i + 0x003C"

definition CMAC_OFFSET_CONF_TX_FC_RFRH_4 :: "int \<Rightarrow> u32" where
  [reg_defs]: "CMAC_OFFSET_CONF_TX_FC_RFRH_4 i = CMAC_OFFSET i + 0x0040"

definition CMAC_OFFSET_CONF_TX_FC_RFRH_5 :: "int \<Rightarrow> u32" where
  [reg_defs]: "CMAC_OFFSET_CONF_TX_FC_RFRH_5 i = CMAC_OFFSET i + 0x0044"

definition CMAC_OFFSET_CONF_TX_FC_QNTA_1 :: "int \<Rightarrow> u32" where
  [reg_defs]: "CMAC_OFFSET_CONF_TX_FC_QNTA_1 i = CMAC_OFFSET i + 0x0048"

definition CMAC_OFFSET_CONF_TX_FC_QNTA_2 :: "int \<Rightarrow> u32" where
  [reg_defs]: "CMAC_OFFSET_CONF_TX_FC_QNTA_2 i = CMAC_OFFSET i + 0x004C"

definition CMAC_OFFSET_CONF_TX_FC_QNTA_3 :: "int \<Rightarrow> u32" where
  [reg_defs]: "CMAC_OFFSET_CONF_TX_FC_QNTA_3 i = CMAC_OFFSET i + 0x0050"

definition CMAC_OFFSET_CONF_TX_FC_QNTA_4 :: "int \<Rightarrow> u32" where
  [reg_defs]: "CMAC_OFFSET_CONF_TX_FC_QNTA_4 i = CMAC_OFFSET i + 0x0054"

definition CMAC_OFFSET_CONF_TX_FC_QNTA_5 :: "int \<Rightarrow> u32" where
  [reg_defs]: "CMAC_OFFSET_CONF_TX_FC_QNTA_5 i = CMAC_OFFSET i + 0x0058"

definition CMAC_OFFSET_CONF_TX_OTN_PKT_LEN :: "int \<Rightarrow> u32" where
  [reg_defs]: "CMAC_OFFSET_CONF_TX_OTN_PKT_LEN i = CMAC_OFFSET i + 0x005C"

definition CMAC_OFFSET_CONF_TX_OTN_CTRL :: "int \<Rightarrow> u32" where
  [reg_defs]: "CMAC_OFFSET_CONF_TX_OTN_CTRL i = CMAC_OFFSET i + 0x0060"

definition CMAC_OFFSET_CONF_RX_FC_CTRL_1 :: "int \<Rightarrow> u32" where
  [reg_defs]: "CMAC_OFFSET_CONF_RX_FC_CTRL_1 i = CMAC_OFFSET i + 0x0084"

definition CMAC_OFFSET_CONF_RX_FC_CTRL_2 :: "int \<Rightarrow> u32" where
  [reg_defs]: "CMAC_OFFSET_CONF_RX_FC_CTRL_2 i = CMAC_OFFSET i + 0x0088"

definition CMAC_OFFSET_GT_LOOPBACK :: "int \<Rightarrow> u32" where
  [reg_defs]: "CMAC_OFFSET_GT_LOOPBACK i = CMAC_OFFSET i + 0x0090"

definition CMAC_OFFSET_CONF_AN_CTRL_1 :: "int \<Rightarrow> u32" where
  [reg_defs]: "CMAC_OFFSET_CONF_AN_CTRL_1 i = CMAC_OFFSET i + 0x00A0"

definition CMAC_OFFSET_CONF_AN_CTRL_2 :: "int \<Rightarrow> u32" where
  [reg_defs]: "CMAC_OFFSET_CONF_AN_CTRL_2 i = CMAC_OFFSET i + 0x00A4"

definition CMAC_OFFSET_CONF_AN_ABILITY :: "int \<Rightarrow> u32" where
  [reg_defs]: "CMAC_OFFSET_CONF_AN_ABILITY i = CMAC_OFFSET i + 0x00A8"

definition CMAC_OFFSET_CONF_LT_CTRL_1 :: "int \<Rightarrow> u32" where
  [reg_defs]: "CMAC_OFFSET_CONF_LT_CTRL_1 i = CMAC_OFFSET i + 0x00AC"

definition CMAC_OFFSET_CONF_LT_TRAINED :: "int \<Rightarrow> u32" where
  [reg_defs]: "CMAC_OFFSET_CONF_LT_TRAINED i = CMAC_OFFSET i + 0x00B0"

definition CMAC_OFFSET_CONF_LT_PRESET :: "int \<Rightarrow> u32" where
  [reg_defs]: "CMAC_OFFSET_CONF_LT_PRESET i = CMAC_OFFSET i + 0x00B4"

definition CMAC_OFFSET_CONF_LT_INIT :: "int \<Rightarrow> u32" where
  [reg_defs]: "CMAC_OFFSET_CONF_LT_INIT i = CMAC_OFFSET i + 0x00B8"

definition CMAC_OFFSET_CONF_LT_SEED_0 :: "int \<Rightarrow> u32" where
  [reg_defs]: "CMAC_OFFSET_CONF_LT_SEED_0 i = CMAC_OFFSET i + 0x00BC"

definition CMAC_OFFSET_CONF_LT_SEED_1 :: "int \<Rightarrow> u32" where
  [reg_defs]: "CMAC_OFFSET_CONF_LT_SEED_1 i = CMAC_OFFSET i + 0x00C0"

definition CMAC_OFFSET_CONF_LT_COEF_0 :: "int \<Rightarrow> u32" where
  [reg_defs]: "CMAC_OFFSET_CONF_LT_COEF_0 i = CMAC_OFFSET i + 0x00C4"

definition CMAC_OFFSET_CONF_LT_COEF_1 :: "int \<Rightarrow> u32" where
  [reg_defs]: "CMAC_OFFSET_CONF_LT_COEF_1 i = CMAC_OFFSET i + 0x00C8"

definition CMAC_OFFSET_USER_0 :: "int \<Rightarrow> u32" where
  [reg_defs]: "CMAC_OFFSET_USER_0 i = CMAC_OFFSET i + 0x00CC"

definition CMAC_OFFSET_RSFEC_CONF_IND_CORRECTION :: "int \<Rightarrow> u32" where
  [reg_defs]: "CMAC_OFFSET_RSFEC_CONF_IND_CORRECTION i = CMAC_OFFSET i + 0x1000"

definition CMAC_OFFSET_RSFEC_CONF_ENABLE :: "int \<Rightarrow> u32" where
  [reg_defs]: "CMAC_OFFSET_RSFEC_CONF_ENABLE i = CMAC_OFFSET i + 0x107C"

definition CMAC_OFFSET_STAT_TX_STATUS :: "int \<Rightarrow> u32" where
  [reg_defs]: "CMAC_OFFSET_STAT_TX_STATUS i = CMAC_OFFSET i + 0x0200"

definition CMAC_OFFSET_STAT_RX_STATUS :: "int \<Rightarrow> u32" where
  [reg_defs]: "CMAC_OFFSET_STAT_RX_STATUS i = CMAC_OFFSET i + 0x0204"

definition CMAC_OFFSET_STAT_STATUS_1 :: "int \<Rightarrow> u32" where
  [reg_defs]: "CMAC_OFFSET_STAT_STATUS_1 i = CMAC_OFFSET i + 0x0208"

definition CMAC_OFFSET_STAT_RX_BLOCK_LOCK :: "int \<Rightarrow> u32" where
  [reg_defs]: "CMAC_OFFSET_STAT_RX_BLOCK_LOCK i = CMAC_OFFSET i + 0x020C"

definition CMAC_OFFSET_STAT_RX_LANE_SYNC :: "int \<Rightarrow> u32" where
  [reg_defs]: "CMAC_OFFSET_STAT_RX_LANE_SYNC i = CMAC_OFFSET i + 0x0210"

definition CMAC_OFFSET_STAT_RX_LANE_SYNC_ERR :: "int \<Rightarrow> u32" where
  [reg_defs]: "CMAC_OFFSET_STAT_RX_LANE_SYNC_ERR i = CMAC_OFFSET i + 0x0214"

definition CMAC_OFFSET_STAT_RX_AM_ERR :: "int \<Rightarrow> u32" where
  [reg_defs]: "CMAC_OFFSET_STAT_RX_AM_ERR i = CMAC_OFFSET i + 0x0218"

definition CMAC_OFFSET_STAT_RX_AM_LEN_ERR :: "int \<Rightarrow> u32" where
  [reg_defs]: "CMAC_OFFSET_STAT_RX_AM_LEN_ERR i = CMAC_OFFSET i + 0x021C"

definition CMAC_OFFSET_STAT_RX_AM_REPEAT_ERR :: "int \<Rightarrow> u32" where
  [reg_defs]: "CMAC_OFFSET_STAT_RX_AM_REPEAT_ERR i = CMAC_OFFSET i + 0x0220"

definition CMAC_OFFSET_STAT_RX_PCSL_DEMUXED :: "int \<Rightarrow> u32" where
  [reg_defs]: "CMAC_OFFSET_STAT_RX_PCSL_DEMUXED i = CMAC_OFFSET i + 0x0224"

definition CMAC_OFFSET_STAT_RX_PCS_LANE_NUM_1 :: "int \<Rightarrow> u32" where
  [reg_defs]: "CMAC_OFFSET_STAT_RX_PCS_LANE_NUM_1 i = CMAC_OFFSET i + 0x0228"

definition CMAC_OFFSET_STAT_RX_PCS_LANE_NUM_2 :: "int \<Rightarrow> u32" where
  [reg_defs]: "CMAC_OFFSET_STAT_RX_PCS_LANE_NUM_2 i = CMAC_OFFSET i + 0x022C"

definition CMAC_OFFSET_STAT_RX_PCS_LANE_NUM_3 :: "int \<Rightarrow> u32" where
  [reg_defs]: "CMAC_OFFSET_STAT_RX_PCS_LANE_NUM_3 i = CMAC_OFFSET i + 0x0230"

definition CMAC_OFFSET_STAT_RX_PCS_LANE_NUM_4 :: "int \<Rightarrow> u32" where
  [reg_defs]: "CMAC_OFFSET_STAT_RX_PCS_LANE_NUM_4 i = CMAC_OFFSET i + 0x0234"

definition CMAC_OFFSET_STAT_RX_BIP_OVERRIDE :: "int \<Rightarrow> u32" where
  [reg_defs]: "CMAC_OFFSET_STAT_RX_BIP_OVERRIDE i = CMAC_OFFSET i + 0x0238"

definition CMAC_OFFSET_STAT_TX_OTN_STATUS :: "int \<Rightarrow> u32" where
  [reg_defs]: "CMAC_OFFSET_STAT_TX_OTN_STATUS i = CMAC_OFFSET i + 0x023C"

definition CMAC_OFFSET_STAT_AN_STATUS :: "int \<Rightarrow> u32" where
  [reg_defs]: "CMAC_OFFSET_STAT_AN_STATUS i = CMAC_OFFSET i + 0x0258"

definition CMAC_OFFSET_STAT_AN_ABILITY :: "int \<Rightarrow> u32" where
  [reg_defs]: "CMAC_OFFSET_STAT_AN_ABILITY i = CMAC_OFFSET i + 0x025C"

definition CMAC_OFFSET_STAT_AN_LINK_CTL_1 :: "int \<Rightarrow> u32" where
  [reg_defs]: "CMAC_OFFSET_STAT_AN_LINK_CTL_1 i = CMAC_OFFSET i + 0x0260"

definition CMAC_OFFSET_STAT_LT_STATUS_1 :: "int \<Rightarrow> u32" where
  [reg_defs]: "CMAC_OFFSET_STAT_LT_STATUS_1 i = CMAC_OFFSET i + 0x0264"

definition CMAC_OFFSET_STAT_LT_STATUS_2 :: "int \<Rightarrow> u32" where
  [reg_defs]: "CMAC_OFFSET_STAT_LT_STATUS_2 i = CMAC_OFFSET i + 0x0268"

definition CMAC_OFFSET_STAT_LT_STATUS_3 :: "int \<Rightarrow> u32" where
  [reg_defs]: "CMAC_OFFSET_STAT_LT_STATUS_3 i = CMAC_OFFSET i + 0x026C"

definition CMAC_OFFSET_STAT_LT_STATUS_4 :: "int \<Rightarrow> u32" where
  [reg_defs]: "CMAC_OFFSET_STAT_LT_STATUS_4 i = CMAC_OFFSET i + 0x0270"

definition CMAC_OFFSET_STAT_LT_COEF_0 :: "int \<Rightarrow> u32" where
  [reg_defs]: "CMAC_OFFSET_STAT_LT_COEF_0 i = CMAC_OFFSET i + 0x0274"

definition CMAC_OFFSET_STAT_LT_COEF_1 :: "int \<Rightarrow> u32" where
  [reg_defs]: "CMAC_OFFSET_STAT_LT_COEF_1 i = CMAC_OFFSET i + 0x0278"

definition CMAC_OFFSET_STAT_AN_LINK_CTL_2 :: "int \<Rightarrow> u32" where
  [reg_defs]: "CMAC_OFFSET_STAT_AN_LINK_CTL_2 i = CMAC_OFFSET i + 0x027C"

definition CMAC_OFFSET_STAT_RSFEC_STATUS :: "int \<Rightarrow> u32" where
  [reg_defs]: "CMAC_OFFSET_STAT_RSFEC_STATUS i = CMAC_OFFSET i + 0x1004"

definition CMAC_OFFSET_STAT_RSFEC_LANE_MAPPING :: "int \<Rightarrow> u32" where
  [reg_defs]: "CMAC_OFFSET_STAT_RSFEC_LANE_MAPPING i = CMAC_OFFSET i + 0x1018"

definition CMAC_OFFSET_STAT_TX_OTN_RSFEC_STATUS :: "int \<Rightarrow> u32" where
  [reg_defs]: "CMAC_OFFSET_STAT_TX_OTN_RSFEC_STATUS i = CMAC_OFFSET i + 0x1044"

definition CMAC_OFFSET_TICK :: "int \<Rightarrow> u32" where
  [reg_defs]: "CMAC_OFFSET_TICK i = CMAC_OFFSET i + 0x02B0"

definition CMAC_OFFSET_STAT_CYCLE_COUNT :: "int \<Rightarrow> u32" where
  [reg_defs]: "CMAC_OFFSET_STAT_CYCLE_COUNT i = CMAC_OFFSET i + 0x02B8"

definition CMAC_OFFSET_STAT_RX_BIP_ERR_0 :: "int \<Rightarrow> u32" where
  [reg_defs]: "CMAC_OFFSET_STAT_RX_BIP_ERR_0 i = CMAC_OFFSET i + 0x02C0"

definition CMAC_OFFSET_STAT_RX_BIP_ERR_1 :: "int \<Rightarrow> u32" where
  [reg_defs]: "CMAC_OFFSET_STAT_RX_BIP_ERR_1 i = CMAC_OFFSET i + 0x02C8"

definition CMAC_OFFSET_STAT_RX_BIP_ERR_2 :: "int \<Rightarrow> u32" where
  [reg_defs]: "CMAC_OFFSET_STAT_RX_BIP_ERR_2 i = CMAC_OFFSET i + 0x02D0"

definition CMAC_OFFSET_STAT_RX_BIP_ERR_3 :: "int \<Rightarrow> u32" where
  [reg_defs]: "CMAC_OFFSET_STAT_RX_BIP_ERR_3 i = CMAC_OFFSET i + 0x02D8"

definition CMAC_OFFSET_STAT_RX_BIP_ERR_4 :: "int \<Rightarrow> u32" where
  [reg_defs]: "CMAC_OFFSET_STAT_RX_BIP_ERR_4 i = CMAC_OFFSET i + 0x02E0"

definition CMAC_OFFSET_STAT_RX_BIP_ERR_5 :: "int \<Rightarrow> u32" where
  [reg_defs]: "CMAC_OFFSET_STAT_RX_BIP_ERR_5 i = CMAC_OFFSET i + 0x02E8"

definition CMAC_OFFSET_STAT_RX_BIP_ERR_6 :: "int \<Rightarrow> u32" where
  [reg_defs]: "CMAC_OFFSET_STAT_RX_BIP_ERR_6 i = CMAC_OFFSET i + 0x02F0"

definition CMAC_OFFSET_STAT_RX_BIP_ERR_7 :: "int \<Rightarrow> u32" where
  [reg_defs]: "CMAC_OFFSET_STAT_RX_BIP_ERR_7 i = CMAC_OFFSET i + 0x02F8"

definition CMAC_OFFSET_STAT_RX_BIP_ERR_8 :: "int \<Rightarrow> u32" where
  [reg_defs]: "CMAC_OFFSET_STAT_RX_BIP_ERR_8 i = CMAC_OFFSET i + 0x0300"

definition CMAC_OFFSET_STAT_RX_BIP_ERR_9 :: "int \<Rightarrow> u32" where
  [reg_defs]: "CMAC_OFFSET_STAT_RX_BIP_ERR_9 i = CMAC_OFFSET i + 0x0308"

definition CMAC_OFFSET_STAT_RX_BIP_ERR_10 :: "int \<Rightarrow> u32" where
  [reg_defs]: "CMAC_OFFSET_STAT_RX_BIP_ERR_10 i = CMAC_OFFSET i + 0x0310"

definition CMAC_OFFSET_STAT_RX_BIP_ERR_11 :: "int \<Rightarrow> u32" where
  [reg_defs]: "CMAC_OFFSET_STAT_RX_BIP_ERR_11 i = CMAC_OFFSET i + 0x0318"

definition CMAC_OFFSET_STAT_RX_BIP_ERR_12 :: "int \<Rightarrow> u32" where
  [reg_defs]: "CMAC_OFFSET_STAT_RX_BIP_ERR_12 i = CMAC_OFFSET i + 0x0320"

definition CMAC_OFFSET_STAT_RX_BIP_ERR_13 :: "int \<Rightarrow> u32" where
  [reg_defs]: "CMAC_OFFSET_STAT_RX_BIP_ERR_13 i = CMAC_OFFSET i + 0x0328"

definition CMAC_OFFSET_STAT_RX_BIP_ERR_14 :: "int \<Rightarrow> u32" where
  [reg_defs]: "CMAC_OFFSET_STAT_RX_BIP_ERR_14 i = CMAC_OFFSET i + 0x0330"

definition CMAC_OFFSET_STAT_RX_BIP_ERR_15 :: "int \<Rightarrow> u32" where
  [reg_defs]: "CMAC_OFFSET_STAT_RX_BIP_ERR_15 i = CMAC_OFFSET i + 0x0338"

definition CMAC_OFFSET_STAT_RX_BIP_ERR_16 :: "int \<Rightarrow> u32" where
  [reg_defs]: "CMAC_OFFSET_STAT_RX_BIP_ERR_16 i = CMAC_OFFSET i + 0x0340"

definition CMAC_OFFSET_STAT_RX_BIP_ERR_17 :: "int \<Rightarrow> u32" where
  [reg_defs]: "CMAC_OFFSET_STAT_RX_BIP_ERR_17 i = CMAC_OFFSET i + 0x0348"

definition CMAC_OFFSET_STAT_RX_BIP_ERR_18 :: "int \<Rightarrow> u32" where
  [reg_defs]: "CMAC_OFFSET_STAT_RX_BIP_ERR_18 i = CMAC_OFFSET i + 0x0350"

definition CMAC_OFFSET_STAT_RX_BIP_ERR_19 :: "int \<Rightarrow> u32" where
  [reg_defs]: "CMAC_OFFSET_STAT_RX_BIP_ERR_19 i = CMAC_OFFSET i + 0x0358"

definition CMAC_OFFSET_STAT_RX_FRAMING_ERR_0 :: "int \<Rightarrow> u32" where
  [reg_defs]: "CMAC_OFFSET_STAT_RX_FRAMING_ERR_0 i = CMAC_OFFSET i + 0x0360"

definition CMAC_OFFSET_STAT_RX_FRAMING_ERR_1 :: "int \<Rightarrow> u32" where
  [reg_defs]: "CMAC_OFFSET_STAT_RX_FRAMING_ERR_1 i = CMAC_OFFSET i + 0x0368"

definition CMAC_OFFSET_STAT_RX_FRAMING_ERR_2 :: "int \<Rightarrow> u32" where
  [reg_defs]: "CMAC_OFFSET_STAT_RX_FRAMING_ERR_2 i = CMAC_OFFSET i + 0x0370"

definition CMAC_OFFSET_STAT_RX_FRAMING_ERR_3 :: "int \<Rightarrow> u32" where
  [reg_defs]: "CMAC_OFFSET_STAT_RX_FRAMING_ERR_3 i = CMAC_OFFSET i + 0x0378"

definition CMAC_OFFSET_STAT_RX_FRAMING_ERR_4 :: "int \<Rightarrow> u32" where
  [reg_defs]: "CMAC_OFFSET_STAT_RX_FRAMING_ERR_4 i = CMAC_OFFSET i + 0x0380"

definition CMAC_OFFSET_STAT_RX_FRAMING_ERR_5 :: "int \<Rightarrow> u32" where
  [reg_defs]: "CMAC_OFFSET_STAT_RX_FRAMING_ERR_5 i = CMAC_OFFSET i + 0x0388"

definition CMAC_OFFSET_STAT_RX_FRAMING_ERR_6 :: "int \<Rightarrow> u32" where
  [reg_defs]: "CMAC_OFFSET_STAT_RX_FRAMING_ERR_6 i = CMAC_OFFSET i + 0x0390"

definition CMAC_OFFSET_STAT_RX_FRAMING_ERR_7 :: "int \<Rightarrow> u32" where
  [reg_defs]: "CMAC_OFFSET_STAT_RX_FRAMING_ERR_7 i = CMAC_OFFSET i + 0x0398"

definition CMAC_OFFSET_STAT_RX_FRAMING_ERR_8 :: "int \<Rightarrow> u32" where
  [reg_defs]: "CMAC_OFFSET_STAT_RX_FRAMING_ERR_8 i = CMAC_OFFSET i + 0x03A0"

definition CMAC_OFFSET_STAT_RX_FRAMING_ERR_9 :: "int \<Rightarrow> u32" where
  [reg_defs]: "CMAC_OFFSET_STAT_RX_FRAMING_ERR_9 i = CMAC_OFFSET i + 0x03A8"

definition CMAC_OFFSET_STAT_RX_FRAMING_ERR_10 :: "int \<Rightarrow> u32" where
  [reg_defs]: "CMAC_OFFSET_STAT_RX_FRAMING_ERR_10 i = CMAC_OFFSET i + 0x03B0"

definition CMAC_OFFSET_STAT_RX_FRAMING_ERR_11 :: "int \<Rightarrow> u32" where
  [reg_defs]: "CMAC_OFFSET_STAT_RX_FRAMING_ERR_11 i = CMAC_OFFSET i + 0x03B8"

definition CMAC_OFFSET_STAT_RX_FRAMING_ERR_12 :: "int \<Rightarrow> u32" where
  [reg_defs]: "CMAC_OFFSET_STAT_RX_FRAMING_ERR_12 i = CMAC_OFFSET i + 0x03C0"

definition CMAC_OFFSET_STAT_RX_FRAMING_ERR_13 :: "int \<Rightarrow> u32" where
  [reg_defs]: "CMAC_OFFSET_STAT_RX_FRAMING_ERR_13 i = CMAC_OFFSET i + 0x03C8"

definition CMAC_OFFSET_STAT_RX_FRAMING_ERR_14 :: "int \<Rightarrow> u32" where
  [reg_defs]: "CMAC_OFFSET_STAT_RX_FRAMING_ERR_14 i = CMAC_OFFSET i + 0x03D0"

definition CMAC_OFFSET_STAT_RX_FRAMING_ERR_15 :: "int \<Rightarrow> u32" where
  [reg_defs]: "CMAC_OFFSET_STAT_RX_FRAMING_ERR_15 i = CMAC_OFFSET i + 0x03D8"

definition CMAC_OFFSET_STAT_RX_FRAMING_ERR_16 :: "int \<Rightarrow> u32" where
  [reg_defs]: "CMAC_OFFSET_STAT_RX_FRAMING_ERR_16 i = CMAC_OFFSET i + 0x03E0"

definition CMAC_OFFSET_STAT_RX_FRAMING_ERR_17 :: "int \<Rightarrow> u32" where
  [reg_defs]: "CMAC_OFFSET_STAT_RX_FRAMING_ERR_17 i = CMAC_OFFSET i + 0x03E8"

definition CMAC_OFFSET_STAT_RX_FRAMING_ERR_18 :: "int \<Rightarrow> u32" where
  [reg_defs]: "CMAC_OFFSET_STAT_RX_FRAMING_ERR_18 i = CMAC_OFFSET i + 0x03F0"

definition CMAC_OFFSET_STAT_RX_FRAMING_ERR_19 :: "int \<Rightarrow> u32" where
  [reg_defs]: "CMAC_OFFSET_STAT_RX_FRAMING_ERR_19 i = CMAC_OFFSET i + 0x03F8"

definition CMAC_OFFSET_STAT_RX_BAD_CODE :: "int \<Rightarrow> u32" where
  [reg_defs]: "CMAC_OFFSET_STAT_RX_BAD_CODE i = CMAC_OFFSET i + 0x0418"

definition CMAC_OFFSET_STAT_TX_FRAME_ERROR :: "int \<Rightarrow> u32" where
  [reg_defs]: "CMAC_OFFSET_STAT_TX_FRAME_ERROR i = CMAC_OFFSET i + 0x0458"

definition CMAC_OFFSET_STAT_TX_TOTAL_PKTS :: "int \<Rightarrow> u32" where
  [reg_defs]: "CMAC_OFFSET_STAT_TX_TOTAL_PKTS i = CMAC_OFFSET i + 0x0500"

definition CMAC_OFFSET_STAT_TX_TOTAL_GOOD_PKTS :: "int \<Rightarrow> u32" where
  [reg_defs]: "CMAC_OFFSET_STAT_TX_TOTAL_GOOD_PKTS i = CMAC_OFFSET i + 0x0508"

definition CMAC_OFFSET_STAT_TX_TOTAL_BYTES :: "int \<Rightarrow> u32" where
  [reg_defs]: "CMAC_OFFSET_STAT_TX_TOTAL_BYTES i = CMAC_OFFSET i + 0x0510"

definition CMAC_OFFSET_STAT_TX_TOTAL_GOOD_BYTES :: "int \<Rightarrow> u32" where
  [reg_defs]: "CMAC_OFFSET_STAT_TX_TOTAL_GOOD_BYTES i = CMAC_OFFSET i + 0x0518"

definition CMAC_OFFSET_STAT_TX_PKT_64_BYTES :: "int \<Rightarrow> u32" where
  [reg_defs]: "CMAC_OFFSET_STAT_TX_PKT_64_BYTES i = CMAC_OFFSET i + 0x0520"

definition CMAC_OFFSET_STAT_TX_PKT_65_127_BYTES :: "int \<Rightarrow> u32" where
  [reg_defs]: "CMAC_OFFSET_STAT_TX_PKT_65_127_BYTES i = CMAC_OFFSET i + 0x0528"

definition CMAC_OFFSET_STAT_TX_PKT_128_255_BYTES :: "int \<Rightarrow> u32" where
  [reg_defs]: "CMAC_OFFSET_STAT_TX_PKT_128_255_BYTES i = CMAC_OFFSET i + 0x0530"

definition CMAC_OFFSET_STAT_TX_PKT_256_511_BYTES :: "int \<Rightarrow> u32" where
  [reg_defs]: "CMAC_OFFSET_STAT_TX_PKT_256_511_BYTES i = CMAC_OFFSET i + 0x0538"

definition CMAC_OFFSET_STAT_TX_PKT_512_1023_BYTES :: "int \<Rightarrow> u32" where
  [reg_defs]: "CMAC_OFFSET_STAT_TX_PKT_512_1023_BYTES i = CMAC_OFFSET i + 0x0540"

definition CMAC_OFFSET_STAT_TX_PKT_1024_1518_BYTES :: "int \<Rightarrow> u32" where
  [reg_defs]: "CMAC_OFFSET_STAT_TX_PKT_1024_1518_BYTES i = CMAC_OFFSET i + 0x0548"

definition CMAC_OFFSET_STAT_TX_PKT_1519_1522_BYTES :: "int \<Rightarrow> u32" where
  [reg_defs]: "CMAC_OFFSET_STAT_TX_PKT_1519_1522_BYTES i = CMAC_OFFSET i + 0x0550"

definition CMAC_OFFSET_STAT_TX_PKT_1523_1548_BYTES :: "int \<Rightarrow> u32" where
  [reg_defs]: "CMAC_OFFSET_STAT_TX_PKT_1523_1548_BYTES i = CMAC_OFFSET i + 0x0558"

definition CMAC_OFFSET_STAT_TX_PKT_1549_2047_BYTES :: "int \<Rightarrow> u32" where
  [reg_defs]: "CMAC_OFFSET_STAT_TX_PKT_1549_2047_BYTES i = CMAC_OFFSET i + 0x0560"

definition CMAC_OFFSET_STAT_TX_PKT_2048_4095_BYTES :: "int \<Rightarrow> u32" where
  [reg_defs]: "CMAC_OFFSET_STAT_TX_PKT_2048_4095_BYTES i = CMAC_OFFSET i + 0x0568"

definition CMAC_OFFSET_STAT_TX_PKT_4096_8191_BYTES :: "int \<Rightarrow> u32" where
  [reg_defs]: "CMAC_OFFSET_STAT_TX_PKT_4096_8191_BYTES i = CMAC_OFFSET i + 0x0570"

definition CMAC_OFFSET_STAT_TX_PKT_8192_9215_BYTES :: "int \<Rightarrow> u32" where
  [reg_defs]: "CMAC_OFFSET_STAT_TX_PKT_8192_9215_BYTES i = CMAC_OFFSET i + 0x0578"

definition CMAC_OFFSET_STAT_TX_PKT_LARGE :: "int \<Rightarrow> u32" where
  [reg_defs]: "CMAC_OFFSET_STAT_TX_PKT_LARGE i = CMAC_OFFSET i + 0x0580"

definition CMAC_OFFSET_STAT_TX_PKT_SMALL :: "int \<Rightarrow> u32" where
  [reg_defs]: "CMAC_OFFSET_STAT_TX_PKT_SMALL i = CMAC_OFFSET i + 0x0588"

definition CMAC_OFFSET_STAT_TX_BAD_FCS :: "int \<Rightarrow> u32" where
  [reg_defs]: "CMAC_OFFSET_STAT_TX_BAD_FCS i = CMAC_OFFSET i + 0x05B8"

definition CMAC_OFFSET_STAT_TX_UNICAST :: "int \<Rightarrow> u32" where
  [reg_defs]: "CMAC_OFFSET_STAT_TX_UNICAST i = CMAC_OFFSET i + 0x05D0"

definition CMAC_OFFSET_STAT_TX_MULTICAST :: "int \<Rightarrow> u32" where
  [reg_defs]: "CMAC_OFFSET_STAT_TX_MULTICAST i = CMAC_OFFSET i + 0x05D8"

definition CMAC_OFFSET_STAT_TX_BROADCAST :: "int \<Rightarrow> u32" where
  [reg_defs]: "CMAC_OFFSET_STAT_TX_BROADCAST i = CMAC_OFFSET i + 0x05E0"

definition CMAC_OFFSET_STAT_TX_VLAN :: "int \<Rightarrow> u32" where
  [reg_defs]: "CMAC_OFFSET_STAT_TX_VLAN i = CMAC_OFFSET i + 0x05E8"

definition CMAC_OFFSET_STAT_TX_PAUSE :: "int \<Rightarrow> u32" where
  [reg_defs]: "CMAC_OFFSET_STAT_TX_PAUSE i = CMAC_OFFSET i + 0x05F0"

definition CMAC_OFFSET_STAT_TX_USER_PAUSE :: "int \<Rightarrow> u32" where
  [reg_defs]: "CMAC_OFFSET_STAT_TX_USER_PAUSE i = CMAC_OFFSET i + 0x05F8"

definition CMAC_OFFSET_STAT_RX_TOTAL_PKTS :: "int \<Rightarrow> u32" where
  [reg_defs]: "CMAC_OFFSET_STAT_RX_TOTAL_PKTS i = CMAC_OFFSET i + 0x0608"

definition CMAC_OFFSET_STAT_RX_TOTAL_GOOD_PKTS :: "int \<Rightarrow> u32" where
  [reg_defs]: "CMAC_OFFSET_STAT_RX_TOTAL_GOOD_PKTS i = CMAC_OFFSET i + 0x0610"

definition CMAC_OFFSET_STAT_RX_TOTAL_BYTES :: "int \<Rightarrow> u32" where
  [reg_defs]: "CMAC_OFFSET_STAT_RX_TOTAL_BYTES i = CMAC_OFFSET i + 0x0618"

definition CMAC_OFFSET_STAT_RX_TOTAL_GOOD_BYTES :: "int \<Rightarrow> u32" where
  [reg_defs]: "CMAC_OFFSET_STAT_RX_TOTAL_GOOD_BYTES i = CMAC_OFFSET i + 0x0620"

definition CMAC_OFFSET_STAT_RX_PKT_64_BYTES :: "int \<Rightarrow> u32" where
  [reg_defs]: "CMAC_OFFSET_STAT_RX_PKT_64_BYTES i = CMAC_OFFSET i + 0x0628"

definition CMAC_OFFSET_STAT_RX_PKT_65_127_BYTES :: "int \<Rightarrow> u32" where
  [reg_defs]: "CMAC_OFFSET_STAT_RX_PKT_65_127_BYTES i = CMAC_OFFSET i + 0x0630"

definition CMAC_OFFSET_STAT_RX_PKT_128_255_BYTES :: "int \<Rightarrow> u32" where
  [reg_defs]: "CMAC_OFFSET_STAT_RX_PKT_128_255_BYTES i = CMAC_OFFSET i + 0x0638"

definition CMAC_OFFSET_STAT_RX_PKT_256_511_BYTES :: "int \<Rightarrow> u32" where
  [reg_defs]: "CMAC_OFFSET_STAT_RX_PKT_256_511_BYTES i = CMAC_OFFSET i + 0x0640"

definition CMAC_OFFSET_STAT_RX_PKT_512_1023_BYTES :: "int \<Rightarrow> u32" where
  [reg_defs]: "CMAC_OFFSET_STAT_RX_PKT_512_1023_BYTES i = CMAC_OFFSET i + 0x0648"

definition CMAC_OFFSET_STAT_RX_PKT_1024_1518_BYTES :: "int \<Rightarrow> u32" where
  [reg_defs]: "CMAC_OFFSET_STAT_RX_PKT_1024_1518_BYTES i = CMAC_OFFSET i + 0x0650"

definition CMAC_OFFSET_STAT_RX_PKT_1519_1522_BYTES :: "int \<Rightarrow> u32" where
  [reg_defs]: "CMAC_OFFSET_STAT_RX_PKT_1519_1522_BYTES i = CMAC_OFFSET i + 0x0658"

definition CMAC_OFFSET_STAT_RX_PKT_1523_1548_BYTES :: "int \<Rightarrow> u32" where
  [reg_defs]: "CMAC_OFFSET_STAT_RX_PKT_1523_1548_BYTES i = CMAC_OFFSET i + 0x0660"

definition CMAC_OFFSET_STAT_RX_PKT_1549_2047_BYTES :: "int \<Rightarrow> u32" where
  [reg_defs]: "CMAC_OFFSET_STAT_RX_PKT_1549_2047_BYTES i = CMAC_OFFSET i + 0x0668"

definition CMAC_OFFSET_STAT_RX_PKT_2048_4095_BYTES :: "int \<Rightarrow> u32" where
  [reg_defs]: "CMAC_OFFSET_STAT_RX_PKT_2048_4095_BYTES i = CMAC_OFFSET i + 0x0670"

definition CMAC_OFFSET_STAT_RX_PKT_4096_8191_BYTES :: "int \<Rightarrow> u32" where
  [reg_defs]: "CMAC_OFFSET_STAT_RX_PKT_4096_8191_BYTES i = CMAC_OFFSET i + 0x0678"

definition CMAC_OFFSET_STAT_RX_PKT_8192_9215_BYTES :: "int \<Rightarrow> u32" where
  [reg_defs]: "CMAC_OFFSET_STAT_RX_PKT_8192_9215_BYTES i = CMAC_OFFSET i + 0x0680"

definition CMAC_OFFSET_STAT_RX_PKT_LARGE :: "int \<Rightarrow> u32" where
  [reg_defs]: "CMAC_OFFSET_STAT_RX_PKT_LARGE i = CMAC_OFFSET i + 0x0688"

definition CMAC_OFFSET_STAT_RX_PKT_SMALL :: "int \<Rightarrow> u32" where
  [reg_defs]: "CMAC_OFFSET_STAT_RX_PKT_SMALL i = CMAC_OFFSET i + 0x0690"

definition CMAC_OFFSET_STAT_RX_UNDERSIZE :: "int \<Rightarrow> u32" where
  [reg_defs]: "CMAC_OFFSET_STAT_RX_UNDERSIZE i = CMAC_OFFSET i + 0x0698"

definition CMAC_OFFSET_STAT_RX_FRAGMENT :: "int \<Rightarrow> u32" where
  [reg_defs]: "CMAC_OFFSET_STAT_RX_FRAGMENT i = CMAC_OFFSET i + 0x06A0"

definition CMAC_OFFSET_STAT_RX_OVERSIZE :: "int \<Rightarrow> u32" where
  [reg_defs]: "CMAC_OFFSET_STAT_RX_OVERSIZE i = CMAC_OFFSET i + 0x06A8"

definition CMAC_OFFSET_STAT_RX_TOOLONG :: "int \<Rightarrow> u32" where
  [reg_defs]: "CMAC_OFFSET_STAT_RX_TOOLONG i = CMAC_OFFSET i + 0x06B0"

definition CMAC_OFFSET_STAT_RX_JABBER :: "int \<Rightarrow> u32" where
  [reg_defs]: "CMAC_OFFSET_STAT_RX_JABBER i = CMAC_OFFSET i + 0x06B8"

definition CMAC_OFFSET_STAT_RX_BAD_FCS :: "int \<Rightarrow> u32" where
  [reg_defs]: "CMAC_OFFSET_STAT_RX_BAD_FCS i = CMAC_OFFSET i + 0x06C0"

definition CMAC_OFFSET_STAT_RX_PKT_BAD_FCS :: "int \<Rightarrow> u32" where
  [reg_defs]: "CMAC_OFFSET_STAT_RX_PKT_BAD_FCS i = CMAC_OFFSET i + 0x06C8"

definition CMAC_OFFSET_STAT_RX_STOMPED_FCS :: "int \<Rightarrow> u32" where
  [reg_defs]: "CMAC_OFFSET_STAT_RX_STOMPED_FCS i = CMAC_OFFSET i + 0x06D0"

definition CMAC_OFFSET_STAT_RX_UNICAST :: "int \<Rightarrow> u32" where
  [reg_defs]: "CMAC_OFFSET_STAT_RX_UNICAST i = CMAC_OFFSET i + 0x06D8"

definition CMAC_OFFSET_STAT_RX_MULTICAST :: "int \<Rightarrow> u32" where
  [reg_defs]: "CMAC_OFFSET_STAT_RX_MULTICAST i = CMAC_OFFSET i + 0x06E0"

definition CMAC_OFFSET_STAT_RX_BROADCAST :: "int \<Rightarrow> u32" where
  [reg_defs]: "CMAC_OFFSET_STAT_RX_BROADCAST i = CMAC_OFFSET i + 0x06E8"

definition CMAC_OFFSET_STAT_RX_VLAN :: "int \<Rightarrow> u32" where
  [reg_defs]: "CMAC_OFFSET_STAT_RX_VLAN i = CMAC_OFFSET i + 0x06F0"

definition CMAC_OFFSET_STAT_RX_PAUSE :: "int \<Rightarrow> u32" where
  [reg_defs]: "CMAC_OFFSET_STAT_RX_PAUSE i = CMAC_OFFSET i + 0x06F8"

definition CMAC_OFFSET_STAT_RX_USER_PAUSE :: "int \<Rightarrow> u32" where
  [reg_defs]: "CMAC_OFFSET_STAT_RX_USER_PAUSE i = CMAC_OFFSET i + 0x0700"

definition CMAC_OFFSET_STAT_RX_INRANGEERR :: "int \<Rightarrow> u32" where
  [reg_defs]: "CMAC_OFFSET_STAT_RX_INRANGEERR i = CMAC_OFFSET i + 0x0708"

definition CMAC_OFFSET_STAT_RX_TRUNCATED :: "int \<Rightarrow> u32" where
  [reg_defs]: "CMAC_OFFSET_STAT_RX_TRUNCATED i = CMAC_OFFSET i + 0x0710"

definition CMAC_OFFSET_STAT_OTN_TX_JABBER :: "int \<Rightarrow> u32" where
  [reg_defs]: "CMAC_OFFSET_STAT_OTN_TX_JABBER i = CMAC_OFFSET i + 0x0718"

definition CMAC_OFFSET_STAT_OTN_TX_OVERSIZE :: "int \<Rightarrow> u32" where
  [reg_defs]: "CMAC_OFFSET_STAT_OTN_TX_OVERSIZE i = CMAC_OFFSET i + 0x0720"

definition CMAC_OFFSET_STAT_OTN_TX_UNDERSIZE :: "int \<Rightarrow> u32" where
  [reg_defs]: "CMAC_OFFSET_STAT_OTN_TX_UNDERSIZE i = CMAC_OFFSET i + 0x0728"

definition CMAC_OFFSET_STAT_OTN_TX_TOOLONG :: "int \<Rightarrow> u32" where
  [reg_defs]: "CMAC_OFFSET_STAT_OTN_TX_TOOLONG i = CMAC_OFFSET i + 0x0730"

definition CMAC_OFFSET_STAT_OTN_TX_FRAGMENT :: "int \<Rightarrow> u32" where
  [reg_defs]: "CMAC_OFFSET_STAT_OTN_TX_FRAGMENT i = CMAC_OFFSET i + 0x0738"

definition CMAC_OFFSET_STAT_OTN_TX_PKT_BAD_FCS :: "int \<Rightarrow> u32" where
  [reg_defs]: "CMAC_OFFSET_STAT_OTN_TX_PKT_BAD_FCS i = CMAC_OFFSET i + 0x0740"

definition CMAC_OFFSET_STAT_OTN_TX_STOMPED_FCS :: "int \<Rightarrow> u32" where
  [reg_defs]: "CMAC_OFFSET_STAT_OTN_TX_STOMPED_FCS i = CMAC_OFFSET i + 0x0748"

definition CMAC_OFFSET_STAT_OTN_TX_BAD_CODE :: "int \<Rightarrow> u32" where
  [reg_defs]: "CMAC_OFFSET_STAT_OTN_TX_BAD_CODE i = CMAC_OFFSET i + 0x0750"

definition CMAC_OFFSET_STAT_RX_RSFEC_CORRECTED_CW_INC :: "int \<Rightarrow> u32" where
  [reg_defs]: "CMAC_OFFSET_STAT_RX_RSFEC_CORRECTED_CW_INC i = CMAC_OFFSET i + 0x1008"

definition CMAC_OFFSET_STAT_RX_RSFEC_UNCORRECTED_CW_INC :: "int \<Rightarrow> u32" where
  [reg_defs]: "CMAC_OFFSET_STAT_RX_RSFEC_UNCORRECTED_CW_INC i = CMAC_OFFSET i + 0x1010"

definition CMAC_OFFSET_STAT_RX_RSFEC_ERR_COUNT0_INC :: "int \<Rightarrow> u32" where
  [reg_defs]: "CMAC_OFFSET_STAT_RX_RSFEC_ERR_COUNT0_INC i = CMAC_OFFSET i + 0x101C"

definition CMAC_OFFSET_STAT_RX_RSFEC_ERR_COUNT1_INC :: "int \<Rightarrow> u32" where
  [reg_defs]: "CMAC_OFFSET_STAT_RX_RSFEC_ERR_COUNT1_INC i = CMAC_OFFSET i + 0x1024"

definition CMAC_OFFSET_STAT_RX_RSFEC_ERR_COUNT2_INC :: "int \<Rightarrow> u32" where
  [reg_defs]: "CMAC_OFFSET_STAT_RX_RSFEC_ERR_COUNT2_INC i = CMAC_OFFSET i + 0x102C"

definition CMAC_OFFSET_STAT_RX_RSFEC_ERR_COUNT3_INC :: "int \<Rightarrow> u32" where
  [reg_defs]: "CMAC_OFFSET_STAT_RX_RSFEC_ERR_COUNT3_INC i = CMAC_OFFSET i + 0x1034"

definition CMAC_OFFSET_STAT_RX_RSFEC_CW_INC :: "int \<Rightarrow> u32" where
  [reg_defs]: "CMAC_OFFSET_STAT_RX_RSFEC_CW_INC i = CMAC_OFFSET i + 0x103C"

definition CMAC_ADPT_OFFSET_TX_PKT_RECV :: "int \<Rightarrow> u32" where
  [reg_defs]: "CMAC_ADPT_OFFSET_TX_PKT_RECV i = CMAC_ADPT_OFFSET i + 0x0"

definition CMAC_ADPT_OFFSET_TX_PKT_DROP :: "int \<Rightarrow> u32" where
  [reg_defs]: "CMAC_ADPT_OFFSET_TX_PKT_DROP i = CMAC_ADPT_OFFSET i + 0x10"

definition CMAC_ADPT_OFFSET_RX_PKT_RECV :: "int \<Rightarrow> u32" where
  [reg_defs]: "CMAC_ADPT_OFFSET_RX_PKT_RECV i = CMAC_ADPT_OFFSET i + 0x20"

definition CMAC_ADPT_OFFSET_RX_PKT_DROP :: "int \<Rightarrow> u32" where
  [reg_defs]: "CMAC_ADPT_OFFSET_RX_PKT_DROP i = CMAC_ADPT_OFFSET i + 0x30"

definition CMAC_ADPT_OFFSET_RX_PKT_ERROR :: "int \<Rightarrow> u32" where
  [reg_defs]: "CMAC_ADPT_OFFSET_RX_PKT_ERROR i = CMAC_ADPT_OFFSET i + 0x40"

section \<open>The map as a whole\<close>

text \<open>The registers of the system configuration, of a CMAC and of its packet adapter, by address.\<close>

definition syscfg_regs :: "u32 list" where
  "syscfg_regs = [
    SYSCFG_OFFSET_BUILD_STATUS, SYSCFG_OFFSET_SYSTEM_RESET, SYSCFG_OFFSET_SYSTEM_STATUS,
    SYSCFG_OFFSET_SHELL_RESET, SYSCFG_OFFSET_SHELL_STATUS, SYSCFG_OFFSET_USER_RESET,
    SYSCFG_OFFSET_USER_STATUS
  ]"

definition cmac_regs :: "int \<Rightarrow> u32 list" where
  "cmac_regs i = [
    CMAC_OFFSET_GT_RESET i, CMAC_OFFSET_RESET i, CMAC_OFFSET_SWITCH_CORE_MODE i,
    CMAC_OFFSET_CONF_TX_1 i, CMAC_OFFSET_CONF_RX_1 i, CMAC_OFFSET_CORE_MODE i,
    CMAC_OFFSET_CORE_VERSION i, CMAC_OFFSET_CONF_TX_BIP_OVERRIDE i,
    CMAC_OFFSET_CONF_TX_FC_CTRL_1 i, CMAC_OFFSET_CONF_TX_FC_RFRH_1 i,
    CMAC_OFFSET_CONF_TX_FC_RFRH_2 i, CMAC_OFFSET_CONF_TX_FC_RFRH_3 i,
    CMAC_OFFSET_CONF_TX_FC_RFRH_4 i, CMAC_OFFSET_CONF_TX_FC_RFRH_5 i,
    CMAC_OFFSET_CONF_TX_FC_QNTA_1 i, CMAC_OFFSET_CONF_TX_FC_QNTA_2 i,
    CMAC_OFFSET_CONF_TX_FC_QNTA_3 i, CMAC_OFFSET_CONF_TX_FC_QNTA_4 i,
    CMAC_OFFSET_CONF_TX_FC_QNTA_5 i, CMAC_OFFSET_CONF_TX_OTN_PKT_LEN i,
    CMAC_OFFSET_CONF_TX_OTN_CTRL i, CMAC_OFFSET_CONF_RX_FC_CTRL_1 i,
    CMAC_OFFSET_CONF_RX_FC_CTRL_2 i, CMAC_OFFSET_GT_LOOPBACK i, CMAC_OFFSET_CONF_AN_CTRL_1 i,
    CMAC_OFFSET_CONF_AN_CTRL_2 i, CMAC_OFFSET_CONF_AN_ABILITY i, CMAC_OFFSET_CONF_LT_CTRL_1 i,
    CMAC_OFFSET_CONF_LT_TRAINED i, CMAC_OFFSET_CONF_LT_PRESET i, CMAC_OFFSET_CONF_LT_INIT i,
    CMAC_OFFSET_CONF_LT_SEED_0 i, CMAC_OFFSET_CONF_LT_SEED_1 i, CMAC_OFFSET_CONF_LT_COEF_0 i,
    CMAC_OFFSET_CONF_LT_COEF_1 i, CMAC_OFFSET_USER_0 i, CMAC_OFFSET_STAT_TX_STATUS i,
    CMAC_OFFSET_STAT_RX_STATUS i, CMAC_OFFSET_STAT_STATUS_1 i, CMAC_OFFSET_STAT_RX_BLOCK_LOCK i,
    CMAC_OFFSET_STAT_RX_LANE_SYNC i, CMAC_OFFSET_STAT_RX_LANE_SYNC_ERR i,
    CMAC_OFFSET_STAT_RX_AM_ERR i, CMAC_OFFSET_STAT_RX_AM_LEN_ERR i,
    CMAC_OFFSET_STAT_RX_AM_REPEAT_ERR i, CMAC_OFFSET_STAT_RX_PCSL_DEMUXED i,
    CMAC_OFFSET_STAT_RX_PCS_LANE_NUM_1 i, CMAC_OFFSET_STAT_RX_PCS_LANE_NUM_2 i,
    CMAC_OFFSET_STAT_RX_PCS_LANE_NUM_3 i, CMAC_OFFSET_STAT_RX_PCS_LANE_NUM_4 i,
    CMAC_OFFSET_STAT_RX_BIP_OVERRIDE i, CMAC_OFFSET_STAT_TX_OTN_STATUS i,
    CMAC_OFFSET_STAT_AN_STATUS i, CMAC_OFFSET_STAT_AN_ABILITY i, CMAC_OFFSET_STAT_AN_LINK_CTL_1 i,
    CMAC_OFFSET_STAT_LT_STATUS_1 i, CMAC_OFFSET_STAT_LT_STATUS_2 i,
    CMAC_OFFSET_STAT_LT_STATUS_3 i, CMAC_OFFSET_STAT_LT_STATUS_4 i, CMAC_OFFSET_STAT_LT_COEF_0 i,
    CMAC_OFFSET_STAT_LT_COEF_1 i, CMAC_OFFSET_STAT_AN_LINK_CTL_2 i, CMAC_OFFSET_TICK i,
    CMAC_OFFSET_STAT_CYCLE_COUNT i, CMAC_OFFSET_STAT_RX_BIP_ERR_0 i,
    CMAC_OFFSET_STAT_RX_BIP_ERR_1 i, CMAC_OFFSET_STAT_RX_BIP_ERR_2 i,
    CMAC_OFFSET_STAT_RX_BIP_ERR_3 i, CMAC_OFFSET_STAT_RX_BIP_ERR_4 i,
    CMAC_OFFSET_STAT_RX_BIP_ERR_5 i, CMAC_OFFSET_STAT_RX_BIP_ERR_6 i,
    CMAC_OFFSET_STAT_RX_BIP_ERR_7 i, CMAC_OFFSET_STAT_RX_BIP_ERR_8 i,
    CMAC_OFFSET_STAT_RX_BIP_ERR_9 i, CMAC_OFFSET_STAT_RX_BIP_ERR_10 i,
    CMAC_OFFSET_STAT_RX_BIP_ERR_11 i, CMAC_OFFSET_STAT_RX_BIP_ERR_12 i,
    CMAC_OFFSET_STAT_RX_BIP_ERR_13 i, CMAC_OFFSET_STAT_RX_BIP_ERR_14 i,
    CMAC_OFFSET_STAT_RX_BIP_ERR_15 i, CMAC_OFFSET_STAT_RX_BIP_ERR_16 i,
    CMAC_OFFSET_STAT_RX_BIP_ERR_17 i, CMAC_OFFSET_STAT_RX_BIP_ERR_18 i,
    CMAC_OFFSET_STAT_RX_BIP_ERR_19 i, CMAC_OFFSET_STAT_RX_FRAMING_ERR_0 i,
    CMAC_OFFSET_STAT_RX_FRAMING_ERR_1 i, CMAC_OFFSET_STAT_RX_FRAMING_ERR_2 i,
    CMAC_OFFSET_STAT_RX_FRAMING_ERR_3 i, CMAC_OFFSET_STAT_RX_FRAMING_ERR_4 i,
    CMAC_OFFSET_STAT_RX_FRAMING_ERR_5 i, CMAC_OFFSET_STAT_RX_FRAMING_ERR_6 i,
    CMAC_OFFSET_STAT_RX_FRAMING_ERR_7 i, CMAC_OFFSET_STAT_RX_FRAMING_ERR_8 i,
    CMAC_OFFSET_STAT_RX_FRAMING_ERR_9 i, CMAC_OFFSET_STAT_RX_FRAMING_ERR_10 i,
    CMAC_OFFSET_STAT_RX_FRAMING_ERR_11 i, CMAC_OFFSET_STAT_RX_FRAMING_ERR_12 i,
    CMAC_OFFSET_STAT_RX_FRAMING_ERR_13 i, CMAC_OFFSET_STAT_RX_FRAMING_ERR_14 i,
    CMAC_OFFSET_STAT_RX_FRAMING_ERR_15 i, CMAC_OFFSET_STAT_RX_FRAMING_ERR_16 i,
    CMAC_OFFSET_STAT_RX_FRAMING_ERR_17 i, CMAC_OFFSET_STAT_RX_FRAMING_ERR_18 i,
    CMAC_OFFSET_STAT_RX_FRAMING_ERR_19 i, CMAC_OFFSET_STAT_RX_BAD_CODE i,
    CMAC_OFFSET_STAT_TX_FRAME_ERROR i, CMAC_OFFSET_STAT_TX_TOTAL_PKTS i,
    CMAC_OFFSET_STAT_TX_TOTAL_GOOD_PKTS i, CMAC_OFFSET_STAT_TX_TOTAL_BYTES i,
    CMAC_OFFSET_STAT_TX_TOTAL_GOOD_BYTES i, CMAC_OFFSET_STAT_TX_PKT_64_BYTES i,
    CMAC_OFFSET_STAT_TX_PKT_65_127_BYTES i, CMAC_OFFSET_STAT_TX_PKT_128_255_BYTES i,
    CMAC_OFFSET_STAT_TX_PKT_256_511_BYTES i, CMAC_OFFSET_STAT_TX_PKT_512_1023_BYTES i,
    CMAC_OFFSET_STAT_TX_PKT_1024_1518_BYTES i, CMAC_OFFSET_STAT_TX_PKT_1519_1522_BYTES i,
    CMAC_OFFSET_STAT_TX_PKT_1523_1548_BYTES i, CMAC_OFFSET_STAT_TX_PKT_1549_2047_BYTES i,
    CMAC_OFFSET_STAT_TX_PKT_2048_4095_BYTES i, CMAC_OFFSET_STAT_TX_PKT_4096_8191_BYTES i,
    CMAC_OFFSET_STAT_TX_PKT_8192_9215_BYTES i, CMAC_OFFSET_STAT_TX_PKT_LARGE i,
    CMAC_OFFSET_STAT_TX_PKT_SMALL i, CMAC_OFFSET_STAT_TX_BAD_FCS i, CMAC_OFFSET_STAT_TX_UNICAST i,
    CMAC_OFFSET_STAT_TX_MULTICAST i, CMAC_OFFSET_STAT_TX_BROADCAST i, CMAC_OFFSET_STAT_TX_VLAN i,
    CMAC_OFFSET_STAT_TX_PAUSE i, CMAC_OFFSET_STAT_TX_USER_PAUSE i,
    CMAC_OFFSET_STAT_RX_TOTAL_PKTS i, CMAC_OFFSET_STAT_RX_TOTAL_GOOD_PKTS i,
    CMAC_OFFSET_STAT_RX_TOTAL_BYTES i, CMAC_OFFSET_STAT_RX_TOTAL_GOOD_BYTES i,
    CMAC_OFFSET_STAT_RX_PKT_64_BYTES i, CMAC_OFFSET_STAT_RX_PKT_65_127_BYTES i,
    CMAC_OFFSET_STAT_RX_PKT_128_255_BYTES i, CMAC_OFFSET_STAT_RX_PKT_256_511_BYTES i,
    CMAC_OFFSET_STAT_RX_PKT_512_1023_BYTES i, CMAC_OFFSET_STAT_RX_PKT_1024_1518_BYTES i,
    CMAC_OFFSET_STAT_RX_PKT_1519_1522_BYTES i, CMAC_OFFSET_STAT_RX_PKT_1523_1548_BYTES i,
    CMAC_OFFSET_STAT_RX_PKT_1549_2047_BYTES i, CMAC_OFFSET_STAT_RX_PKT_2048_4095_BYTES i,
    CMAC_OFFSET_STAT_RX_PKT_4096_8191_BYTES i, CMAC_OFFSET_STAT_RX_PKT_8192_9215_BYTES i,
    CMAC_OFFSET_STAT_RX_PKT_LARGE i, CMAC_OFFSET_STAT_RX_PKT_SMALL i,
    CMAC_OFFSET_STAT_RX_UNDERSIZE i, CMAC_OFFSET_STAT_RX_FRAGMENT i,
    CMAC_OFFSET_STAT_RX_OVERSIZE i, CMAC_OFFSET_STAT_RX_TOOLONG i, CMAC_OFFSET_STAT_RX_JABBER i,
    CMAC_OFFSET_STAT_RX_BAD_FCS i, CMAC_OFFSET_STAT_RX_PKT_BAD_FCS i,
    CMAC_OFFSET_STAT_RX_STOMPED_FCS i, CMAC_OFFSET_STAT_RX_UNICAST i,
    CMAC_OFFSET_STAT_RX_MULTICAST i, CMAC_OFFSET_STAT_RX_BROADCAST i, CMAC_OFFSET_STAT_RX_VLAN i,
    CMAC_OFFSET_STAT_RX_PAUSE i, CMAC_OFFSET_STAT_RX_USER_PAUSE i,
    CMAC_OFFSET_STAT_RX_INRANGEERR i, CMAC_OFFSET_STAT_RX_TRUNCATED i,
    CMAC_OFFSET_STAT_OTN_TX_JABBER i, CMAC_OFFSET_STAT_OTN_TX_OVERSIZE i,
    CMAC_OFFSET_STAT_OTN_TX_UNDERSIZE i, CMAC_OFFSET_STAT_OTN_TX_TOOLONG i,
    CMAC_OFFSET_STAT_OTN_TX_FRAGMENT i, CMAC_OFFSET_STAT_OTN_TX_PKT_BAD_FCS i,
    CMAC_OFFSET_STAT_OTN_TX_STOMPED_FCS i, CMAC_OFFSET_STAT_OTN_TX_BAD_CODE i,
    CMAC_OFFSET_RSFEC_CONF_IND_CORRECTION i, CMAC_OFFSET_STAT_RSFEC_STATUS i,
    CMAC_OFFSET_STAT_RX_RSFEC_CORRECTED_CW_INC i, CMAC_OFFSET_STAT_RX_RSFEC_UNCORRECTED_CW_INC i,
    CMAC_OFFSET_STAT_RSFEC_LANE_MAPPING i, CMAC_OFFSET_STAT_RX_RSFEC_ERR_COUNT0_INC i,
    CMAC_OFFSET_STAT_RX_RSFEC_ERR_COUNT1_INC i, CMAC_OFFSET_STAT_RX_RSFEC_ERR_COUNT2_INC i,
    CMAC_OFFSET_STAT_RX_RSFEC_ERR_COUNT3_INC i, CMAC_OFFSET_STAT_RX_RSFEC_CW_INC i,
    CMAC_OFFSET_STAT_TX_OTN_RSFEC_STATUS i, CMAC_OFFSET_RSFEC_CONF_ENABLE i
  ]"

definition adpt_regs :: "int \<Rightarrow> u32 list" where
  "adpt_regs i = [
    CMAC_ADPT_OFFSET_TX_PKT_RECV i, CMAC_ADPT_OFFSET_TX_PKT_DROP i,
    CMAC_ADPT_OFFSET_RX_PKT_RECV i, CMAC_ADPT_OFFSET_RX_PKT_DROP i,
    CMAC_ADPT_OFFSET_RX_PKT_ERROR i
  ]"

text \<open>The offsets of a CMAC's registers in its window, in ascending order.\<close>

definition cmac_offs :: "nat list" where
  "cmac_offs = [
    0x0, 0x4, 0x8, 0xc, 0x14, 0x20, 0x24, 0x2c, 0x30, 0x34, 0x38, 0x3c, 0x40, 0x44, 0x48, 0x4c,
    0x50, 0x54, 0x58, 0x5c, 0x60, 0x84, 0x88, 0x90, 0xa0, 0xa4, 0xa8, 0xac, 0xb0, 0xb4, 0xb8,
    0xbc, 0xc0, 0xc4, 0xc8, 0xcc, 0x200, 0x204, 0x208, 0x20c, 0x210, 0x214, 0x218, 0x21c, 0x220,
    0x224, 0x228, 0x22c, 0x230, 0x234, 0x238, 0x23c, 0x258, 0x25c, 0x260, 0x264, 0x268, 0x26c,
    0x270, 0x274, 0x278, 0x27c, 0x2b0, 0x2b8, 0x2c0, 0x2c8, 0x2d0, 0x2d8, 0x2e0, 0x2e8, 0x2f0,
    0x2f8, 0x300, 0x308, 0x310, 0x318, 0x320, 0x328, 0x330, 0x338, 0x340, 0x348, 0x350, 0x358,
    0x360, 0x368, 0x370, 0x378, 0x380, 0x388, 0x390, 0x398, 0x3a0, 0x3a8, 0x3b0, 0x3b8, 0x3c0,
    0x3c8, 0x3d0, 0x3d8, 0x3e0, 0x3e8, 0x3f0, 0x3f8, 0x418, 0x458, 0x500, 0x508, 0x510, 0x518,
    0x520, 0x528, 0x530, 0x538, 0x540, 0x548, 0x550, 0x558, 0x560, 0x568, 0x570, 0x578, 0x580,
    0x588, 0x5b8, 0x5d0, 0x5d8, 0x5e0, 0x5e8, 0x5f0, 0x5f8, 0x608, 0x610, 0x618, 0x620, 0x628,
    0x630, 0x638, 0x640, 0x648, 0x650, 0x658, 0x660, 0x668, 0x670, 0x678, 0x680, 0x688, 0x690,
    0x698, 0x6a0, 0x6a8, 0x6b0, 0x6b8, 0x6c0, 0x6c8, 0x6d0, 0x6d8, 0x6e0, 0x6e8, 0x6f0, 0x6f8,
    0x700, 0x708, 0x710, 0x718, 0x720, 0x728, 0x730, 0x738, 0x740, 0x748, 0x750, 0x1000, 0x1004,
    0x1008, 0x1010, 0x1018, 0x101c, 0x1024, 0x102c, 0x1034, 0x103c, 0x1044, 0x107c
  ]"

fun ascending :: "nat list \<Rightarrow> bool" where
  "ascending (x # y # zs) = (x < y \<and> ascending (y # zs))"
| "ascending _ = True"

lemma ascending_sorted: "ascending xs \<Longrightarrow> sorted_wrt (<) xs"
proof (induction xs rule: ascending.induct)
  case (1 x y zs)
  then show ?case by (auto intro: less_trans)
qed simp_all

lemma sorted_wrt_less_distinct: "sorted_wrt (<) (xs :: nat list) \<Longrightarrow> distinct xs"
  by (induction xs) auto

lemma cmac_regs_unat:
  "map unat (cmac_regs i) = map (\<lambda>off. (if i = 0 then 0x8000 else 0xC000) + off) cmac_offs"
  by (simp add: cmac_regs_def cmac_offs_def reg_defs)

lemma adpt_regs_unat:
  "map unat (adpt_regs i) =
   map (\<lambda>off. (if i = 0 then 0xB000 else 0xF000) + off) [0, 0x10, 0x20, 0x30, 0x40]"
  by (simp add: adpt_regs_def reg_defs)

lemma syscfg_regs_unat: "map unat syscfg_regs = [0, 4, 8, 0xC, 0x10, 0x14, 0x18]"
  by (simp add: syscfg_regs_def reg_defs)

lemma cmac_offs_ascending: "ascending cmac_offs"
  by (simp add: cmac_offs_def)

lemma cmac_offs_bound: "off \<in> set cmac_offs \<Longrightarrow> off \<le> 0x107C"
  by (auto simp: cmac_offs_def)

lemma cmac_offs_aligned: "off \<in> set cmac_offs \<Longrightarrow> 4 dvd off"
  by (auto simp: cmac_offs_def)

text \<open>
  Every register of the map, in the order of the windows.
\<close>

definition all_regs :: "u32 list" where
  "all_regs = syscfg_regs @ cmac_regs 0 @ adpt_regs 0 @ cmac_regs 1 @ adpt_regs 1"

lemma all_regs_sorted: "sorted_wrt (<) (map unat all_regs)"
proof -
  have "sorted_wrt (<) (map ((+) k) cmac_offs)" for k :: nat
    using ascending_sorted [OF cmac_offs_ascending] by (simp add: sorted_wrt_map)
  then show ?thesis
    by (auto simp: all_regs_def cmac_regs_unat adpt_regs_unat syscfg_regs_unat sorted_wrt_append
        dest: cmac_offs_bound)
qed

lemma all_regs_in_shell:
  assumes "r \<in> set all_regs"
  shows "unat r \<le> 0xF040 \<and> 4 dvd unat r"
proof -
  have "\<forall>n \<in> set (map unat all_regs). n \<le> 0xF040 \<and> 4 dvd n"
    unfolding all_regs_def map_append cmac_regs_unat adpt_regs_unat syscfg_regs_unat
    using cmac_offs_bound cmac_offs_aligned by (auto intro!: dvd_add) fastforce+
  with assms show ?thesis by simp
qed

section \<open>Fields of a register\<close>

text \<open>
  \<open>get_trailing_zeros\<close> and \<open>GENMASK\<close> are not in the repository; they are arguments.  The macros
  compute in 64 bits.
\<close>

unbundle bit_operations_syntax

definition FIELD_SHIFT :: "(u64 \<Rightarrow> nat) \<Rightarrow> u64 \<Rightarrow> nat" where
  "FIELD_SHIFT get_trailing_zeros m = get_trailing_zeros m"

definition FIELD_SET :: "(u64 \<Rightarrow> nat) \<Rightarrow> u64 \<Rightarrow> u64 \<Rightarrow> u64" where
  "FIELD_SET get_trailing_zeros m val = push_bit (FIELD_SHIFT get_trailing_zeros m) val AND m"

definition BITFIELD_GET :: "(u64 \<Rightarrow> nat) \<Rightarrow> u64 \<Rightarrow> u64 \<Rightarrow> u64" where
  "BITFIELD_GET get_trailing_zeros m reg = drop_bit (FIELD_SHIFT get_trailing_zeros m) (reg AND m)"

definition QDMA_FUNC_QCONF_QBASE_MASK :: "(nat \<Rightarrow> nat \<Rightarrow> u64) \<Rightarrow> u64" where
  "QDMA_FUNC_QCONF_QBASE_MASK GENMASK = GENMASK 31 16"

definition QDMA_FUNC_QCONF_NUMQ_MASK :: "(nat \<Rightarrow> nat \<Rightarrow> u64) \<Rightarrow> u64" where
  "QDMA_FUNC_QCONF_NUMQ_MASK GENMASK = GENMASK 15 0"

definition INDIRECTION_TABLE_BASE_ADDR :: u32 where
  "INDIRECTION_TABLE_BASE_ADDR = QDMA_FUNC_OFFSET_INDIR_TABLE 0 0"

definition INDIRECTION_TABLE_SIZE :: u32 where "INDIRECTION_TABLE_SIZE = 0x80"
definition ONIC_EN_RSS_KEY_SIZE :: u32 where "ONIC_EN_RSS_KEY_SIZE = 40"

text \<open>
  The two fields of the queue configuration register: a value of 16 bits put in one comes back
  from it and leaves the other alone, when \<open>GENMASK h l\<close> holds the bits \<open>l\<close> to \<open>h\<close> and
  \<open>get_trailing_zeros\<close> counts the zeros below the lowest bit.
\<close>

lemma low_bits: "v < 2 ^ n \<Longrightarrow> bit v i \<Longrightarrow> i < n" for v :: u64
  by (metis bit_take_bit_iff less_mask_eq take_bit_eq_mask)

theorem qconf_fields:
  assumes GENMASK: "\<And>h l. GENMASK h l = push_bit l (mask (Suc h - l) :: u64)"
    and gtz: "\<And>h l. l \<le> h \<Longrightarrow> h < 64 \<Longrightarrow> get_trailing_zeros (GENMASK h l) = l"
    and "base < 2 ^ 16" and "numq < 2 ^ 16"
  shows "let r = FIELD_SET get_trailing_zeros (QDMA_FUNC_QCONF_QBASE_MASK GENMASK) base OR
           FIELD_SET get_trailing_zeros (QDMA_FUNC_QCONF_NUMQ_MASK GENMASK) numq
    in BITFIELD_GET get_trailing_zeros (QDMA_FUNC_QCONF_QBASE_MASK GENMASK) r = base \<and>
       BITFIELD_GET get_trailing_zeros (QDMA_FUNC_QCONF_NUMQ_MASK GENMASK) r = numq"
proof -
  have "bit base i \<Longrightarrow> i < 16" "bit base i \<Longrightarrow> i < 48" "bit numq i \<Longrightarrow> i < 16" for i
    using low_bits [OF assms(3)] low_bits [OF assms(4)] by fastforce+
  moreover have "get_trailing_zeros (push_bit 16 (mask 16)) = 16" "get_trailing_zeros (mask 16) = 0"
    using gtz [of 16 31] gtz [of 0 15] by (simp_all add: GENMASK)
  ultimately show ?thesis
    by (auto simp: Let_def FIELD_SET_def BITFIELD_GET_def FIELD_SHIFT_def QDMA_FUNC_QCONF_QBASE_MASK_def
        QDMA_FUNC_QCONF_NUMQ_MASK_def GENMASK bit_simps intro!: bit_word_eqI)
qed

definition ctz :: "u64 \<Rightarrow> nat" where
  "ctz m = length (takeWhile (\<lambda>i. \<not> bit m i) [0..<64])"

lemma ctz_mask:
  assumes "l \<le> h" and "h < 64"
  shows "ctz (push_bit l (mask (Suc h - l))) = l"
proof -
  have "[0..<64] = [0..<l] @ l # [Suc l..<64]"
    using assms upt_add_eq_append [of 0 l "64 - l"] upt_conv_Cons [of l 64] by simp
  moreover have "takeWhile P ([0..<l] @ l # xs) = [0..<l]" if "\<And>i. i < l \<Longrightarrow> P i" and "\<not> P l" for P and xs :: "nat list"
    using that by (subst takeWhile_append2) auto
  ultimately show ?thesis using assms by (simp add: ctz_def bit_simps)
qed

theorem qconf_fields_witness:
  "BITFIELD_GET ctz (QDMA_FUNC_QCONF_NUMQ_MASK (\<lambda>h l. push_bit l (mask (Suc h - l))))
     (FIELD_SET ctz (QDMA_FUNC_QCONF_QBASE_MASK (\<lambda>h l. push_bit l (mask (Suc h - l)))) 64 OR
      FIELD_SET ctz (QDMA_FUNC_QCONF_NUMQ_MASK (\<lambda>h l. push_bit l (mask (Suc h - l)))) 3) = 3"
  using qconf_fields [of "\<lambda>h l. push_bit l (mask (Suc h - l))" ctz 64 3] ctz_mask
  unfolding Let_def by simp

end
