(* ===== verification/QdmaRegs.thy ===== *)
theory QdmaRegs
  imports Prelude
begin

text \<open>
  The registers and contexts of the QDMA core: \<open>server/src/qdma_regs.h\<close>.  \<open>commands.c\<close> includes
  the file, and no source uses what it declares.  A macro is a definition of its name, an
  offset or a mask being a 32-bit word and the number of a bit a \<open>nat\<close>.  A context is the
  union of an array of words and a packed structure of bit fields: the memory is the array, and
  each structure is a record with a function that reads it from the array and one that stores
  it.  Packed bit fields lie one after the other from the low bits of the first word on, as gcc
  puts them on the x86 host; a store leaves the bits behind the last field alone.
\<close>

section \<open>Registers\<close>

definition QDMA_TRQ_SEL_GLBL :: u32 where "QDMA_TRQ_SEL_GLBL = 0x00000200"
definition QDMA_TRQ_SEL_FMAP :: u32 where "QDMA_TRQ_SEL_FMAP = 0x00000400"
definition QDMA_TRQ_SEL_IND :: u32 where "QDMA_TRQ_SEL_IND = 0x00000800"
definition QDMA_TRQ_SEL_C2H :: u32 where "QDMA_TRQ_SEL_C2H = 0x00000A00"
definition QDMA_TRQ_SEL_H2H :: u32 where "QDMA_TRQ_SEL_H2H = 0x00000E00"
definition QDMA_TRQ_SEL_C2H_MM0 :: u32 where "QDMA_TRQ_SEL_C2H_MM0 = 0x00001000"
definition QDMA_TRQ_SEL_H2C_MM0 :: u32 where "QDMA_TRQ_SEL_H2C_MM0 = 0x00001200"
definition QDMA_TRQ_SEL_QUEUE_PF :: u32 where "QDMA_TRQ_SEL_QUEUE_PF = 0x00006400"
definition QDMA_CONFIG_BLOCK_ID :: u64 where "QDMA_CONFIG_BLOCK_ID = 0x1fd00000"
definition QDMA_GLBL_RING_SZ :: u32 where "QDMA_GLBL_RING_SZ = 0x04"
definition QDMA_GLBL_SCRATCH :: u32 where "QDMA_GLBL_SCRATCH = 0x44"
definition QDMA_GLBL_WB_ACC :: u32 where "QDMA_GLBL_WB_ACC = 0x50"
definition QDMA_RING_SZ_MSK :: u32 where "QDMA_RING_SZ_MSK = 0x0000ffff"
definition QDMA_WB_ACC_MSK :: u32 where "QDMA_WB_ACC_MSK = 0x00000007"
definition QID_BASE_MSK :: u32 where "QID_BASE_MSK = 0x000007ff"
definition QID_MAX_MSK :: u32 where "QID_MAX_MSK = 0x003ff800"
definition QID_MAX_SHIFT_B :: nat where "QID_MAX_SHIFT_B = 11"
definition QDMA_IND_Q_PRG_OFF :: u32 where "QDMA_IND_Q_PRG_OFF = 0x4"
definition QDMA_CNTXT_CMD_RD :: u32 where "QDMA_CNTXT_CMD_RD = 2"
definition QDMA_CNTXT_SEL_DESC_SW_C2H :: u32 where "QDMA_CNTXT_SEL_DESC_SW_C2H = 0"
definition QDMA_CNTXT_SEL_DESC_SW_H2C :: u32 where "QDMA_CNTXT_SEL_DESC_SW_H2C = 1"
definition QDMA_CNTXT_SEL_DESC_HW_C2H :: u32 where "QDMA_CNTXT_SEL_DESC_HW_C2H = 2"
definition QDMA_CNTXT_SEL_DESC_HW_H2C :: u32 where "QDMA_CNTXT_SEL_DESC_HW_H2C = 3"
definition QDMA_CNTXT_SEL_DESC_CMPT :: u32 where "QDMA_CNTXT_SEL_DESC_CMPT = 6"
definition QDMA_CNTXT_SEL_PFTCH :: u32 where "QDMA_CNTXT_SEL_PFTCH = 7"
definition QID_SHIFT_B :: nat where "QID_SHIFT_B = 7"
definition OP_CODE_SHIFT_B :: nat where "OP_CODE_SHIFT_B = 5"
definition CTXT_SEL_SHIFT_B :: nat where "CTXT_SEL_SHIFT_B = 1"
definition BUSY_BIT_MSK :: u32 where "BUSY_BIT_MSK = 1"
definition WB_EN_SHIFT_B :: nat where "WB_EN_SHIFT_B = 20"
definition MM_CHAN_SHIFT_B :: nat where "MM_CHAN_SHIFT_B = 19"
definition MM_DESC_SZ_SHIFT_B :: nat where "MM_DESC_SZ_SHIFT_B = 17"
definition ST_H2C_DESC_SZ_SHIFT_B :: nat where "ST_H2C_DESC_SZ_SHIFT_B = 16"
definition DESC_RING_SZ_SHIFT_B :: nat where "DESC_RING_SZ_SHIFT_B = 12"
definition MM_DESC_SZ_WB_SHIFT_B :: nat where "MM_DESC_SZ_WB_SHIFT_B = 29"
definition C2H_WB_CTXT_V_SHIFT_B :: nat where "C2H_WB_CTXT_V_SHIFT_B = 24"
definition QDMA_C2H_CNT_TH_BASE :: u32 where "QDMA_C2H_CNT_TH_BASE = 0x40"
definition QDMA_C2H_BUF_SZ_BASE :: u32 where "QDMA_C2H_BUF_SZ_BASE = 0xB0"
definition QDMA_H2C_PIDX_Q_OFF :: u32 where "QDMA_H2C_PIDX_Q_OFF = 0x04"
definition QDMA_C2H_PIDX_Q_OFF :: u32 where "QDMA_C2H_PIDX_Q_OFF = 0x08"
definition QDMA_SEL_CMPT_CIDX_Q_OFF :: u32 where "QDMA_SEL_CMPT_CIDX_Q_OFF = 0x0c"
definition QDMA_C2H_MM0_CONTROL :: u32 where "QDMA_C2H_MM0_CONTROL = 0x00000004"
definition QDMA_H2C_MM0_CONTROL :: u32 where "QDMA_H2C_MM0_CONTROL = 0x00000004"
definition QDMA_MM_CTRL_START :: u32 where "QDMA_MM_CTRL_START = 1"
definition QDMA_DESC_SOP :: u32 where "QDMA_DESC_SOP = 0x1"
definition QDMA_DESC_EOP :: u32 where "QDMA_DESC_EOP = 0x1"
definition QDMA_DESC_VALID :: u32 where "QDMA_DESC_VALID = 0x1"
definition PIDX_MSK :: nat where "PIDX_MSK = 0"
definition Q_STATUS_MSK :: nat where "Q_STATUS_MSK = 0"
definition Q_STATUS_EN_MSK :: nat where "Q_STATUS_EN_MSK = 3"
definition Q_STATUS_RST_MSK :: nat where "Q_STATUS_RST_MSK = 1"
definition WBI_CHK_MSK :: nat where "WBI_CHK_MSK = 6"
definition WBI_ACC_EN_MSK :: nat where "WBI_ACC_EN_MSK = 7"
definition FUNC_ID_MSK :: nat where "FUNC_ID_MSK = 8"
definition RING_SZ_MSK :: nat where "RING_SZ_MSK = 16"
definition DESC_SZ_MSK :: nat where "DESC_SZ_MSK = 16"

section \<open>Bit fields in an array of words\<close>

definition bits :: "'a::len word \<Rightarrow> bool list" where
  "bits w = map (bit w) [0..<LENGTH('a)]"

definition of_bits :: "bool list \<Rightarrow> 'a::len word" where
  "of_bits bs = horner_sum of_bool 2 bs"

definition memory :: "u32 list \<Rightarrow> bool list" where
  "memory ds = concat (map bits ds)"

fun words_of :: "bool list \<Rightarrow> u32 list" where
  "words_of [] = []"
| "words_of (b # bs) = of_bits (take 32 (b # bs)) # words_of (drop 32 (b # bs))"

text \<open>The field of the width of its type at bit \<open>k\<close>, and the store of the first bits.\<close>

definition field :: "bool list \<Rightarrow> nat \<Rightarrow> 'a::len word" where
  "field m k = of_bits (take LENGTH('a) (drop k m))"

definition overlay :: "bool list \<Rightarrow> u32 list \<Rightarrow> u32 list" where
  "overlay bs ds = words_of (bs @ drop (length bs) (memory ds))"

text \<open>Where the field of a name starts, from the names and widths of the fields in their order.\<close>

primrec offset :: "(string \<times> nat) list \<Rightarrow> string \<Rightarrow> nat" where
  "offset [] n = 0"
| "offset (f # fs) n = (if fst f = n then 0 else snd f + offset fs n)"

definition layout_bits :: "(string \<times> nat) list \<Rightarrow> nat" where
  "layout_bits fs = sum_list (map snd fs)"

section \<open>The contexts\<close>

record q_ind_prg =
  ctxt_data :: "u32 list"
  ctxt_mask :: "u32 list"
  ctxt_cmd :: u32

text \<open>\<open>union h2c_c2h_ctxt\<close>, 5 words.\<close>

record ctxt_fields =
  pidx :: "16 word"
  irq_ack :: "1 word"
  fnc_id :: "8 word"
  rsv0 :: "7 word"
  qen :: "1 word"
  fcrd_en :: "1 word"
  wbi_chk :: "1 word"
  wbi_acc_en :: "1 word"
  at :: "1 word"
  fetch_max :: "3 word"
  rsv1 :: "4 word"
  rng_sz :: "4 word"
  dsc_sz :: "2 word"
  byp :: "1 word"
  mm_chn :: "1 word"
  wbk_en :: "1 word"
  irq_en :: "1 word"
  port_id :: "3 word"
  irq_no_last :: "1 word"
  err :: "2 word"
  err_wb_sent :: "1 word"
  irq_req :: "1 word"
  mrkr_dis :: "1 word"
  is_mm :: "1 word"
  dsc_base :: "64 word"
  int_vec :: "11 word"
  int_aggr :: "1 word"

definition h2c_c2h_ctxt_layout :: "(string \<times> nat) list" where
  "h2c_c2h_ctxt_layout =
     [(''pidx'', 16), (''irq_ack'', 1), (''fnc_id'', 8), (''rsv0'', 7), (''qen'', 1),
      (''fcrd_en'', 1), (''wbi_chk'', 1), (''wbi_acc_en'', 1), (''at'', 1), (''fetch_max'', 3),
      (''rsv1'', 4), (''rng_sz'', 4), (''dsc_sz'', 2), (''byp'', 1), (''mm_chn'', 1),
      (''wbk_en'', 1), (''irq_en'', 1), (''port_id'', 3), (''irq_no_last'', 1), (''err'', 2),
      (''err_wb_sent'', 1), (''irq_req'', 1), (''mrkr_dis'', 1), (''is_mm'', 1), (''dsc_base'', 64),
      (''int_vec'', 11), (''int_aggr'', 1)]"

definition h2c_c2h_ctxt_data :: nat where "h2c_c2h_ctxt_data = 5"

definition view_h2c_c2h_ctxt :: "bool list \<Rightarrow> ctxt_fields" where
  "view_h2c_c2h_ctxt m =
     (let k = offset h2c_c2h_ctxt_layout in
      \<lparr>ctxt_fields.pidx = field m (k ''pidx''), ctxt_fields.irq_ack = field m (k ''irq_ack''),
       ctxt_fields.fnc_id = field m (k ''fnc_id''), ctxt_fields.rsv0 = field m (k ''rsv0''),
       ctxt_fields.qen = field m (k ''qen''), ctxt_fields.fcrd_en = field m (k ''fcrd_en''),
       ctxt_fields.wbi_chk = field m (k ''wbi_chk''), ctxt_fields.wbi_acc_en = field m (k ''wbi_acc_en''),
       ctxt_fields.at = field m (k ''at''), ctxt_fields.fetch_max = field m (k ''fetch_max''),
       ctxt_fields.rsv1 = field m (k ''rsv1''), ctxt_fields.rng_sz = field m (k ''rng_sz''),
       ctxt_fields.dsc_sz = field m (k ''dsc_sz''), ctxt_fields.byp = field m (k ''byp''),
       ctxt_fields.mm_chn = field m (k ''mm_chn''), ctxt_fields.wbk_en = field m (k ''wbk_en''),
       ctxt_fields.irq_en = field m (k ''irq_en''), ctxt_fields.port_id = field m (k ''port_id''),
       ctxt_fields.irq_no_last = field m (k ''irq_no_last''), ctxt_fields.err = field m (k ''err''),
       ctxt_fields.err_wb_sent = field m (k ''err_wb_sent''), ctxt_fields.irq_req = field m (k ''irq_req''),
       ctxt_fields.mrkr_dis = field m (k ''mrkr_dis''), ctxt_fields.is_mm = field m (k ''is_mm''),
       ctxt_fields.dsc_base = field m (k ''dsc_base''), ctxt_fields.int_vec = field m (k ''int_vec''),
       ctxt_fields.int_aggr = field m (k ''int_aggr'')\<rparr>)"

definition h2c_c2h_ctxt_image :: "ctxt_fields \<Rightarrow> bool list" where
  "h2c_c2h_ctxt_image c =
     bits (ctxt_fields.pidx c) @ bits (ctxt_fields.irq_ack c) @ bits (ctxt_fields.fnc_id c) @
     bits (ctxt_fields.rsv0 c) @ bits (ctxt_fields.qen c) @ bits (ctxt_fields.fcrd_en c) @
     bits (ctxt_fields.wbi_chk c) @ bits (ctxt_fields.wbi_acc_en c) @ bits (ctxt_fields.at c) @
     bits (ctxt_fields.fetch_max c) @ bits (ctxt_fields.rsv1 c) @ bits (ctxt_fields.rng_sz c) @
     bits (ctxt_fields.dsc_sz c) @ bits (ctxt_fields.byp c) @ bits (ctxt_fields.mm_chn c) @
     bits (ctxt_fields.wbk_en c) @ bits (ctxt_fields.irq_en c) @ bits (ctxt_fields.port_id c) @
     bits (ctxt_fields.irq_no_last c) @ bits (ctxt_fields.err c) @ bits (ctxt_fields.err_wb_sent c) @
     bits (ctxt_fields.irq_req c) @ bits (ctxt_fields.mrkr_dis c) @ bits (ctxt_fields.is_mm c) @
     bits (ctxt_fields.dsc_base c) @ bits (ctxt_fields.int_vec c) @ bits (ctxt_fields.int_aggr c)"

definition read_h2c_c2h_ctxt :: "u32 list \<Rightarrow> ctxt_fields" where
  "read_h2c_c2h_ctxt ds = view_h2c_c2h_ctxt (memory ds)"

definition store_h2c_c2h_ctxt :: "ctxt_fields \<Rightarrow> u32 list \<Rightarrow> u32 list" where
  "store_h2c_c2h_ctxt c ds = overlay (h2c_c2h_ctxt_image c) ds"

text \<open>\<open>union c2h_cmpt_ctxt\<close>, 5 words.\<close>

record c2h_cmpt_fields =
  en_stat_desc :: "1 word"
  en_int :: "1 word"
  trig_mode :: "3 word"
  fnc_id :: "12 word"
  count_idx :: "4 word"
  timer_idx :: "4 word"
  int_st :: "2 word"
  color :: "1 word"
  size :: "4 word"
  cmpt_dsc_base_l :: "32 word"
  cmpt_dsc_base_h :: "26 word"
  desc_sz :: "2 word"
  pidx :: "16 word"
  cidx :: "16 word"
  valid :: "1 word"
  err :: "2 word"
  usr_trig_pend :: "1 word"
  timer_run :: "1 word"
  full_upd :: "1 word"
  ovf_chk_dis :: "1 word"
  at :: "1 word"

definition c2h_cmpt_ctxt_layout :: "(string \<times> nat) list" where
  "c2h_cmpt_ctxt_layout =
     [(''en_stat_desc'', 1), (''en_int'', 1), (''trig_mode'', 3), (''fnc_id'', 12), (''count_idx'', 4),
      (''timer_idx'', 4), (''int_st'', 2), (''color'', 1), (''size'', 4), (''cmpt_dsc_base_l'', 32),
      (''cmpt_dsc_base_h'', 26), (''desc_sz'', 2), (''pidx'', 16), (''cidx'', 16), (''valid'', 1),
      (''err'', 2), (''usr_trig_pend'', 1), (''timer_run'', 1), (''full_upd'', 1), (''ovf_chk_dis'', 1),
      (''at'', 1)]"

definition c2h_cmpt_ctxt_data :: nat where "c2h_cmpt_ctxt_data = 5"

definition view_c2h_cmpt_ctxt :: "bool list \<Rightarrow> c2h_cmpt_fields" where
  "view_c2h_cmpt_ctxt m =
     (let k = offset c2h_cmpt_ctxt_layout in
      \<lparr>c2h_cmpt_fields.en_stat_desc = field m (k ''en_stat_desc''), c2h_cmpt_fields.en_int = field m (k ''en_int''),
       c2h_cmpt_fields.trig_mode = field m (k ''trig_mode''), c2h_cmpt_fields.fnc_id = field m (k ''fnc_id''),
       c2h_cmpt_fields.count_idx = field m (k ''count_idx''), c2h_cmpt_fields.timer_idx = field m (k ''timer_idx''),
       c2h_cmpt_fields.int_st = field m (k ''int_st''), c2h_cmpt_fields.color = field m (k ''color''),
       c2h_cmpt_fields.size = field m (k ''size''), c2h_cmpt_fields.cmpt_dsc_base_l = field m (k ''cmpt_dsc_base_l''),
       c2h_cmpt_fields.cmpt_dsc_base_h = field m (k ''cmpt_dsc_base_h''), c2h_cmpt_fields.desc_sz = field m (k ''desc_sz''),
       c2h_cmpt_fields.pidx = field m (k ''pidx''), c2h_cmpt_fields.cidx = field m (k ''cidx''),
       c2h_cmpt_fields.valid = field m (k ''valid''), c2h_cmpt_fields.err = field m (k ''err''),
       c2h_cmpt_fields.usr_trig_pend = field m (k ''usr_trig_pend''), c2h_cmpt_fields.timer_run = field m (k ''timer_run''),
       c2h_cmpt_fields.full_upd = field m (k ''full_upd''), c2h_cmpt_fields.ovf_chk_dis = field m (k ''ovf_chk_dis''),
       c2h_cmpt_fields.at = field m (k ''at'')\<rparr>)"

definition c2h_cmpt_ctxt_image :: "c2h_cmpt_fields \<Rightarrow> bool list" where
  "c2h_cmpt_ctxt_image c =
     bits (c2h_cmpt_fields.en_stat_desc c) @ bits (c2h_cmpt_fields.en_int c) @ bits (c2h_cmpt_fields.trig_mode c) @
     bits (c2h_cmpt_fields.fnc_id c) @ bits (c2h_cmpt_fields.count_idx c) @ bits (c2h_cmpt_fields.timer_idx c) @
     bits (c2h_cmpt_fields.int_st c) @ bits (c2h_cmpt_fields.color c) @ bits (c2h_cmpt_fields.size c) @
     bits (c2h_cmpt_fields.cmpt_dsc_base_l c) @ bits (c2h_cmpt_fields.cmpt_dsc_base_h c) @ bits (c2h_cmpt_fields.desc_sz c) @
     bits (c2h_cmpt_fields.pidx c) @ bits (c2h_cmpt_fields.cidx c) @ bits (c2h_cmpt_fields.valid c) @
     bits (c2h_cmpt_fields.err c) @ bits (c2h_cmpt_fields.usr_trig_pend c) @ bits (c2h_cmpt_fields.timer_run c) @
     bits (c2h_cmpt_fields.full_upd c) @ bits (c2h_cmpt_fields.ovf_chk_dis c) @ bits (c2h_cmpt_fields.at c)"

definition read_c2h_cmpt_ctxt :: "u32 list \<Rightarrow> c2h_cmpt_fields" where
  "read_c2h_cmpt_ctxt ds = view_c2h_cmpt_ctxt (memory ds)"

definition store_c2h_cmpt_ctxt :: "c2h_cmpt_fields \<Rightarrow> u32 list \<Rightarrow> u32 list" where
  "store_c2h_cmpt_ctxt c ds = overlay (c2h_cmpt_ctxt_image c) ds"

text \<open>\<open>union h2c_c2h_hw_ctxt\<close>, 2 words.\<close>

record hw_ctxt_fields =
  cidx :: "16 word"
  crd_use :: "16 word"
  rsvd0 :: "8 word"
  pnd :: "1 word"
  idl_stp_b :: "1 word"
  event_pend :: "1 word"
  fetch_pend :: "4 word"
  rsvd1 :: "1 word"

definition h2c_c2h_hw_ctxt_layout :: "(string \<times> nat) list" where
  "h2c_c2h_hw_ctxt_layout =
     [(''cidx'', 16), (''crd_use'', 16), (''rsvd0'', 8), (''pnd'', 1), (''idl_stp_b'', 1),
      (''event_pend'', 1), (''fetch_pend'', 4), (''rsvd1'', 1)]"

definition h2c_c2h_hw_ctxt_data :: nat where "h2c_c2h_hw_ctxt_data = 2"

definition view_h2c_c2h_hw_ctxt :: "bool list \<Rightarrow> hw_ctxt_fields" where
  "view_h2c_c2h_hw_ctxt m =
     (let k = offset h2c_c2h_hw_ctxt_layout in
      \<lparr>hw_ctxt_fields.cidx = field m (k ''cidx''), hw_ctxt_fields.crd_use = field m (k ''crd_use''),
       hw_ctxt_fields.rsvd0 = field m (k ''rsvd0''), hw_ctxt_fields.pnd = field m (k ''pnd''),
       hw_ctxt_fields.idl_stp_b = field m (k ''idl_stp_b''), hw_ctxt_fields.event_pend = field m (k ''event_pend''),
       hw_ctxt_fields.fetch_pend = field m (k ''fetch_pend''), hw_ctxt_fields.rsvd1 = field m (k ''rsvd1'')\<rparr>)"

definition h2c_c2h_hw_ctxt_image :: "hw_ctxt_fields \<Rightarrow> bool list" where
  "h2c_c2h_hw_ctxt_image c =
     bits (hw_ctxt_fields.cidx c) @ bits (hw_ctxt_fields.crd_use c) @ bits (hw_ctxt_fields.rsvd0 c) @
     bits (hw_ctxt_fields.pnd c) @ bits (hw_ctxt_fields.idl_stp_b c) @ bits (hw_ctxt_fields.event_pend c) @
     bits (hw_ctxt_fields.fetch_pend c) @ bits (hw_ctxt_fields.rsvd1 c)"

definition read_h2c_c2h_hw_ctxt :: "u32 list \<Rightarrow> hw_ctxt_fields" where
  "read_h2c_c2h_hw_ctxt ds = view_h2c_c2h_hw_ctxt (memory ds)"

definition store_h2c_c2h_hw_ctxt :: "hw_ctxt_fields \<Rightarrow> u32 list \<Rightarrow> u32 list" where
  "store_h2c_c2h_hw_ctxt c ds = overlay (h2c_c2h_hw_ctxt_image c) ds"

text \<open>\<open>union prefetch_ctxt\<close>, 2 words.\<close>

record pref_ctxt_fields =
  bypass :: "1 word"
  buf_sz_idx :: "4 word"
  port_id :: "3 word"
  rsvd :: "18 word"
  err :: "1 word"
  pfch_en :: "1 word"
  pfch :: "1 word"
  sw_crdt :: "16 word"
  valid :: "1 word"

definition prefetch_ctxt_layout :: "(string \<times> nat) list" where
  "prefetch_ctxt_layout =
     [(''bypass'', 1), (''buf_sz_idx'', 4), (''port_id'', 3), (''rsvd'', 18), (''err'', 1),
      (''pfch_en'', 1), (''pfch'', 1), (''sw_crdt'', 16), (''valid'', 1)]"

definition prefetch_ctxt_data :: nat where "prefetch_ctxt_data = 2"

definition view_prefetch_ctxt :: "bool list \<Rightarrow> pref_ctxt_fields" where
  "view_prefetch_ctxt m =
     (let k = offset prefetch_ctxt_layout in
      \<lparr>pref_ctxt_fields.bypass = field m (k ''bypass''), pref_ctxt_fields.buf_sz_idx = field m (k ''buf_sz_idx''),
       pref_ctxt_fields.port_id = field m (k ''port_id''), pref_ctxt_fields.rsvd = field m (k ''rsvd''),
       pref_ctxt_fields.err = field m (k ''err''), pref_ctxt_fields.pfch_en = field m (k ''pfch_en''),
       pref_ctxt_fields.pfch = field m (k ''pfch''), pref_ctxt_fields.sw_crdt = field m (k ''sw_crdt''),
       pref_ctxt_fields.valid = field m (k ''valid'')\<rparr>)"

definition prefetch_ctxt_image :: "pref_ctxt_fields \<Rightarrow> bool list" where
  "prefetch_ctxt_image c =
     bits (pref_ctxt_fields.bypass c) @ bits (pref_ctxt_fields.buf_sz_idx c) @ bits (pref_ctxt_fields.port_id c) @
     bits (pref_ctxt_fields.rsvd c) @ bits (pref_ctxt_fields.err c) @ bits (pref_ctxt_fields.pfch_en c) @
     bits (pref_ctxt_fields.pfch c) @ bits (pref_ctxt_fields.sw_crdt c) @ bits (pref_ctxt_fields.valid c)"

definition read_prefetch_ctxt :: "u32 list \<Rightarrow> pref_ctxt_fields" where
  "read_prefetch_ctxt ds = view_prefetch_ctxt (memory ds)"

definition store_prefetch_ctxt :: "pref_ctxt_fields \<Rightarrow> u32 list \<Rightarrow> u32 list" where
  "store_prefetch_ctxt c ds = overlay (prefetch_ctxt_image c) ds"


section \<open>Bits and words\<close>

lemma length_bits [simp]: "length (bits (w :: 'a::len word)) = LENGTH('a)"
  by (simp add: bits_def)

lemma of_bits_bits [simp]: "of_bits (bits w) = w"
  by (rule bit_word_eqI) (simp add: of_bits_def bits_def bit_horner_sum_bit_word_iff)

lemma bits_of_bits: "length bs = LENGTH('a::len) \<Longrightarrow> bits (of_bits bs :: 'a word) = bs"
  by (rule nth_equalityI) (simp_all add: of_bits_def bits_def bit_horner_sum_bit_word_iff)

lemma field_here [simp]: "field (bits w @ m) 0 = w" "field (bits w) 0 = w"
  by (simp_all add: field_def)

lemma field_behind [simp]:
  "LENGTH('b::len) \<le> k \<Longrightarrow> field (bits (w :: 'b word) @ m) k = field m (k - LENGTH('b))"
  by (simp add: field_def)

lemma bits_field [simp]:
  "k + LENGTH('a::len) \<le> length m \<Longrightarrow> bits (field m k :: 'a word) = take LENGTH('a) (drop k m)"
  by (simp add: field_def bits_of_bits)

lemma memory_simps [simp]: "memory [] = []" "memory (d # ds) = bits d @ memory ds"
  by (simp_all add: memory_def)

lemma length_memory [simp]: "length (memory ds) = 32 * length ds"
  by (induction ds) simp_all

lemma words_of_append [simp]: "words_of (bits d @ m) = d # words_of m"
proof -
  obtain b bs where m: "bits d @ m = b # bs" using length_bits [of d] by (cases "bits d") auto
  then have "words_of (bits d @ m) = of_bits (take 32 (bits d @ m)) # words_of (drop 32 (bits d @ m))"
    by simp
  then show ?thesis by simp
qed

lemma words_of_memory [simp]: "words_of (memory ds) = ds"
  by (induction ds) simp_all

lemma memory_words_of: "length m = 32 * n \<Longrightarrow> memory (words_of m) = m"
proof (induction n arbitrary: m)
  case (Suc n)
  then obtain b bs where m: "m = b # bs" by (cases m) auto
  from Suc have "length (drop 32 m) = 32 * n" by simp
  with Suc.IH have "memory (words_of (drop 32 m)) = drop 32 m" by blast
  with Suc.prems show ?case by (simp add: m bits_of_bits)
qed simp

section \<open>The contract of a union\<close>

text \<open>
  What a union of an array of \<open>len\<close> words and a packed structure promises: the structure has
  \<open>width\<close> bits, which fit in the array; it is read from where it was stored, and what is read
  is what the bits hold.
\<close>

locale packed_union =
  fixes image :: "'c \<Rightarrow> bool list" and view :: "bool list \<Rightarrow> 'c" and width len :: nat
  assumes length_image: "length (image c) = width"
    and width_fits: "width \<le> 32 * len"
    and view_image: "view (image c @ m) = c"
    and image_view: "width \<le> length m \<Longrightarrow> image (view m) = take width m"
begin

lemma memory_overlay:
  assumes "length ds = len"
  shows "memory (overlay (image c) ds) = image c @ drop width (memory ds)"
proof -
  have "length (image c @ drop width (memory ds)) = 32 * len"
    using assms width_fits by (simp add: length_image)
  then show ?thesis by (simp add: overlay_def length_image memory_words_of)
qed

lemma length_overlay: "length ds = len \<Longrightarrow> length (overlay (image c) ds) = len"
  using memory_overlay [of ds c] width_fits length_image [of c] arg_cong [of _ _ length]
  by (metis length_memory length_append length_drop le_add_diff_inverse mult_cancel1 zero_neq_numeral)

lemma read_stored: "length ds = len \<Longrightarrow> view (memory (overlay (image c) ds)) = c"
  by (simp add: memory_overlay view_image)

lemma store_read: "length ds = len \<Longrightarrow> overlay (image (view (memory ds))) ds = ds"
  using width_fits by (simp add: overlay_def image_view min_absorb2)

lemma store_stored: "length ds = len \<Longrightarrow> overlay (image c) (overlay (image c') ds) = overlay (image c) ds"
  by (simp add: overlay_def [of "image c"] memory_overlay length_image)

lemma store_keeps: "length ds = len \<Longrightarrow> drop width (memory (overlay (image c) ds)) = drop width (memory ds)"
  by (simp add: memory_overlay length_image)

end

text \<open>The pieces of a list, put together again.\<close>

lemma take_drop_append: "j = k + n \<Longrightarrow> take n (drop k m) @ drop j m = drop k m"
  using append_take_drop_id [of n "drop k m"] by (simp add: add.commute)

lemma take_drop_last: "j = k + n \<Longrightarrow> take n (drop k m) @ take i (drop j m) = take (n + i) (drop k m)"
  using take_add [of n i "drop k m"] by (simp add: add.commute)

interpretation sw: packed_union h2c_c2h_ctxt_image view_h2c_c2h_ctxt 140 h2c_c2h_ctxt_data
  by unfold_locales
    (simp_all add: h2c_c2h_ctxt_image_def view_h2c_c2h_ctxt_def h2c_c2h_ctxt_data_def h2c_c2h_ctxt_layout_def
      take_add [symmetric] take_drop_last)

interpretation cmpt: packed_union c2h_cmpt_ctxt_image view_c2h_cmpt_ctxt 132 c2h_cmpt_ctxt_data
  by unfold_locales
    (simp_all add: c2h_cmpt_ctxt_image_def view_c2h_cmpt_ctxt_def c2h_cmpt_ctxt_data_def c2h_cmpt_ctxt_layout_def
      take_add [symmetric] take_drop_last)

interpretation hw: packed_union h2c_c2h_hw_ctxt_image view_h2c_c2h_hw_ctxt 48 h2c_c2h_hw_ctxt_data
  by unfold_locales
    (simp_all add: h2c_c2h_hw_ctxt_image_def view_h2c_c2h_hw_ctxt_def h2c_c2h_hw_ctxt_data_def h2c_c2h_hw_ctxt_layout_def
      take_add [symmetric] take_drop_last)

interpretation pref: packed_union prefetch_ctxt_image view_prefetch_ctxt 46 prefetch_ctxt_data
  by unfold_locales
    (simp_all add: prefetch_ctxt_image_def view_prefetch_ctxt_def prefetch_ctxt_data_def prefetch_ctxt_layout_def
      take_add [symmetric] take_drop_last)

lemmas union_defs =
  read_h2c_c2h_ctxt_def store_h2c_c2h_ctxt_def read_c2h_cmpt_ctxt_def store_c2h_cmpt_ctxt_def
  read_h2c_c2h_hw_ctxt_def store_h2c_c2h_hw_ctxt_def read_prefetch_ctxt_def store_prefetch_ctxt_def



text \<open>
  The macros for the bits of the second word of the software context are those of its fields;
  those for the descriptor size and the valid bit of the completion context are not: its
  fields have moved.
\<close>

theorem shift_macros:
  "map (\<lambda>n. offset h2c_c2h_ctxt_layout n - 32) [''wbk_en'', ''mm_chn'', ''dsc_sz'', ''rng_sz''] =
     [WB_EN_SHIFT_B, MM_CHAN_SHIFT_B, ST_H2C_DESC_SZ_SHIFT_B, DESC_RING_SZ_SHIFT_B] \<and>
   map (\<lambda>n. offset c2h_cmpt_ctxt_layout n mod 32) [''desc_sz'', ''valid''] = [26, 28] \<and>
   [MM_DESC_SZ_WB_SHIFT_B, C2H_WB_CTXT_V_SHIFT_B] = [29, 24] \<and>
   map layout_bits [h2c_c2h_ctxt_layout, c2h_cmpt_ctxt_layout, h2c_c2h_hw_ctxt_layout, prefetch_ctxt_layout] =
     [140, 132, 48, 46]"
  by (simp add: h2c_c2h_ctxt_layout_def c2h_cmpt_ctxt_layout_def h2c_c2h_hw_ctxt_layout_def prefetch_ctxt_layout_def
      layout_bits_def WB_EN_SHIFT_B_def MM_CHAN_SHIFT_B_def ST_H2C_DESC_SZ_SHIFT_B_def DESC_RING_SZ_SHIFT_B_def
      MM_DESC_SZ_WB_SHIFT_B_def C2H_WB_CTXT_V_SHIFT_B_def)

end
