(* ===== verification/OnicPort.thy ===== *)
theory OnicPort
  imports Prelude CText
begin

text \<open>
  A QDMA port of the card: \<open>server/src/onic_port.h\<close> and \<open>server/src/onic_port.cpp\<close>.  The
  state is the C++ object (\<open>onic_port\<close>, with its \<open>port_info\<close>); each member function is a
  program over it.  The DPDK functions it calls are the constructors of \<open>dpdk_call\<close>, and
  their answers (the return value \<open>rv\<close> and up to three out-parameters) come from the
  environment.  A pointer is an \<open>int\<close> with 0 for NULL.  Console output is left out.
\<close>

section \<open>Data\<close>

record port_info =
  queue_base :: u32
  num_queues :: u32
  nb_descs :: u32
  st_queues :: u32
  buff_size :: u32
  socket_id :: u32
  config_bar_idx :: int
  user_bar_idx :: int
  bypass_bar_idx :: int
  mem_pool :: string

record onic_port =
  pinfo :: port_info
  port_id :: int
  bdf :: "u32 list"

text \<open>
  The constructor of \<open>PortInfo\<close>: it sets every field from its argument, except the name of
  the pool, which keeps what the memory holds (\<open>junk\<close>).
\<close>

definition PortInfo_ctor ::
  "u32 \<Rightarrow> u32 \<Rightarrow> u32 \<Rightarrow> u32 \<Rightarrow> u32 \<Rightarrow> int \<Rightarrow> int \<Rightarrow> int \<Rightarrow> u32 \<Rightarrow> string \<Rightarrow> port_info" where
  "PortInfo_ctor qb nq nd st bs cbar ubar bbar socket junk =
     \<lparr>queue_base = qb, num_queues = nq, nb_descs = nd, st_queues = st, buff_size = bs,
      socket_id = socket, config_bar_idx = cbar, user_bar_idx = ubar, bypass_bar_idx = bbar,
      mem_pool = junk\<rparr>"

text \<open>
  The default arguments of the constructor of \<open>PortInfo\<close>: -1 for every number, converted to
  the type of its field, and the socket the caller runs on.
\<close>

definition port_info_default :: "u32 \<Rightarrow> string \<Rightarrow> port_info" where
  "port_info_default socket junk =
     PortInfo_ctor (- 1) (- 1) (- 1) (- 1) (- 1) (- 1) (- 1) (- 1) socket junk"

datatype queue_mode = Streaming | MemoryMapped

datatype lock_obj = ParamLock | MemberLock

datatype ring_flag = RING_F_SP_ENQ | RING_F_SC_DEQ

datatype eth_event = IntrReset | IntrRmv | OtherEvent int

datatype cb_arg = ArgThis | ArgNull

datatype callback = ResetCallback | RemoveCallback

datatype dpdk_call =
    GetDevice int
  | PoolCreate string u32 u32 u32 u16 u32
  | GetBarDetails int
  | DevConfigure int u32 u32
  | GetQueueBase int
  | SetQueueMode int nat queue_mode
  | TxQueueSetup int nat u32 u32
  | RxQueueSetup int nat u32 u32 u32 int
  | DevStart int
  | GetBdf int
  | GetCapabilities int
  | PciReadReg int u32 u32
  | PciWriteReg int u32 u32 u32
  | Usleep nat
  | DevStop int
  | DevClose int
  | PoolLookup string
  | PoolFree int
  | DevReset int
  | DevRemove int
  | SpinInit lock_obj
  | SpinLock
  | SpinUnlock
  | CallbackRegister int eth_event callback cb_arg
  | CallbackUnregister int eth_event callback cb_arg
  | DelayMs nat
  | EthSocketId int
  | RingCreate string u32 int "ring_flag list"

record resp =
  rv :: int
  out1 :: int
  out2 :: int
  out3 :: int

text \<open>Where the code calls \<open>rte_exit\<close>, or \<open>abort\<close> for an \<open>assert\<close>.\<close>

datatype exit_reason =
    NoMbufPool | NoBarDetails | NoConfigure | NoQueueBase | NoQueueMode | NoTxQueue | NoRxQueue
  | NoStart | NoRemoveCallback | NoResetCallback | AssertFailed

text \<open>Constants of DPDK the code refers to by name.\<close>

record dpdk_cfg =
  pktmbuf_headroom :: u32
  mempool_namesize :: nat
  device_soft :: int
  eqdma_soft_ip :: int
  eth_all :: int

type_synonym 'a port_io = "(dpdk_call, resp, onic_port, exit_reason, 'a) io"

definition NUM_TX_PKTS :: u32 where "NUM_TX_PKTS = 32"
definition MP_CACHE_SZ :: u32 where "MP_CACHE_SZ = 512"
definition DEFAULT_RX_WRITEBACK_THRESH :: u32 where "DEFAULT_RX_WRITEBACK_THRESH = 64"
definition C2H_CONTROL_REG :: u32 where "C2H_CONTROL_REG = 0x8"
definition C2H_STATUS_REG :: u32 where "C2H_STATUS_REG = 0x18"
definition C2H_STREAM_MARKER_PKT_GEN_VAL :: u32 where "C2H_STREAM_MARKER_PKT_GEN_VAL = 0x22"
definition MARKER_RESPONSE_COMPLETION_BIT :: u32 where "MARKER_RESPONSE_COMPLETION_BIT = 0x1"
definition ENOMSG :: int where "ENOMSG = 42"

section \<open>Register access\<close>

definition PciRead :: "u32 \<Rightarrow> u32 \<Rightarrow> int \<Rightarrow> (dpdk_call, resp, 's, 'x, u32) io" where
  "PciRead bar offset pid =
     io_bind (io_call (PciReadReg pid bar offset)) (\<lambda>r. io_ret (word_of_int (rv r)))"

definition PciWrite :: "u32 \<Rightarrow> u32 \<Rightarrow> u32 \<Rightarrow> int \<Rightarrow> (dpdk_call, resp, 's, 'x, unit) io" where
  "PciWrite bar offset reg_val pid = io_do (PciWriteReg pid bar offset reg_val)"

section \<open>port\_init\<close>

text \<open>A call whose negative answer ends the process.\<close>

definition must :: "exit_reason \<Rightarrow> dpdk_call \<Rightarrow> (dpdk_call, resp, 's, exit_reason, resp) io" where
  "must x c = io_bind (io_call c) (\<lambda>r. if rv r < 0 then io_exit x else io_ret r)"

definition pool_name :: "dpdk_cfg \<Rightarrow> int \<Rightarrow> string" where
  "pool_name cfg pid = take (mempool_namesize cfg - 1) (''mbuf_pool_'' @ dec_int pid)"

definition nb_buff :: "port_info \<Rightarrow> u32" where
  "nb_buff p = (let n = nb_descs p * num_queues p * 2; n' = n + NUM_TX_PKTS * num_queues p in
     max n' (MP_CACHE_SZ * 2))"

definition queue_mode_of :: "port_info \<Rightarrow> nat \<Rightarrow> queue_mode" where
  "queue_mode_of p x = (if x < unat (st_queues p) then Streaming else MemoryMapped)"

definition setup_queue :: "port_info \<Rightarrow> int \<Rightarrow> int \<Rightarrow> nat \<Rightarrow> unit port_io" where
  "setup_queue p pid mbuf_pool x =
     io_then (must NoQueueMode (SetQueueMode pid x (queue_mode_of p x)))
    (io_then (must NoTxQueue (TxQueueSetup pid x (nb_descs p) 0))
    (io_then (must NoRxQueue
       (RxQueueSetup pid x (nb_descs p) 0 DEFAULT_RX_WRITEBACK_THRESH mbuf_pool))
     (io_ret ())))"

definition set_bars :: "resp \<Rightarrow> onic_port \<Rightarrow> onic_port" where
  "set_bars r s = s\<lparr>pinfo := (pinfo s)\<lparr>config_bar_idx := out1 r, user_bar_idx := out2 r,
                                     bypass_bar_idx := out3 r\<rparr>\<rparr>"

definition port_init :: "dpdk_cfg \<Rightarrow> int port_io" where
  "port_init cfg =
     io_bind (io_get port_id) (\<lambda>pid.
     io_bind (io_call (GetDevice pid)) (\<lambda>dev.
     if rv dev = 0 then io_ret (- 1)
     else
       io_then (io_modify (\<lambda>s. s\<lparr>pinfo := (pinfo s)\<lparr>mem_pool := pool_name cfg pid\<rparr>\<rparr>))
      (io_bind (io_get pinfo) (\<lambda>p.
       io_bind (io_call (PoolCreate (mem_pool p) (nb_buff p) MP_CACHE_SZ 0
                  (ucast (buff_size p + pktmbuf_headroom cfg)) (socket_id p))) (\<lambda>mbuf_pool.
       if rv mbuf_pool = 0 then io_exit NoMbufPool
       else
         io_bind (must NoBarDetails (GetBarDetails pid)) (\<lambda>bars.
         io_then (io_modify (set_bars bars))
        (io_then (must NoConfigure (DevConfigure pid (num_queues p) (num_queues p)))
        (io_bind (must NoQueueBase (GetQueueBase pid)) (\<lambda>qb.
         io_then (io_modify (\<lambda>s. s\<lparr>pinfo := (pinfo s)\<lparr>queue_base := word_of_int (out1 qb)\<rparr>\<rparr>))
        (io_then (io_for [0..<unat (num_queues p)] (setup_queue p pid (rv mbuf_pool)))
        (io_then (must NoStart (DevStart pid))
        (io_bind (io_call (GetBdf pid)) (\<lambda>r.
         io_then (io_modify (\<lambda>s. s\<lparr>bdf := map word_of_int [out1 r, out2 r, out3 r]\<rparr>))
         (io_ret 0))))))))))))))"

section \<open>port\_close\<close>

text \<open>The loop over \<open>retry\<close>, from 50 down to 0.\<close>

fun wait_marker :: "u32 \<Rightarrow> int \<Rightarrow> nat \<Rightarrow> unit port_io" where
  "wait_marker bar pid 0 = io_ret ()"
| "wait_marker bar pid (Suc retry) =
     io_then (io_do (Usleep 500))
    (io_bind (PciRead bar C2H_STATUS_REG pid) (\<lambda>reg_val.
     if and reg_val MARKER_RESPONSE_COMPLETION_BIT \<noteq> 0 then io_ret ()
     else wait_marker bar pid retry))"

text \<open>The end of \<open>port_close\<close>, after the marker.\<close>

definition close_device :: "int \<Rightarrow> unit port_io" where
  "close_device pid =
     io_then (io_do (DevStop pid))
    (io_then (io_do (DevClose pid))
    (io_then (io_modify (\<lambda>s. s\<lparr>pinfo := (pinfo s)\<lparr>num_queues := 0\<rparr>\<rparr>))
    (io_bind (io_get (\<lambda>s. mem_pool (pinfo s))) (\<lambda>name.
     io_bind (io_call (PoolLookup name)) (\<lambda>mp.
     io_when (rv mp \<noteq> 0) (io_do (PoolFree (rv mp))))))))"

definition port_close :: "dpdk_cfg \<Rightarrow> unit port_io" where
  "port_close cfg =
     io_bind (io_get port_id) (\<lambda>pid.
     io_bind (io_call (GetDevice pid)) (\<lambda>dev.
     if rv dev = 0 then io_ret ()
     else
       io_bind (io_get (\<lambda>s. word_of_int (user_bar_idx (pinfo s)))) (\<lambda>bar.
       io_bind (io_call (GetCapabilities pid)) (\<lambda>caps.
       if rv caps < 0 then io_ret ()
       else
         io_then (io_when (out1 caps = device_soft cfg \<and> out2 caps = eqdma_soft_ip cfg)
           (io_then (PciWrite bar C2H_CONTROL_REG C2H_STREAM_MARKER_PKT_GEN_VAL pid)
                    (wait_marker bar pid 50)))
         (close_device pid)))))"

section \<open>port\_reset and port\_remove\<close>

text \<open>What \<open>port_reset\<close> does while it holds the lock.\<close>

definition reset_locked :: "dpdk_cfg \<Rightarrow> int port_io" where
  "reset_locked cfg =
     io_then (port_close cfg)
    (io_bind (io_get port_id) (\<lambda>pid.
     io_bind (io_call (DevReset pid)) (\<lambda>ret.
     if rv ret < 0 then io_ret (- 1) else port_init cfg)))"

definition remove_locked :: "dpdk_cfg \<Rightarrow> int port_io" where
  "remove_locked cfg =
     io_then (port_close cfg)
    (io_bind (io_get port_id) (\<lambda>pid.
     io_bind (io_call (DevRemove pid)) (\<lambda>ret. io_ret (rv ret))))"

text \<open>The lock taken, the body run and the lock released: the frame both functions share.\<close>

definition with_lock :: "int port_io \<Rightarrow> int port_io" where
  "with_lock body =
     io_then (io_do SpinLock)
    (io_bind body (\<lambda>ret. io_then (io_do SpinUnlock) (io_ret ret)))"

definition port_reset :: "dpdk_cfg \<Rightarrow> int port_io" where
  "port_reset cfg =
     io_bind (io_get port_id) (\<lambda>pid.
     io_bind (io_call (GetDevice pid)) (\<lambda>dev.
     if rv dev = 0 then io_ret (- 1) else with_lock (reset_locked cfg)))"

definition port_remove :: "dpdk_cfg \<Rightarrow> int port_io" where
  "port_remove cfg =
     io_bind (io_get port_id) (\<lambda>pid.
     io_bind (io_call (GetDevice pid)) (\<lambda>dev.
     if rv dev = 0 then io_ret 0 else with_lock (remove_locked cfg)))"

section \<open>Callbacks, constructor and destructor\<close>

definition register_callbacks :: "unit port_io" where
  "register_callbacks =
     io_bind (io_get port_id) (\<lambda>pid.
     io_then (must NoRemoveCallback (CallbackRegister pid IntrRmv RemoveCallback ArgThis))
    (io_then (must NoResetCallback (CallbackRegister pid IntrReset ResetCallback ArgThis))
     (io_ret ())))"

definition unregister_callbacks :: "dpdk_cfg \<Rightarrow> unit port_io" where
  "unregister_callbacks cfg =
     io_then (io_do (CallbackUnregister (eth_all cfg) IntrRmv RemoveCallback ArgNull))
             (io_do (CallbackUnregister (eth_all cfg) IntrReset ResetCallback ArgNull))"

definition dev_reset_callback :: "dpdk_cfg \<Rightarrow> eth_event \<Rightarrow> int port_io" where
  "dev_reset_callback cfg type =
     (if type \<noteq> IntrReset then io_ret (- ENOMSG) else port_reset cfg)"

definition dev_remove_callback :: "dpdk_cfg \<Rightarrow> eth_event \<Rightarrow> int port_io" where
  "dev_remove_callback cfg type =
     (if type \<noteq> IntrRmv then io_ret (- ENOMSG)
      else io_bind (port_remove cfg) (\<lambda>_. io_ret 0))"

text \<open>
  The constructor.  Its parameter is also called \<open>pinfo\<close>, so \<open>rte_spinlock_init\<close> works on the
  lock of the parameter and not on that of the member, which was copied before.  The fields
  \<open>b\<close>, \<open>d\<close>, \<open>f\<close> start with whatever the memory holds (\<open>junk\<close>).
\<close>

definition OnicPort_ctor :: "dpdk_cfg \<Rightarrow> u32 list \<Rightarrow> port_info \<Rightarrow> int \<Rightarrow> unit port_io" where
  "OnicPort_ctor cfg junk p pid =
     io_then (io_modify (\<lambda>_. \<lparr>pinfo = p, port_id = pid, bdf = junk\<rparr>))
    (io_then (io_do (SpinInit ParamLock))
    (io_bind (port_init cfg) (\<lambda>ret. io_ret ())))"

definition OnicPort_dtor :: "dpdk_cfg \<Rightarrow> unit port_io" where
  "OnicPort_dtor cfg =
     io_then (unregister_callbacks cfg)
    (io_bind (io_get (\<lambda>s. num_queues (pinfo s))) (\<lambda>nq.
     io_then (io_when (nq \<noteq> 0) (port_close cfg))
    (io_bind (io_get port_id) (\<lambda>pid.
     io_then (io_do (GetDevice pid))
             (io_do (DevRemove pid))))))"

section \<open>How the parts run\<close>

lemma PciRead_wp [io_wp_simps]:
  "io_wp e (PciRead bar off pid) Q E s t =
   Q (word_of_int (rv (e (length t) (PciReadReg pid bar off)))) s
     (t @ [(PciReadReg pid bar off, e (length t) (PciReadReg pid bar off))])"
  by (simp add: PciRead_def io_wp_simps)

lemma PciWrite_wp [io_wp_simps]:
  "io_wp e (PciWrite bar off v pid) Q E s t =
   Q () s (t @ [(PciWriteReg pid bar off v, e (length t) (PciWriteReg pid bar off v))])"
  by (simp add: PciWrite_def io_wp_simps)

lemma must_wp [io_wp_simps]:
  "io_wp e (must x c) Q E s t = (let r = e (length t) c; t' = t @ [(c, r)] in
     if rv r < 0 then E x s t' else Q r s t')"
  by (simp add: must_def io_wp_simps Let_def)

lemma quiet_PciRead [quiet_rules]: "\<not> W (PciReadReg pid bar off) \<Longrightarrow> io_quiet W (PciRead bar off pid)"
  by (auto simp: PciRead_def intro!: quiet_rules)

lemma quiet_PciWrite [quiet_rules]:
  "\<not> W (PciWriteReg pid bar off v) \<Longrightarrow> io_quiet W (PciWrite bar off v pid)"
  by (auto simp: PciWrite_def intro!: quiet_rules)

lemma quiet_must [quiet_rules]: "\<not> W c \<Longrightarrow> io_quiet W (must x c)"
  by (auto simp: must_def intro!: quiet_rules)

lemma quiet_wait_marker [quiet_rules]:
  assumes "\<And>n. \<not> W (Usleep n)" "\<And>bar off. \<not> W (PciReadReg pid bar off)"
  shows "io_quiet W (wait_marker bar pid n)"
  using assms by (induction n) (auto intro!: quiet_rules)

lemma total_PciRead [total_rules]: "io_total (PciRead bar off pid)"
  by (auto simp: PciRead_def intro!: total_rules)

lemma total_PciWrite [total_rules]: "io_total (PciWrite bar off v pid)"
  by (auto simp: PciWrite_def intro!: total_rules)

lemma total_must [total_rules]: "io_total (must x c)"
  by (auto simp: must_def intro!: total_rules)

lemma total_wait_marker [total_rules]: "io_total (wait_marker bar pid n)"
  by (induction n) (auto intro!: total_rules)

lemma total_setup_queue [total_rules]: "io_total (setup_queue p pid mp x)"
  by (auto simp: setup_queue_def intro!: total_rules)

lemma total_port_init [total_rules]: "io_total (port_init cfg)"
  by (auto simp: port_init_def intro!: total_rules)

lemma total_port_close [total_rules]: "io_total (port_close cfg)"
  by (auto simp: port_close_def close_device_def intro!: total_rules)

lemma total_with_lock [total_rules]: "io_total body \<Longrightarrow> io_total (with_lock body)"
  by (auto simp: with_lock_def intro!: total_rules)

lemma total_port_reset [total_rules]: "io_total (port_reset cfg)"
  by (auto simp: port_reset_def reset_locked_def intro!: total_rules)

lemma total_port_remove [total_rules]: "io_total (port_remove cfg)"
  by (auto simp: port_remove_def remove_locked_def intro!: total_rules)

section \<open>What port\_init does\<close>

text \<open>An answer with which \<open>port_init\<close> goes on.\<close>

definition good_answer :: "dpdk_call \<Rightarrow> resp \<Rightarrow> bool" where
  "good_answer c r = (case c of
     GetDevice _ \<Rightarrow> rv r \<noteq> 0
   | PoolCreate _ _ _ _ _ _ \<Rightarrow> rv r \<noteq> 0
   | GetBdf _ \<Rightarrow> True
   | _ \<Rightarrow> 0 \<le> rv r)"

definition all_good :: "(dpdk_call, resp) trace \<Rightarrow> bool" where
  "all_good d = list_all (\<lambda>(c, r). good_answer c r) d"

lemma all_good_simps [simp]:
  "all_good []"
  "all_good ((c, r) # d) \<longleftrightarrow> good_answer c r \<and> all_good d"
  "all_good (d @ d') \<longleftrightarrow> all_good d \<and> all_good d'"
  by (simp_all add: all_good_def)

definition queue_calls :: "port_info \<Rightarrow> int \<Rightarrow> int \<Rightarrow> nat \<Rightarrow> dpdk_call list" where
  "queue_calls p pid mp x =
     [SetQueueMode pid x (if x < unat (st_queues p) then Streaming else MemoryMapped),
      TxQueueSetup pid x (nb_descs p) 0,
      RxQueueSetup pid x (nb_descs p) 0 64 mp]"

definition init_calls :: "dpdk_cfg \<Rightarrow> port_info \<Rightarrow> int \<Rightarrow> int \<Rightarrow> dpdk_call list" where
  "init_calls cfg p pid mp =
     [GetDevice pid,
      PoolCreate (pool_name cfg pid) (nb_buff p) 512 0
        (ucast (buff_size p + pktmbuf_headroom cfg)) (socket_id p),
      GetBarDetails pid, DevConfigure pid (num_queues p) (num_queues p), GetQueueBase pid]
     @ concat (map (queue_calls p pid mp) [0..<unat (num_queues p)])
     @ [DevStart pid, GetBdf pid]"


text \<open>The device was started: \<open>rte_eth_dev_start\<close> was called and did not fail.\<close>

definition started :: "(dpdk_call, resp) trace \<Rightarrow> bool" where
  "started d = list_ex (\<lambda>(c, r). (case c of DevStart _ \<Rightarrow> 0 \<le> rv r | _ \<Rightarrow> False)) d"

lemma started_simps [simp]:
  "\<not> started []"
  "started ((c, r) # d) \<longleftrightarrow> (case c of DevStart _ \<Rightarrow> 0 \<le> rv r | _ \<Rightarrow> False) \<or> started d"
  "started (d @ d') \<longleftrightarrow> started d \<or> started d'"
  by (simp_all add: started_def)

lemma mem_pool_irrelevant [simp]:
  "nb_buff (p\<lparr>mem_pool := n\<rparr>) = nb_buff p"
  "queue_calls (p\<lparr>mem_pool := n\<rparr>) = queue_calls p"
  by (simp_all add: nb_buff_def queue_calls_def fun_eq_iff)

definition init_failed :: "(dpdk_call, resp) trace \<Rightarrow> (dpdk_call, resp) trace \<Rightarrow> bool" where
  "init_failed t t' \<longleftrightarrow> (\<exists>d. t' = t @ d \<and> \<not> all_good d \<and> \<not> started d)"

lemma init_failed_append [simp]:
  "all_good d \<Longrightarrow> \<not> started d \<Longrightarrow> init_failed (t @ d) t' \<Longrightarrow> init_failed t t'"
  by (auto simp: init_failed_def)

lemma setup_queue_wp:
  "io_wp e (setup_queue p pid mp x)
     (\<lambda>_ s' t'. s' = s \<and> (\<exists>d. t' = t @ d \<and> calls d = queue_calls p pid mp x \<and> all_good d \<and> \<not> started d))
     (\<lambda>_ _ t'. init_failed t t') s t"
  by (simp add: setup_queue_def io_wp_simps Let_def queue_calls_def queue_mode_of_def
      good_answer_def DEFAULT_RX_WRITEBACK_THRESH_def init_failed_def)

lemma setup_queues_wp:
  "io_wp e (io_for xs (setup_queue p pid mp))
     (\<lambda>_ s' t'. s' = s \<and> (\<exists>d. t' = t @ d \<and> calls d = concat (map (queue_calls p pid mp) xs) \<and>
        all_good d \<and> \<not> started d))
     (\<lambda>_ _ t'. init_failed t t') s t"
proof (induction xs arbitrary: t)
  case Nil
  then show ?case by (simp add: io_wp_simps)
next
  case (Cons x xs)
  show ?case
    by (simp add: io_wp_simps, rule io_wp_mono [OF setup_queue_wp], clarify,
        rule io_wp_mono [OF Cons.IH]) auto
qed

lemma port_init_wp:
  "io_wp e (port_init cfg)
     (\<lambda>r s' t'. \<exists>d. t' = t @ d \<and> (if r = 0 then
         calls d = init_calls cfg (pinfo s) (port_id s) (rv (snd (d ! 1))) \<and> all_good d \<and>
         port_id s' = port_id s \<and> num_queues (pinfo s') = num_queues (pinfo s)
       else r = - 1 \<and> s' = s \<and> calls d = [GetDevice (port_id s)]))
     (\<lambda>_ _ t'. init_failed t t') s t"
  apply (simp add: port_init_def io_wp_simps Let_def)
  apply (intro conjI impI; (simp add: init_failed_def good_answer_def; fail)?)
  apply (rule io_wp_mono [OF setup_queues_wp])
  apply (auto simp: io_wp_simps Let_def init_calls_def MP_CACHE_SZ_def set_bars_def good_answer_def
    init_failed_def)
  done


section \<open>What port\_close does\<close>

definition marker_calls :: "u32 \<Rightarrow> int \<Rightarrow> nat \<Rightarrow> dpdk_call list" where
  "marker_calls bar pid k = concat (replicate k [Usleep 500, PciReadReg pid bar 0x18])"

lemma wait_marker_wp:
  "io_wp e (wait_marker bar pid n)
     (\<lambda>_ s' t'. s' = s \<and> (\<exists>d k. t' = t @ d \<and> k \<le> n \<and> calls d = marker_calls bar pid k))
     (\<lambda>_ _ _. False) s t"
proof (induction n arbitrary: t)
  case 0
  then show ?case by (simp add: io_wp_simps marker_calls_def)
next
  case (Suc n)
  let ?u = "t @ [(Usleep 500, e (length t) (Usleep 500)),
    (PciReadReg pid bar 0x18, e (Suc (length t)) (PciReadReg pid bar 0x18))]"
  have rec: "io_wp e (wait_marker bar pid n)
     (\<lambda>_ s' t'. s' = s \<and> (\<exists>d k. t' = t @ d \<and> k \<le> Suc n \<and> calls d = marker_calls bar pid k))
     (\<lambda>_ _ _. False) s ?u"
  proof (rule io_wp_mono [OF Suc.IH [of ?u]])
    fix a s' t'
    assume "s' = s \<and> (\<exists>d k. t' = ?u @ d \<and> k \<le> n \<and> calls d = marker_calls bar pid k)"
    then show "s' = s \<and> (\<exists>d k. t' = t @ d \<and> k \<le> Suc n \<and> calls d = marker_calls bar pid k)"
      by (fastforce simp: marker_calls_def intro: exI [where x = "Suc _"])
  qed simp
  show ?case
  proof (cases "and (word_of_int (rv (e (Suc (length t)) (PciReadReg pid bar 0x18)))) 1 = (0 :: u32)")
    case True
    with rec show ?thesis
      by (simp add: io_wp_simps C2H_STATUS_REG_def MARKER_RESPONSE_COMPLETION_BIT_def)
  next
    case False
    then show ?thesis
      by (auto simp: io_wp_simps C2H_STATUS_REG_def MARKER_RESPONSE_COMPLETION_BIT_def
          marker_calls_def intro!: exI [where x = "Suc 0"])
  qed
qed

definition close_calls :: "onic_port \<Rightarrow> nat option \<Rightarrow> int \<Rightarrow> dpdk_call list" where
  "close_calls s marker mp = (let pid = port_id s; bar = word_of_int (user_bar_idx (pinfo s)) in
     [GetDevice pid, GetCapabilities pid]
     @ (case marker of None \<Rightarrow> [] | Some k \<Rightarrow> PciWriteReg pid bar 0x8 0x22 # marker_calls bar pid k)
     @ [DevStop pid, DevClose pid, PoolLookup (mem_pool (pinfo s))]
     @ (if mp \<noteq> 0 then [PoolFree mp] else []))"

definition port_closed :: "onic_port \<Rightarrow> onic_port" where
  "port_closed s = s\<lparr>pinfo := (pinfo s)\<lparr>num_queues := 0\<rparr>\<rparr>"

lemma close_device_wp:
  "io_wp e (close_device pid)
     (\<lambda>_ s' t'. s' = port_closed s \<and> (\<exists>d mp. t' = t @ d \<and>
        calls d = [DevStop pid, DevClose pid, PoolLookup (mem_pool (pinfo s))]
          @ (if mp \<noteq> 0 then [PoolFree mp] else [])))
     (\<lambda>_ _ _. False) s t"
  by (auto simp: close_device_def io_wp_simps port_closed_def)

definition close_runs :: "onic_port \<Rightarrow> onic_port \<Rightarrow> dpdk_call list \<Rightarrow> bool" where
  "close_runs s s' cs \<longleftrightarrow>
     s' = s \<and> cs \<in> {[GetDevice (port_id s)], [GetDevice (port_id s), GetCapabilities (port_id s)]}
   \<or> s' = port_closed s \<and>
       (\<exists>marker mp. (\<forall>k. marker = Some k \<longrightarrow> k \<le> 50) \<and> cs = close_calls s marker mp)"

lemma close_device_runs:
  assumes "calls d = [GetDevice (port_id s), GetCapabilities (port_id s)] @ (case marker of None \<Rightarrow> []
      | Some k \<Rightarrow> PciWriteReg (port_id s) (word_of_int (user_bar_idx (pinfo s))) 0x8 0x22
          # marker_calls (word_of_int (user_bar_idx (pinfo s))) (port_id s) k)"
    and "\<And>k. marker = Some k \<Longrightarrow> k \<le> 50"
  shows "io_wp e (close_device (port_id s))
     (\<lambda>_ s' t'. \<exists>d. t' = t @ d \<and> close_runs s s' (calls d)) (\<lambda>_ _ _. False) s (t @ d)"
proof (rule io_wp_mono [OF close_device_wp])
  fix a s' t'
  assume "s' = port_closed s \<and> (\<exists>d' mp. t' = (t @ d) @ d' \<and>
        calls d' = [DevStop (port_id s), DevClose (port_id s), PoolLookup (mem_pool (pinfo s))]
          @ (if mp \<noteq> 0 then [PoolFree mp] else []))"
  then obtain d' mp where s': "s' = port_closed s" and t': "t' = t @ (d @ d')"
    and d': "calls d' = [DevStop (port_id s), DevClose (port_id s), PoolLookup (mem_pool (pinfo s))]
          @ (if mp \<noteq> 0 then [PoolFree mp] else [])" by auto
  have "calls (d @ d') = close_calls s marker mp"
    using assms(1) d' by (cases marker) (simp_all add: close_calls_def Let_def)
  with s' assms(2) have "close_runs s s' (calls (d @ d'))"
    unfolding close_runs_def by blast
  with t' show "\<exists>d. t' = t @ d \<and> close_runs s s' (calls d)" by blast
qed simp

lemma port_close_wp:
  "io_wp e (port_close cfg)
     (\<lambda>_ s' t'. \<exists>d. t' = t @ d \<and> close_runs s s' (calls d)) (\<lambda>_ _ _. False) s t"
  (is "io_wp e _ ?Q ?E s t")
proof -
  let ?pid = "port_id s" and ?bar = "word_of_int (user_bar_idx (pinfo s))"
  let ?d = "[(GetDevice ?pid, e (length t) (GetDevice ?pid)),
    (GetCapabilities ?pid, e (Suc (length t)) (GetCapabilities ?pid))]"
  let ?w = "(PciWriteReg ?pid ?bar 0x8 0x22, e (Suc (Suc (length t))) (PciWriteReg ?pid ?bar 0x8 0x22))"
  have plain: "io_wp e (close_device ?pid) ?Q ?E s (t @ ?d)"
    by (rule close_device_runs [where marker = None]) simp_all
  have marked: "io_wp e (wait_marker ?bar ?pid 50) (\<lambda>_. io_wp e (close_device ?pid) ?Q ?E) ?E s
      (t @ ?d @ [?w])"
  proof (rule io_wp_mono [OF wait_marker_wp], elim conjE exE, hypsubst)
    fix d :: "(dpdk_call, resp) trace" and k
    assume "k \<le> 50" "calls d = marker_calls ?bar ?pid k"
    then have "io_wp e (close_device ?pid) ?Q ?E s (t @ (?d @ [?w] @ d))"
      by (intro close_device_runs [where marker = "Some k"]) simp_all
    then show "io_wp e (close_device ?pid) ?Q ?E s ((t @ ?d @ [?w]) @ d)" by simp
  qed
  show ?thesis
    using plain marked
    by (simp add: port_close_def io_wp_simps C2H_CONTROL_REG_def C2H_STREAM_MARKER_PKT_GEN_VAL_def
        close_runs_def)
qed

section \<open>The lock\<close>

definition is_spin :: "dpdk_call \<Rightarrow> bool" where
  "is_spin c = (c \<in> {SpinLock, SpinUnlock})"

text \<open>
  The contract of \<open>with_lock\<close>: a body that leaves the lock alone runs between one
  acquisition and one release; only the end of the process can leave the lock held.
\<close>

locale spin_section =
  fixes body :: "int port_io"
  assumes body_quiet: "io_quiet is_spin body"
begin

lemma section_wp:
  "io_wp e (with_lock body)
     (\<lambda>_ _ t'. calls (watched is_spin t') = calls (watched is_spin t) @ [SpinLock, SpinUnlock])
     (\<lambda>_ _ t'. calls (watched is_spin t') = calls (watched is_spin t) @ [SpinLock]) s t"
  unfolding with_lock_def io_wp_simps
  by (rule io_quiet_wp [OF body_quiet]) (simp_all add: is_spin_def)

end

lemma quiet_port_init:
  assumes "\<And>c. W c \<Longrightarrow> c \<in> {SpinInit MemberLock, SpinLock, SpinUnlock}"
  shows "io_quiet W (port_init cfg)"
  using assms by (fastforce simp: port_init_def setup_queue_def intro!: quiet_rules)

lemma quiet_port_close:
  assumes "\<And>c. W c \<Longrightarrow> c \<in> {SpinInit MemberLock, SpinLock, SpinUnlock}"
  shows "io_quiet W (port_close cfg)"
  using assms by (fastforce simp: port_close_def close_device_def intro!: quiet_rules)

lemma quiet_spin_locked:
  "io_quiet is_spin (reset_locked cfg)" "io_quiet is_spin (remove_locked cfg)"
  by (auto simp: reset_locked_def remove_locked_def is_spin_def
      intro!: quiet_rules quiet_port_init quiet_port_close)

interpretation reset_section: spin_section "reset_locked cfg" for cfg
  by unfold_locales (rule quiet_spin_locked)

interpretation remove_section: spin_section "remove_locked cfg" for cfg
  by unfold_locales (rule quiet_spin_locked)

definition spin_calls :: "(dpdk_call, resp) trace \<Rightarrow> dpdk_call list" where
  "spin_calls t = calls (watched is_spin t)"

lemma port_reset_spin_wp:
  "io_wp e (port_reset cfg)
     (\<lambda>_ _ t'. spin_calls t' = spin_calls t @
        (if rv (e (length t) (GetDevice (port_id s))) = 0 then [] else [SpinLock, SpinUnlock]))
     (\<lambda>_ _ t'. spin_calls t' = spin_calls t @ [SpinLock]) s t"
  unfolding spin_calls_def port_reset_def
  by (auto simp: io_wp_simps is_spin_def intro: io_wp_mono [OF reset_section.section_wp])

lemma port_remove_no_exit: "io_wp e (port_remove cfg) (\<lambda>_ _ _. True) (\<lambda>_ _ _. False) s t"
  unfolding port_remove_def remove_locked_def with_lock_def
  by (auto simp: io_wp_simps intro: io_wp_mono [OF port_close_wp])

lemma port_remove_spin_wp:
  "io_wp e (port_remove cfg)
     (\<lambda>_ _ t'. spin_calls t' = spin_calls t @
        (if rv (e (length t) (GetDevice (port_id s))) = 0 then [] else [SpinLock, SpinUnlock]))
     (\<lambda>_ _ _. False) s t"
proof -
  have "io_wp e (port_remove cfg)
     (\<lambda>_ _ t'. spin_calls t' = spin_calls t @
        (if rv (e (length t) (GetDevice (port_id s))) = 0 then [] else [SpinLock, SpinUnlock]))
     (\<lambda>_ _ _. True) s t"
    unfolding spin_calls_def port_remove_def
    by (auto simp: io_wp_simps is_spin_def intro: io_wp_mono [OF remove_section.section_wp])
  from io_wp_conj [OF this port_remove_no_exit] show ?thesis
    by (rule io_wp_mono) auto
qed

section \<open>What port\_reset does\<close>

lemma port_init_no_queues_wp:
  assumes "num_queues (pinfo s) = 0"
  shows "io_wp e (port_init cfg)
     (\<lambda>r s' t'. r = 0 \<longrightarrow> num_queues (pinfo s') = 0 \<and> (\<exists>d. t' = t @ d \<and>
        DevConfigure (port_id s) 0 0 \<in> set (calls d) \<and>
        (\<forall>x m. SetQueueMode (port_id s) x m \<notin> set (calls d)))) (\<lambda>_ _ _. True) s t"
  by (rule io_wp_mono [OF port_init_wp]) (use assms in \<open>auto simp: init_calls_def\<close>)


lemma close_runs_port_id: "close_runs s s' cs \<Longrightarrow> port_id s' = port_id s"
  by (auto simp: close_runs_def port_closed_def)

text \<open>
  A reset that succeeds closes the port, resets the device and runs \<open>port_init\<close> on what
  \<open>port_close\<close> left of the object.
\<close>

definition reset_runs :: "dpdk_cfg \<Rightarrow> onic_port \<Rightarrow> onic_port \<Rightarrow> dpdk_call list \<Rightarrow> bool" where
  "reset_runs cfg s s' cs \<longleftrightarrow> (\<exists>s1 cs1 mp. close_runs s s1 cs1 \<and>
     num_queues (pinfo s') = num_queues (pinfo s1) \<and>
     cs = cs1 @ [DevReset (port_id s)] @ init_calls cfg (pinfo s1) (port_id s) mp)"

lemma reset_locked_wp:
  "io_wp e (reset_locked cfg)
     (\<lambda>r s' t'. r = 0 \<longrightarrow> (\<exists>d. t' = t @ d \<and> reset_runs cfg s s' (calls d)))
     (\<lambda>_ _ _. True) s t"
proof -
  have init: "io_wp e (port_init cfg)
     (\<lambda>r s' t'. r = 0 \<longrightarrow> (\<exists>d. t' = t @ d \<and> reset_runs cfg s s' (calls d)))
     (\<lambda>_ _ _. True) s1 (t @ d @ [(DevReset (port_id s1), r)])"
    if close: "close_runs s s1 (calls d)" for s1 d r
  proof (rule io_wp_mono [OF port_init_wp], intro impI)
    fix x s' t'
    assume "\<exists>d'. t' = (t @ d @ [(DevReset (port_id s1), r)]) @ d' \<and> (if x = 0 then
         calls d' = init_calls cfg (pinfo s1) (port_id s1) (rv (snd (d' ! 1))) \<and> all_good d' \<and>
         port_id s' = port_id s1 \<and> num_queues (pinfo s') = num_queues (pinfo s1)
       else x = - 1 \<and> s' = s1 \<and> calls d' = [GetDevice (port_id s1)])" and "x = 0"
    then obtain d' where t': "t' = t @ (d @ (DevReset (port_id s1), r) # d')"
      and c: "calls d' = init_calls cfg (pinfo s1) (port_id s1) (rv (snd (d' ! 1)))"
      and n: "num_queues (pinfo s') = num_queues (pinfo s1)" by auto
    have "reset_runs cfg s s' (calls (d @ (DevReset (port_id s1), r) # d'))"
      unfolding reset_runs_def using close c n close_runs_port_id [OF close] by auto
    with t' show "\<exists>d. t' = t @ d \<and> reset_runs cfg s s' (calls d)" by blast
  qed simp
  show ?thesis
    unfolding reset_locked_def io_wp_simps
    by (rule io_wp_mono [OF port_close_wp]) (auto simp: io_wp_simps intro!: init)
qed

lemma port_reset_wp:
  "io_wp e (port_reset cfg)
     (\<lambda>r s' t'. r = 0 \<longrightarrow> (\<exists>d cs. t' = t @ d \<and> reset_runs cfg s s' cs \<and>
        calls d = [GetDevice (port_id s), SpinLock] @ cs @ [SpinUnlock]))
     (\<lambda>_ _ _. True) s t"
proof -
  show ?thesis
    unfolding port_reset_def with_lock_def
    by (auto simp: io_wp_simps intro!: io_wp_mono [OF reset_locked_wp])
qed

lemma set_marker_calls: "c \<in> set (marker_calls bar pid k) \<Longrightarrow> c = Usleep 500 \<or> c = PciReadReg pid bar 0x18"
  by (auto simp: marker_calls_def split: if_splits)

lemma reset_runs_closed:
  assumes "reset_runs cfg s s' cs" and "DevClose pid \<in> set cs"
  shows "num_queues (pinfo s') = 0 \<and> DevConfigure (port_id s) 0 0 \<in> set cs \<and>
     (\<forall>x m. SetQueueMode (port_id s) x m \<notin> set cs)"
proof -
  from assms obtain s1 cs1 mp where c: "close_runs s s1 cs1"
    and n: "num_queues (pinfo s') = num_queues (pinfo s1)"
    and cs: "cs = cs1 @ [DevReset (port_id s)] @ init_calls cfg (pinfo s1) (port_id s) mp"
    by (auto simp: reset_runs_def)
  have "DevClose pid \<notin> set (init_calls cfg (pinfo s1) (port_id s) mp)"
    by (auto simp: init_calls_def queue_calls_def)
  with assms(2) cs c have s1: "num_queues (pinfo s1) = 0"
    by (auto simp: close_runs_def port_closed_def)
  moreover have "\<forall>x m. SetQueueMode (port_id s) x m \<notin> set cs1"
    using c by (auto simp: close_runs_def close_calls_def Let_def dest!: set_marker_calls split: option.splits if_splits)
  ultimately show ?thesis by (auto simp: n cs init_calls_def)
qed

text \<open>
  A reset that went through \<open>port_close\<close> and reports success configures the device with
  zero queues and sets up none: \<open>port_close\<close> has cleared \<open>num_queues\<close> before \<open>port_init\<close>
  reads it.
\<close>

theorem port_reset_loses_queues:
  assumes "port_reset cfg e s t = Some (Inr 0, s', t @ d)"
    and "DevClose (port_id s) \<in> set (calls d)"
  shows "num_queues (pinfo s') = 0 \<and> DevConfigure (port_id s) 0 0 \<in> set (calls d) \<and>
    (\<forall>x m. SetQueueMode (port_id s) x m \<notin> set (calls d))"
proof -
  obtain cs where cs: "reset_runs cfg s s' cs"
    and d: "calls d = [GetDevice (port_id s), SpinLock] @ cs @ [SpinUnlock]"
    using io_wpD [OF port_reset_wp assms(1)] by auto
  from assms(2) d have "DevClose (port_id s) \<in> set cs" by simp
  from reset_runs_closed [OF cs this] d show ?thesis by simp
qed


definition sample_cfg :: dpdk_cfg where
  "sample_cfg = \<lparr>pktmbuf_headroom = 128, mempool_namesize = 26, device_soft = 1,
     eqdma_soft_ip = 1, eth_all = 32\<rparr>"

definition sample_info :: port_info where
  "sample_info = PortInfo_ctor 0 2 1024 1 4096 0 2 (- 1) 0 []"

definition sample_port :: onic_port where
  "sample_port = \<lparr>pinfo = sample_info, port_id = 0, bdf = [0, 0, 0]\<rparr>"

definition ok_env :: "(dpdk_call, resp) env" where
  "ok_env n c = \<lparr>rv = 1, out1 = 0, out2 = 2, out3 = 4\<rparr>"

definition bad_env :: "(dpdk_call, resp) env" where
  "bad_env n c = (case c of
       TxQueueSetup _ _ _ _ \<Rightarrow> \<lparr>rv = - 22, out1 = 0, out2 = 0, out3 = 0\<rparr>
     | _ \<Rightarrow> \<lparr>rv = 1, out1 = 0, out2 = 2, out3 = 4\<rparr>)"

lemmas port_defs = port_init_def setup_queue_def must_def port_close_def close_device_def
  port_reset_def reset_locked_def port_remove_def remove_locked_def with_lock_def
  PciRead_def PciWrite_def set_bars_def

lemmas sample_defs = sample_cfg_def sample_info_def sample_port_def ok_env_def bad_env_def PortInfo_ctor_def

lemma sample_init: "\<exists>s' t'. port_init sample_cfg ok_env sample_port [] = Some (Inr 0, s', t')"
  by (simp add: port_defs sample_defs io_simps upt_rec)

lemma sample_reset:
  "\<exists>s' d. port_reset sample_cfg ok_env sample_port [] = Some (Inr 0, s', d) \<and> DevClose 0 \<in> set (calls d)"
  by (simp add: port_defs sample_defs io_simps upt_rec)

theorem port_reset_loses_queues_witness:
  "\<exists>s' d. port_reset sample_cfg ok_env sample_port [] = Some (Inr 0, s', [] @ d) \<and>
     num_queues (pinfo sample_port) = 2 \<and> num_queues (pinfo s') = 0"
proof -
  obtain s' d where run: "port_reset sample_cfg ok_env sample_port [] = Some (Inr 0, s', [] @ d)"
    and "DevClose (port_id sample_port) \<in> set (calls d)"
    using sample_reset by (auto simp: sample_defs)
  from port_reset_loses_queues [OF this] run show ?thesis
    by (auto simp: sample_defs)
qed

text \<open>
  C10: When \<open>port_init\<close> returns 0, every call it makes was answered well, and the calls are,
  in order: the pool, the BARs, the configuration of as many receive and transmit queues as the
  object asks for, then for each queue its mode (streaming below \<open>st_queues\<close>, memory mapped
  above) and its two rings, and the start of the device at the end.
\<close>

theorem port_init_done:
  assumes "port_init cfg e s t = Some (Inr 0, s', t')"
  shows "\<exists>d mp. t' = t @ d \<and> all_good d \<and> calls d = init_calls cfg (pinfo s) (port_id s) mp \<and>
    mp = rv (snd (d ! 1)) \<and> num_queues (pinfo s') = num_queues (pinfo s)"
  using io_wpD [OF port_init_wp assms] by auto

theorem port_init_done_witness:
  "\<exists>s' t'. port_init sample_cfg ok_env sample_port [] = Some (Inr 0, s', t') \<and> all_good t' \<and>
     SetQueueMode 0 0 Streaming \<in> set (calls t') \<and> SetQueueMode 0 1 MemoryMapped \<in> set (calls t')"
proof -
  obtain s' t' where run: "port_init sample_cfg ok_env sample_port [] = Some (Inr 0, s', t')"
    using sample_init by blast
  from port_init_done [OF run] run show ?thesis
    by (auto simp: init_calls_def queue_calls_def sample_defs upt_rec)
qed

text \<open>
  When \<open>port_init\<close> ends the process, the device has not been started.
\<close>

theorem port_init_exit_before_start:
  assumes "port_init cfg e s t = Some (Inl x, s', t')"
  shows "\<exists>d. t' = t @ d \<and> \<not> started d"
  using io_wp_exitD [OF port_init_wp assms] by (auto simp: init_failed_def)

lemma sample_init_exit:
  "\<exists>s' t'. port_init sample_cfg bad_env sample_port [] = Some (Inl NoTxQueue, s', t')"
  by (simp add: port_defs sample_defs io_simps upt_rec)

theorem port_init_exit_before_start_witness:
  "\<exists>s' t'. port_init sample_cfg bad_env sample_port [] = Some (Inl NoTxQueue, s', t') \<and> \<not> started t'"
proof -
  obtain s' t' where run: "port_init sample_cfg bad_env sample_port [] = Some (Inl NoTxQueue, s', t')"
    using sample_init_exit by blast
  from port_init_exit_before_start [OF run] run show ?thesis by auto
qed

text \<open>
  \<open>port_close\<close> always returns.  Either the device is gone or its capabilities cannot be
  read, and nothing is changed; or the device is stopped and closed once, after at most 50
  reads of the marker status, the pool is freed when it is found, and the object is left with
  no queues.
\<close>

theorem port_close_effect:
  "\<exists>s' d. port_close cfg e s t = Some (Inr (), s', t @ d) \<and> close_runs s s' (calls d)"
  using io_total_wp [OF total_port_close port_close_wp] by fastforce

text \<open>
  A reset or removal that returns took the port lock once and released it, or never took
  it because the device is gone; only a reset that ends the process leaves it held.
\<close>

theorem port_ops_release_lock:
  "(case port_reset cfg e s t of
      None \<Rightarrow> False
    | Some (Inr r, s', t') \<Rightarrow> spin_calls t' \<in> {spin_calls t, spin_calls t @ [SpinLock, SpinUnlock]}
    | Some (Inl x, s', t') \<Rightarrow> spin_calls t' = spin_calls t @ [SpinLock])
 \<and> (case port_remove cfg e s t of
      Some (Inr r, s', t') \<Rightarrow> spin_calls t' \<in> {spin_calls t, spin_calls t @ [SpinLock, SpinUnlock]}
    | _ \<Rightarrow> False)"
proof
  obtain r s' t' where run: "port_reset cfg e s t = Some (r, s', t')"
    using io_totalD [OF total_port_reset] by blast
  show "case port_reset cfg e s t of
      None \<Rightarrow> False
    | Some (Inr r, s', t') \<Rightarrow> spin_calls t' \<in> {spin_calls t, spin_calls t @ [SpinLock, SpinUnlock]}
    | Some (Inl x, s', t') \<Rightarrow> spin_calls t' = spin_calls t @ [SpinLock]"
    using port_reset_spin_wp [of e cfg t s] run by (auto simp: io_wp_def split: sum.splits if_splits)
next
  show "case port_remove cfg e s t of
      Some (Inr r, s', t') \<Rightarrow> spin_calls t' \<in> {spin_calls t, spin_calls t @ [SpinLock, SpinUnlock]}
    | _ \<Rightarrow> False"
    using io_total_wp [OF total_port_remove port_remove_spin_wp [of e cfg t s]] by auto
qed

lemma total_OnicPort_ctor [total_rules]: "io_total (OnicPort_ctor cfg junk p pid)"
  by (auto simp: OnicPort_ctor_def intro!: total_rules)

text \<open>
  The constructor of \<open>OnicPort\<close> never initialises the lock of the member that
  \<open>port_reset\<close> and \<open>port_remove\<close> take.
\<close>

theorem ctor_leaves_member_lock:
  "case OnicPort_ctor cfg junk p pid e s t of
     None \<Rightarrow> False
   | Some (_, _, t') \<Rightarrow> watched (\<lambda>c. c = SpinInit MemberLock) t' = watched (\<lambda>c. c = SpinInit MemberLock) t"
proof -
  have "io_quiet (\<lambda>c. c = SpinInit MemberLock) (OnicPort_ctor cfg junk p pid)"
    by (auto simp: OnicPort_ctor_def intro!: quiet_rules quiet_port_init)
  from io_quiet_total [OF this total_OnicPort_ctor] show ?thesis .
qed

text \<open>
  The number of buffers of a pool, computed in 32 bits, is what the rings of all queues
  and 32 packets in flight per queue need, and at least 1024, unless that number overflows.
\<close>

theorem nb_buff_exact:
  assumes "unat (num_queues p) * (2 * unat (nb_descs p) + 32) < 2 ^ 32"
  shows "unat (nb_buff p) = max (unat (num_queues p) * (2 * unat (nb_descs p) + 32)) 1024"
proof -
  let ?q = "unat (num_queues p)" and ?d = "unat (nb_descs p)"
  have "nb_descs p * num_queues p * 2 + NUM_TX_PKTS * num_queues p = word_of_nat (?q * (2 * ?d + 32))"
    by (simp add: NUM_TX_PKTS_def algebra_simps)
  moreover have "unat (word_of_nat (?q * (2 * ?d + 32)) :: u32) = ?q * (2 * ?d + 32)"
    using assms by (simp only: unat_of_nat) simp
  ultimately have "unat (nb_descs p * num_queues p * 2 + NUM_TX_PKTS * num_queues p) = ?q * (2 * ?d + 32)"
    by (simp only:)
  then show ?thesis
    by (simp add: nb_buff_def Let_def unat_max MP_CACHE_SZ_def)
qed

theorem nb_buff_exact_witness: "unat (nb_buff sample_info) = 4160"
proof -
  have "unat (num_queues sample_info) * (2 * unat (nb_descs sample_info) + 32) < 2 ^ 32"
    by (simp add: sample_defs)
  from nb_buff_exact [OF this] show ?thesis by (simp add: sample_defs)
qed

text \<open>
  The removal callback reports 0 for every answer of the environment, also when the
  removal of the device failed.
\<close>

theorem remove_callback_hides_failure:
  "\<exists>s' t'. dev_remove_callback cfg IntrRmv e s t = Some (Inr 0, s', t')"
proof -
  obtain r s' t' where "port_remove cfg e s t = Some (Inr r, s', t')"
    using io_total_wp [OF total_port_remove port_remove_no_exit] by blast
  then show ?thesis by (simp add: dev_remove_callback_def io_simps)
qed

end
