(* ===== verification/RegAccess.thy ===== *)
theory RegAccess
  imports OnicPort
begin

text \<open>
  The register interface of the card as its client sees it: a read and a write that reach the
  device, and the loop that waits for bits of a status register.  \<open>Onic\<close> provides the two
  operations (\<open>Onic::read_reg\<close>, \<open>Onic::write_reg\<close>) and interprets the locale on them.
\<close>

section \<open>Waiting for a status\<close>

text \<open>\<open>while ((rd() & m) != m) body;\<close>\<close>

definition poll_body ::
  "('c, 'r, 's, 'x, u32) io \<Rightarrow> u32 \<Rightarrow> ('c, 'r, 's, 'x, unit) io \<Rightarrow> ('c, 'r, 's, 'x, bool) io" where
  "poll_body rd m body =
     io_bind rd (\<lambda>v. if and v m \<noteq> m then io_then body (io_ret True) else io_ret False)"

definition poll_until ::
  "('c, 'r, 's, 'x, u32) io \<Rightarrow> u32 \<Rightarrow> ('c, 'r, 's, 'x, unit) io \<Rightarrow> ('c, 'r, 's, 'x, unit) io" where
  "poll_until rd m body = io_loop (poll_body rd m body)"

text \<open>The read that is call number \<open>n\<close> finds every bit of \<open>m\<close> set.\<close>

definition status_ready :: "(dpdk_call, resp) env \<Rightarrow> int \<Rightarrow> u32 \<Rightarrow> u32 \<Rightarrow> u32 \<Rightarrow> nat \<Rightarrow> bool" where
  "status_ready e pid bar off m n \<longleftrightarrow> and (word_of_int (rv (e n (PciReadReg pid bar off)))) m = m"

lemma for_do_run:
  "\<exists>d. io_for ps io_do e s t = Some (Inr (), s, t @ d) \<and> calls d = ps"
proof (induction ps arbitrary: t)
  case (Cons p ps)
  from Cons.IH [of "t @ [(p, e (length t) p)]"] show ?case by (auto simp: io_simps)
qed (simp add: io_simps)

section \<open>The interface\<close>

text \<open>
  What the card relies on: a read is one call to the device whose answer is the value, and a
  write is one call, both at the port and BAR the state names, and neither changes the state.
\<close>

locale reg_access =
  fixes rd :: "u32 \<Rightarrow> (dpdk_call, resp, 's, 'x, u32) io"
    and wr :: "u32 \<Rightarrow> u32 \<Rightarrow> (dpdk_call, resp, 's, 'x, unit) io"
    and pid :: "'s \<Rightarrow> int"
    and bar :: "'s \<Rightarrow> u32"
  assumes rd_run: "rd off e s t = (let c = PciReadReg (pid s) (bar s) off; r = e (length t) c in
      Some (Inr (word_of_int (rv r)), s, t @ [(c, r)]))"
    and wr_run: "wr off v e s t = (let c = PciWriteReg (pid s) (bar s) off v in
      Some (Inr (), s, t @ [(c, e (length t) c)]))"
begin

lemma rd_wp: "io_wp e (rd off) Q E s t = (let c = PciReadReg (pid s) (bar s) off; r = e (length t) c in
    Q (word_of_int (rv r)) s (t @ [(c, r)]))"
  by (simp add: io_wp_def rd_run Let_def)

lemma wr_wp: "io_wp e (wr off v) Q E s t = (let c = PciWriteReg (pid s) (bar s) off v in
    Q () s (t @ [(c, e (length t) c)]))"
  by (simp add: io_wp_def wr_run Let_def)

lemma total_rd: "io_total (rd off)" and total_wr: "io_total (wr off v)"
  by (simp_all add: io_total_def rd_run wr_run Let_def)

lemma wr_list_run:
  "\<exists>d. io_for ws (\<lambda>(off, v). wr off v) e s t = Some (Inr (), s, t @ d) \<and>
     calls d = map (\<lambda>(off, v). PciWriteReg (pid s) (bar s) off v) ws"
proof (induction ws arbitrary: t)
  case Nil
  show ?case by (simp add: io_simps)
next
  case (Cons w ws)
  obtain off v where w: "w = (off, v)" by force
  let ?c = "PciWriteReg (pid s) (bar s) off v"
  from Cons.IH [of "t @ [(?c, e (length t) ?c)]"] show ?case
    by (auto simp: w io_simps wr_run Let_def)
qed

lemma poll_more:
  assumes "\<not> status_ready e (pid s) (bar s) off m (length t)"
  shows "\<exists>d. poll_body (rd off) m (io_for ps io_do) e s t = Some (Inr True, s, t @ d) \<and>
     calls d = PciReadReg (pid s) (bar s) off # ps"
proof -
  let ?c = "PciReadReg (pid s) (bar s) off"
  let ?r = "e (length t) ?c"
  obtain d where run: "io_for ps io_do e s (t @ [(?c, ?r)]) =
      Some (Inr () :: 'x + unit, s, (t @ [(?c, ?r)]) @ d)" and d: "calls d = ps"
    using for_do_run [of ps e s "t @ [(?c, ?r)]"] by (elim exE conjE)
  from assms have "and (word_of_int (rv ?r)) m \<noteq> m" by (simp add: status_ready_def)
  then have "poll_body (rd off) m (io_for ps io_do) e s t = Some (Inr True, s, t @ (?c, ?r) # d)"
    by (simp add: poll_body_def io_simps rd_run Let_def run)
  with d show ?thesis by (intro exI [of _ "(?c, ?r) # d"]) simp
qed

lemma poll_done:
  "status_ready e (pid s) (bar s) off m (length t) \<Longrightarrow> \<exists>r. poll_body (rd off) m (io_for ps io_do) e s t =
     Some (Inr False, s, t @ [(PciReadReg (pid s) (bar s) off, r)])"
  by (simp add: poll_body_def status_ready_def io_simps rd_run Let_def)

text \<open>A poll returns after the first ready read, and only then.\<close>

lemma poll_returns:
  assumes "status_ready e (pid s) (bar s) off m (length t + (length ps + 1) * k)"
    and "\<And>j. j < k \<Longrightarrow> \<not> status_ready e (pid s) (bar s) off m (length t + (length ps + 1) * j)"
  shows "\<exists>d. io_loop (poll_body (rd off) m (io_for ps io_do)) e s t = Some (Inr (), s, t @ d) \<and>
     calls d = concat (replicate k (PciReadReg (pid s) (bar s) off # ps)) @ [PciReadReg (pid s) (bar s) off]"
  using assms
proof (induction k arbitrary: t)
  case 0
  then have "status_ready e (pid s) (bar s) off m (length t)" by simp
  from poll_done [OF this, of ps] show ?case by (auto dest: io_loop_stop)
next
  case (Suc k)
  from Suc.prems(2) [of 0] obtain d where d: "poll_body (rd off) m (io_for ps io_do) e s t = Some (Inr True, s, t @ d)"
    and c: "calls d = PciReadReg (pid s) (bar s) off # ps" using poll_more [of e s off m t ps] by auto
  from c have "length d = length ps + 1" by (metis length_map length_Cons Suc_eq_plus1)
  then have "\<exists>d'. io_loop (poll_body (rd off) m (io_for ps io_do)) e s (t @ d) = Some (Inr (), s, (t @ d) @ d') \<and>
     calls d' = concat (replicate k (PciReadReg (pid s) (bar s) off # ps)) @ [PciReadReg (pid s) (bar s) off]"
    using Suc.prems(1) Suc.prems(2) [of "Suc j" for j] by (intro Suc.IH) (auto simp: algebra_simps)
  with c show ?case by (auto simp: io_loop_go [where body = "poll_body (rd off) m (io_for ps io_do)", OF d])
qed

lemma poll_wp:
  "io_wp e (io_loop (poll_body (rd off) m (io_for ps io_do)))
     (\<lambda>_ s' t'. s' = s \<and> (\<exists>d k. t' = t @ d \<and> status_ready e (pid s) (bar s) off m (length t + (length ps + 1) * k) \<and>
        calls d = concat (replicate k (PciReadReg (pid s) (bar s) off # ps)) @ [PciReadReg (pid s) (bar s) off]))
     (\<lambda>_ _ _. False) s t"
proof (rule io_wp_loop [where I = "\<lambda>s' t'. s' = s \<and> (\<exists>d k. t' = t @ d \<and>
        calls d = concat (replicate k (PciReadReg (pid s) (bar s) off # ps)))"])
  show "s = s \<and> (\<exists>d k. t = t @ d \<and> calls d = concat (replicate k (PciReadReg (pid s) (bar s) off # ps)))"
    by (auto intro: exI [of _ 0])
next
  fix s' t'
  let ?c = "PciReadReg (pid s) (bar s) off"
  assume "s' = s \<and> (\<exists>d k. t' = t @ d \<and> calls d = concat (replicate k (?c # ps)))"
  then obtain d k where s': "s' = s" and t': "t' = t @ d" and d: "calls d = concat (replicate k (?c # ps))"
    by blast
  from d have "length d = length (concat (replicate k (?c # ps)))" by (metis length_map)
  then have len: "length t' = length t + (length ps + 1) * k"
    by (simp add: t' length_concat sum_list_replicate)
  show "io_wp e (poll_body (rd off) m (io_for ps io_do)) (\<lambda>go s'' t''. if go
       then s'' = s \<and> (\<exists>d k. t'' = t @ d \<and> calls d = concat (replicate k (?c # ps)))
       else s'' = s \<and> (\<exists>d k. t'' = t @ d \<and> status_ready e (pid s) (bar s) off m (length t + (length ps + 1) * k) \<and>
         calls d = concat (replicate k (?c # ps)) @ [?c])) (\<lambda>_ _ _. False) s' t'"
  proof (cases "status_ready e (pid s) (bar s) off m (length t')")
    case True
    from poll_done [OF this, of ps] obtain r where
      "poll_body (rd off) m (io_for ps io_do) e s t' = Some (Inr False, s, t' @ [(?c, r)])" by (elim exE)
    moreover have "\<exists>d k. t' @ [(?c, r)] = t @ d \<and> status_ready e (pid s) (bar s) off m (length t + (length ps + 1) * k) \<and>
         calls d = concat (replicate k (?c # ps)) @ [?c]"
      by (rule exI [of _ "d @ [(?c, r)]"], rule exI [of _ k]) (use True d t' len in simp)
    ultimately show ?thesis unfolding io_wp_def s' by (simp only: option.case prod.case sum.case if_False simp_thms)
  next
    case False
    from poll_more [OF False, of ps] obtain d' where
      run: "poll_body (rd off) m (io_for ps io_do) e s t' = Some (Inr True, s, t' @ d')" and d': "calls d' = ?c # ps" by (elim exE conjE)
    have "concat (replicate (Suc k) (?c # ps)) = concat (replicate k (?c # ps)) @ (?c # ps)"
      by (simp only: replicate_Suc replicate_append_same [symmetric]) simp
    then have "calls (d @ d') = concat (replicate (Suc k) (?c # ps))" by (simp only: map_append d d')
    then have "\<exists>d'' k. t' @ d' = t @ d'' \<and> calls d'' = concat (replicate k (?c # ps))"
      by (intro exI [of _ "d @ d'"] exI [of _ "Suc k"] conjI) (simp_all only: t' append_assoc)
    with run show ?thesis unfolding io_wp_def s' by (simp only: option.case prod.case sum.case if_True simp_thms)
  qed
qed

text \<open>A poll returns exactly when some read finds the status ready.\<close>

lemma poll_returns_iff:
  "io_loop (poll_body (rd off) m (io_for ps io_do)) e s t \<noteq> None \<longleftrightarrow>
   (\<exists>k. status_ready e (pid s) (bar s) off m (length t + (length ps + 1) * k))"
proof
  assume "io_loop (poll_body (rd off) m (io_for ps io_do)) e s t \<noteq> None"
  then obtain r s' t' where run: "io_loop (poll_body (rd off) m (io_for ps io_do)) e s t = Some (r, s', t')" by auto
  with poll_wp [of e off m ps s t] show "\<exists>k. status_ready e (pid s) (bar s) off m (length t + (length ps + 1) * k)"
    by (cases r) (auto simp: io_wp_def)
next
  assume ex: "\<exists>k. status_ready e (pid s) (bar s) off m (length t + (length ps + 1) * k)"
  let ?k = "LEAST k. status_ready e (pid s) (bar s) off m (length t + (length ps + 1) * k)"
  from poll_returns [of e s off m t ps ?k, OF LeastI_ex [OF ex]] not_less_Least
  show "io_loop (poll_body (rd off) m (io_for ps io_do)) e s t \<noteq> None" by blast
qed

end

end
