(* ===== verification/Onic.thy ===== *)
theory Onic
  imports RegAccess OnicRegs
begin

text \<open>
  The card: \<open>server/src/onic.h\<close> and \<open>server/src/onic.cpp\<close>.  An \<open>Onic\<close> owns its QDMA ports
  and reaches the registers of the shell and of its two CMACs through one of them.  The state
  is the C++ object (\<open>onic\<close>); the loops that wait for the shell are unbounded, as in the code.
  What a printing function writes is its value, a string.
\<close>

section \<open>Statistics of a CMAC\<close>

record cmac_stats =
  tx_total_pkts :: u32
  tx_total_good_pkts :: u32
  tx_total_bytes :: u32
  tx_total_good_bytes :: u32
  rx_total_pkts :: u32
  rx_total_good_pkts :: u32
  rx_total_bytes :: u32
  rx_total_good_bytes :: u32
  rx_pkt_65_127 :: u32
  rx_pkt_large :: u32
  rx_pkt_small :: u32
  rx_undersize :: u32
  rx_frag :: u32
  rx_oversize :: u32
  rx_toolong :: u32
  rx_jabber :: u32
  rx_bad_fcs :: u32
  rx_pkt_bad_fcs :: u32
  rx_stomped_fcs :: u32
  rx_unicast :: u32
  rx_multicast :: u32
  rx_broadcast :: u32
  rx_vlan :: u32
  rx_pause :: u32
  rx_user_pause :: u32
  rx_in_range_err :: u32
  rx_truncated :: u32

definition cmac_stats_zero :: cmac_stats where
  "cmac_stats_zero = \<lparr>
     tx_total_pkts = 0, tx_total_good_pkts = 0, tx_total_bytes = 0, tx_total_good_bytes = 0,
     rx_total_pkts = 0, rx_total_good_pkts = 0, rx_total_bytes = 0, rx_total_good_bytes = 0,
     rx_pkt_65_127 = 0, rx_pkt_large = 0, rx_pkt_small = 0, rx_undersize = 0, rx_frag = 0,
     rx_oversize = 0, rx_toolong = 0, rx_jabber = 0, rx_bad_fcs = 0, rx_pkt_bad_fcs = 0,
     rx_stomped_fcs = 0, rx_unicast = 0, rx_multicast = 0, rx_broadcast = 0, rx_vlan = 0,
     rx_pause = 0, rx_user_pause = 0, rx_in_range_err = 0, rx_truncated = 0\<rparr>"

text \<open>The fields by name, in the order both printers take them.\<close>

definition main_fields :: "(string \<times> (cmac_stats \<Rightarrow> u32)) list" where
  "main_fields = [
     (''tx_total_pkts'', tx_total_pkts), (''tx_total_good_pkts'', tx_total_good_pkts),
     (''tx_total_bytes'', tx_total_bytes), (''tx_total_good_bytes'', tx_total_good_bytes),
     (''rx_total_pkts'', rx_total_pkts), (''rx_total_good_pkts'', rx_total_good_pkts),
     (''rx_total_bytes'', rx_total_bytes), (''rx_total_good_bytes'', rx_total_good_bytes)]"

definition debug_fields :: "(string \<times> (cmac_stats \<Rightarrow> u32)) list" where
  "debug_fields = [
     (''rx_pkt_65_127'', rx_pkt_65_127), (''rx_pkt_large'', rx_pkt_large),
     (''rx_pkt_small'', rx_pkt_small), (''rx_undersize'', rx_undersize), (''rx_frag'', rx_frag),
     (''rx_oversize'', rx_oversize), (''rx_toolong'', rx_toolong), (''rx_jabber'', rx_jabber),
     (''rx_bad_fcs'', rx_bad_fcs), (''rx_pkt_bad_fcs'', rx_pkt_bad_fcs),
     (''rx_stomped_fcs'', rx_stomped_fcs), (''rx_unicast'', rx_unicast),
     (''rx_multicast'', rx_multicast), (''rx_broadcast'', rx_broadcast), (''rx_vlan'', rx_vlan),
     (''rx_pause'', rx_pause), (''rx_user_pause'', rx_user_pause),
     (''rx_in_range_err'', rx_in_range_err), (''rx_truncated'', rx_truncated)]"

definition add_stats :: "cmac_stats \<Rightarrow> cmac_stats \<Rightarrow> cmac_stats" where
  "add_stats s other = s\<lparr>
     tx_total_pkts := tx_total_pkts s + tx_total_pkts other,
     tx_total_good_pkts := tx_total_good_pkts s + tx_total_good_pkts other,
     tx_total_bytes := tx_total_bytes s + tx_total_bytes other,
     tx_total_good_bytes := tx_total_good_bytes s + tx_total_good_bytes other,
     rx_total_pkts := rx_total_pkts s + rx_total_pkts other,
     rx_total_good_pkts := rx_total_good_pkts s + rx_total_good_pkts other,
     rx_total_bytes := rx_total_bytes s + rx_total_bytes other,
     rx_total_good_bytes := rx_total_good_bytes s + rx_total_good_bytes other\<rparr>"

text \<open>\<open>printf\<close> with \<open>%-25s\<close> and \<open>%10u\<close>, of \<open>print\<close>.\<close>

definition print_field :: "string \<Rightarrow> u32 \<Rightarrow> string" where
  "print_field name v = ''(CMAC) '' @ pad_right 25 name @ '' '' @ pad_left 10 (dec (unat v)) @ ''\<newline>''"

definition print_stats :: "bool \<Rightarrow> cmac_stats \<Rightarrow> string" where
  "print_stats debug s =
     concat (map (\<lambda>(name, f). print_field name (f s)) (main_fields @ (if debug then debug_fields else [])))
     @ ''\<newline>''"

text \<open>
  \<open>append_field\<close> of \<open>to_string\<close>: \<open>snprintf\<close> keeps 63 characters, and \<open>%d\<close> reads the
  unsigned field as an \<open>int\<close>.
\<close>

definition append_field :: "string \<Rightarrow> string \<Rightarrow> u32 \<Rightarrow> string \<Rightarrow> string" where
  "append_field tag name v string_out =
     string_out @ take 63 (''('' @ tag @ '')'' @ name @ ''='' @ dec_int (sint v)) @ '',''"

definition stats_to_string :: "string \<Rightarrow> cmac_stats \<Rightarrow> string" where
  "stats_to_string tag s =
     (let string_out = foldl (\<lambda>acc (name, f). append_field tag name (f s) acc) [] main_fields
      in if string_out \<noteq> [] then butlast string_out else string_out)"

section \<open>The card\<close>

record onic =
  ports :: "onic_port list"
  config_port_id :: int
  axil_bar_id :: int
  rs_fec :: int
  mbuf_ring :: int
  ring_name :: string

type_synonym 'a onic_io = "(dpdk_call, resp, onic, exit_reason, 'a) io"

definition NB_CMAC :: nat where "NB_CMAC = 2"
definition NB_PORTS :: nat where "NB_PORTS = 2"
definition ONIC_CMAC_CORE_VERSION :: u32 where "ONIC_CMAC_CORE_VERSION = 0x301"
definition CMAC_RESET_WAIT_MS :: nat where "CMAC_RESET_WAIT_MS = 1"
definition RING_SIZE :: u32 where "RING_SIZE = 8192"

definition read_reg :: "u32 \<Rightarrow> u32 onic_io" where
  "read_reg offset =
     io_bind (io_get axil_bar_id) (\<lambda>bar.
     io_bind (io_get config_port_id) (\<lambda>pid. PciRead (word_of_int bar) offset pid))"

definition write_reg :: "u32 \<Rightarrow> u32 \<Rightarrow> unit onic_io" where
  "write_reg offset val =
     io_bind (io_get axil_bar_id) (\<lambda>bar.
     io_bind (io_get config_port_id) (\<lambda>pid. PciWrite (word_of_int bar) offset val pid))"

text \<open>A sequence of register writes.\<close>

definition write_regs :: "(u32 \<times> u32) list \<Rightarrow> unit onic_io" where
  "write_regs ws = io_for ws (\<lambda>(offset, val). write_reg offset val)"

text \<open>\<open>while ((read_reg(SYSCFG_OFFSET_SHELL_STATUS) & m) != m) rte_delay_ms(...);\<close>\<close>

definition shell_wait :: "u32 \<Rightarrow> unit onic_io" where
  "shell_wait m = poll_until (read_reg SYSCFG_OFFSET_SHELL_STATUS) m (io_do (DelayMs CMAC_RESET_WAIT_MS))"

text \<open>The writes of \<open>enable_cmac\<close> after the reset.\<close>

definition rsfec_writes :: "int \<Rightarrow> (u32 \<times> u32) list" where
  "rsfec_writes i = [
     (CMAC_OFFSET_RSFEC_CONF_ENABLE i, 0x3),
     (CMAC_OFFSET_RSFEC_CONF_IND_CORRECTION i, 0x7)]"

definition cmac_writes :: "int \<Rightarrow> (u32 \<times> u32) list" where
  "cmac_writes i = [
     (CMAC_OFFSET_CONF_RX_1 i, 0x1), (CMAC_OFFSET_CONF_TX_1 i, 0x10), (CMAC_OFFSET_CONF_TX_1 i, 0x1),
     (CMAC_OFFSET_CONF_RX_FC_CTRL_1 i, 0x00003DFF), (CMAC_OFFSET_CONF_RX_FC_CTRL_2 i, 0x0001C631),
     (CMAC_OFFSET_CONF_TX_FC_QNTA_1 i, 0xFFFFFFFF), (CMAC_OFFSET_CONF_TX_FC_QNTA_2 i, 0xFFFFFFFF),
     (CMAC_OFFSET_CONF_TX_FC_QNTA_3 i, 0xFFFFFFFF), (CMAC_OFFSET_CONF_TX_FC_QNTA_4 i, 0xFFFFFFFF),
     (CMAC_OFFSET_CONF_TX_FC_QNTA_5 i, 0x0000FFFF), (CMAC_OFFSET_CONF_TX_FC_RFRH_1 i, 0xFFFFFFFF),
     (CMAC_OFFSET_CONF_TX_FC_RFRH_2 i, 0xFFFFFFFF), (CMAC_OFFSET_CONF_TX_FC_RFRH_3 i, 0xFFFFFFFF),
     (CMAC_OFFSET_CONF_TX_FC_RFRH_4 i, 0xFFFFFFFF), (CMAC_OFFSET_CONF_TX_FC_RFRH_5 i, 0x0000FFFF),
     (CMAC_OFFSET_CONF_TX_FC_CTRL_1 i, 0x000001FF)]"

definition enable_cmac :: "int \<Rightarrow> int onic_io" where
  "enable_cmac cmac_id =
     io_then
       (if cmac_id = 0
        then io_then (write_reg SYSCFG_OFFSET_SHELL_RESET 0x10) (shell_wait 0x10)
        else io_then (write_reg SYSCFG_OFFSET_SHELL_RESET 0x100) (shell_wait 0x100))
    (io_bind (io_get rs_fec) (\<lambda>fec.
     io_then (io_when (fec \<noteq> 0) (write_regs (rsfec_writes cmac_id)))
    (io_then (write_regs (cmac_writes cmac_id))
     (io_ret 0))))"

text \<open>The loop over the CMACs from \<open>i\<close> on, with \<open>n\<close> left; its value is \<open>i\<close> at the end.\<close>

fun init_cmacs :: "nat \<Rightarrow> nat \<Rightarrow> nat onic_io" where
  "init_cmacs i 0 = io_ret i"
| "init_cmacs i (Suc n) =
     io_then (write_reg SYSCFG_OFFSET_SHELL_RESET (push_bit (4 * i) 0x10))
    (io_then (shell_wait (push_bit (4 * i) 0x10))
    (io_bind (read_reg (CMAC_OFFSET_CORE_VERSION (int i))) (\<lambda>val.
     if val \<noteq> ONIC_CMAC_CORE_VERSION then io_ret i
     else io_then (io_bind (enable_cmac (int i)) (\<lambda>_. io_ret ())) (init_cmacs (Suc i) n))))"

definition init_hardware :: "int onic_io" where
  "init_hardware =
     io_then (write_reg 0x1000 0x1)
    (io_then (write_reg 0x2000 0x00010001)
    (io_then (poll_until (read_reg SYSCFG_OFFSET_SHELL_STATUS) 0x10 (io_ret ()))
    (io_bind (init_cmacs 0 NB_CMAC) (\<lambda>i. io_ret 0))))"

section \<open>Reading statistics\<close>

text \<open>A sequence of \<open>stats.field = read_reg(offset)\<close>.\<close>

primrec read_into ::
  "(((u32 \<Rightarrow> u32) \<Rightarrow> cmac_stats \<Rightarrow> cmac_stats) \<times> u32) list \<Rightarrow> cmac_stats \<Rightarrow> cmac_stats onic_io" where
  "read_into [] stats = io_ret stats"
| "read_into (x # xs) stats =
     io_bind (read_reg (snd x)) (\<lambda>v. read_into xs (fst x (\<lambda>_. v) stats))"

definition get_cmac_debug_stats :: "int \<Rightarrow> cmac_stats \<Rightarrow> cmac_stats onic_io" where
  "get_cmac_debug_stats i stats =
     io_bind (read_into [
     (rx_total_pkts_update, CMAC_OFFSET_STAT_RX_TOTAL_PKTS i),
     (rx_total_good_pkts_update, CMAC_OFFSET_STAT_RX_TOTAL_GOOD_PKTS i),
     (rx_total_bytes_update, CMAC_OFFSET_STAT_RX_TOTAL_BYTES i),
     (rx_total_good_bytes_update, CMAC_OFFSET_STAT_RX_TOTAL_GOOD_BYTES i)] stats) (\<lambda>stats.
     read_into [
     (rx_pkt_large_update, CMAC_OFFSET_STAT_RX_PKT_LARGE i),
     (rx_pkt_small_update, CMAC_OFFSET_STAT_RX_PKT_SMALL i),
     (rx_undersize_update, CMAC_OFFSET_STAT_RX_UNDERSIZE i),
     (rx_frag_update, CMAC_OFFSET_STAT_RX_FRAGMENT i),
     (rx_oversize_update, CMAC_OFFSET_STAT_RX_OVERSIZE i),
     (rx_toolong_update, CMAC_OFFSET_STAT_RX_TOOLONG i),
     (rx_jabber_update, CMAC_OFFSET_STAT_RX_JABBER i),
     (rx_bad_fcs_update, CMAC_OFFSET_STAT_RX_BAD_FCS i),
     (rx_pkt_bad_fcs_update, CMAC_OFFSET_STAT_RX_PKT_BAD_FCS i),
     (rx_stomped_fcs_update, CMAC_OFFSET_STAT_RX_STOMPED_FCS i),
     (rx_unicast_update, CMAC_OFFSET_STAT_RX_UNICAST i),
     (rx_multicast_update, CMAC_OFFSET_STAT_RX_MULTICAST i),
     (rx_broadcast_update, CMAC_OFFSET_STAT_RX_BROADCAST i),
     (rx_vlan_update, CMAC_OFFSET_STAT_RX_VLAN i),
     (rx_pause_update, CMAC_OFFSET_STAT_RX_PAUSE i),
     (rx_user_pause_update, CMAC_OFFSET_STAT_RX_USER_PAUSE i),
     (rx_in_range_err_update, CMAC_OFFSET_STAT_RX_INRANGEERR i),
     (rx_truncated_update, CMAC_OFFSET_STAT_RX_TRUNCATED i)]
       (stats\<lparr>rx_pkt_65_127 := CMAC_OFFSET_STAT_RX_PKT_65_127_BYTES i\<rparr>))"

definition get_cmac_stats :: "int \<Rightarrow> bool \<Rightarrow> cmac_stats onic_io" where
  "get_cmac_stats i debug =
     io_then (write_reg (CMAC_OFFSET_TICK i) 1)
    (io_bind (read_into [
     (tx_total_pkts_update, CMAC_OFFSET_STAT_TX_TOTAL_PKTS i),
     (tx_total_good_pkts_update, CMAC_OFFSET_STAT_TX_TOTAL_GOOD_PKTS i),
     (tx_total_bytes_update, CMAC_OFFSET_STAT_TX_TOTAL_BYTES i),
     (tx_total_good_bytes_update, CMAC_OFFSET_STAT_TX_TOTAL_GOOD_BYTES i),
     (rx_total_pkts_update, CMAC_OFFSET_STAT_RX_TOTAL_PKTS i),
     (rx_total_good_pkts_update, CMAC_OFFSET_STAT_RX_TOTAL_GOOD_PKTS i),
     (rx_total_bytes_update, CMAC_OFFSET_STAT_RX_TOTAL_BYTES i),
     (rx_total_good_bytes_update, CMAC_OFFSET_STAT_RX_TOTAL_GOOD_BYTES i)] cmac_stats_zero) (\<lambda>stats.
     if debug then get_cmac_debug_stats i stats else io_ret stats))"

definition adaptor_text :: "int \<Rightarrow> u32 \<Rightarrow> u32 \<Rightarrow> u32 \<Rightarrow> u32 \<Rightarrow> u32 \<Rightarrow> string" where
  "adaptor_text i tx_pkts tx_pkts_drop rx_pkts rx_pkts_drop rx_pkts_err =
     ''Packet adaptor stats for port '' @ dec_int i @ ''\<newline>''
     @ ''tx_pkts: '' @ dec (unat tx_pkts) @ ''\<newline>''
     @ ''tx_pkts_drop: '' @ dec (unat tx_pkts_drop) @ ''\<newline>''
     @ ''rx_pkts: '' @ dec (unat rx_pkts) @ ''\<newline>''
     @ ''rx_pkts_drop: '' @ dec (unat rx_pkts_drop) @ ''\<newline>''
     @ ''rx_pkts_err: '' @ dec (unat rx_pkts) @ ''\<newline>\<newline>''"

definition print_packet_adaptor_stats :: "int \<Rightarrow> string onic_io" where
  "print_packet_adaptor_stats i =
     io_bind (read_reg (CMAC_ADPT_OFFSET_TX_PKT_RECV i)) (\<lambda>tx_pkts.
     io_bind (read_reg (CMAC_ADPT_OFFSET_TX_PKT_DROP i)) (\<lambda>tx_pkts_drop.
     io_bind (read_reg (CMAC_ADPT_OFFSET_RX_PKT_RECV i)) (\<lambda>rx_pkts.
     io_bind (read_reg (CMAC_ADPT_OFFSET_RX_PKT_DROP i)) (\<lambda>rx_pkts_drop.
     io_bind (read_reg (CMAC_ADPT_OFFSET_RX_PKT_ERROR i)) (\<lambda>rx_pkts_err.
     io_ret (adaptor_text i tx_pkts tx_pkts_drop rx_pkts rx_pkts_drop rx_pkts_err))))))"

section \<open>Constructor and destructor\<close>

text \<open>A member function of the port at index \<open>i\<close>.\<close>

definition on_port :: "nat \<Rightarrow> 'a port_io \<Rightarrow> 'a onic_io" where
  "on_port i m = io_on (\<lambda>s. ports s ! i) (\<lambda>u s. s\<lparr>ports := (ports s)[i := u]\<rparr>) m"

text \<open>
  The constructor.  \<open>ring_ids\<close> is the class variable, and the value is what it becomes.  A
  port that is not constructed from the arguments is left as the default constructor of
  \<open>OnicPort\<close> made it (the state the program starts in).
\<close>

definition Onic_ctor ::
  "dpdk_cfg \<Rightarrow> int \<Rightarrow> port_info list \<Rightarrow> int list \<Rightarrow> int \<Rightarrow> int \<Rightarrow> int \<Rightarrow> int \<Rightarrow> int onic_io" where
  "Onic_ctor cfg ring_ids portInfos port_ids nb_ports config_id axil_bar fec =
     (if \<not> nb_ports \<le> int NB_PORTS then io_exit AssertFailed
      else
        io_then (io_modify (\<lambda>s. s\<lparr>ring_name := dec_int ring_ids\<rparr>))
       (io_bind (io_get ring_name) (\<lambda>name.
        io_bind (io_call (EthSocketId (port_ids ! 0))) (\<lambda>socket.
        io_bind (io_call (RingCreate name RING_SIZE (rv socket) [RING_F_SP_ENQ, RING_F_SC_DEQ])) (\<lambda>ring.
        io_then (io_modify (\<lambda>s. s\<lparr>mbuf_ring := rv ring\<rparr>))
       (io_then (io_for [0..<nat nb_ports] (\<lambda>i.
          io_bind (io_get (\<lambda>s. bdf (ports s ! i))) (\<lambda>junk.
          on_port i (OnicPort_ctor cfg junk (portInfos ! i) (port_ids ! i)))))
       (io_then (io_modify (\<lambda>s. s\<lparr>
          config_port_id := (if config_id = - 1 then port_ids ! 0 else config_id)\<rparr>))
       (io_then (io_modify (\<lambda>s. s\<lparr>
          axil_bar_id := (if axil_bar = - 1 then user_bar_idx (pinfo (ports s ! 0)) else axil_bar)\<rparr>))
       (io_then (io_modify (\<lambda>s. s\<lparr>rs_fec := fec\<rparr>))
       (io_bind init_hardware (\<lambda>_. io_ret (ring_ids + 1))))))))))))"

text \<open>The destructor; the ports are destroyed after its body, the last one first.\<close>

definition Onic_dtor :: "dpdk_cfg \<Rightarrow> unit onic_io" where
  "Onic_dtor cfg =
     io_then (write_reg SYSCFG_OFFSET_SYSTEM_RESET 0x1)
             (io_for (rev [0..<NB_PORTS]) (\<lambda>i. on_port i (OnicPort_dtor cfg)))"

text \<open>
  The line \<open>onic_log\<close> hands to the log of DPDK, for a message \<open>vsnprintf\<close> has formatted: it is
  cut to what a buffer of 256 bytes holds, and an empty one is not logged.
\<close>

definition onic_log :: "u32 \<Rightarrow> string \<Rightarrow> (u32 \<times> string) option" where
  "onic_log level msg = (if 0 < length msg then Some (level, ''ONIC: '' @ take 255 msg) else None)"

lemma onic_log_whole: "onic_log level msg = Some (level, ''ONIC: '' @ msg) \<longleftrightarrow> msg \<noteq> [] \<and> length msg < 256"
proof -
  have "take 255 msg = msg \<longleftrightarrow> length msg < 256" by (subst take_all_iff) arith
  then show ?thesis by (simp add: onic_log_def)
qed

definition get_port_ids :: "onic \<Rightarrow> int list" where
  "get_port_ids s = map (\<lambda>i. port_id (ports s ! i)) [0..<NB_PORTS]"

section \<open>The card provides the register interface\<close>

abbreviation reg_bar :: "onic \<Rightarrow> u32" where
  "reg_bar s \<equiv> word_of_int (axil_bar_id s)"

interpretation regs: reg_access read_reg write_reg config_port_id reg_bar
  by unfold_locales (simp_all add: read_reg_def write_reg_def PciRead_def PciWrite_def io_simps Let_def)

lemmas [io_wp_simps] = regs.rd_wp regs.wr_wp
lemmas [total_rules] = regs.total_rd regs.total_wr

abbreviation status_read :: "onic \<Rightarrow> dpdk_call" where
  "status_read s \<equiv> PciReadReg (config_port_id s) (reg_bar s) SYSCFG_OFFSET_SHELL_STATUS"

definition shell_ready :: "(dpdk_call, resp) env \<Rightarrow> onic \<Rightarrow> u32 \<Rightarrow> nat \<Rightarrow> bool" where
  "shell_ready e s m n = status_ready e (config_port_id s) (reg_bar s) SYSCFG_OFFSET_SHELL_STATUS m n"

definition wait_calls :: "onic \<Rightarrow> nat \<Rightarrow> dpdk_call list" where
  "wait_calls s k = concat (replicate k [status_read s, DelayMs 1]) @ [status_read s]"

lemma shell_wait_for: "shell_wait m = io_loop (poll_body (read_reg SYSCFG_OFFSET_SHELL_STATUS) m (io_for [DelayMs 1] io_do))"
  by (simp add: shell_wait_def poll_until_def CMAC_RESET_WAIT_MS_def)

lemma shell_wait_wp [THEN io_wp_mono]:
  "io_wp e (shell_wait m) (\<lambda>_ s' t'. s' = s \<and> (\<exists>d k. t' = t @ d \<and>
      shell_ready e s m (length t + 2 * k) \<and> calls d = wait_calls s k)) (\<lambda>_ _ _. False) s t"
  using regs.poll_wp [of e SYSCFG_OFFSET_SHELL_STATUS m "[DelayMs 1]" s t]
  by (simp add: shell_wait_for shell_ready_def wait_calls_def mult_2)

lemma shell_wait_returns_iff:
  "shell_wait m e s t \<noteq> None \<longleftrightarrow> (\<exists>k. shell_ready e s m (length t + 2 * k))"
  using regs.poll_returns_iff [of SYSCFG_OFFSET_SHELL_STATUS m "[DelayMs 1]" e s t]
  by (simp add: shell_wait_for shell_ready_def mult_2)

lemma write_regs_run:
  "\<exists>d. write_regs ws e s t = Some (Inr (), s, t @ d) \<and>
     calls d = map (\<lambda>(off, v). PciWriteReg (config_port_id s) (reg_bar s) off v) ws"
  using regs.wr_list_run by (simp add: write_regs_def)

lemma write_regs_wp:
  assumes "\<And>d. calls d = map (\<lambda>(off, v). PciWriteReg (config_port_id s) (reg_bar s) off v) ws \<Longrightarrow> Q () s (t @ d)"
  shows "io_wp e (write_regs ws) Q E s t"
  using write_regs_run [of ws e s t] assms by (auto simp: io_wp_def)

lemma total_write_regs [total_rules]: "io_total (write_regs ws)"
  by (auto simp: write_regs_def intro!: total_rules)

section \<open>What enable\_cmac does\<close>

definition reset_mask :: "int \<Rightarrow> u32" where
  "reset_mask i = (if i = 0 then 0x10 else 0x100)"

definition enable_calls :: "onic \<Rightarrow> int \<Rightarrow> nat \<Rightarrow> dpdk_call list" where
  "enable_calls s i k =
     PciWriteReg (config_port_id s) (reg_bar s) SYSCFG_OFFSET_SHELL_RESET (reset_mask i) # wait_calls s k @
     map (\<lambda>(off, v). PciWriteReg (config_port_id s) (reg_bar s) off v)
       ((if rs_fec s \<noteq> 0 then rsfec_writes i else []) @ cmac_writes i)"

lemma enable_cmac_eq: "enable_cmac i =
     io_then (write_reg SYSCFG_OFFSET_SHELL_RESET (reset_mask i))
    (io_then (shell_wait (reset_mask i))
    (io_bind (io_get rs_fec) (\<lambda>fec.
     io_then (io_when (fec \<noteq> 0) (write_regs (rsfec_writes i)))
    (io_then (write_regs (cmac_writes i)) (io_ret 0)))))"
  by (simp add: enable_cmac_def reset_mask_def io_then_assoc)

lemma enable_cmac_wp:
  "io_wp e (enable_cmac i) (\<lambda>r s' t'. r = 0 \<and> s' = s \<and> (\<exists>d k. t' = t @ d \<and>
      shell_ready e s (reset_mask i) (length t + 1 + 2 * k) \<and> calls d = enable_calls s i k))
     (\<lambda>_ _ _. False) s t"
  unfolding enable_cmac_eq io_wp_simps Let_def
  by (rule shell_wait_wp)
     (auto simp: io_wp_simps enable_calls_def add.commute intro!: write_regs_wp)

lemma enable_cmac_None_iff:
  "enable_cmac i e s t = None \<longleftrightarrow>
   shell_wait (reset_mask i) e s (t @ [(let c = PciWriteReg (config_port_id s) (reg_bar s)
      SYSCFG_OFFSET_SHELL_RESET (reset_mask i) in (c, e (length t) c))]) = None"
  (is "?L \<longleftrightarrow> ?W = None")
proof -
  have fec: "io_total (io_bind (io_get rs_fec) (\<lambda>fec.
     io_then (io_when (fec \<noteq> 0) (write_regs (rsfec_writes i)))
    (io_then (write_regs (cmac_writes i)) (io_ret 0))) :: int onic_io)"
    by (auto intro!: total_rules)
  show ?thesis
    unfolding enable_cmac_eq using fec
    by (simp add: io_then_run regs.wr_run Let_def io_total_def split: option.splits sum.splits)
qed

text \<open>
  C23: \<open>enable_cmac\<close> returns exactly when some read of the shell status, the first one right
  after the reset and then one every two calls, finds the bit of the CMAC set; a card whose
  bit stays clear holds the caller for ever.
\<close>

theorem enable_cmac_returns_iff:
  "enable_cmac i e s t \<noteq> None \<longleftrightarrow> (\<exists>k. shell_ready e s (reset_mask i) (length t + 1 + 2 * k))"
  using shell_wait_returns_iff by (simp add: enable_cmac_None_iff)

section \<open>The register file a run leaves\<close>

text \<open>The writes of a run, and the value each register was last given through the device and BAR of \<open>s\<close>.\<close>

definition reg_writes :: "dpdk_call list \<Rightarrow> (int \<times> u32 \<times> u32 \<times> u32) list" where
  "reg_writes cs = concat (map (\<lambda>c. case c of PciWriteReg p b off v \<Rightarrow> [(p, b, off, v)] | _ \<Rightarrow> []) cs)"

definition dev_writes :: "onic \<Rightarrow> dpdk_call list \<Rightarrow> (u32 \<times> u32) list" where
  "dev_writes s cs = map (\<lambda>(p, b, off, v). (off, v))
     (filter (\<lambda>(p, b, off, v). p = config_port_id s \<and> b = reg_bar s) (reg_writes cs))"

definition reg_after :: "onic \<Rightarrow> dpdk_call list \<Rightarrow> u32 \<Rightarrow> u32 option" where
  "reg_after s cs = map_of (rev (dev_writes s cs))"

lemma reg_writes_simps [simp]:
  "reg_writes [] = []"
  "reg_writes (c # cs) = (case c of PciWriteReg p b off v \<Rightarrow> [(p, b, off, v)] | _ \<Rightarrow> []) @ reg_writes cs"
  "reg_writes (cs @ ds) = reg_writes cs @ reg_writes ds"
  by (simp_all add: reg_writes_def)

lemma reg_writes_wait [simp]: "reg_writes (wait_calls s k) = []"
  by (induction k) (simp_all add: wait_calls_def)

lemma reg_writes_list [simp]:
  "reg_writes (map (\<lambda>(off, v). PciWriteReg p b off v) ws) = map (\<lambda>(off, v). (p, b, off, v)) ws"
  by (induction ws) auto

lemma dev_writes_append [simp]: "dev_writes s (cs @ ds) = dev_writes s cs @ dev_writes s ds"
  by (simp add: dev_writes_def)

lemma dev_writes_simps [simp]:
  "dev_writes s [] = []"
  "dev_writes s (wait_calls s k) = []"
  "dev_writes s (PciWriteReg (config_port_id s) (reg_bar s) off v # cs) = (off, v) # dev_writes s cs"
  "dev_writes s (PciReadReg p b off # cs) = dev_writes s cs"
  by (simp_all add: dev_writes_def)

lemma dev_writes_list [simp]:
  "dev_writes s (map (\<lambda>(off, v). PciWriteReg (config_port_id s) (reg_bar s) off v) ws) = ws"
  by (induction ws) (auto simp: dev_writes_def)

text \<open>
  What a working CMAC needs in its registers: the receiver and the transmitter on (and the
  transmitter no longer in the state it starts from), flow control in both directions with the
  longest quanta and refresh times, and error correction if the card has it.
\<close>

definition cmac_up :: "int \<Rightarrow> int \<Rightarrow> (u32 \<Rightarrow> u32 option) \<Rightarrow> bool" where
  "cmac_up fec i reg \<longleftrightarrow>
     reg (CMAC_OFFSET_CONF_RX_1 i) = Some 1 \<and> reg (CMAC_OFFSET_CONF_TX_1 i) = Some 1 \<and>
     reg (CMAC_OFFSET_CONF_RX_FC_CTRL_1 i) = Some 0x3DFF \<and>
     reg (CMAC_OFFSET_CONF_RX_FC_CTRL_2 i) = Some 0x1C631 \<and>
     (\<forall>r \<in> set [CMAC_OFFSET_CONF_TX_FC_QNTA_1 i, CMAC_OFFSET_CONF_TX_FC_QNTA_2 i,
        CMAC_OFFSET_CONF_TX_FC_QNTA_3 i, CMAC_OFFSET_CONF_TX_FC_QNTA_4 i,
        CMAC_OFFSET_CONF_TX_FC_RFRH_1 i, CMAC_OFFSET_CONF_TX_FC_RFRH_2 i,
        CMAC_OFFSET_CONF_TX_FC_RFRH_3 i, CMAC_OFFSET_CONF_TX_FC_RFRH_4 i]. reg r = Some 0xFFFFFFFF) \<and>
     reg (CMAC_OFFSET_CONF_TX_FC_QNTA_5 i) = Some 0xFFFF \<and>
     reg (CMAC_OFFSET_CONF_TX_FC_RFRH_5 i) = Some 0xFFFF \<and>
     reg (CMAC_OFFSET_CONF_TX_FC_CTRL_1 i) = Some 0x1FF \<and>
     (fec \<noteq> 0 \<longrightarrow> reg (CMAC_OFFSET_RSFEC_CONF_ENABLE i) = Some 3 \<and>
        reg (CMAC_OFFSET_RSFEC_CONF_IND_CORRECTION i) = Some 7)"

lemma reg_after_enable:
  "reg_after s (enable_calls s i k) =
   map_of (rev ((SYSCFG_OFFSET_SHELL_RESET, reset_mask i) #
      (if rs_fec s \<noteq> 0 then rsfec_writes i else []) @ cmac_writes i))"
  by (simp add: reg_after_def enable_calls_def del: map_append)

lemma cmac_up_enable: "cmac_up (rs_fec s) i (reg_after s (enable_calls s i k))"
  unfolding cmac_up_def reg_after_enable
  by (simp add: cmac_writes_def rsfec_writes_def reg_defs)

lemma enable_writes_where:
  "set (reg_writes (enable_calls s i k)) \<subseteq>
   {config_port_id s} \<times> {reg_bar s} \<times> insert SYSCFG_OFFSET_SHELL_RESET (set (cmac_regs i)) \<times> UNIV"
  by (auto simp: enable_calls_def cmac_writes_def rsfec_writes_def cmac_regs_def)

lemma all_regs_distinct: "distinct (map unat all_regs)"
  by (rule sorted_wrt_less_distinct [OF all_regs_sorted])

lemma cmac_regs_apart:
  "set (cmac_regs 0) \<inter> set (cmac_regs 1) = {}"
  "SYSCFG_OFFSET_SHELL_RESET \<notin> set (cmac_regs 0)" "SYSCFG_OFFSET_SHELL_RESET \<notin> set (cmac_regs 1)"
  using all_regs_distinct [unfolded distinct_map, THEN conjunct1]
  by (auto simp: all_regs_def syscfg_regs_def)

text \<open>
  C6: When \<open>enable_cmac\<close> returns, its CMAC is up: the last value written to each of its
  configuration registers is the one a working link needs.  Every write went through the
  port and BAR of the card, to the shell reset or to a register of that CMAC, and the bit of
  the CMAC had been seen in the shell status.
\<close>

theorem enable_cmac_configures:
  assumes "enable_cmac i e s t = Some (Inr r, s', t @ d)"
  shows "r = 0 \<and> s' = s \<and> cmac_up (rs_fec s) i (reg_after s (calls d)) \<and>
    set (reg_writes (calls d)) \<subseteq>
      {config_port_id s} \<times> {reg_bar s} \<times> insert SYSCFG_OFFSET_SHELL_RESET (set (cmac_regs i)) \<times> UNIV \<and>
    (\<exists>n. shell_ready e s (reset_mask i) n \<and> length t < n \<and> n < length t + length d)"
proof -
  from io_wpD [OF enable_cmac_wp assms] obtain k where "r = 0" "s' = s"
    and ready: "shell_ready e s (reset_mask i) (length t + 1 + 2 * k)"
    and d: "calls d = enable_calls s i k" by auto
  from d have "length d = length (enable_calls s i k)" by (metis length_map)
  then have "length t + 1 + 2 * k < length t + length d"
    by (simp add: enable_calls_def wait_calls_def length_concat sum_list_replicate cmac_writes_def)
  with ready have "\<exists>n. shell_ready e s (reset_mask i) n \<and> length t < n \<and> n < length t + length d"
    by (intro exI [of _ "length t + 1 + 2 * k"]) simp
  with \<open>r = 0\<close> \<open>s' = s\<close> show ?thesis
    unfolding d using cmac_up_enable enable_writes_where by blast
qed

section \<open>What init\_hardware does\<close>

text \<open>The reset of the CMAC of number \<open>i\<close> by \<open>init_hardware\<close>, up to the read of its version.\<close>

definition version_call :: "onic \<Rightarrow> nat \<Rightarrow> dpdk_call" where
  "version_call s i = PciReadReg (config_port_id s) (reg_bar s) (CMAC_OFFSET_CORE_VERSION (int i))"

definition start_calls :: "onic \<Rightarrow> nat \<Rightarrow> nat \<Rightarrow> dpdk_call list" where
  "start_calls s i k =
     PciWriteReg (config_port_id s) (reg_bar s) SYSCFG_OFFSET_SHELL_RESET (push_bit (4 * i) 0x10)
     # wait_calls s k @ [version_call s i]"

text \<open>
  The runs of the loop over the CMACs: it goes from CMAC \<open>i\<close>, with \<open>n\<close> left, and stops at \<open>c\<close>.
\<close>

inductive cmac_init :: "onic \<Rightarrow> nat \<Rightarrow> nat \<Rightarrow> (dpdk_call, resp) trace \<Rightarrow> nat \<Rightarrow> bool" for s where
  all: "cmac_init s i 0 [] i"
| wrong: "calls d = start_calls s i k \<Longrightarrow>
    word_of_int (rv (snd (last d))) \<noteq> ONIC_CMAC_CORE_VERSION \<Longrightarrow> cmac_init s i (Suc n) d i"
| up: "calls d = start_calls s i k \<Longrightarrow>
    word_of_int (rv (snd (last d))) = ONIC_CMAC_CORE_VERSION \<Longrightarrow> calls d' = enable_calls s (int i) k' \<Longrightarrow>
    cmac_init s (Suc i) n d'' c \<Longrightarrow> cmac_init s i (Suc n) (d @ d' @ d'') c"

inductive_cases cmac_init_0E: "cmac_init s i 0 d c"
inductive_cases cmac_init_SucE: "cmac_init s i (Suc n) d c"

lemma init_cmacs_wp:
  "io_wp e (init_cmacs i n) (\<lambda>c s' t'. s' = s \<and> (\<exists>d. t' = t @ d \<and> cmac_init s i n d c)) (\<lambda>_ _ _. False) s t"
proof (induction n arbitrary: i t)
  case 0
  show ?case by (auto simp: io_wp_simps intro: cmac_init.all)
next
  case (Suc n)
  have wait: "\<exists>d. t' @ [(version_call s i, r)] = t @ d \<and> calls d = start_calls s i k \<and> last d = (version_call s i, r)"
    if "t' = (t @ [(PciWriteReg (config_port_id s) (reg_bar s) SYSCFG_OFFSET_SHELL_RESET (push_bit (4 * i) 0x10), r0)]) @ d"
      and "calls d = wait_calls s k" for t' d k r r0
    using that by (intro exI [of _ "(PciWriteReg (config_port_id s) (reg_bar s) SYSCFG_OFFSET_SHELL_RESET
      (push_bit (4 * i) 0x10), r0) # d @ [(version_call s i, r)]"]) (simp add: start_calls_def)
  have go: "io_wp e (init_cmacs (Suc i) n)
      (\<lambda>c s' t'. s' = s \<and> (\<exists>d. t' = t @ d \<and> cmac_init s i (Suc n) d c)) (\<lambda>_ _ _. False) s (t @ d @ d')"
    if "calls d = start_calls s i k" "word_of_int (rv (snd (last d))) = ONIC_CMAC_CORE_VERSION"
      "calls d' = enable_calls s (int i) k'" for d d' k k'
    by (rule io_wp_mono [OF Suc.IH]) (use cmac_init.up [OF that] in auto)
  have enable: "io_wp e (io_then (io_bind (enable_cmac (int i)) (\<lambda>_. io_ret ())) (init_cmacs (Suc i) n))
      (\<lambda>c s' t'. s' = s \<and> (\<exists>d. t' = t @ d \<and> cmac_init s i (Suc n) d c)) (\<lambda>_ _ _. False) s (t @ d)"
    if "calls d = start_calls s i k" "word_of_int (rv (snd (last d))) = ONIC_CMAC_CORE_VERSION" for d k
    unfolding io_wp_then io_wp_bind
    by (rule io_wp_mono [OF enable_cmac_wp]) (use go [OF that] in \<open>auto simp: io_wp_ret\<close>)
  show ?case
    unfolding init_cmacs.simps io_wp_simps Let_def
  proof (rule shell_wait_wp)
    fix a s' t'
    let ?w = "PciWriteReg (config_port_id s) (reg_bar s) SYSCFG_OFFSET_SHELL_RESET (push_bit (4 * i) 0x10)"
    assume "s' = s \<and> (\<exists>d k. t' = (t @ [(?w, e (length t) ?w)]) @ d \<and>
        shell_ready e s (push_bit (4 * i) 0x10) (length (t @ [(?w, e (length t) ?w)]) + 2 * k) \<and> calls d = wait_calls s k)"
    then obtain d k where s': "s' = s" and t': "t' = (t @ [(?w, e (length t) ?w)]) @ d" and d: "calls d = wait_calls s k"
      by blast
    let ?r = "e (length t') (version_call s i)"
    from wait [OF t' d, of ?r] obtain d1 where d1: "t' @ [(version_call s i, ?r)] = t @ d1"
      "calls d1 = start_calls s i k" "last d1 = (version_call s i, ?r)" by blast
    show "io_wp e (if word_of_int (rv (e (length t') (PciReadReg (config_port_id s') (reg_bar s') (CMAC_OFFSET_CORE_VERSION (int i)))))
           \<noteq> ONIC_CMAC_CORE_VERSION then io_ret i
        else io_then (io_bind (enable_cmac (int i)) (\<lambda>_. io_ret ())) (init_cmacs (Suc i) n))
        (\<lambda>c s' t'. s' = s \<and> (\<exists>d. t' = t @ d \<and> cmac_init s i (Suc n) d c)) (\<lambda>_ _ _. False) s'
        (t' @ [(PciReadReg (config_port_id s') (reg_bar s') (CMAC_OFFSET_CORE_VERSION (int i)),
          e (length t') (PciReadReg (config_port_id s') (reg_bar s') (CMAC_OFFSET_CORE_VERSION (int i))))])"
      using d1 by (auto simp: s' version_call_def [symmetric] io_wp_ret intro: enable cmac_init.wrong)
  qed simp
qed

text \<open>What \<open>init_hardware\<close> does before the loop over the CMACs.\<close>

definition queue_conf_calls :: "onic \<Rightarrow> nat \<Rightarrow> dpdk_call list" where
  "queue_conf_calls s k =
     [PciWriteReg (config_port_id s) (reg_bar s) 0x1000 0x1,
      PciWriteReg (config_port_id s) (reg_bar s) 0x2000 0x00010001]
     @ replicate k (status_read s) @ [status_read s]"

lemma init_hardware_wp:
  "io_wp e init_hardware (\<lambda>r s' t'. r = 0 \<and> s' = s \<and> (\<exists>d k d' c. t' = t @ d @ d' \<and>
      calls d = queue_conf_calls s k \<and>
      cmac_init s 0 2 d' c)) (\<lambda>_ _ _. False) s t"
proof -
  have poll: "io_wp e (poll_until (read_reg SYSCFG_OFFSET_SHELL_STATUS) 0x10 (io_ret ()))
     (\<lambda>_ s' t'. s' = s \<and> (\<exists>d k. t' = t @ d \<and> calls d = replicate k (status_read s) @ [status_read s]))
     (\<lambda>_ _ _. False) s t" for t
    by (rule io_wp_mono [OF regs.poll_wp [of e SYSCFG_OFFSET_SHELL_STATUS "0x10" "[]", simplified, folded poll_until_def]])
      auto
  have loop: "io_wp e (init_cmacs 0 2) (\<lambda>_ s' t'. s' = s \<and> (\<exists>d k d' c. t' = t @ d @ d' \<and>
      calls d = queue_conf_calls s k \<and>
      cmac_init s 0 2 d' c)) (\<lambda>_ _ _. False) s (t @ d)"
    if "calls d = queue_conf_calls s k" for d k
    by (rule io_wp_mono [OF init_cmacs_wp]) (use that in auto)
  have calls: "calls ((PciWriteReg (config_port_id s) (reg_bar s) 0x1000 0x1, r) #
        (PciWriteReg (config_port_id s) (reg_bar s) 0x2000 0x00010001, r') # d) = queue_conf_calls s k"
    if "calls d = replicate k (status_read s) @ [status_read s]" for d k r r'
    using that by (simp add: queue_conf_calls_def)
  show ?thesis
    unfolding init_hardware_def NB_CMAC_def io_wp_simps Let_def
    by (rule io_wp_mono [OF poll]; (elim conjE exE)?; clarsimp simp: io_wp_ret;
        rule loop [OF calls, simplified]; assumption)
qed

text \<open>The first answer the run got for the version of CMAC \<open>i\<close>.\<close>

definition version_seen :: "onic \<Rightarrow> (dpdk_call, resp) trace \<Rightarrow> nat \<Rightarrow> u32 option" where
  "version_seen s d i = map_option (\<lambda>r. word_of_int (rv r)) (map_of d (version_call s i))"

lemma start_writes [simp]:
  "dev_writes s (start_calls s i k) = [(SYSCFG_OFFSET_SHELL_RESET, push_bit (4 * i) 0x10)]"
  by (simp add: start_calls_def version_call_def)

lemma queue_conf_writes [simp]:
  "dev_writes s (queue_conf_calls s k) = [(0x1000, 1), (0x2000, 0x10001)]"
proof -
  have "dev_writes s (replicate k (status_read s)) = []"
    by (induction k) auto
  then show ?thesis by (simp add: queue_conf_calls_def)
qed

lemma enable_writes [simp]:
  "dev_writes s (enable_calls s i k) =
     (SYSCFG_OFFSET_SHELL_RESET, reset_mask i) # (if rs_fec s \<noteq> 0 then rsfec_writes i else []) @ cmac_writes i"
  by (simp add: enable_calls_def del: map_append)

lemma version_calls_neq:
  "i < 2 \<Longrightarrow> j < 2 \<Longrightarrow> version_call s i = version_call s j \<longleftrightarrow> i = j"
  "version_call s i \<noteq> status_read s"
  by (auto simp: version_call_def reg_defs less_2_cases_iff)

lemma no_version:
  "version_call s j \<notin> set (wait_calls s k)"
  "version_call s j \<notin> set (enable_calls s i k)"
  "version_call s j \<notin> set (queue_conf_calls s k)"
  using version_calls_neq(2) [of s j]
  by (auto simp: enable_calls_def wait_calls_def queue_conf_calls_def version_call_def)

lemma map_of_skip: "c \<notin> set (calls d) \<Longrightarrow> map_of (d @ d') c = map_of d' c"
  by (induction d) auto

lemma map_of_none: "c \<notin> set (calls d) \<Longrightarrow> map_of d c = None"
  by (induction d) auto

lemma start_version:
  assumes "calls d = start_calls s i k"
  shows "map_of (d @ d') (version_call s i) = Some (snd (last d))"
    and "j < 2 \<Longrightarrow> i < 2 \<Longrightarrow> j \<noteq> i \<Longrightarrow> version_call s j \<notin> set (calls d)"
proof -
  from assms obtain b r where d: "d = b @ [(version_call s i, r)]"
    and b: "calls b = PciWriteReg (config_port_id s) (reg_bar s) SYSCFG_OFFSET_SHELL_RESET (push_bit (4 * i) 0x10) # wait_calls s k"
    by (cases d rule: rev_cases) (auto simp: start_calls_def simp del: append_Cons simp flip: append_Cons)
  have "version_call s j \<notin> set (calls b)" for j
    unfolding b using no_version(1) by (auto simp: version_call_def)
  then show "map_of (d @ d') (version_call s i) = Some (snd (last d))"
    and "j < 2 \<Longrightarrow> i < 2 \<Longrightarrow> j \<noteq> i \<Longrightarrow> version_call s j \<notin> set (calls d)"
    using version_calls_neq(1) [of j i s] by (simp_all add: d map_of_skip del: map_of_append)
qed

lemma cmac_regs_high: "r \<in> set (cmac_regs i) \<Longrightarrow> 0x8000 \<le> unat r"
proof -
  assume "r \<in> set (cmac_regs i)"
  then have "unat r \<in> set (map unat (cmac_regs i))" by simp
  then show ?thesis unfolding cmac_regs_unat by (auto split: if_splits)
qed

lemma not_cmac_regs:
  "0x1000 \<notin> set (cmac_regs i)" "0x2000 \<notin> set (cmac_regs i)" "SYSCFG_OFFSET_SHELL_RESET \<notin> set (cmac_regs i)"
  by (auto simp: reg_defs dest!: cmac_regs_high)

lemma cmac_conf_in_regs: "fst ` set (cmac_writes i) \<subseteq> set (cmac_regs i)" "fst ` set (rsfec_writes i) \<subseteq> set (cmac_regs i)"
  by (auto simp: cmac_writes_def rsfec_writes_def cmac_regs_def)

definition versions_ok :: "onic \<Rightarrow> (dpdk_call, resp) trace \<Rightarrow> nat \<Rightarrow> bool" where
  "versions_ok s d j \<longleftrightarrow> (\<forall>k \<le> j. version_seen s d k = Some ONIC_CMAC_CORE_VERSION)"

definition cmac_runs :: "onic \<Rightarrow> (dpdk_call, resp) trace \<Rightarrow> nat \<Rightarrow> bool" where
  "cmac_runs s d j \<longleftrightarrow> (if versions_ok s d j
     then cmac_up (rs_fec s) (int j) (reg_after s (calls d))
     else set (cmac_regs (int j)) \<inter> dom (reg_after s (calls d)) = {})"

lemma versions_ok_01:
  "versions_ok s d 0 \<longleftrightarrow> version_seen s d 0 = Some ONIC_CMAC_CORE_VERSION"
  "versions_ok s d (Suc 0) \<longleftrightarrow> version_seen s d 0 = Some ONIC_CMAC_CORE_VERSION \<and>
     version_seen s d 1 = Some ONIC_CMAC_CORE_VERSION"
  by (auto simp: versions_ok_def le_Suc_eq)

lemma cmac_init_2:
  assumes "cmac_init s 0 2 d c"
  obtains
    (none) k where "c = 0" "calls d = start_calls s 0 k"
      "word_of_int (rv (snd (last d))) \<noteq> ONIC_CMAC_CORE_VERSION"
  | (one) d1 k1 d2 k2 d3 k3 where "c = 1" "d = d1 @ d2 @ d3" "calls d1 = start_calls s 0 k1"
      "word_of_int (rv (snd (last d1))) = ONIC_CMAC_CORE_VERSION" "calls d2 = enable_calls s 0 k2"
      "calls d3 = start_calls s 1 k3" "word_of_int (rv (snd (last d3))) \<noteq> ONIC_CMAC_CORE_VERSION"
  | (two) d1 k1 d2 k2 d3 k3 d4 k4 where "c = 2" "d = d1 @ d2 @ d3 @ d4" "calls d1 = start_calls s 0 k1"
      "word_of_int (rv (snd (last d1))) = ONIC_CMAC_CORE_VERSION" "calls d2 = enable_calls s 0 k2"
      "calls d3 = start_calls s 1 k3" "word_of_int (rv (snd (last d3))) = ONIC_CMAC_CORE_VERSION"
      "calls d4 = enable_calls s 1 k4"
  using assms
  by (auto simp: numeral_2_eq_2 elim!: cmac_init_SucE cmac_init_0E)

lemma version_seen_start:
  assumes "calls d = start_calls s i k"
  shows "version_seen s (d @ d') i = Some (word_of_int (rv (snd (last d))))"
  using start_version(1) [OF assms] by (simp add: version_seen_def del: map_of_append)

lemma version_seen_skip:
  "calls d = enable_calls s i k \<Longrightarrow> version_seen s (d @ d') j = version_seen s d' j"
  "calls d = queue_conf_calls s k \<Longrightarrow> version_seen s (d @ d') j = version_seen s d' j"
  "calls d = start_calls s l k \<Longrightarrow> l < 2 \<Longrightarrow> j < 2 \<Longrightarrow> j \<noteq> l \<Longrightarrow> version_seen s (d @ d') j = version_seen s d' j"
  using map_of_skip [of "version_call s j" d d'] start_version(2) [of d s l k j] no_version [of s j]
  by (simp_all only: version_seen_def not_False_eq_True simp_thms)

lemma version_seen_Nil [simp]: "version_seen s [] j = None"
  by (simp add: version_seen_def)

lemma cmac_init_versions:
  assumes "cmac_init s 0 2 d' c" and q: "calls q = queue_conf_calls s k" and "j < 2"
  shows "versions_ok s (q @ d') j \<longleftrightarrow> j < c"
proof -
  from \<open>j < 2\<close> have j: "j = 0 \<or> j = Suc 0" by auto
  from assms(1) show ?thesis
  proof (cases rule: cmac_init_2)
    case (none k)
    with j version_seen_start [OF none(2), of "[]"] show ?thesis
      by (auto simp: versions_ok_01 version_seen_skip(2) [OF q])
  next
    case (one d1 k1 d2 k2 d3 k3)
    with j version_seen_start [OF one(3)] version_seen_start [OF one(6), of "[]"]
      version_seen_skip(3) [OF one(3), of 1] show ?thesis
      by (auto simp: versions_ok_01 version_seen_skip(2) [OF q] version_seen_skip(1))
  next
    case (two d1 k1 d2 k2 d3 k3 d4 k4)
    with j version_seen_start [OF two(3)] version_seen_start [OF two(6)]
      version_seen_skip(3) [OF two(3), of 1] show ?thesis
      by (auto simp: versions_ok_01 version_seen_skip(2) [OF q] version_seen_skip(1))
  qed
qed

lemma reg_after_dom: "dom (reg_after s cs) = fst ` set (dev_writes s cs)"
  by (simp add: reg_after_def dom_map_of_conv_image_fst)

lemma cmac_init_registers:
  assumes "cmac_init s 0 2 d' c" and q: "calls q = queue_conf_calls s k" and "j < 2"
  shows "if j < c then cmac_up (rs_fec s) (int j) (reg_after s (calls (q @ d')))
     else set (cmac_regs (int j)) \<inter> dom (reg_after s (calls (q @ d'))) = {}"
proof -
  from \<open>j < 2\<close> have j: "j = 0 \<or> j = Suc 0" by auto
  have apart: "set (cmac_regs 1) \<inter> (fst ` set (cmac_writes 0) \<union> fst ` set (rsfec_writes 0)) = {}"
    using cmac_conf_in_regs [of 0] cmac_regs_apart(1) by blast
  from assms(1) show ?thesis
  proof (cases rule: cmac_init_2)
    case (none k)
    then show ?thesis by (auto simp: reg_after_dom q not_cmac_regs)
  next
    case (one d1 k1 d2 k2 d3 k3)
    let ?ws = "[(0x1000, 1), (0x2000, 0x10001), (SYSCFG_OFFSET_SHELL_RESET, 0x10),
        (SYSCFG_OFFSET_SHELL_RESET, 0x10)] @ (if rs_fec s \<noteq> 0 then rsfec_writes 0 else []) @ cmac_writes 0 @
        [(SYSCFG_OFFSET_SHELL_RESET, 0x100)]"
    have ws: "dev_writes s (calls (q @ d')) = ?ws"
      by (simp add: q one reset_mask_def push_bit_eq_mult)
    have "cmac_up (rs_fec s) 0 (map_of (rev ?ws))"
      by (simp add: cmac_up_def cmac_writes_def rsfec_writes_def reg_defs)
    moreover have "set (cmac_regs 1) \<inter> fst ` set ?ws = {}"
      using apart not_cmac_regs [of 1] by (auto split: if_splits)
    ultimately show ?thesis
      using j unfolding one(1) reg_after_dom ws unfolding reg_after_def ws by (elim disjE; simp only:) simp_all
  next
    case (two d1 k1 d2 k2 d3 k3 d4 k4)
    let ?ws = "[(0x1000, 1), (0x2000, 0x10001), (SYSCFG_OFFSET_SHELL_RESET, 0x10),
        (SYSCFG_OFFSET_SHELL_RESET, 0x10)] @ (if rs_fec s \<noteq> 0 then rsfec_writes 0 else []) @ cmac_writes 0 @
        [(SYSCFG_OFFSET_SHELL_RESET, 0x100), (SYSCFG_OFFSET_SHELL_RESET, 0x100)] @
        (if rs_fec s \<noteq> 0 then rsfec_writes 1 else []) @ cmac_writes 1"
    have ws: "dev_writes s (calls (q @ d')) = ?ws"
      by (simp add: q two reset_mask_def push_bit_eq_mult)
    have "cmac_up (rs_fec s) 0 (map_of (rev ?ws))" and "cmac_up (rs_fec s) 1 (map_of (rev ?ws))"
      by (simp_all add: cmac_up_def cmac_writes_def rsfec_writes_def reg_defs)
    then show ?thesis
      using j unfolding two(1) reg_after_def ws by auto
  qed
qed

text \<open>
  C5: When \<open>init_hardware\<close> returns, each CMAC is up, as \<open>enable_cmac\<close> leaves it, if its core
  version and that of every CMAC before it were read as 0x301; otherwise none of its registers
  was written.  The two PCIe functions get one queue each, queue 0 and queue 1.
\<close>

theorem init_hardware_enables:
  assumes "init_hardware e s t = Some (Inr r, s', t @ d)" and "j < 2"
  shows "r = 0 \<and> s' = s \<and>
    (if versions_ok s d j then cmac_up (rs_fec s) (int j) (reg_after s (calls d))
     else set (cmac_regs (int j)) \<inter> dom (reg_after s (calls d)) = {}) \<and>
    take 2 (dev_writes s (calls d)) =
      [(QDMA_FUNC_OFFSET_QCONF 0, 0x1), (QDMA_FUNC_OFFSET_QCONF 1, 0x10001)]"
proof -
  from io_wpD [OF init_hardware_wp assms(1)] obtain q k d' c where "r = 0" "s' = s"
    and d: "d = q @ d'" and q: "calls q = queue_conf_calls s k" and init: "cmac_init s 0 2 d' c"
    by auto
  from cmac_init_versions [OF init q assms(2)] cmac_init_registers [OF init q assms(2)] \<open>r = 0\<close> \<open>s' = s\<close>
  moreover have "take 2 (dev_writes s (calls (q @ d'))) =
      [(QDMA_FUNC_OFFSET_QCONF 0, 0x1), (QDMA_FUNC_OFFSET_QCONF 1, 0x10001)]"
    by (simp add: q reg_defs)
  ultimately show ?thesis unfolding d by simp
qed

section \<open>Statistics\<close>

text \<open>The answers to consecutive reads, as values.\<close>

definition read_val :: "(dpdk_call, resp) env \<Rightarrow> onic \<Rightarrow> nat \<Rightarrow> u32 \<Rightarrow> u32" where
  "read_val e s n off = word_of_int (rv (e n (PciReadReg (config_port_id s) (reg_bar s) off)))"

lemma read_into_run:
  "read_into [] st e s t = Some (Inr st, s, t)"
  "read_into ((upd, off) # xs) st e s t =
   read_into xs (upd (\<lambda>_. read_val e s (length t) off) st) e s
     (t @ [(PciReadReg (config_port_id s) (reg_bar s) off, e (length t) (PciReadReg (config_port_id s) (reg_bar s) off))])"
  by (simp_all add: io_simps regs.rd_run read_val_def Let_def)

declare read_into.simps [simp del]

text \<open>
  Without the debug counters, \<open>get_cmac_stats\<close> first writes the tick register, which makes
  the CMAC publish its counters, and only then reads the eight totals; each field is the
  answer of the register of that name, and the debug fields stay 0.
\<close>

theorem get_cmac_stats_values:
  "\<exists>d. get_cmac_stats i False e s t = Some (Inr (cmac_stats_zero\<lparr>
       tx_total_pkts := read_val e s (length t + 1) (CMAC_OFFSET_STAT_TX_TOTAL_PKTS i),
       tx_total_good_pkts := read_val e s (length t + 2) (CMAC_OFFSET_STAT_TX_TOTAL_GOOD_PKTS i),
       tx_total_bytes := read_val e s (length t + 3) (CMAC_OFFSET_STAT_TX_TOTAL_BYTES i),
       tx_total_good_bytes := read_val e s (length t + 4) (CMAC_OFFSET_STAT_TX_TOTAL_GOOD_BYTES i),
       rx_total_pkts := read_val e s (length t + 5) (CMAC_OFFSET_STAT_RX_TOTAL_PKTS i),
       rx_total_good_pkts := read_val e s (length t + 6) (CMAC_OFFSET_STAT_RX_TOTAL_GOOD_PKTS i),
       rx_total_bytes := read_val e s (length t + 7) (CMAC_OFFSET_STAT_RX_TOTAL_BYTES i),
       rx_total_good_bytes := read_val e s (length t + 8) (CMAC_OFFSET_STAT_RX_TOTAL_GOOD_BYTES i)\<rparr>), s, t @ d) \<and>
     length d = 9 \<and> reg_writes (calls d) = [(config_port_id s, reg_bar s, CMAC_OFFSET_TICK i, 1)] \<and>
     fst (hd d) = PciWriteReg (config_port_id s) (reg_bar s) (CMAC_OFFSET_TICK i) 1"
  by (simp add: get_cmac_stats_def io_simps regs.wr_run read_into_run Let_def) (simp add: eval_nat_numeral)

text \<open>
  With the debug counters, the field for packets of 65 to 127 bytes is the address of the
  counter and not its value: the read is missing, so the field is the same for every answer of
  the card.
\<close>

theorem debug_stats_65_127_is_address:
  "case get_cmac_debug_stats i st e s t of
     Some (Inr st', s', t') \<Rightarrow>
       rx_pkt_65_127 st' = (if i = 0 then 0x8630 else 0xC630) \<and> s' = s \<and>
       rx_pkt_large st' = read_val e s (length t + 4) (CMAC_OFFSET_STAT_RX_PKT_LARGE i) \<and>
       rx_truncated st' = read_val e s (length t + 21) (CMAC_OFFSET_STAT_RX_TRUNCATED i) \<and>
       length t' = length t + 22 \<and>
       tx_total_pkts st' = tx_total_pkts st
   | _ \<Rightarrow> False"
  by (simp add: get_cmac_debug_stats_def io_simps read_into_run)
     (simp add: reg_defs eval_nat_numeral)

text \<open>
  The error counter of the packet adaptor is never printed: two cards that differ only in
  the answer for that register produce the same text.
\<close>

theorem adaptor_errors_not_shown:
  "map_option fst (print_packet_adaptor_stats i e s t) =
   map_option fst (print_packet_adaptor_stats i (\<lambda>n c. if c = PciReadReg (config_port_id s) (reg_bar s)
      (CMAC_ADPT_OFFSET_RX_PKT_ERROR i) then r else e n c) s t)"
  by (simp add: print_packet_adaptor_stats_def io_simps regs.rd_run adaptor_text_def Let_def reg_defs)

text \<open>
  Adding a list of samples into an accumulator gives, in each of the eight totals, the sum
  modulo \<open>2 ^ 32\<close>; the debug counters of the samples are not added.
\<close>

theorem add_stats_fold:
  "map (\<lambda>(_, f). f (foldl add_stats s xs)) main_fields =
   map (\<lambda>(_, f). f s + sum_list (map f xs)) main_fields \<and>
   map (\<lambda>(_, f). f (foldl add_stats s xs)) debug_fields = map (\<lambda>(_, f). f s) debug_fields"
proof (induction xs arbitrary: s)
  case Nil
  show ?case by simp
next
  case (Cons x xs)
  have "map (\<lambda>(_, f). f (add_stats s x) + sum_list (map f xs)) main_fields =
      map (\<lambda>(_, f). f s + sum_list (map f (x # xs))) main_fields"
    and "map (\<lambda>(_, f). f (add_stats s x)) debug_fields = map (\<lambda>(_, f). f s) debug_fields"
    by (simp_all add: main_fields_def debug_fields_def add_stats_def add.assoc)
  with Cons.IH [of "add_stats s x"] show ?case by simp
qed

text \<open>How \<open>%d\<close> shows an unsigned 32-bit value.\<close>

definition show_d :: "u32 \<Rightarrow> string" where
  "show_d v = (if unat v < 2 ^ 31 then dec (unat v) else CHR ''-'' # dec (2 ^ 32 - unat v))"

lemma dec_int_show: "dec_int (sint v) = show_d v"
proof -
  obtain n where n: "unat v = n" by simp
  have "nat (2 ^ 32 - int n) = 2 ^ 32 - n" by simp
  with sint_cases [OF n] show ?thesis by (auto simp: dec_int_def show_d_def n)
qed

lemma length_show_d: "length (show_d v) \<le> 11"
proof -
  have "length (dec n) \<le> 10" if "n \<le> 2 ^ 32" for n
    unfolding dec_def by (rule length_num_str) (use that in simp_all)
  from this [of "unat v"] this [of "2 ^ 32 - unat v"] show ?thesis
    using unsigned_less [of v, where 'a = nat] by (auto simp: show_d_def)
qed

fun join_comma :: "string list \<Rightarrow> string" where
  "join_comma [] = []"
| "join_comma [x] = x"
| "join_comma (x # y # zs) = x @ '','' @ join_comma (y # zs)"

text \<open>
  For a tag of at most 30 characters no field is cut by the 64-byte buffer: the text is the
  eight totals in order, each as \<open>(tag)name=value\<close>, with a comma between two.  A total of
  \<open>2 ^ 31\<close> or more is shown as a negative number.
\<close>

theorem stats_to_string_fields:
  assumes "length tag \<le> 30"
  shows "stats_to_string tag s =
    join_comma (map (\<lambda>(name, f). ''('' @ tag @ '')'' @ name @ ''='' @ show_d (f s)) main_fields)"
proof -
  have "take 63 (''('' @ tag @ '')'' @ name @ ''='' @ show_d v) = ''('' @ tag @ '')'' @ name @ ''='' @ show_d v"
    if "length name \<le> 19" for name v
    using assms that length_show_d [of v] by (intro take_all) simp
  then have app: "append_field tag name v acc = acc @ (''('' @ tag @ '')'' @ name @ ''='' @ show_d v) @ '',''"
    if "length name \<le> 19" for name v acc
    using that by (simp add: append_field_def dec_int_show del: append_Cons)
  show ?thesis
    by (simp add: stats_to_string_def main_fields_def app butlast_append Let_def)
qed

theorem stats_to_string_fields_witness:
  "stats_to_string ''rx'' (cmac_stats_zero\<lparr>tx_total_bytes := 0x80000000\<rparr>) =
   ''(rx)tx_total_pkts=0,(rx)tx_total_good_pkts=0,(rx)tx_total_bytes=-2147483648,(rx)tx_total_good_bytes=0,''
   @ ''(rx)rx_total_pkts=0,(rx)rx_total_good_pkts=0,(rx)rx_total_bytes=0,(rx)rx_total_good_bytes=0''"
  by (subst stats_to_string_fields)
     (simp_all add: main_fields_def cmac_stats_zero_def show_d_def dec_def num_str.simps digit_char_def char_of_def
       bit_nat_def)


section \<open>init\_hardware returns\<close>

text \<open>A run that ends with a value and leaves the object as it was.\<close>

definition returns :: "'a onic_io \<Rightarrow> (dpdk_call, resp) env \<Rightarrow> onic \<Rightarrow> (dpdk_call, resp) trace \<Rightarrow> bool" where
  "returns m e s t \<longleftrightarrow> (\<exists>a d. m e s t = Some (Inr a, s, t @ d))"

lemma returns_bind:
  "returns m e s t \<Longrightarrow> (\<And>a d. returns (f a) e s (t @ d)) \<Longrightarrow> returns (io_bind m f) e s t"
  unfolding returns_def by (fastforce simp: io_simps)

lemma returns_then:
  "returns m e s t \<Longrightarrow> (\<And>d. returns k e s (t @ d)) \<Longrightarrow> returns (io_then m k) e s t"
  unfolding returns_def by (fastforce simp: io_simps)

lemma returns_basic:
  "returns (io_ret a) e s t" "returns (io_get f) e s t" "returns (read_reg off) e s t"
  "returns (write_reg off v) e s t" "returns (write_regs ws) e s t"
  using write_regs_run [of ws e s t]
  by (auto simp: returns_def io_simps regs.rd_run regs.wr_run Let_def)

lemma returns_wp:
  assumes "io_wp e m (\<lambda>_ s' t'. s' = s \<and> (\<exists>d. t' = t @ d)) (\<lambda>_ _ _. False) s t" and "m e s t \<noteq> None"
  shows "returns m e s t"
proof -
  from assms(2) obtain r s' t' where run: "m e s t = Some (r, s', t')" by auto
  with assms(1) show ?thesis by (cases r) (auto simp: io_wp_def returns_def)
qed

text \<open>From call number \<open>N\<close> on, the card reports both CMACs as ready.\<close>

definition ready_from :: "(dpdk_call, resp) env \<Rightarrow> onic \<Rightarrow> nat \<Rightarrow> bool" where
  "ready_from e s N \<longleftrightarrow> (\<forall>n \<ge> N. shell_ready e s 0x10 n \<and> shell_ready e s 0x100 n)"

lemma ready_from_at:
  assumes "ready_from e s N" and "m = 0x10 \<or> m = 0x100"
  shows "\<exists>k. shell_ready e s m (l + 2 * k)" and "\<exists>k. shell_ready e s m (l + k)"
  using assms by (auto simp: ready_from_def intro: exI [of _ N])

lemma returns_wait:
  assumes "ready_from e s N" and "m = 0x10 \<or> m = 0x100"
  shows "returns (shell_wait m) e s t"
proof (rule returns_wp)
  show "io_wp e (shell_wait m) (\<lambda>_ s' t'. s' = s \<and> (\<exists>d. t' = t @ d)) (\<lambda>_ _ _. False) s t"
    by (rule shell_wait_wp) auto
  show "shell_wait m e s t \<noteq> None"
    unfolding shell_wait_returns_iff by (rule ready_from_at(1) [OF assms])
qed

lemma returns_poll:
  assumes "ready_from e s N"
  shows "returns (poll_until (read_reg SYSCFG_OFFSET_SHELL_STATUS) 0x10 (io_ret ())) e s t"
proof (rule returns_wp)
  show "io_wp e (poll_until (read_reg SYSCFG_OFFSET_SHELL_STATUS) 0x10 (io_ret ()))
     (\<lambda>_ s' t'. s' = s \<and> (\<exists>d. t' = t @ d)) (\<lambda>_ _ _. False) s t"
    by (rule io_wp_mono [OF regs.poll_wp [of e SYSCFG_OFFSET_SHELL_STATUS "0x10" "[]", simplified, folded poll_until_def]])
      auto
  show "poll_until (read_reg SYSCFG_OFFSET_SHELL_STATUS) 0x10 (io_ret ()) e s t \<noteq> None"
    using regs.poll_returns_iff [of SYSCFG_OFFSET_SHELL_STATUS "0x10" "[]" e s t]
      ready_from_at(2) [OF assms, of "0x10" "length t"]
    by (simp add: poll_until_def shell_ready_def)
qed

lemma returns_enable: "ready_from e s N \<Longrightarrow> returns (enable_cmac i) e s t"
  unfolding enable_cmac_eq
  by (intro returns_then returns_bind returns_basic returns_wait)
     (auto simp: reset_mask_def io_when_def intro: returns_basic)

lemma returns_init_cmacs: "ready_from e s N \<Longrightarrow> i + n \<le> 2 \<Longrightarrow> returns (init_cmacs i n) e s t"
proof (induction n arbitrary: i t)
  case 0
  show ?case by (simp add: returns_basic)
next
  case (Suc n)
  then have "i = 0 \<or> i = 1" by auto
  then have m: "push_bit (4 * i) (0x10 :: u32) = 0x10 \<or> push_bit (4 * i) (0x10 :: u32) = 0x100"
    by (auto simp: push_bit_eq_mult)
  show ?case
    using Suc.prems Suc.IH [of "Suc i"]
    by (auto intro!: returns_then returns_bind returns_basic returns_wait [OF _ m] returns_enable)
qed

text \<open>
  C30: If from some call on every read of the shell status shows both CMACs ready,
  \<open>init_hardware\<close> returns 0, whatever else the card answers.
\<close>

theorem init_hardware_returns:
  assumes "ready_from e s N"
  shows "\<exists>d. init_hardware e s t = Some (Inr 0, s, t @ d)"
proof -
  have "returns init_hardware e s t"
    unfolding init_hardware_def NB_CMAC_def
    by (intro returns_then returns_bind returns_basic returns_poll [OF assms] returns_init_cmacs [OF assms]) simp_all
  with init_hardware_wp [of e s t] show ?thesis
    by (auto simp: returns_def io_wp_def)
qed

text \<open>A card that is ready after ten calls and has the expected cores.\<close>

definition ready_env :: "(dpdk_call, resp) env" where
  "ready_env n c = \<lparr>rv = (case c of PciReadReg _ _ off \<Rightarrow>
       if off = SYSCFG_OFFSET_SHELL_STATUS then (if n < 10 then 0x10 else 0x110)
       else if off = CMAC_OFFSET_CORE_VERSION 0 then 0x301 else 0x302
     | _ \<Rightarrow> 0), out1 = 0, out2 = 0, out3 = 0\<rparr>"

definition sample_onic :: onic where
  "sample_onic = \<lparr>ports = [sample_port, sample_port], config_port_id = 0, axil_bar_id = 2,
     rs_fec = 1, mbuf_ring = 1, ring_name = ''0''\<rparr>"

theorem init_hardware_returns_witness:
  "\<exists>d. init_hardware ready_env sample_onic [] = Some (Inr 0, sample_onic, [] @ d)"
proof -
  have "ready_from ready_env sample_onic 10"
    by (simp add: ready_from_def shell_ready_def status_ready_def ready_env_def)
  from init_hardware_returns [OF this] show ?thesis .
qed

lemma ready_env_ready: "ready_from ready_env sample_onic 10"
  by (simp add: ready_from_def shell_ready_def status_ready_def ready_env_def)

lemma sample_returns: "returns init_hardware ready_env sample_onic []" "returns (enable_cmac 0) ready_env sample_onic []"
  unfolding init_hardware_def NB_CMAC_def
  by (intro returns_then returns_bind returns_basic returns_poll [OF ready_env_ready]
      returns_init_cmacs [OF ready_env_ready] returns_enable [OF ready_env_ready]; simp)+

theorem enable_cmac_configures_witness:
  "\<exists>d. enable_cmac 0 ready_env sample_onic [] = Some (Inr 0, sample_onic, [] @ d) \<and>
     reg_after sample_onic (calls d) 0x8014 = Some 1 \<and> reg_after sample_onic (calls d) 0x800C = Some 1"
proof -
  obtain r d where run: "enable_cmac 0 ready_env sample_onic [] = Some (Inr r, sample_onic, [] @ d)"
    using sample_returns(2) by (auto simp: returns_def)
  from enable_cmac_configures [OF run] run show ?thesis by (auto simp: cmac_up_def reg_defs)
qed

theorem init_hardware_enables_witness:
  "\<exists>d. init_hardware ready_env sample_onic [] = Some (Inr 0, sample_onic, [] @ d) \<and>
     (versions_ok sample_onic d 0 \<longleftrightarrow> cmac_up 1 0 (reg_after sample_onic (calls d)))"
proof -
  obtain r d where run: "init_hardware ready_env sample_onic [] = Some (Inr r, sample_onic, [] @ d)"
    using sample_returns(1) by (auto simp: returns_def)
  have "cmac_up (rs_fec sample_onic) 0 f \<Longrightarrow> set (cmac_regs 0) \<inter> dom f \<noteq> {}" for f
    by (auto simp: cmac_up_def cmac_regs_def)
  moreover have "rs_fec sample_onic = 1" by (simp add: sample_onic_def)
  ultimately show ?thesis
    using init_hardware_enables [OF run, of 0] run by (auto split: if_splits)
qed

end
