(* ===== verification/PolledLoop.thy ===== *)
theory PolledLoop
  imports Prelude
begin

text \<open>
  The worker threads of the program share one frame: a loop that reads a stop flag before each
  round and ends when it is set.  This theory holds that loop, the states it passes through at
  its head (so that a property of a thread that never ends can be stated), and the contract
  under which raising the flag ends the thread.
\<close>

section \<open>The loop\<close>

text \<open>
  One round: read the flag, and unless it is set do the work, which says whether to go on.
\<close>

definition loop_round ::
  "'c \<Rightarrow> ('r \<Rightarrow> bool) \<Rightarrow> ('c, 'r, 's, 'x, bool) io \<Rightarrow> ('c, 'r, 's, 'x, bool) io" where
  "loop_round flag stop work =
     io_bind (io_call flag) (\<lambda>r. if stop r then io_ret False else work)"

definition while_running ::
  "'c \<Rightarrow> ('r \<Rightarrow> bool) \<Rightarrow> ('c, 'r, 's, 'x, bool) io \<Rightarrow> ('c, 'r, 's, 'x, unit) io" where
  "while_running flag stop work = io_loop (loop_round flag stop work)"

text \<open>The states at the head of a loop, from the one it starts in.\<close>

inductive loop_heads ::
  "('c, 'r, 's, 'x, bool) io \<Rightarrow> ('c, 'r) env \<Rightarrow> 's \<Rightarrow> ('c, 'r) trace \<Rightarrow> 's \<Rightarrow> ('c, 'r) trace \<Rightarrow> bool"
  for body e s t where
  start: "loop_heads body e s t s t"
| round: "loop_heads body e s t s1 t1 \<Longrightarrow> body e s1 t1 = Some (Inr True, s2, t2) \<Longrightarrow>
    loop_heads body e s t s2 t2"

lemma loop_heads_invariant:
  assumes "loop_heads body e s t s' t'" and "I s t"
    and "\<And>s t. I s t \<Longrightarrow> io_wp e body (\<lambda>go s' t'. go \<longrightarrow> I s' t') (\<lambda>_ _ _. True) s t"
  shows "I s' t'"
  using assms(1)
proof (induction rule: loop_heads.induct)
  case start
  show ?case by (rule assms(2))
next
  case (round s1 t1 s2 t2)
  from io_wpD [OF assms(3) [OF round.IH] round.hyps(2)] show ?case by simp
qed

lemma loop_round_wp:
  "io_wp e (loop_round flag stop work) Q E s t =
   (let r = e (length t) flag; t' = t @ [(flag, r)] in
    if stop r then Q False s t' else io_wp e work Q E s t')"
  by (simp add: loop_round_def io_wp_simps Let_def)

lemma quiet_while [quiet_rules]:
  "io_quiet W work \<Longrightarrow> \<not> W flag \<Longrightarrow> io_quiet W (while_running flag stop work)"
  by (auto simp: while_running_def loop_round_def intro!: quiet_rules)

text \<open>A loop that takes one round.\<close>

lemma while_one_round:
  assumes "\<not> stop (e (length t) flag)" and "work e s (t @ [(flag, e (length t) flag)]) = Some (Inr True, s', t')"
    and "stop (e (length t') flag)"
  shows "while_running flag stop work e s t = Some (Inr (), s', t' @ [(flag, e (length t') flag)])"
proof -
  have "loop_round flag stop work e s t = Some (Inr True, s', t')"
    using assms(1, 2) by (simp add: loop_round_def io_simps)
  from io_loop_go [where body = "loop_round flag stop work", OF this] show ?thesis
    using assms(3) by (simp add: while_running_def) (rule io_loop_stop, simp add: loop_round_def io_simps)
qed

section \<open>Invariants of a run\<close>

text \<open>\<open>steady J m\<close>: a run of \<open>m\<close> that starts where \<open>J\<close> holds ends where it holds, whatever the outcome.\<close>

named_theorems steady_rules \<open>a program keeps an invariant when its parts do\<close>

definition steady :: "('s \<Rightarrow> ('c, 'r) trace \<Rightarrow> bool) \<Rightarrow> ('c, 'r, 's, 'x, 'a) io \<Rightarrow> bool" where
  "steady J m \<longleftrightarrow> (\<forall>e s t. J s t \<longrightarrow> io_wp e m (\<lambda>_. J) (\<lambda>_. J) s t)"

lemma steadyD: "steady J m \<Longrightarrow> J s t \<Longrightarrow> io_wp e m (\<lambda>_. J) (\<lambda>_. J) s t"
  by (simp add: steady_def)

lemma steady_basic [steady_rules]: "steady J (io_ret a)" "steady J (io_exit x)" "steady J (io_get f)"
  by (simp_all add: steady_def io_wp_simps)

lemma steady_call: "(\<And>s t r. J s t \<Longrightarrow> J s (t @ [(c, r)])) \<Longrightarrow> steady J (io_call c)"
  by (simp add: steady_def io_wp_simps)

lemma steady_bind [steady_rules]:
  assumes "steady J m" and "\<And>a. steady J (f a)"
  shows "steady J (io_bind m f)"
  unfolding steady_def io_wp_bind
  by (intro allI impI io_wp_mono [OF steadyD [OF assms(1)]]) (auto intro: steadyD [OF assms(2)])

lemma steady_then [steady_rules]: "steady J m \<Longrightarrow> steady J k \<Longrightarrow> steady J (io_then m k)"
  by (simp add: io_then_def steady_bind)

lemma steady_if [steady_rules]:
  "(b \<Longrightarrow> steady J m) \<Longrightarrow> (\<not> b \<Longrightarrow> steady J k) \<Longrightarrow> steady J (if b then m else k)"
  by simp

lemma steady_for [steady_rules]:
  "(\<And>x. x \<in> set xs \<Longrightarrow> steady J (f x)) \<Longrightarrow> steady J (io_for xs f)"
  by (induction xs) (auto intro: steady_rules)

lemma steady_while:
  assumes "steady J work" and "\<And>s t r. J s t \<Longrightarrow> J s (t @ [(flag, r)])"
  shows "steady J (while_running flag stop work)"
proof -
  have round: "steady J (loop_round flag stop work)"
    unfolding loop_round_def by (intro steady_rules steady_call assms)
  show ?thesis
    unfolding steady_def while_running_def
    by (intro allI impI io_wp_loop [where I = J] io_wp_mono [OF steadyD [OF round]]) auto
qed

text \<open>A program that is quiet, and that keeps a part of the state, keeps what is said of both.\<close>

lemma steady_quiet:
  assumes "io_quiet W m" and "io_keeps f m"
    and J: "\<And>s t. J s t \<longleftrightarrow> K (f s) (watched W t)"
  shows "steady J m"
  unfolding steady_def
proof (intro allI impI)
  fix e s t
  assume "J s t"
  then show "io_wp e m (\<lambda>_. J) (\<lambda>_. J) s t"
    by (intro io_wp_mono [OF io_wp_conj [OF io_quietD [OF assms(1) refl] io_keepsD [OF assms(2) refl]]])
       (simp_all add: J)
qed

section \<open>Programs that end in one environment\<close>

named_theorems ends_rules \<open>a program ends in an environment when its parts do\<close>

definition io_ends :: "('c, 'r) env \<Rightarrow> ('c, 'r, 's, 'x, 'a) io \<Rightarrow> bool" where
  "io_ends e m \<longleftrightarrow> (\<forall>s t. m e s t \<noteq> None)"

lemma ends_total: "io_total m \<Longrightarrow> io_ends e m"
  by (simp add: io_ends_def io_total_def)

lemma ends_basic [ends_rules]:
  "io_ends e (io_ret a)" "io_ends e (io_exit x)" "io_ends e (io_get f)" "io_ends e (io_modify g)"
  "io_ends e (io_call c)" "io_ends e (io_do c)"
  by (auto intro: ends_total total_rules)

lemma ends_bind [ends_rules]:
  "io_ends e m \<Longrightarrow> (\<And>a. io_ends e (f a)) \<Longrightarrow> io_ends e (io_bind m f)"
  by (simp add: io_ends_def io_bind_def split: option.splits sum.splits)

lemma ends_then [ends_rules]: "io_ends e m \<Longrightarrow> io_ends e k \<Longrightarrow> io_ends e (io_then m k)"
  by (simp add: io_then_def ends_bind)

section \<open>Threads that can be stopped\<close>

text \<open>
  What a thread owes its owner: each round of its work comes to an end, and the calls it made
  stay made.
\<close>

locale stoppable =
  fixes flag :: 'c
    and stop :: "'r \<Rightarrow> bool"
    and work :: "('c, 'r, 's, 'x, bool) io"
  assumes work_total: "io_total work"
    and work_extends: "io_extends work"
begin

text \<open>If the flag stays set from call \<open>N\<close> on, the loop ends.\<close>

lemma stops:
  assumes "\<And>n. N \<le> n \<Longrightarrow> stop (e n flag)"
  shows "while_running flag stop work e s t \<noteq> None"
proof (induction "N - length t" arbitrary: s t rule: less_induct)
  case less
  let ?r = "e (length t) flag"
  show ?case
  proof (cases "stop ?r")
    case True
    then have "loop_round flag stop work e s t = Some (Inr False, s, t @ [(flag, ?r)])"
      by (simp add: loop_round_def io_simps)
    from io_loop_stop [where body = "loop_round flag stop work", OF this] show ?thesis by (simp add: while_running_def)
  next
    case False
    then have lt: "length t < N" using assms [of "length t"] by (metis not_le)
    obtain r s' t' where run: "work e s (t @ [(flag, ?r)]) = Some (r, s', t')"
      using io_totalD [OF work_total] by blast
    from io_extendsD [OF work_extends run] obtain d where t': "t' = (t @ [(flag, ?r)]) @ d" by blast
    have round: "loop_round flag stop work e s t = Some (r, s', t')"
      using False run by (simp add: loop_round_def io_simps)
    have IH: "while_running flag stop work e s' t' \<noteq> None"
      by (rule less) (use lt t' in simp)
    show ?thesis
    proof (cases "r = Inr True")
      case True
      then show ?thesis
        using IH io_loop_go [where body = "loop_round flag stop work"] round by (simp add: while_running_def)
    next
      case False
      then show ?thesis
        unfolding while_running_def by (subst io_loop.simps) (auto simp: round split: sum.splits)
    qed
  qed
qed

lemma ends_loop: "(\<And>n. N \<le> n \<Longrightarrow> stop (e n flag)) \<Longrightarrow> io_ends e (while_running flag stop work)"
  unfolding io_ends_def using stops by blast

text \<open>A round that finds the flag set makes no other call.\<close>

lemma stops_at_once:
  "stop (e (length t) flag) \<Longrightarrow>
   while_running flag stop work e s t = Some (Inr (), s, t @ [(flag, e (length t) flag)])"
  unfolding while_running_def by (rule io_loop_stop [where body = "loop_round flag stop work"]) (simp add: loop_round_def io_simps)

end

end
