(* ===== verification/Pipeline.thy ===== *)
theory Pipeline
  imports PolledLoop Onic
begin

text \<open>
  The forwarding threads: \<open>server/src/pipeline.cpp\<close> over the context of
  \<open>server/src/forward_context.h\<close>.  A thread keeps one variable, the 16-bit counter
  \<open>curr_Q\<close>; everything else it reaches through DPDK.  An mbuf is its address.  The answer to
  a burst is the list of mbufs it filled in, so that the count the code receives is the length
  of that list; the count of sent packets is 16 bits wide.
\<close>

section \<open>Data\<close>

type_synonym mbuf = nat

record forwarding_context =
  ctx_id :: int
  rx_onic :: onic
  tx_onic :: onic
  rx_port :: int
  tx_port :: int
  rx_Qs :: "int list"
  tx_Qs :: "int list"
  nb_rx_Qs :: int
  nb_tx_Qs :: int
  stats_ring :: int

datatype pipe_call =
    StopFlag
  | DevInfo u16
  | RxBurst u16 u16 nat
  | Pause
  | RingEnqueueBulk int "mbuf list"
  | RingEnqueue int mbuf
  | RingDequeueBurst int nat
  | PktData mbuf
  | PktFree mbuf
  | TxPoolLookup string
  | PoolAvail int
  | TxBurst u16 u16 "mbuf list"
  | Print string

record pipe_resp =
  num :: int
  bufs :: "mbuf list"
  data_bytes :: "u8 list"

text \<open>
  What C++ leaves undefined and the hardware punishes: a remainder by zero, and an index
  outside of an array.
\<close>

datatype pipe_fault = DivByZero | BadIndex

type_synonym 'a pipe_io = "(pipe_call, pipe_resp, u16, pipe_fault, 'a) io"

definition BURST_SIZE :: nat where "BURST_SIZE = 32"
definition RTE_ETHER_TYPE_VLAN :: u16 where "RTE_ETHER_TYPE_VLAN = 0x8100"

definition array_at :: "'b list \<Rightarrow> int \<Rightarrow> ('c, 'r, 's, pipe_fault, 'b) io" where
  "array_at xs i = (if 0 \<le> i \<and> i < int (length xs) then io_ret (xs ! nat i) else io_exit BadIndex)"

text \<open>\<open>(onic->get_ports()[port]).get_port_id()\<close>, converted to \<open>uint16_t\<close>.\<close>

definition dpdk_port :: "onic \<Rightarrow> int \<Rightarrow> ('c, 'r, 's, pipe_fault, u16) io" where
  "dpdk_port onic port = io_bind (array_at (ports onic) port) (\<lambda>p. io_ret (word_of_int (port_id p)))"

text \<open>\<open>uint16_t next_Q = curr_Q % nb_Qs\<close>: the remainder is taken on \<open>int\<close>.\<close>

definition next_queue :: "int \<Rightarrow> u16 \<Rightarrow> ('c, 'r, 's, pipe_fault, u16) io" where
  "next_queue nb_Qs curr_Q =
     (if nb_Qs = 0 then io_exit DivByZero else io_ret (word_of_int (c_mod (uint curr_Q) nb_Qs)))"

definition stop_set :: "pipe_resp \<Rightarrow> bool" where
  "stop_set r \<longleftrightarrow> num r \<noteq> 0"

section \<open>The receive thread\<close>

definition rx_work :: "forwarding_context \<Rightarrow> u16 \<Rightarrow> bool pipe_io" where
  "rx_work ctx rx_port_id =
     io_bind (io_get id) (\<lambda>curr_Q.
     io_bind (next_queue (nb_rx_Qs ctx) curr_Q) (\<lambda>next_Q_idx.
     io_bind (io_call (RxBurst rx_port_id 0 BURST_SIZE)) (\<lambda>r.
     let mbufs = bufs r in
     if length mbufs = 0 then io_then (io_do Pause) (io_ret True)
     else
       io_then (io_modify (\<lambda>curr_Q. curr_Q + 1))
      (io_bind (io_call (RingEnqueueBulk (mbuf_ring (rx_onic ctx)) mbufs)) (\<lambda>n.
       io_then (io_when (num n \<noteq> 0) (io_for mbufs (\<lambda>m. io_do (PktFree m))))
       (io_ret True))))))"

definition fpga_rx_thread :: "forwarding_context \<Rightarrow> int pipe_io" where
  "fpga_rx_thread ctx =
     io_bind (dpdk_port (rx_onic ctx) (rx_port ctx)) (\<lambda>rx_port_id.
     io_bind (dpdk_port (tx_onic ctx) (tx_port ctx)) (\<lambda>tx_port_id.
     io_then (io_modify (\<lambda>_. 0))
    (io_then (io_do (DevInfo rx_port_id))
    (io_then (while_running StopFlag stop_set (rx_work ctx rx_port_id))
     (io_ret 0)))))"

section \<open>The last receive thread\<close>

text \<open>
  The Ethernet header is 14 bytes long and ends with the type, in network order.  The bytes
  are those from the data pointer of the mbuf on.
\<close>

definition be16 :: "u8 \<Rightarrow> u8 \<Rightarrow> u16" where
  "be16 hi lo = push_bit 8 (ucast hi) + ucast lo"

definition ether_type :: "u8 list \<Rightarrow> u16" where
  "ether_type bs = be16 (bs ! 12) (bs ! 13)"

definition is_vlan_packet :: "mbuf \<Rightarrow> bool pipe_io" where
  "is_vlan_packet mbuf =
     io_bind (io_call (PktData mbuf)) (\<lambda>r. io_ret (ether_type (data_bytes r) = RTE_ETHER_TYPE_VLAN))"

definition final_packet :: "forwarding_context \<Rightarrow> mbuf \<Rightarrow> unit pipe_io" where
  "final_packet ctx mbuf =
     io_bind (is_vlan_packet mbuf) (\<lambda>vlan.
     if \<not> vlan then io_do (PktFree mbuf)
     else
       io_bind (io_call (RingEnqueue (stats_ring ctx) mbuf)) (\<lambda>r.
       io_then (io_when (num r \<noteq> 0) (io_do (Print ''Stats ring is full, unable to enqueue packet'')))
       (io_do (PktFree mbuf))))"

definition final_work :: "forwarding_context \<Rightarrow> u16 \<Rightarrow> bool pipe_io" where
  "final_work ctx rx_port_id =
     io_bind (io_get id) (\<lambda>curr_Q.
     io_bind (next_queue (nb_rx_Qs ctx) curr_Q) (\<lambda>next_Q.
     io_bind (array_at (rx_Qs ctx) (uint next_Q)) (\<lambda>q.
     io_bind (io_call (RxBurst rx_port_id (word_of_int q) BURST_SIZE)) (\<lambda>r.
     let mbufs = bufs r in
     if length mbufs = 0 then io_then (io_do Pause) (io_ret True)
     else
       io_then (io_modify (\<lambda>curr_Q. curr_Q + 1))
      (io_then (io_for mbufs (final_packet ctx))
       (io_ret True))))))"

definition fpga_rx_final_thread :: "forwarding_context \<Rightarrow> int pipe_io" where
  "fpga_rx_final_thread ctx =
     io_then (io_modify (\<lambda>_. 0))
    (io_bind (dpdk_port (rx_onic ctx) (rx_port ctx)) (\<lambda>rx_port_id.
     io_bind (dpdk_port (tx_onic ctx) (tx_port ctx)) (\<lambda>tx_port_id.
     io_then (while_running StopFlag stop_set (final_work ctx rx_port_id))
     (io_ret 0))))"

section \<open>The transmit thread\<close>

definition not_sent_text :: "nat \<Rightarrow> u16 \<Rightarrow> int \<Rightarrow> string" where
  "not_sent_text nb_rx port q =
     ''Not sent '' @ dec nb_rx @ '' packets on tx_port('' @ dec (unat port) @ '') on Q('' @
     dec (unat (word_of_int q :: u32)) @ '')\<newline>''"

definition tx_work :: "forwarding_context \<Rightarrow> u16 \<Rightarrow> bool pipe_io" where
  "tx_work ctx tx_port_id =
     io_bind (io_call (RingDequeueBurst (mbuf_ring (rx_onic ctx)) BURST_SIZE)) (\<lambda>r.
     let mbufs = bufs r; nb_rx = length mbufs in
     if nb_rx = 0 then io_then (io_do Pause) (io_ret True)
     else
       io_bind (array_at (ports (tx_onic ctx)) (tx_port ctx)) (\<lambda>port.
       io_bind (io_call (TxPoolLookup (mem_pool (pinfo port)))) (\<lambda>mp.
       io_then (io_do (PoolAvail (num mp)))
      (io_bind (io_get id) (\<lambda>curr_Q.
       io_bind (next_queue (nb_tx_Qs ctx) curr_Q) (\<lambda>next_Q_idx.
       io_bind (array_at (tx_Qs ctx) (uint next_Q_idx)) (\<lambda>q.
       io_bind (io_call (TxBurst tx_port_id (word_of_int q) mbufs)) (\<lambda>sent.
       let nb_tx = unat (word_of_int (num sent) :: u16) in
       io_then (io_modify (\<lambda>curr_Q. curr_Q + 1))
      (io_then (io_when (nb_tx < nb_rx)
         (io_then (io_for (drop nb_tx mbufs) (\<lambda>m. io_do (PktFree m)))
         (io_bind (array_at (tx_Qs ctx) 0) (\<lambda>q0. io_do (Print (not_sent_text nb_rx tx_port_id q0))))))
       (io_ret True))))))))))"

definition fpga_tx_thread :: "forwarding_context \<Rightarrow> int pipe_io" where
  "fpga_tx_thread ctx =
     io_then (io_modify (\<lambda>_. 0))
    (io_bind (dpdk_port (tx_onic ctx) (tx_port ctx)) (\<lambda>tx_port_id.
     io_then (while_running StopFlag stop_set (tx_work ctx tx_port_id))
     (io_ret 0)))"

section \<open>The stop flag\<close>

lemma total_array_at [total_rules]: "io_total (array_at xs i)"
  by (auto simp: array_at_def intro!: total_rules)
lemma extends_array_at [extends_rules]: "io_extends (array_at xs i)"
  by (auto simp: array_at_def intro!: extends_rules)
lemma total_next_queue [total_rules]: "io_total (next_queue n q)"
  by (auto simp: next_queue_def intro!: total_rules)
lemma extends_next_queue [extends_rules]: "io_extends (next_queue n q)"
  by (auto simp: next_queue_def intro!: extends_rules)
lemma total_final_packet [total_rules]: "io_total (final_packet ctx m)"
  by (auto simp: final_packet_def is_vlan_packet_def intro!: total_rules)
lemma extends_final_packet [extends_rules]: "io_extends (final_packet ctx m)"
  by (auto simp: final_packet_def is_vlan_packet_def intro!: extends_rules)

interpretation rx_thread: stoppable StopFlag stop_set "rx_work ctx port"
  by unfold_locales (auto simp: rx_work_def Let_def intro!: total_rules extends_rules)

interpretation final_thread: stoppable StopFlag stop_set "final_work ctx port"
  by unfold_locales (auto simp: final_work_def Let_def intro!: total_rules extends_rules)

interpretation tx_thread: stoppable StopFlag stop_set "tx_work ctx port"
  by unfold_locales (auto simp: tx_work_def Let_def intro!: total_rules extends_rules)

lemma total_dpdk_port [total_rules]: "io_total (dpdk_port p i)"
  by (auto simp: dpdk_port_def intro!: total_rules)

definition flag_set_from :: "(pipe_call, pipe_resp) env \<Rightarrow> nat \<Rightarrow> bool" where
  "flag_set_from e N \<longleftrightarrow> (\<forall>n \<ge> N. stop_set (e n StopFlag))"

text \<open>
  C26: Each of the three forwarding threads comes to an end if the stop flag, once raised, stays
  raised: whatever DPDK answers, none of them blocks in a round.
\<close>

theorem threads_stop:
  assumes "flag_set_from e N"
  shows "fpga_rx_thread ctx e s t \<noteq> None \<and> fpga_rx_final_thread ctx e s t \<noteq> None \<and>
    fpga_tx_thread ctx e s t \<noteq> None"
proof -
  have e: "\<And>n. N \<le> n \<Longrightarrow> stop_set (e n StopFlag)" using assms by (simp add: flag_set_from_def)
  have "io_ends e (fpga_rx_thread ctx)" and "io_ends e (fpga_rx_final_thread ctx)" and "io_ends e (fpga_tx_thread ctx)"
    unfolding fpga_rx_thread_def fpga_rx_final_thread_def fpga_tx_thread_def
    by (intro ends_rules ends_total [OF total_dpdk_port] rx_thread.ends_loop final_thread.ends_loop
        tx_thread.ends_loop; erule e)+
  then show ?thesis by (simp add: io_ends_def)
qed

section \<open>Ownership of the mbufs\<close>

text \<open>
  What a call does to the claim a thread has on the mbuf \<open>m\<close>: a burst in and a dequeue give
  it; an enqueue that is accepted (\<open>rte_ring_enqueue_bulk\<close> returns the number of objects it
  queued, \<open>rte_ring_enqueue\<close> returns 0), the sent part of a burst out and a free take it.
\<close>

fun claim :: "mbuf \<Rightarrow> pipe_call \<times> pipe_resp \<Rightarrow> int" where
  "claim m (RxBurst _ _ _, r) = int (count_list (bufs r) m)"
| "claim m (RingDequeueBurst _ _, r) = int (count_list (bufs r) m)"
| "claim m (RingEnqueueBulk _ ms, r) = (if num r \<noteq> 0 then - int (count_list ms m) else 0)"
| "claim m (RingEnqueue _ b, r) = (if num r = 0 \<and> b = m then - 1 else 0)"
| "claim m (TxBurst _ _ ms, r) = - int (count_list (take (unat (word_of_int (num r) :: u16)) ms) m)"
| "claim m (PktFree b, r) = (if b = m then - 1 else 0)"
| "claim m _ = 0"

definition balance :: "mbuf \<Rightarrow> (pipe_call, pipe_resp) trace \<Rightarrow> int" where
  "balance m t = sum_list (map (claim m) t)"

lemma balance_simps [simp]:
  "balance m [] = 0" "balance m (x # t) = claim m x + balance m t"
  "balance m (t @ u) = balance m t + balance m u"
  by (simp_all add: balance_def)

lemma count_list_int_append: "int (count_list (xs @ ys) m) = int (count_list xs m) + int (count_list ys m)"
  by simp

lemma free_all_wp:
  assumes "\<And>t'. balance m t' = balance m t - int (count_list ms m) \<Longrightarrow> Q () s t'"
  shows "io_wp e (io_for ms (\<lambda>b. io_do (PktFree b))) Q E s t"
  using assms
proof (induction ms arbitrary: t)
  case Nil
  then show ?case by (simp add: io_wp_simps)
next
  case (Cons b ms)
  show ?case
    by (simp add: io_wp_simps) (rule Cons.IH, rule Cons.prems, auto)
qed

lemma array_at_wp [io_wp_simps]:
  "io_wp e (array_at xs i) Q E s t = (if 0 \<le> i \<and> i < int (length xs) then Q (xs ! nat i) s t else E BadIndex s t)"
  by (simp add: array_at_def io_wp_simps)

lemma next_queue_wp [io_wp_simps]:
  "io_wp e (next_queue n q) Q E s t = (if n = 0 then E DivByZero s t else Q (word_of_int (c_mod (uint q) n)) s t)"
  by (simp add: next_queue_def io_wp_simps)

lemma count_drop: "int (count_list (drop k ms) m) = int (count_list ms m) - int (count_list (take k ms) m)"
  using count_list_int_append [of "take k ms" "drop k ms" m] by simp

lemma tx_work_balance:
  "io_wp e (tx_work ctx port) (\<lambda>_ _ t'. balance m t' = balance m t) (\<lambda>_ _ _. True) s t"
  unfolding tx_work_def Let_def
  by (auto simp: io_wp_simps Let_def count_drop intro!: free_all_wp [where m = m])

text \<open>
  C1: The transmit thread neither leaks an mbuf nor releases one twice: at the head of every
  round, however many there have been and whatever DPDK answered, each mbuf it took from the
  ring has been handed to the card or freed exactly once.
\<close>

theorem tx_thread_conserves:
  assumes "loop_heads (loop_round StopFlag stop_set (tx_work ctx port)) e s t s' t'"
  shows "balance m t' = balance m t"
  using assms
proof (rule loop_heads_invariant [where I = "\<lambda>_ t'. balance m t' = balance m t"])
  fix s1 t1
  assume bal: "balance m t1 = balance m t"
  show "io_wp e (loop_round StopFlag stop_set (tx_work ctx port))
     (\<lambda>go s' t'. go \<longrightarrow> balance m t' = balance m t) (\<lambda>_ _ _. True) s1 t1"
    using bal by (auto simp: loop_round_wp Let_def intro!: io_wp_mono [OF tx_work_balance [where m = m]])
qed simp

text \<open>
  The receive thread does the opposite of what its comment says.  \<open>rte_ring_enqueue_bulk\<close>
  returns 0 when the ring has no room: then the packets of the burst are kept by nobody (a
  leak of one claim each); when it has queued them, the thread frees the packets the transmit
  thread is about to use (each is released twice).  In no round that receives packets are the
  books balanced.
\<close>

theorem rx_thread_release_inverted:
  "case rx_work ctx port e s t of
     None \<Rightarrow> False
   | Some (Inl x, s', t') \<Rightarrow> x = DivByZero \<and> nb_rx_Qs ctx = 0
   | Some (Inr go, s', t') \<Rightarrow>
       (let ms = bufs (e (length t) (RxBurst port 0 32));
            queued = num (e (length t + 1) (RingEnqueueBulk (mbuf_ring (rx_onic ctx)) ms))
        in balance m t' = balance m t +
             (if ms = [] then 0 else if queued = 0 then int (count_list ms m) else - int (count_list ms m)))"
proof -
  let ?ms = "bufs (e (length t) (RxBurst port 0 32))"
  let ?queued = "num (e (length t + 1) (RingEnqueueBulk (mbuf_ring (rx_onic ctx)) ?ms))"
  have "io_wp e (rx_work ctx port) (\<lambda>_ _ t'. balance m t' = balance m t +
             (if ?ms = [] then 0 else if ?queued = 0 then int (count_list ?ms m) else - int (count_list ?ms m)))
     (\<lambda>x _ _. x = DivByZero \<and> nb_rx_Qs ctx = 0) s t"
    unfolding rx_work_def
    by (auto simp: io_wp_simps Let_def BURST_SIZE_def intro!: free_all_wp [where m = m])
  moreover obtain r s' t' where "rx_work ctx port e s t = Some (r, s', t')"
    using io_totalD [OF rx_thread.work_total] by blast
  ultimately show ?thesis by (cases r) (auto simp: io_wp_def Let_def)
qed


section \<open>Round robin\<close>

text \<open>The queues of the bursts out, in order.\<close>

definition tx_bursts :: "(pipe_call, pipe_resp) trace \<Rightarrow> u16 list" where
  "tx_bursts t = concat (map (\<lambda>(c, _). case c of TxBurst _ q _ \<Rightarrow> [q] | _ \<Rightarrow> []) t)"

lemma tx_bursts_simps [simp]:
  "tx_bursts [] = []"
  "tx_bursts ((c, r) # t) = (case c of TxBurst _ q _ \<Rightarrow> [q] | _ \<Rightarrow> []) @ tx_bursts t"
  "tx_bursts (t @ u) = tx_bursts t @ tx_bursts u"
  by (simp_all add: tx_bursts_def)

lemma tx_bursts_free_wp:
  assumes "\<And>t'. tx_bursts t' = tx_bursts t \<Longrightarrow> Q () s t'"
  shows "io_wp e (io_for ms (\<lambda>b. io_do (PktFree b))) Q E s t"
  using assms
proof (induction ms arbitrary: t)
  case Nil
  then show ?case by (simp add: io_wp_simps)
next
  case (Cons b ms)
  show ?case by (simp add: io_wp_simps) (rule Cons.IH, rule Cons.prems, auto)
qed

definition tx_queue_at :: "forwarding_context \<Rightarrow> nat \<Rightarrow> u16" where
  "tx_queue_at ctx k = word_of_int (tx_Qs ctx ! ((k mod 2 ^ 16) mod nat (nb_tx_Qs ctx)))"

lemma tx_work_queue:
  assumes "0 < nb_tx_Qs ctx"
  shows "io_wp e (tx_work ctx port) (\<lambda>_ s' t'. (s', tx_bursts t') = (s, tx_bursts t) \<or>
     (s', tx_bursts t') = (s + 1, tx_bursts t @ [tx_queue_at ctx (unat s)])) (\<lambda>_ _ _. True) s t"
proof -
  obtain k n where k: "unat s = k" and n: "nb_tx_Qs ctx = int n"
    using assms(1) zero_le_imp_eq_int [of "nb_tx_Qs ctx"] by auto
  have lt: "k < 2 ^ 16" using unsigned_less [of s, where 'a = nat] by (simp add: k)
  have "c_mod (uint s) (nb_tx_Qs ctx) = int (k mod n)"
    using assms(1) by (simp only: c_mod_nonneg uint_nat k n of_nat_0_le_iff of_nat_mod)
  moreover have "k mod n mod 2 ^ 16 = k mod n"
    using lt by (intro mod_less) (meson le_less_trans mod_less_eq_dividend)
  ultimately have idx: "unat (word_of_int (c_mod (uint s) (nb_tx_Qs ctx)) :: u16) = unat s mod nat (nb_tx_Qs ctx)"
    by (simp add: unat_of_nat k n)
  have "unat s mod 2 ^ 16 = unat s" using lt k by simp
  then have q: "word_of_int (tx_Qs ctx ! unat (word_of_int (c_mod (uint s) (nb_tx_Qs ctx)) :: u16)) = tx_queue_at ctx (unat s)"
    by (simp add: tx_queue_at_def idx)
  show ?thesis
    unfolding tx_work_def Let_def
    by (auto simp: io_wp_simps Let_def q intro!: tx_bursts_free_wp)
qed

text \<open>
  The transmit thread serves its queues in turn: the bursts out go to the queues of
  \<open>tx_Qs\<close> number 0, 1, 2 and so on, modulo their number, where the count of bursts wraps at
  \<open>2 ^ 16\<close>; an empty dequeue does not advance it.
\<close>

theorem tx_thread_round_robin:
  assumes "loop_heads (loop_round StopFlag stop_set (tx_work ctx port)) e 0 [] s' t'"
    and "0 < nb_tx_Qs ctx"
  shows "\<exists>n. s' = of_nat n \<and> tx_bursts t' = map (tx_queue_at ctx) [0..<n]"
  using assms(1)
proof (rule loop_heads_invariant [where I = "\<lambda>s' t'. \<exists>n. s' = of_nat n \<and> tx_bursts t' = map (tx_queue_at ctx) [0..<n]"])
  show "\<exists>n. (0 :: u16) = of_nat n \<and> tx_bursts [] = map (tx_queue_at ctx) [0..<n]"
    by (intro exI [of _ 0]) simp
next
  fix s :: u16 and t
  assume "\<exists>n. s = of_nat n \<and> tx_bursts t = map (tx_queue_at ctx) [0..<n]"
  then obtain n where s: "s = of_nat n" and t: "tx_bursts t = map (tx_queue_at ctx) [0..<n]" by blast
  let ?I = "\<lambda>s' t'. \<exists>n. s' = of_nat n \<and> tx_bursts t' = map (tx_queue_at ctx) [0..<n]"
  have "tx_queue_at ctx (unat s) = tx_queue_at ctx n"
    by (simp add: s tx_queue_at_def unat_of_nat)
  then have step: "?I (s + 1) t'" if "tx_bursts t' = tx_bursts t @ [tx_queue_at ctx (unat s)]" for t'
    using that by (intro exI [of _ "Suc n"]) (simp add: s t add.commute)
  have stay: "?I s t'" if "tx_bursts t' = tx_bursts t" for t'
    using that s t by auto
  have "io_wp e (tx_work ctx port) (\<lambda>_. ?I) (\<lambda>_ _ _. True) s (t @ [(StopFlag, r)])" for r
    by (rule io_wp_mono [OF tx_work_queue [OF assms(2)]]) (use step stay in auto)
  then show "io_wp e (loop_round StopFlag stop_set (tx_work ctx port)) (\<lambda>go s' t'. go \<longrightarrow> ?I s' t') (\<lambda>_ _ _. True) s t"
    by (auto simp: loop_round_wp Let_def intro: io_wp_mono)
qed

section \<open>Sample runs\<close>

text \<open>The context 3 of \<open>main\<close> on a card whose port 1 has DPDK number 3.\<close>

definition sample_ctx :: forwarding_context where
  "sample_ctx = \<lparr>ctx_id = 3, rx_onic = sample_onic, tx_onic = sample_onic, rx_port = 1, tx_port = 0,
     rx_Qs = [0, - 1, - 1], tx_Qs = [0, 1, - 1], nb_rx_Qs = 1, nb_tx_Qs = 2, stats_ring = 7\<rparr>"

text \<open>A ring with two packets at each dequeue, a card that sends one of them, and a flag raised at call 12.\<close>

definition busy_env :: "(pipe_call, pipe_resp) env" where
  "busy_env n c = (case c of
       StopFlag \<Rightarrow> \<lparr>num = (if n < 12 then 0 else 1), bufs = [], data_bytes = []\<rparr>
     | RingDequeueBurst _ _ \<Rightarrow> \<lparr>num = 0, bufs = [10 + n, 11 + n], data_bytes = []\<rparr>
     | TxBurst _ _ _ \<Rightarrow> \<lparr>num = 1, bufs = [], data_bytes = []\<rparr>
     | _ \<Rightarrow> \<lparr>num = 5, bufs = [], data_bytes = []\<rparr>)"

lemmas pipe_run = tx_work_def rx_work_def loop_round_def array_at_def next_queue_def stop_set_def
  sample_ctx_def sample_onic_def sample_port_def busy_env_def Let_def io_simps

abbreviation sample_round :: "bool pipe_io" where
  "sample_round \<equiv> loop_round StopFlag stop_set (tx_work sample_ctx 0)"

lemma busy_rounds:
  "\<exists>t1 t2. sample_round busy_env 0 [] = Some (Inr True, 1, t1) \<and>
     sample_round busy_env 1 t1 = Some (Inr True, 2, t2) \<and>
     tx_bursts t2 = [0, 1] \<and> (PktFree 12, \<lparr>num = 5, bufs = [], data_bytes = []\<rparr>) \<in> set t2"
  by (simp add: pipe_run c_mod_def c_div_def)

lemma busy_heads:
  "\<exists>t. loop_heads sample_round busy_env 0 [] 2 t \<and> tx_bursts t = [0, 1] \<and>
     (PktFree 12, \<lparr>num = 5, bufs = [], data_bytes = []\<rparr>) \<in> set t"
  using busy_rounds loop_heads.round [OF loop_heads.round [OF loop_heads.start]] by metis

theorem tx_thread_conserves_witness:
  "\<exists>t. loop_heads sample_round busy_env 0 [] 2 t \<and> (PktFree 12, \<lparr>num = 5, bufs = [], data_bytes = []\<rparr>) \<in> set t \<and>
     balance 12 t = 0"
  using busy_heads tx_thread_conserves [of sample_ctx 0 busy_env 0 "[]" 2 _ 12] by auto

theorem tx_thread_round_robin_witness:
  "\<exists>t n. loop_heads sample_round busy_env 0 [] 2 t \<and> tx_bursts t = [0, 1] \<and>
     tx_bursts t = map (tx_queue_at sample_ctx) [0..<n]"
proof -
  obtain t where h: "loop_heads sample_round busy_env 0 [] 2 t" and b: "tx_bursts t = [0, 1]"
    using busy_heads by blast
  have "0 < nb_tx_Qs sample_ctx" by (simp add: sample_ctx_def)
  from tx_thread_round_robin [OF h this] h b show ?thesis by blast
qed

theorem threads_stop_witness:
  "fpga_rx_thread sample_ctx busy_env 0 [] \<noteq> None \<and> fpga_tx_thread sample_ctx busy_env 0 [] \<noteq> None"
proof -
  have "flag_set_from busy_env 12" by (simp add: flag_set_from_def busy_env_def stop_set_def)
  from threads_stop [OF this] show ?thesis by blast
qed

end
