(* ===== verification/Forwarder.thy ===== *)
theory Forwarder
  imports Pipeline "HOL-Library.Sublist" "HOL-Library.Multiset"
begin

text \<open>
  The receive and the transmit thread of a context at work together.  Each runs in its own
  environment and leaves its own trace; a history of both is a shuffle of the two traces, so
  that their calls interleave in any way.  What connects them is the ring of the card: the
  histories that can happen are those in which its answers are the ones DPDK documents, a
  first-in first-out queue of bounded size that takes a bulk whole or not at all.
\<close>

section \<open>The ring\<close>

fun ring_step :: "int \<Rightarrow> nat \<Rightarrow> mbuf list \<Rightarrow> pipe_call \<times> pipe_resp \<Rightarrow> mbuf list option" where
  "ring_step ring cap q (RingEnqueueBulk g ms, r) =
     (if g \<noteq> ring then Some q
      else if length q + length ms \<le> cap then (if num r = int (length ms) then Some (q @ ms) else None)
      else if num r = 0 then Some q else None)"
| "ring_step ring cap q (RingDequeueBurst g n, r) =
     (if g \<noteq> ring then Some q else if bufs r = take n q then Some (drop n q) else None)"
| "ring_step ring cap q _ = Some q"

text \<open>What the ring holds after a history, if its answers are those of a ring.\<close>

fun ring_holds :: "int \<Rightarrow> nat \<Rightarrow> mbuf list \<Rightarrow> (pipe_call, pipe_resp) trace \<Rightarrow> mbuf list option" where
  "ring_holds ring cap q [] = Some q"
| "ring_holds ring cap q (x # h) =
     (case ring_step ring cap q x of None \<Rightarrow> None | Some q' \<Rightarrow> ring_holds ring cap q' h)"

section \<open>Packets of a trace\<close>

fun put_in :: "int \<Rightarrow> pipe_call \<times> pipe_resp \<Rightarrow> mbuf list" where
  "put_in ring (RingEnqueueBulk g ms, r) = (if g = ring \<and> num r \<noteq> 0 then ms else [])"
| "put_in ring _ = []"

fun taken_out :: "int \<Rightarrow> pipe_call \<times> pipe_resp \<Rightarrow> mbuf list" where
  "taken_out ring (RingDequeueBurst g n, r) = (if g = ring then bufs r else [])"
| "taken_out ring _ = []"

fun came_in :: "pipe_call \<times> pipe_resp \<Rightarrow> mbuf list" where
  "came_in (RxBurst _ _ _, r) = bufs r"
| "came_in _ = []"

fun went_out :: "pipe_call \<times> pipe_resp \<Rightarrow> mbuf list" where
  "went_out (TxBurst _ _ ms, r) = take (unat (word_of_int (num r) :: u16)) ms"
| "went_out _ = []"

fun freed :: "pipe_call \<times> pipe_resp \<Rightarrow> mbuf list" where
  "freed (PktFree b, r) = [b]"
| "freed _ = []"

definition packets :: "(pipe_call \<times> pipe_resp \<Rightarrow> mbuf list) \<Rightarrow> (pipe_call, pipe_resp) trace \<Rightarrow> mbuf list" where
  "packets f t = concat (map f t)"

lemma packets_simps [simp]:
  "packets f [] = []" "packets f (x # t) = f x @ packets f t" "packets f (t @ u) = packets f t @ packets f u"
  by (simp_all add: packets_def)

lemma packets_shuffle_left: "h \<in> shuffles t u \<Longrightarrow> packets f u = [] \<Longrightarrow> packets f h = packets f t"
proof (induction t u arbitrary: h rule: shuffles.induct)
  case (3 x xs y ys)
  then show ?case by (cases h) (auto simp: Cons_in_shuffles_iff)
qed auto

lemma packets_shuffle:
  assumes "h \<in> shuffles t u"
  shows "mset (packets f h) = mset (packets f t) + mset (packets f u)"
    and "packets f u = [] \<Longrightarrow> packets f h = packets f t" and "packets f t = [] \<Longrightarrow> packets f h = packets f u"
proof -
  show "mset (packets f h) = mset (packets f t) + mset (packets f u)"
    using mset_shuffles [OF assms] by (simp add: packets_def mset_concat flip: sum_mset_sum_list)
  show "packets f u = [] \<Longrightarrow> packets f h = packets f t" by (rule packets_shuffle_left [OF assms])
  show "packets f t = [] \<Longrightarrow> packets f h = packets f u"
    using packets_shuffle_left [of h u t f] assms by (simp add: shuffles_commutes)
qed

lemma ring_step_fifo: "ring_step ring cap q x = Some q' \<Longrightarrow> q @ put_in ring x = taken_out ring x @ q'"
  by (induction ring cap q x rule: ring_step.induct) (auto split: if_splits)

lemma ring_fifo: "ring_holds ring cap q h = Some q' \<Longrightarrow> q @ packets (put_in ring) h = packets (taken_out ring) h @ q'"
proof (induction h arbitrary: q)
  case (Cons x h)
  then obtain q1 where step: "ring_step ring cap q x = Some q1" and rest: "ring_holds ring cap q1 h = Some q'"
    by (auto split: option.splits)
  have "q @ packets (put_in ring) (x # h) = taken_out ring x @ (q1 @ packets (put_in ring) h)"
    using ring_step_fifo [OF step] by (metis append.assoc packets_simps(2))
  also have "\<dots> = packets (taken_out ring) (x # h) @ q'" using Cons.IH [OF rest] by simp
  finally show ?case .
qed simp

section \<open>What each thread does with the packets\<close>

lemma free_all_packets:
  assumes "\<And>t'. (\<And>f. (\<And>b r. f (PktFree b, r) = []) \<Longrightarrow> packets f t' = packets f t) \<Longrightarrow>
      packets freed t' = packets freed t @ ms \<Longrightarrow> Q () s t'"
  shows "io_wp e (io_for ms (\<lambda>b. io_do (PktFree b))) Q E s t"
  using assms
proof (induction ms arbitrary: t)
  case Nil
  then show ?case by (simp add: io_wp_simps)
next
  case (Cons b ms)
  show ?case
    by (simp add: io_wp_simps) (rule Cons.IH, rule Cons.prems, auto)
qed

text \<open>
  The receive thread passes on what came in, in order, and frees just what it passed on.  The
  transmit thread sends what it took, in order, and frees just what it did not send.
\<close>

definition rx_books :: "int \<Rightarrow> (pipe_call, pipe_resp) trace \<Rightarrow> bool" where
  "rx_books ring t \<longleftrightarrow> subseq (packets (put_in ring) t) (packets came_in t) \<and>
     packets freed t = packets (put_in ring) t \<and> packets (taken_out ring) t = [] \<and> packets went_out t = []"

definition tx_books :: "int \<Rightarrow> (pipe_call, pipe_resp) trace \<Rightarrow> bool" where
  "tx_books ring t \<longleftrightarrow> subseq (packets went_out t) (packets (taken_out ring) t) \<and>
     mset (packets went_out t) + mset (packets freed t) = mset (packets (taken_out ring) t) \<and>
     packets (put_in ring) t = [] \<and> packets came_in t = []"

lemma subseq_grow: "subseq a b \<Longrightarrow> subseq a (b @ c)" "subseq a b \<Longrightarrow> subseq (a @ take n c) (b @ c)"
  by (auto intro: list_emb_append2 list_emb_append_mono prefix_imp_subseq take_is_prefix subseq_order.trans)

lemma mset_split: "a + b = c \<Longrightarrow> a + mset (take n d) + (b + mset (drop n d)) = c + mset d"
  using mset_append [of "take n d" "drop n d"] by (simp add: union_ac)

lemma rx_work_books:
  assumes "rx_books (mbuf_ring (rx_onic ctx)) t"
  shows "io_wp e (rx_work ctx port) (\<lambda>_ _ t'. rx_books (mbuf_ring (rx_onic ctx)) t') (\<lambda>_ _ _. True) s t"
  using assms unfolding rx_work_def Let_def
  by (auto simp: io_wp_simps rx_books_def subseq_grow intro!: free_all_packets list_emb_append_mono)

lemma tx_work_books:
  assumes "tx_books (mbuf_ring (rx_onic ctx)) t"
  shows "io_wp e (tx_work ctx port) (\<lambda>_ _ t'. tx_books (mbuf_ring (rx_onic ctx)) t') (\<lambda>_ _ _. True) s t"
  using assms unfolding tx_work_def Let_def
  by (auto simp: io_wp_simps tx_books_def subseq_grow mset_split intro!: free_all_packets)

abbreviation rx_round :: "forwarding_context \<Rightarrow> u16 \<Rightarrow> bool pipe_io" where
  "rx_round ctx port \<equiv> loop_round StopFlag stop_set (rx_work ctx port)"

abbreviation tx_round :: "forwarding_context \<Rightarrow> u16 \<Rightarrow> bool pipe_io" where
  "tx_round ctx port \<equiv> loop_round StopFlag stop_set (tx_work ctx port)"

lemma rx_heads_books:
  assumes "loop_heads (rx_round ctx port) e 0 [] s t"
  shows "rx_books (mbuf_ring (rx_onic ctx)) t"
  using assms
proof (rule loop_heads_invariant [where I = "\<lambda>_. rx_books (mbuf_ring (rx_onic ctx))"])
  fix s1 t1
  assume "rx_books (mbuf_ring (rx_onic ctx)) t1"
  then have "rx_books (mbuf_ring (rx_onic ctx)) (t1 @ [(StopFlag, r)])" for r by (simp add: rx_books_def)
  then have "io_wp e (rx_work ctx port) (\<lambda>_ _. rx_books (mbuf_ring (rx_onic ctx))) (\<lambda>_ _ _. True) s1 (t1 @ [(StopFlag, r)])" for r
    by (rule rx_work_books)
  then show "io_wp e (rx_round ctx port) (\<lambda>go s' t'. go \<longrightarrow> rx_books (mbuf_ring (rx_onic ctx)) t') (\<lambda>_ _ _. True) s1 t1"
    by (auto simp: loop_round_wp Let_def intro: io_wp_mono)
qed (simp add: rx_books_def)

lemma tx_heads_books:
  assumes "loop_heads (tx_round ctx port) e 0 [] s t"
  shows "tx_books (mbuf_ring (rx_onic ctx)) t"
  using assms
proof (rule loop_heads_invariant [where I = "\<lambda>_. tx_books (mbuf_ring (rx_onic ctx))"])
  fix s1 t1
  assume "tx_books (mbuf_ring (rx_onic ctx)) t1"
  then have "tx_books (mbuf_ring (rx_onic ctx)) (t1 @ [(StopFlag, r)])" for r by (simp add: tx_books_def)
  then have "io_wp e (tx_work ctx port) (\<lambda>_ _. tx_books (mbuf_ring (rx_onic ctx))) (\<lambda>_ _ _. True) s1 (t1 @ [(StopFlag, r)])" for r
    by (rule tx_work_books)
  then show "io_wp e (tx_round ctx port) (\<lambda>go s' t'. go \<longrightarrow> tx_books (mbuf_ring (rx_onic ctx)) t') (\<lambda>_ _ _. True) s1 t1"
    by (auto simp: loop_round_wp Let_def intro: io_wp_mono)
qed (simp add: tx_books_def)

section \<open>The two threads together\<close>

text \<open>
  The histories of a forwarder: any interleaving of the calls of the two threads of a context,
  at the heads of their loops, in which the answers of the ring are those of a ring.
\<close>

definition forwards ::
  "forwarding_context \<Rightarrow> nat \<Rightarrow> (pipe_call, pipe_resp) trace \<Rightarrow> mbuf list \<Rightarrow> bool" where
  "forwards ctx cap h q \<longleftrightarrow> (\<exists>rx_port_id tx_port_id e e' s s' t t'.
     loop_heads (rx_round ctx rx_port_id) e 0 [] s t \<and> loop_heads (tx_round ctx tx_port_id) e' 0 [] s' t' \<and>
     h \<in> shuffles t t' \<and> ring_holds (mbuf_ring (rx_onic ctx)) cap [] h = Some q)"

lemma ring_bounded: "ring_holds ring cap q h = Some q' \<Longrightarrow> length q \<le> cap \<Longrightarrow> length q' \<le> cap"
proof (induction h arbitrary: q)
  case (Cons x h)
  then obtain q1 where step: "ring_step ring cap q x = Some q1" and rest: "ring_holds ring cap q1 h = Some q'"
    by (auto split: option.splits)
  from step Cons.prems(2) have "length q1 \<le> cap"
    by (induction ring cap q x rule: ring_step.induct) (auto split: if_splits)
  then show ?case by (rule Cons.IH [OF rest])
qed simp

lemma forwards_books:
  assumes "forwards ctx cap h q" and "ring = mbuf_ring (rx_onic ctx)"
  shows "packets (put_in ring) h = packets (taken_out ring) h @ q" and "length q \<le> cap"
    and "subseq (packets (put_in ring) h) (packets came_in h)"
    and "subseq (packets went_out h) (packets (taken_out ring) h)"
    and "mset (packets freed h) + mset (packets went_out h) = mset (packets (put_in ring) h) + mset (packets (taken_out ring) h)"
proof -
  obtain rxp txp e e' s s' t t' where rx: "loop_heads (rx_round ctx rxp) e 0 [] s t"
    and tx: "loop_heads (tx_round ctx txp) e' 0 [] s' t'" and h: "h \<in> shuffles t t'"
    and ring: "ring_holds ring cap [] h = Some q"
    using assms unfolding forwards_def by blast
  from rx_heads_books [OF rx] tx_heads_books [OF tx]
  have rb: "rx_books ring t" and tb: "tx_books ring t'" by (simp_all add: assms(2))
  have sides: "packets (put_in ring) h = packets (put_in ring) t" "packets came_in h = packets came_in t"
      "packets (taken_out ring) h = packets (taken_out ring) t'" "packets went_out h = packets went_out t'"
    using rb tb by (auto simp: rx_books_def tx_books_def intro: packets_shuffle(2) [OF h] packets_shuffle(3) [OF h])
  show "packets (put_in ring) h = packets (taken_out ring) h @ q" using ring_fifo [OF ring] by simp
  show "length q \<le> cap" using ring_bounded [OF ring] by simp
  show "subseq (packets (put_in ring) h) (packets came_in h)" "subseq (packets went_out h) (packets (taken_out ring) h)"
    using rb tb by (simp_all add: sides rx_books_def tx_books_def)
  show "mset (packets freed h) + mset (packets went_out h) = mset (packets (put_in ring) h) + mset (packets (taken_out ring) h)"
    using rb tb by (simp add: sides packets_shuffle(1) [OF h] rx_books_def tx_books_def union_ac)
qed

text \<open>
  C2: The packets a context sends are packets it received, each at most once for each time it
  came in and in the order in which they came, however the two threads interleave; what is on
  the way between them fits the ring.
\<close>

theorem forwarding_order:
  assumes "forwards ctx cap h q"
  shows "subseq (packets went_out h @ q) (packets came_in h) \<and> length q \<le> cap"
  using forwards_books [OF assms refl] list_emb_append_mono [OF _ subseq_order.refl, of "packets went_out h" _ q]
  by (metis subseq_order.trans)

text \<open>
  C11: Every packet the receive thread passes on is released twice once it has left the ring: by
  the receive thread, and by the transmit thread or the card.  A packet the ring refused is
  never released.
\<close>

theorem forwarded_released_twice:
  assumes "forwards ctx cap h q" and "ring = mbuf_ring (rx_onic ctx)"
  shows "mset (packets freed h) + mset (packets went_out h) =
    mset (packets (taken_out ring) h) + mset (packets (taken_out ring) h) + mset q"
  using forwards_books(1,5) [OF assms] by (simp add: union_ac)

section \<open>A sample history\<close>

text \<open>Packets 7 and 8 come in and get their place in the ring; the card takes one of them.\<close>

definition two_packets :: "(pipe_call, pipe_resp) env" where
  "two_packets n c = (case c of
       RxBurst _ _ _ \<Rightarrow> \<lparr>num = 0, bufs = [7, 8], data_bytes = []\<rparr>
     | RingEnqueueBulk _ ms \<Rightarrow> \<lparr>num = int (length ms), bufs = [], data_bytes = []\<rparr>
     | RingDequeueBurst _ _ \<Rightarrow> \<lparr>num = 0, bufs = [7, 8], data_bytes = []\<rparr>
     | TxBurst _ _ _ \<Rightarrow> \<lparr>num = 1, bufs = [], data_bytes = []\<rparr>
     | _ \<Rightarrow> \<lparr>num = 0, bufs = [], data_bytes = []\<rparr>)"

lemma append_in_shuffles: "t @ u \<in> shuffles t u"
  by (induction t) (auto intro: Cons_in_shuffles_leftI)

lemma sample_rounds:
  "\<exists>s t s' t'. rx_round sample_ctx 3 two_packets 0 [] = Some (Inr True, s, t) \<and>
     tx_round sample_ctx 2 two_packets 0 [] = Some (Inr True, s', t') \<and>
     ring_holds (mbuf_ring (rx_onic sample_ctx)) 255 [] (t @ t') = Some [] \<and>
     packets went_out (t @ t') = [7] \<and> packets freed (t @ t') = [7, 8, 8] \<and> packets came_in (t @ t') = [7, 8] \<and>
     packets (taken_out (mbuf_ring (rx_onic sample_ctx))) (t @ t') = [7, 8]"
  by (simp add: pipe_run two_packets_def c_mod_def c_div_def BURST_SIZE_def)

lemma one_round: "body e s t = Some (Inr True, s', t') \<Longrightarrow> loop_heads body e s t s' t'"
  by (rule loop_heads.round [OF loop_heads.start])

lemma sample_history:
  "\<exists>h. forwards sample_ctx 255 h [] \<and> packets went_out h = [7] \<and> packets freed h = [7, 8, 8] \<and>
     packets came_in h = [7, 8] \<and> packets (taken_out (mbuf_ring (rx_onic sample_ctx))) h = [7, 8]"
proof -
  obtain s t s' t' where rx: "rx_round sample_ctx 3 two_packets 0 [] = Some (Inr True, s, t)"
    and tx: "tx_round sample_ctx 2 two_packets 0 [] = Some (Inr True, s', t')"
    and h: "ring_holds (mbuf_ring (rx_onic sample_ctx)) 255 [] (t @ t') = Some []"
      "packets went_out (t @ t') = [7]" "packets freed (t @ t') = [7, 8, 8]" "packets came_in (t @ t') = [7, 8]"
      "packets (taken_out (mbuf_ring (rx_onic sample_ctx))) (t @ t') = [7, 8]"
    using sample_rounds by blast
  have "forwards sample_ctx 255 (t @ t') []"
    unfolding forwards_def using one_round [of "rx_round sample_ctx 3", OF rx]
      one_round [of "tx_round sample_ctx 2", OF tx]
      append_in_shuffles h(1) by blast
  with h show ?thesis by blast
qed

theorem forwarding_order_witness:
  "\<exists>h. forwards sample_ctx 255 h [] \<and> packets went_out h = [7] \<and> subseq (packets went_out h) (packets came_in h)"
proof -
  obtain h where "forwards sample_ctx 255 h []" "packets went_out h = [7]" using sample_history by blast
  with forwarding_order [OF this(1)] show ?thesis by auto
qed

theorem forwarded_released_twice_witness:
  "\<exists>h. forwards sample_ctx 255 h [] \<and> packets freed h = [7, 8, 8] \<and> packets went_out h = [7] \<and>
     mset (packets freed h) + mset (packets went_out h) = mset [7, 8, 7, 8]"
proof -
  obtain h where "forwards sample_ctx 255 h []" "packets freed h = [7, 8, 8]" "packets went_out h = [7]"
      "packets (taken_out (mbuf_ring (rx_onic sample_ctx))) h = [7, 8]"
    using sample_history by blast
  with forwarded_released_twice [OF this(1) refl] show ?thesis by auto
qed

end
