(* ===== verification/Stats.thy ===== *)
theory Stats
  imports Pipeline
begin

text \<open>
  The statistics producer: \<open>server/src/stats.h\<close> and \<open>server/src/stats.cpp\<close>, with the
  \<open>to_string\<close> of \<open>server/src/onic_helper.h\<close>.  The state is the \<open>StatsLog\<close> object; Kafka,
  DPDK and the host answer its calls, and the calls of the card and of its ports are embedded
  as \<open>Dev\<close>.
\<close>

section \<open>Data\<close>

text \<open>
  \<open>ret\<close> is the local variable of the producer that runs, with 0 before it is assigned.
\<close>

record eth_stats =
  ipackets :: u64
  opackets :: u64
  ibytes :: u64
  obytes :: u64
  ierrors :: u64
  oerrors :: u64

record timestamps =
  timestamp_nb_sync :: "u64 list"
  timestamp_curr_tick :: "u64 list"

record stats_log =
  nb_Qs :: int
  rk :: int
  rkt :: int
  topic :: string
  rx_stats :: eth_stats
  tx_stats :: eth_stats
  hz :: u64
  old_time :: u64
  curr_time :: u64
  ret :: int

datatype stats_call =
    StatsStopFlag
  | LcoreId
  | EthStatsGet u16
  | TscHz
  | TscCycles
  | StatsDelay nat
  | StatsDequeueBurst int nat
  | PktAppend mbuf nat
  | PktPayload mbuf nat nat
  | ConfNew
  | GetHostname nat
  | ConfSet int string string
  | TopicConfNew
  | TopicConfSet int string string
  | KafkaNew int
  | TopicNew int string int
  | KafkaProduce int string
  | KafkaFlush int nat
  | TopicDestroy int
  | KafkaDestroy int
  | Dev dpdk_call

record stats_resp =
  ret_val :: int
  eth :: eth_stats
  burst :: "mbuf list"
  payload :: "u8 list"
  host :: string
  dev :: resp

text \<open>How a thread ends the process: an \<open>assert\<close>, \<open>exit(1)\<close>, a bad index, or in the card's code.\<close>

datatype stats_exit = Assertion | ExitFailure | BadPort | DevExit exit_reason

type_synonym 'a stats_io = "(stats_call, stats_resp, stats_log, stats_exit, 'a) io"

definition TIMESTAMP_OFFSET :: nat where "TIMESTAMP_OFFSET = 6 + 6 + 2 + 2 + 2"
definition NB_SYNC_LEN :: nat where "NB_SYNC_LEN = 8"
definition CURR_TICK_LEN :: nat where "CURR_TICK_LEN = 8"
definition TIMESTAMP_PKT_SIZE :: nat where "TIMESTAMP_PKT_SIZE = 60"
definition NB_HOPS :: nat where "NB_HOPS = 3"
definition LEN_NB_SYNC_NS :: u64 where "LEN_NB_SYNC_NS = 1000"
definition LEN_TIME_TICK_NS :: u64 where "LEN_TIME_TICK_NS = 4"
definition CUSTOM_VLAN_ID :: u16 where "CUSTOM_VLAN_ID = 0x0ABC"

section \<open>Text of an array\<close>

text \<open>\<open>to_string\<close>: the elements in hexadecimal, with a dot between two.\<close>

fun array_text :: "u32 list \<Rightarrow> string" where
  "array_text [] = []"
| "array_text [x] = hex (unat x)"
| "array_text (x # y # zs) = hex (unat x) @ ''.'' @ array_text (y # zs)"

section \<open>Timestamps of a packet\<close>

text \<open>\<open>rte_cpu_to_be_16\<close>, by the byte order of the host.\<close>

definition cpu_to_be_16 :: "bool \<Rightarrow> u16 \<Rightarrow> u16" where
  "cpu_to_be_16 little v = (if little then push_bit 8 (and v 0xFF) + drop_bit 8 v else v)"

text \<open>\<open>memcpy\<close> of eight bytes into a \<open>uint64_t\<close>.\<close>

fun from_le :: "u8 list \<Rightarrow> nat" where
  "from_le [] = 0"
| "from_le (b # bs) = unat b + 256 * from_le bs"

definition load64 :: "bool \<Rightarrow> u8 list \<Rightarrow> nat \<Rightarrow> u64" where
  "load64 little bs off = (let w = take 8 (drop off bs) in
     word_of_nat (from_le (if little then w else rev w)))"

text \<open>
  The loop over the hops.  Both \<open>memcpy\<close> write \<open>timestamp_nb_sync\<close>; the ticks keep what
  the memory holds.
\<close>

fun read_hops :: "bool \<Rightarrow> u8 list \<Rightarrow> nat \<Rightarrow> nat \<Rightarrow> nat \<Rightarrow> timestamps \<Rightarrow> timestamps" where
  "read_hops little bs off i 0 ts = ts"
| "read_hops little bs off i (Suc n) ts =
     (let ts1 = ts\<lparr>timestamp_nb_sync := (timestamp_nb_sync ts)[i := load64 little bs off]\<rparr>;
          off1 = off + NB_SYNC_LEN;
          ts2 = ts1\<lparr>timestamp_nb_sync := (timestamp_nb_sync ts1)[i := load64 little bs off1]\<rparr>
      in read_hops little bs (off1 + CURR_TICK_LEN) (Suc i) n ts2)"

definition Timestamps_ctor :: "bool \<Rightarrow> timestamps \<Rightarrow> mbuf \<Rightarrow> timestamps stats_io" where
  "Timestamps_ctor little junk mbuf =
     io_then (io_do (PktAppend mbuf TIMESTAMP_PKT_SIZE))
    (if 0x8100 \<noteq> cpu_to_be_16 little RTE_ETHER_TYPE_VLAN then io_exit Assertion
     else if CUSTOM_VLAN_ID \<noteq> cpu_to_be_16 little CUSTOM_VLAN_ID then io_exit Assertion
     else
       io_bind (io_call (PktPayload mbuf TIMESTAMP_OFFSET (NB_HOPS * (NB_SYNC_LEN + CURR_TICK_LEN)))) (\<lambda>r.
       io_ret (read_hops little (payload r) 0 0 NB_HOPS junk)))"

definition calc_hop_latencies :: "timestamps \<Rightarrow> u64 list" where
  "calc_hop_latencies ts = map (\<lambda>i.
     (timestamp_nb_sync ts ! i - timestamp_nb_sync ts ! (i + 1)) * LEN_NB_SYNC_NS +
     (timestamp_curr_tick ts ! i - timestamp_curr_tick ts ! (i + 1)) * LEN_TIME_TICK_NS) [0..<NB_HOPS - 1]"

definition get_latency_str :: "timestamps \<Rightarrow> string" where
  "get_latency_str ts =
     (let latencies = calc_hop_latencies ts;
          result = concat (map (\<lambda>i. ''hop('' @ dec i @ '')='' @ dec (unat (latencies ! i)) @ '','') [0..<NB_HOPS - 1])
      in if result \<noteq> [] then butlast result else result)"

definition get_tsc_delta_ns :: "u64 \<Rightarrow> u64 \<Rightarrow> u64 \<Rightarrow> u64" where
  "get_tsc_delta_ns t0 t1 freq = (t1 - t0) * 1000000000 div freq"

definition rte_stats_to_string :: "eth_stats \<Rightarrow> string \<Rightarrow> string" where
  "rte_stats_to_string stats direction =
     direction @ ''rx_packets='' @ dec (unat (ipackets stats)) @
     '','' @ direction @ ''rx_Bytes='' @ dec (unat (ibytes stats)) @
     '','' @ direction @ ''rx_fail_packets='' @ dec (unat (ierrors stats)) @
     '','' @ direction @ ''tx_packets='' @ dec (unat (opackets stats)) @
     '','' @ direction @ ''tx_Bytes='' @ dec (unat (obytes stats)) @
     '','' @ direction @ ''tx_fail_packets='' @ dec (unat (oerrors stats))"

section \<open>Kafka\<close>

text \<open>
  An answer 0 of \<open>ConfSet\<close> and \<open>TopicConfSet\<close> is \<open>RD_KAFKA_CONF_OK\<close>, a handle 0 is NULL.
\<close>

definition exit_unless :: "bool \<Rightarrow> 'a stats_io \<Rightarrow> 'a stats_io" where
  "exit_unless b m = (if b then m else io_exit ExitFailure)"

definition create_kafka_topic :: "string \<Rightarrow> unit stats_io" where
  "create_kafka_topic name =
     io_bind (io_call ConfNew) (\<lambda>conf.
     io_bind (io_call (GetHostname 128)) (\<lambda>h. exit_unless (ret_val h = 0)
    (io_bind (io_call (ConfSet (ret_val conf) ''client.id'' (host h))) (\<lambda>r. exit_unless (ret_val r = 0)
    (io_bind (io_call (ConfSet (ret_val conf) ''bootstrap.servers'' ''localhost:9092'')) (\<lambda>r. exit_unless (ret_val r = 0)
    (io_bind (io_call TopicConfNew) (\<lambda>tconf.
     io_bind (io_call (TopicConfSet (ret_val tconf) ''acks'' ''all'')) (\<lambda>r. exit_unless (ret_val r = 0)
    (io_bind (io_call (KafkaNew (ret_val conf))) (\<lambda>k.
     io_then (io_modify (\<lambda>s. s\<lparr>rk := ret_val k\<rparr>)) (exit_unless (ret_val k \<noteq> 0)
    (io_bind (io_call (TopicNew (ret_val k) name (ret_val tconf))) (\<lambda>kt.
     io_then (io_modify (\<lambda>s. s\<lparr>rkt := ret_val kt\<rparr>)) (exit_unless (ret_val kt \<noteq> 0)
     (io_ret ()))))))))))))))))"

definition produce_kafka_message :: "string \<Rightarrow> unit stats_io" where
  "produce_kafka_message msg = io_bind (io_get rkt) (\<lambda>kt. io_do (KafkaProduce kt msg))"

definition cleanup_kafka :: "unit stats_io" where
  "cleanup_kafka =
     io_bind (io_get rk) (\<lambda>k.
     io_bind (io_get rkt) (\<lambda>kt.
     io_then (io_do (KafkaFlush k (10 * 1000)))
    (io_then (io_do (TopicDestroy kt))
     (io_do (KafkaDestroy k)))))"

text \<open>The number of entries before the first -1.\<close>

definition used_Qs :: "int list \<Rightarrow> nat" where
  "used_Qs qs = length (takeWhile (\<lambda>q. q \<noteq> - 1) qs)"

definition StatsLog_ctor :: "forwarding_context \<Rightarrow> string \<Rightarrow> unit stats_io" where
  "StatsLog_ctor ctx name =
     io_bind (io_call TscHz) (\<lambda>r.
     io_then (io_modify (\<lambda>s. s\<lparr>topic := name, hz := word_of_int (ret_val r), old_time := 0, curr_time := 0\<rparr>))
    (io_then (create_kafka_topic name)
     (io_modify (\<lambda>s. s\<lparr>nb_Qs := min (int (used_Qs (rx_Qs ctx))) (int (used_Qs (tx_Qs ctx)))\<rparr>))))"

section \<open>The producers\<close>

definition produce_latency_message :: "string \<Rightarrow> unit stats_io" where
  "produce_latency_message latency = produce_kafka_message (''Latency_stats, '' @ latency @ ''\<newline>'')"

definition extract_then_produce_latency_packets ::
  "bool \<Rightarrow> (mbuf \<Rightarrow> timestamps) \<Rightarrow> forwarding_context \<Rightarrow> unit stats_io" where
  "extract_then_produce_latency_packets little junk ctx =
     io_bind (io_call (StatsDequeueBurst (mbuf_ring (rx_onic ctx)) BURST_SIZE)) (\<lambda>r.
     io_for (burst r) (\<lambda>m.
       io_bind (Timestamps_ctor little (junk m) m) (\<lambda>ts. produce_latency_message (get_latency_str ts))))"

text \<open>The copy of a port a producer makes.\<close>

definition port_copy :: "onic \<Rightarrow> int \<Rightarrow> onic_port stats_io" where
  "port_copy onic port =
     (if 0 \<le> port \<and> port < int (length (ports onic)) then io_ret (ports onic ! nat port) else io_exit BadPort)"

text \<open>The end of the scope of such a copy.\<close>

definition destroy_port :: "dpdk_cfg \<Rightarrow> onic_port \<Rightarrow> unit stats_io" where
  "destroy_port cfg p = io_bind (io_embed Dev dev DevExit p (OnicPort_dtor cfg)) (\<lambda>_. io_ret ())"

definition stats_stop :: "stats_resp \<Rightarrow> bool" where
  "stats_stop r \<longleftrightarrow> ret_val r \<noteq> 0"

text \<open>The time since the last message, which becomes the last one.\<close>

definition next_delta :: "u64 stats_io" where
  "next_delta =
     io_bind (io_call TscCycles) (\<lambda>r.
     io_then (io_modify (\<lambda>s. s\<lparr>curr_time := word_of_int (ret_val r)\<rparr>))
    (io_bind (io_get (\<lambda>s. get_tsc_delta_ns (old_time s) (curr_time s) (hz s))) (\<lambda>delta_ns.
     io_then (io_modify (\<lambda>s. s\<lparr>old_time := curr_time s\<rparr>))
     (io_ret delta_ns))))"

definition stats_work ::
  "bool \<Rightarrow> (mbuf \<Rightarrow> timestamps) \<Rightarrow> forwarding_context \<Rightarrow> u16 \<Rightarrow> u16 \<Rightarrow> string \<Rightarrow> bool stats_io" where
  "stats_work little junk ctx rx_port_id tx_port_id kafka_header =
     io_bind (io_call (EthStatsGet rx_port_id)) (\<lambda>r.
     io_then (io_modify (\<lambda>s. s\<lparr>ret := ret_val r, rx_stats := eth r\<rparr>))
    (if ret_val r < 0 then io_ret False
     else
       io_bind (io_call (EthStatsGet tx_port_id)) (\<lambda>r.
       io_then (io_modify (\<lambda>s. s\<lparr>ret := ret_val r, tx_stats := eth r\<rparr>))
      (if ret_val r < 0 then io_ret False
       else
         io_bind next_delta (\<lambda>delta_ns.
         io_bind (io_get (\<lambda>s. kafka_header @ rte_stats_to_string (rx_stats s) ''(R)'' @ '','' @
           rte_stats_to_string (tx_stats s) ''(T)'' @ '','' @
           ''DELTA_NS='' @ dec (unat delta_ns) @ ''\<newline>'')) (\<lambda>kafka_message.
         io_then (produce_kafka_message kafka_message)
        (io_then (extract_then_produce_latency_packets little junk ctx)
        (io_then (io_do (StatsDelay 1000))
         (io_ret True)))))))))"

definition stats_header :: "nat \<Rightarrow> u16 \<Rightarrow> u32 list \<Rightarrow> u16 \<Rightarrow> u32 list \<Rightarrow> string" where
  "stats_header lcore rx_id rx_bdf tx_id tx_bdf =
     ''Forwarder_stats'' @ ''(ports-'' @ dec lcore @ '')'' @
     '',rx_port('' @ dec (unat rx_id) @ '')='' @ array_text rx_bdf @
     '',tx_port('' @ dec (unat tx_id) @ '')='' @ array_text tx_bdf @ '' ''"

text \<open>
  The two local copies of ports are destroyed when the function returns, also early, the one
  declared last first.
\<close>

definition run_stats_producer ::
  "dpdk_cfg \<Rightarrow> bool \<Rightarrow> (mbuf \<Rightarrow> timestamps) \<Rightarrow> forwarding_context \<Rightarrow> int stats_io" where
  "run_stats_producer cfg little junk ctx =
     io_bind (port_copy (rx_onic ctx) (rx_port ctx)) (\<lambda>rxp.
     io_bind (port_copy (tx_onic ctx) (tx_port ctx)) (\<lambda>txp.
     let rx_port_id = word_of_int (port_id rxp); tx_port_id = word_of_int (port_id txp) in
     io_then (io_modify (\<lambda>s. s\<lparr>ret := 0\<rparr>))
    (io_bind (io_call LcoreId) (\<lambda>lcore.
     io_then (while_running StatsStopFlag stats_stop
       (stats_work little junk ctx rx_port_id tx_port_id
         (stats_header (unat (word_of_int (ret_val lcore) :: u32)) rx_port_id (bdf rxp) tx_port_id (bdf txp))))
    (io_bind (io_get ret) (\<lambda>ret.
     io_then (destroy_port cfg txp)
    (io_then (destroy_port cfg rxp)
     (io_ret (if ret < 0 then - 1 else 0)))))))))"

definition cmac_header :: "int \<Rightarrow> u32 list \<Rightarrow> u32 list \<Rightarrow> string" where
  "cmac_header core_id rx_bdf tx_bdf =
     ''Forwarder_stats'' @ ''(CMAC-'' @ dec_int core_id @ '')'' @
     '',rx_port='' @ array_text rx_bdf @ '',tx_port='' @ array_text tx_bdf @ '' ''"

definition card_stats :: "onic \<Rightarrow> u16 \<Rightarrow> cmac_stats stats_io" where
  "card_stats onic i = io_bind (io_embed Dev dev DevExit onic (get_cmac_stats (uint i) False)) (\<lambda>(stats, _). io_ret stats)"

definition cmac_work :: "forwarding_context \<Rightarrow> u16 \<Rightarrow> u16 \<Rightarrow> string \<Rightarrow> bool stats_io" where
  "cmac_work ctx rx_port_id tx_port_id kafka_header =
     io_bind (card_stats (rx_onic ctx) rx_port_id) (\<lambda>rx.
     io_bind (card_stats (rx_onic ctx) tx_port_id) (\<lambda>tx.
     io_bind next_delta (\<lambda>delta_ns.
     io_then (produce_kafka_message (kafka_header @ stats_to_string ''R'' rx @ '','' @
       stats_to_string ''T'' tx @ '','' @ ''DELTA_NS='' @ dec (unat delta_ns) @ ''\<newline>''))
    (io_then (io_do (StatsDelay 3000))
     (io_ret True)))))"

definition run_cmac_producer :: "dpdk_cfg \<Rightarrow> forwarding_context \<Rightarrow> int stats_io" where
  "run_cmac_producer cfg ctx =
     io_bind (io_call LcoreId) (\<lambda>core_id.
     io_bind (port_copy (rx_onic ctx) (rx_port ctx)) (\<lambda>rxp.
     io_bind (port_copy (tx_onic ctx) (tx_port ctx)) (\<lambda>txp.
     io_then (while_running StatsStopFlag stats_stop
       (cmac_work ctx (word_of_int (port_id rxp)) (word_of_int (port_id txp))
         (cmac_header (to_cint (ret_val core_id)) (bdf rxp) (bdf txp))))
    (io_then (destroy_port cfg txp)
    (io_then (destroy_port cfg rxp)
     (io_ret 0))))))"

section \<open>Latencies\<close>

text \<open>The time of hop \<open>i\<close> in nanoseconds, modulo \<open>2 ^ 64\<close>.\<close>

definition hop_time :: "timestamps \<Rightarrow> nat \<Rightarrow> u64" where
  "hop_time ts i = timestamp_nb_sync ts ! i * 1000 + timestamp_curr_tick ts ! i * 4"

text \<open>
  C31: The latency of hop \<open>i\<close> is the time of stamp \<open>i\<close> less that of stamp \<open>i + 1\<close>, in 64-bit
  arithmetic, also when the sync counter or the tick alone wraps; the latencies of a packet
  add up to the time between its first and its last stamp.
\<close>

theorem hop_latencies_telescope:
  "calc_hop_latencies ts = [hop_time ts 0 - hop_time ts 1, hop_time ts 1 - hop_time ts 2] \<and>
   sum_list (calc_hop_latencies ts) = hop_time ts 0 - hop_time ts 2"
  by (simp add: calc_hop_latencies_def NB_HOPS_def upt_rec hop_time_def LEN_NB_SYNC_NS_def
      LEN_TIME_TICK_NS_def algebra_simps numeral_2_eq_2)

lemma cpu_to_be_vlan:
  "cpu_to_be_16 True RTE_ETHER_TYPE_VLAN = 0x0081" "cpu_to_be_16 True 0x8100 = 0x0081" "cpu_to_be_16 False v = v"
  by (simp_all add: cpu_to_be_16_def RTE_ETHER_TYPE_VLAN_def)

text \<open>
  C33: On a little-endian host the constructor of \<open>Timestamps\<close> never returns: its first
  assertion compares a constant with its own byte-swapped value, whatever the packet.  On a
  big-endian host it returns, but the sync counter of hop \<open>i\<close> is the tick of the packet (the
  second \<open>memcpy\<close> overwrites the first), and the ticks are left as the memory was.
\<close>

theorem timestamps_ctor_broken:
  assumes "length (timestamp_nb_sync junk) = 3"
  shows "(case Timestamps_ctor True junk m e s t of
       Some (Inl x, _, _) \<Rightarrow> x = Assertion | _ \<Rightarrow> False) \<and>
    (case Timestamps_ctor False junk m e s t of
       Some (Inr ts, _, _) \<Rightarrow>
         (let bs = payload (e (length t + 1) (PktPayload m 18 48)) in
          ts = \<lparr>timestamp_nb_sync = [load64 False bs 8, load64 False bs 24, load64 False bs 40],
                timestamp_curr_tick = timestamp_curr_tick junk\<rparr>)
     | _ \<Rightarrow> False)"
proof -
  obtain a b c where "timestamp_nb_sync junk = [a, b, c]"
    using assms by (auto simp: length_Suc_conv eval_nat_numeral)
  then show ?thesis
    by (simp add: Timestamps_ctor_def io_simps cpu_to_be_vlan RTE_ETHER_TYPE_VLAN_def Let_def
        TIMESTAMP_OFFSET_def NB_HOPS_def NB_SYNC_LEN_def CURR_TICK_LEN_def numeral_3_eq_3)
qed

text \<open>
  On a little-endian host the latency path ends the process with the first packet it gets.
  The packets come from the ring between the receive and the transmit thread, not from the
  stats ring.
\<close>

theorem latency_path_aborts:
  "case extract_then_produce_latency_packets True junk ctx e s t of
     None \<Rightarrow> False
   | Some (r, s', t') \<Rightarrow>
       s' = s \<and> r = (if burst (e (length t) (StatsDequeueBurst (mbuf_ring (rx_onic ctx)) 32)) = []
            then Inr () else Inl Assertion)"
  by (cases "burst (e (length t) (StatsDequeueBurst (mbuf_ring (rx_onic ctx)) 32))")
     (simp_all add: extract_then_produce_latency_packets_def io_simps BURST_SIZE_def Timestamps_ctor_def
        cpu_to_be_vlan)



section \<open>Setting up Kafka\<close>

lemma exit_unless_wp [io_wp_simps]:
  "io_wp e (exit_unless b m) Q E s t = (if b then io_wp e m Q E s t else E ExitFailure s t)"
  by (simp add: exit_unless_def io_wp_simps)

lemma quiet_exit_unless [quiet_rules]: "io_quiet W m \<Longrightarrow> io_quiet W (exit_unless b m)"
  by (auto simp: exit_unless_def intro!: quiet_rules)

lemma total_exit_unless [total_rules]: "io_total m \<Longrightarrow> io_total (exit_unless b m)"
  by (auto simp: exit_unless_def intro!: total_rules)

lemma extends_exit_unless [extends_rules]: "io_extends m \<Longrightarrow> io_extends (exit_unless b m)"
  by (auto simp: exit_unless_def intro!: extends_rules)

text \<open>
  Setting up the topic always comes to an end.  It returns only with a producer and a
  topic that are not NULL, on a configuration with the client id, the broker and full
  acknowledgement accepted; every failure ends the process with the exit code of a failure.
\<close>

theorem create_kafka_topic_outcome:
  "case create_kafka_topic name e s t of
     None \<Rightarrow> False
   | Some (Inl x, s', t') \<Rightarrow> x = ExitFailure
   | Some (Inr _, s', t') \<Rightarrow> rk s' \<noteq> 0 \<and> rkt s' \<noteq> 0 \<and>
       (\<exists>conf tconf h d. t' = t @ d \<and> calls d = [ConfNew, GetHostname 128, ConfSet conf ''client.id'' h,
          ConfSet conf ''bootstrap.servers'' ''localhost:9092'', TopicConfNew, TopicConfSet tconf ''acks'' ''all'',
          KafkaNew conf, TopicNew (rk s') name tconf])"
  by (simp add: create_kafka_topic_def exit_unless_def io_simps)

section \<open>The producers end\<close>

lemma kafka_parts [total_rules]:
  "io_total (produce_kafka_message msg)" "io_total next_delta"
  by (auto simp: produce_kafka_message_def next_delta_def intro!: total_rules)

lemma kafka_parts_extend [extends_rules]:
  "io_extends (produce_kafka_message msg)" "io_extends next_delta"
  by (auto simp: produce_kafka_message_def next_delta_def intro!: extends_rules)

lemma total_extract [total_rules]: "io_total (extract_then_produce_latency_packets little junk ctx)"
  by (auto simp: extract_then_produce_latency_packets_def Timestamps_ctor_def produce_latency_message_def
      intro!: total_rules)

lemma extends_extract [extends_rules]: "io_extends (extract_then_produce_latency_packets little junk ctx)"
  by (auto simp: extract_then_produce_latency_packets_def Timestamps_ctor_def produce_latency_message_def
      intro!: extends_rules)

lemma total_read_into [total_rules]: "io_total (read_into xs st)"
  by (induction xs arbitrary: st) (auto simp: read_into.simps intro!: total_rules)

lemma total_get_cmac_stats [total_rules]: "io_total (get_cmac_stats i debug)"
  by (auto simp: get_cmac_stats_def get_cmac_debug_stats_def intro!: total_rules)

lemma total_OnicPort_dtor [total_rules]: "io_total (OnicPort_dtor cfg)"
  by (auto simp: OnicPort_dtor_def unregister_callbacks_def intro!: total_rules)

lemma total_destroy_port [total_rules]: "io_total (destroy_port cfg p)"
  by (auto simp: destroy_port_def intro!: total_rules)

lemma total_card_stats [total_rules]: "io_total (card_stats onic i)"
  by (auto simp: card_stats_def split: prod.splits intro!: total_rules)

lemma extends_card_stats [extends_rules]: "io_extends (card_stats onic i)"
  by (auto simp: card_stats_def split: prod.splits intro!: extends_rules)

interpretation stats_thread: stoppable StatsStopFlag stats_stop "stats_work little junk ctx rxid txid hdr"
  by unfold_locales (auto simp: stats_work_def intro!: total_rules extends_rules)

interpretation cmac_thread: stoppable StatsStopFlag stats_stop "cmac_work ctx rxid txid hdr"
  by unfold_locales (auto simp: cmac_work_def intro!: total_rules extends_rules)

lemma total_port_copy [total_rules]: "io_total (port_copy onic i)"
  by (auto simp: port_copy_def intro!: total_rules)

definition stats_flag_from :: "(stats_call, stats_resp) env \<Rightarrow> nat \<Rightarrow> bool" where
  "stats_flag_from e N \<longleftrightarrow> (\<forall>n \<ge> N. stats_stop (e n StatsStopFlag))"

text \<open>
  Both statistics producers come to an end if the stop flag, once raised, stays raised.
\<close>

theorem producers_stop:
  assumes "stats_flag_from e N"
  shows "run_stats_producer cfg little junk ctx e s t \<noteq> None \<and> run_cmac_producer cfg ctx e s t \<noteq> None"
proof -
  have e: "\<And>n. N \<le> n \<Longrightarrow> stats_stop (e n StatsStopFlag)" using assms by (simp add: stats_flag_from_def)
  have "io_ends e (run_stats_producer cfg little junk ctx)" and "io_ends e (run_cmac_producer cfg ctx)"
    unfolding run_stats_producer_def run_cmac_producer_def Let_def
    by (intro ends_rules ends_total [OF total_port_copy] ends_total [OF total_destroy_port]
        stats_thread.ends_loop cmac_thread.ends_loop; erule e)+
  then show ?thesis by (simp add: io_ends_def)
qed

section \<open>What a producer leaves behind\<close>

text \<open>The destructor of a port always removes its device.\<close>

lemma OnicPort_dtor_removes:
  "io_wp e (OnicPort_dtor cfg) (\<lambda>_ _ t'. DevRemove (port_id s) \<in> set (calls t')) (\<lambda>_ _ _. False) s t"
  unfolding OnicPort_dtor_def unregister_callbacks_def io_wp_simps
  by (auto intro!: io_wp_mono [OF port_close_wp] dest: close_runs_port_id)

lemma io_wp_embed:
  assumes "\<And>E'. io_wp E' m (\<lambda>_ _ d. c \<in> set (calls d)) (\<lambda>_ _ _. False) u []"
    and "\<And>a u' t'. ic c \<in> set (calls t') \<Longrightarrow> set (calls t) \<subseteq> set (calls t') \<Longrightarrow> Q (a, u') s t'"
  shows "io_wp e (io_embed ic prj fx u m) Q E s t"
proof -
  have calls: "calls (map (\<lambda>(i, c). (ic c, f i c)) (enumerate n xs)) = map ic xs" for f n xs
    by (induction xs arbitrary: n) auto
  let ?run = "m (\<lambda>n c. prj (e (length t + n) (ic c))) u []"
  show ?thesis
  proof (cases ?run)
    case None
    then show ?thesis by (simp add: io_wp_def io_embed_def)
  next
    case (Some x)
    then obtain r u' d where run: "?run = Some (r, u', d)" by (cases x) auto
    with assms(1) [of "\<lambda>n c. prj (e (length t + n) (ic c))"] obtain a where "r = Inr a" "c \<in> set (calls d)"
      by (cases r) (auto simp: io_wp_def)
    let ?t = "t @ map (\<lambda>(i, c). (ic c, e (length t + i) (ic c))) (enumerate 0 (calls d))"
    have "calls ?t = calls t @ map ic (calls d)" by (simp only: map_append calls)
    with \<open>c \<in> set (calls d)\<close> have "ic c \<in> set (calls ?t)" and "set (calls t) \<subseteq> set (calls ?t)"
      by (simp_all only: set_append set_map) auto
    from assms(2) [OF this] \<open>r = Inr a\<close> run show ?thesis by (simp add: io_wp_def io_embed_def)
  qed
qed

lemma destroy_port_wp:
  assumes "\<And>t'. Dev (DevRemove (port_id p)) \<in> set (calls t') \<Longrightarrow> set (calls t) \<subseteq> set (calls t') \<Longrightarrow> Q () s t'"
  shows "io_wp e (destroy_port cfg p) Q E s t"
  unfolding destroy_port_def io_wp_bind
  by (rule io_wp_embed [OF OnicPort_dtor_removes]) (use assms in \<open>auto simp: io_wp_ret\<close>)

lemma io_wp_any: "io_wp e m (\<lambda>_ _ _. True) (\<lambda>_ _ _. True) s t"
  by (simp add: io_wp_def split: option.splits sum.splits)


section \<open>The messages of a producer\<close>

text \<open>The number of queues a log covers: the entries of both lists before the first -1.\<close>

text \<open>
  A \<open>StatsLog\<close> that is constructed counts the queues that both lists of its context use:
  every index below \<open>nb_Qs\<close> names a queue in both, and the next one, if it is in the lists,
  is unused in one of them.
\<close>

theorem StatsLog_ctor_queues:
  assumes "StatsLog_ctor ctx name e s t = Some (Inr u, s', t')"
  shows "0 \<le> nb_Qs s' \<and> nat (nb_Qs s') = min (used_Qs (rx_Qs ctx)) (used_Qs (tx_Qs ctx)) \<and>
    - 1 \<notin> set (take (nat (nb_Qs s')) (rx_Qs ctx)) \<union> set (take (nat (nb_Qs s')) (tx_Qs ctx)) \<and>
    (nat (nb_Qs s') < length (rx_Qs ctx) \<and> nat (nb_Qs s') < length (tx_Qs ctx) \<longrightarrow>
     - 1 \<in> {rx_Qs ctx ! nat (nb_Qs s'), tx_Qs ctx ! nat (nb_Qs s')}) \<and>
    old_time s' = 0 \<and> rkt s' \<noteq> 0"
proof -
  have "io_wp e (StatsLog_ctor ctx name) (\<lambda>_ s' _. nb_Qs s' = min (int (used_Qs (rx_Qs ctx))) (int (used_Qs (tx_Qs ctx)))
      \<and> old_time s' = 0 \<and> rkt s' \<noteq> 0) (\<lambda>_ _ _. True) s t"
    by (simp add: StatsLog_ctor_def create_kafka_topic_def io_wp_simps)
  from io_wpD [OF this assms] have n: "nat (nb_Qs s') = min (used_Qs (rx_Qs ctx)) (used_Qs (tx_Qs ctx))"
    and "0 \<le> nb_Qs s'" "old_time s' = 0" "rkt s' \<noteq> 0" by (auto simp: min_def)
  have pre: "- 1 \<notin> set (take k qs)" if "k \<le> used_Qs qs" for k and qs :: "int list"
  proof -
    have "set (take k qs) \<subseteq> set (take (used_Qs qs) qs)" using that by (rule set_take_subset_set_take)
    moreover have "take (used_Qs qs) qs = takeWhile (\<lambda>q. q \<noteq> - 1) qs"
      by (simp add: used_Qs_def flip: takeWhile_eq_take)
    ultimately show ?thesis by (auto dest: set_takeWhileD)
  qed
  have last: "qs ! used_Qs qs = - 1" if "used_Qs qs < length qs" for qs :: "int list"
    using nth_length_takeWhile [of "\<lambda>q. q \<noteq> - 1" qs] that by (simp add: used_Qs_def)
  have "- 1 \<notin> set (take (nat (nb_Qs s')) (rx_Qs ctx)) \<union> set (take (nat (nb_Qs s')) (tx_Qs ctx))"
    unfolding n using pre [of _ "rx_Qs ctx"] pre [of _ "tx_Qs ctx"] by simp
  moreover have "nat (nb_Qs s') < length (rx_Qs ctx) \<and> nat (nb_Qs s') < length (tx_Qs ctx) \<longrightarrow>
     - 1 \<in> {rx_Qs ctx ! nat (nb_Qs s'), tx_Qs ctx ! nat (nb_Qs s')}"
    unfolding n using last [of "rx_Qs ctx"] last [of "tx_Qs ctx"] by (auto simp: min_def split: if_splits)
  ultimately show ?thesis using n \<open>0 \<le> nb_Qs s'\<close> \<open>old_time s' = 0\<close> \<open>rkt s' \<noteq> 0\<close> by blast
qed

lemma extract_wp:
  "io_wp e (extract_then_produce_latency_packets little junk ctx)
     (\<lambda>_ s' t'. s' = s \<and> (\<exists>d. t' = t @ d)) (\<lambda>x s' t'. x = Assertion \<and> s' = s \<and> (\<exists>d. t' = t @ d)) s t"
proof -
  have "io_wp e (io_for ms (\<lambda>m. io_bind (Timestamps_ctor little (junk m) m)
        (\<lambda>ts. produce_latency_message (get_latency_str ts))))
     (\<lambda>_ s' t'. s' = s \<and> (\<exists>d. t' = t @ d)) (\<lambda>x s' t'. x = Assertion \<and> s' = s \<and> (\<exists>d. t' = t @ d)) s (t @ u)" for ms u
    by (rule io_wp_for) (auto simp: Timestamps_ctor_def produce_latency_message_def produce_kafka_message_def io_wp_simps)
  then show ?thesis
    unfolding extract_then_produce_latency_packets_def io_wp_bind io_wp_call by simp
qed

text \<open>The calls of a round up to its message.\<close>

definition stats_line_calls ::
  "string \<Rightarrow> u16 \<Rightarrow> u16 \<Rightarrow> stats_log \<Rightarrow> stats_resp \<Rightarrow> stats_resp \<Rightarrow> u64 \<Rightarrow> stats_call list" where
  "stats_line_calls hdr rxid txid s r1 r2 now =
     [EthStatsGet rxid, EthStatsGet txid, TscCycles,
      KafkaProduce (rkt s) (hdr @ rte_stats_to_string (eth r1) ''(R)'' @ '','' @
        rte_stats_to_string (eth r2) ''(T)'' @ '','' @ ''DELTA_NS='' @
        dec (unat (get_tsc_delta_ns (old_time s) now (hz s))) @ ''\<newline>'')]"

text \<open>
  A round of the statistics thread that can read both ports sends one line with the
  counters it just read and the time since the previous line, and remembers the time of this
  one, before it looks at latency packets (which may abort the process); a round that cannot
  read a port ends the loop and sends nothing.
\<close>

theorem stats_round_message:
  "case stats_work little junk ctx rxid txid hdr e s t of
     None \<Rightarrow> False
   | Some (r, s', t') \<Rightarrow>
       (let r1 = e (length t) (EthStatsGet rxid); r2 = e (length t + 1) (EthStatsGet txid);
            now = word_of_int (ret_val (e (length t + 2) TscCycles)) in
        if ret_val r1 < 0 then r = Inr False \<and> calls t' = calls t @ [EthStatsGet rxid]
        else if ret_val r2 < 0 then r = Inr False \<and> calls t' = calls t @ [EthStatsGet rxid, EthStatsGet txid]
        else (r = Inr True \<or> r = Inl Assertion) \<and> old_time s' = now \<and>
          take (length t + 4) (calls t') = calls t @ stats_line_calls hdr rxid txid s r1 r2 now)"
  (is "case ?run of None \<Rightarrow> False | Some (r, s', t') \<Rightarrow> ?P r s' t'")
proof -
  have "io_wp e (stats_work little junk ctx rxid txid hdr) (\<lambda>go. ?P (Inr go)) (\<lambda>x. ?P (Inl x)) s t"
    unfolding stats_work_def next_delta_def produce_kafka_message_def Let_def
    by (auto simp: io_wp_simps stats_line_calls_def intro!: io_wp_mono [OF extract_wp])
  moreover obtain r s' t' where "?run = Some (r, s', t')"
    using io_totalD [OF stats_thread.work_total] by blast
  ultimately show ?thesis by (cases r) (simp_all add: io_wp_def)
qed

section \<open>Sample runs\<close>

definition sample_log :: stats_log where
  "sample_log = \<lparr>nb_Qs = 0, rk = 0, rkt = 0, topic = [],
     rx_stats = \<lparr>ipackets = 0, opackets = 0, ibytes = 0, obytes = 0, ierrors = 0, oerrors = 0\<rparr>,
     tx_stats = \<lparr>ipackets = 0, opackets = 0, ibytes = 0, obytes = 0, ierrors = 0, oerrors = 0\<rparr>,
     hz = 0, old_time = 0, curr_time = 0, ret = 0\<rparr>"

text \<open>A host where every set-up call works and the flag is raised at call 9.\<close>

definition host_env :: "(stats_call, stats_resp) env" where
  "host_env n c = \<lparr>ret_val = (case c of
        GetHostname _ \<Rightarrow> 0 | ConfSet _ _ _ \<Rightarrow> 0 | TopicConfSet _ _ _ \<Rightarrow> 0
      | StatsStopFlag \<Rightarrow> (if n < 9 then 0 else 1)
      | _ \<Rightarrow> 1),
     eth = \<lparr>ipackets = 0, opackets = 0, ibytes = 0, obytes = 0, ierrors = 0, oerrors = 0\<rparr>,
     burst = [], payload = [], host = ''host'', dev = \<lparr>rv = 1, out1 = 0, out2 = 0, out3 = 0\<rparr>\<rparr>"

theorem producers_stop_witness:
  "run_stats_producer sample_cfg True (\<lambda>_. \<lparr>timestamp_nb_sync = [], timestamp_curr_tick = []\<rparr>) sample_ctx host_env sample_log [] \<noteq> None"
proof -
  have "stats_flag_from host_env 9" by (simp add: stats_flag_from_def stats_stop_def host_env_def)
  from producers_stop [OF this] show ?thesis by blast
qed

theorem StatsLog_ctor_queues_witness:
  "\<exists>s' t'. StatsLog_ctor sample_ctx ''Ports'' host_env sample_log [] = Some (Inr (), s', t') \<and>
     nat (nb_Qs s') = 1 \<and> rkt s' = 1"
proof -
  obtain s' t' where run: "StatsLog_ctor sample_ctx ''Ports'' host_env sample_log [] = Some (Inr (), s', t')"
    and "rkt s' = 1"
    by (simp add: StatsLog_ctor_def create_kafka_topic_def exit_unless_def io_simps host_env_def)
  from StatsLog_ctor_queues [OF run] run \<open>rkt s' = 1\<close> show ?thesis
    by (simp add: used_Qs_def sample_ctx_def)
qed

theorem timestamps_ctor_broken_witness:
  "case Timestamps_ctor False \<lparr>timestamp_nb_sync = [1, 2, 3], timestamp_curr_tick = [4, 5, 6]\<rparr> 7 host_env sample_log [] of
     Some (Inr ts, _, _) \<Rightarrow> timestamp_curr_tick ts = [4, 5, 6] | _ \<Rightarrow> False"
  using timestamps_ctor_broken [of "\<lparr>timestamp_nb_sync = [1, 2, 3], timestamp_curr_tick = [4, 5, 6]\<rparr>" 7 host_env sample_log "[]"]
  by (auto simp: Let_def split: option.splits sum.splits prod.splits)

end
