(* ===== verification/StatsLines.thy ===== *)
theory StatsLines
  imports Stats
begin

text \<open>
  The lines the statistics threads publish, read back.  \<open>server/tools/data_containers/telegrafconf/telegraf.conf\<close>
  subscribes Telegraf to the messages with \<open>data_format = "influx"\<close>: a line is a measurement with
  tags, a space, the fields and a newline, with commas between the parts of each side and an
  equals sign in each part.  The reader here is that format as a specification of the messages,
  for lines without quotes and time of their own; the theorems say what it makes of the texts
  that \<open>stats.cpp\<close> and \<open>onic.h\<close> build.
\<close>

section \<open>The format\<close>

fun splits :: "char \<Rightarrow> string \<Rightarrow> string list" where
  "splits c [] = [[]]"
| "splits c (x # xs) =
     (if x = c then [] # splits c xs
      else case splits c xs of [] \<Rightarrow> [[x]] | w # ws \<Rightarrow> (x # w) # ws)"

lemma splits_one [simp]: "c \<notin> set w \<Longrightarrow> splits c w = [w]"
  by (induction w) auto

lemma splits_append [simp]: "c \<notin> set w \<Longrightarrow> splits c (w @ c # s) = w # splits c s"
  by (induction w) auto

lemma splits_join: "ws \<noteq> [] \<Longrightarrow> \<forall>w \<in> set ws. CHR '','' \<notin> set w \<Longrightarrow> splits CHR '','' (join_comma ws) = ws"
  by (induction ws rule: join_comma.induct) auto

definition key_value :: "string \<Rightarrow> (string \<times> string) option" where
  "key_value w = (case splits CHR ''='' w of
       [k, v] \<Rightarrow> if k = [] \<or> v = [] then None else Some (k, v)
     | _ \<Rightarrow> None)"

definition all_digits :: "string \<Rightarrow> bool" where
  "all_digits s \<longleftrightarrow> s \<noteq> [] \<and> list_all (\<lambda>c. \<exists>d \<in> set [0..<10]. c = digit_char d) s"

definition number :: "string \<Rightarrow> int option" where
  "number s = (case s of
       [] \<Rightarrow> None
     | c # cs \<Rightarrow>
         if c = CHR ''-'' then (if all_digits cs then Some (- int (read_digits 10 0 cs)) else None)
         else if all_digits s then Some (int (read_digits 10 0 s)) else None)"

definition key_number :: "string \<Rightarrow> (string \<times> int) option" where
  "key_number w = Option.bind (key_value w) (\<lambda>(k, v). map_option (Pair k) (number v))"

record line =
  measurement :: string
  tag_set :: "(string \<times> string) list"
  field_set :: "(string \<times> int) list"

definition read_line :: "string \<Rightarrow> line option" where
  "read_line s = (if s = [] \<or> last s \<noteq> CHR 0x0A then None
     else case splits CHR '' '' (butlast s) of
       [series, body] \<Rightarrow>
         (case splits CHR '','' series of
            [] \<Rightarrow> None
          | m # ts \<Rightarrow>
              if m = [] then None
              else Option.bind (those (map key_value ts)) (\<lambda>tags.
                map_option (\<lambda>fs. \<lparr>measurement = m, tag_set = tags, field_set = fs\<rparr>)
                  (those (map key_number (splits CHR '','' body)))))
     | _ \<Rightarrow> None)"

section \<open>Texts without separators\<close>

definition plain :: "string \<Rightarrow> bool" where
  "plain s \<longleftrightarrow> s \<noteq> [] \<and> CHR '' '' \<notin> set s \<and> CHR '','' \<notin> set s \<and> CHR ''='' \<notin> set s \<and> CHR 0x0A \<notin> set s"

lemma digit_no_separator:
  "d < 36 \<Longrightarrow> digit_char d \<noteq> CHR '' '' \<and> digit_char d \<noteq> CHR '','' \<and> digit_char d \<noteq> CHR ''='' \<and> digit_char d \<noteq> CHR 0x0A"
  using digit_val_char [of d] by (auto simp: digit_val_def Let_def)

lemma plain_num_str [simp]: "2 \<le> b \<Longrightarrow> b \<le> 36 \<Longrightarrow> plain (num_str b n)"
proof -
  assume b: "2 \<le> b" "b \<le> 36"
  have "c \<noteq> CHR '' '' \<and> c \<noteq> CHR '','' \<and> c \<noteq> CHR ''='' \<and> c \<noteq> CHR 0x0A" if "c \<in> set (num_str b n)" for c
    using num_str_digits [OF b(1) that] b(2) digit_no_separator by (auto dest: less_le_trans)
  then show ?thesis unfolding plain_def by auto
qed

lemma plain_append [simp]: "s \<noteq> [] \<Longrightarrow> u \<noteq> [] \<Longrightarrow> plain (s @ u) \<longleftrightarrow> plain s \<and> plain u"
  by (auto simp: plain_def)

lemma plain_dec [simp]: "plain (dec n)" and plain_hex [simp]: "plain (hex n)"
  by (simp_all add: dec_def hex_def)

lemma plain_dec_int [simp]: "plain (dec_int z)"
  using plain_dec by (auto simp: dec_int_def plain_def)

lemma plain_array [simp]: "xs \<noteq> [] \<Longrightarrow> plain (array_text xs)"
proof (induction xs rule: array_text.induct)
  case (3 x y zs)
  have "plain ''.''" by (simp add: plain_def)
  with 3 plain_hex show ?case by (auto simp: plain_def)
qed auto

lemma key_value_plain: "plain k \<Longrightarrow> plain v \<Longrightarrow> key_value (k @ CHR ''='' # v) = Some (k, v)"
  by (simp add: key_value_def plain_def)

lemma number_dec_int [simp]: "number (dec_int z) = Some z"
proof -
  have digits: "all_digits (dec n)" for n
    using num_str_digits [of 10 _ n] by (fastforce simp: all_digits_def dec_def list_all_iff)
  have read: "read_digits 10 0 (dec n) = n" for n
    using read_num_str_end [of 10 "[]" n] by (simp add: dec_def)
  show ?thesis
  proof (cases "z < 0")
    case True
    then show ?thesis by (simp add: dec_int_def number_def digits read)
  next
    case False
    obtain d cs where "d < 10" and c: "dec (nat z) = digit_char d # cs" using num_str_head [of 10 "nat z"] by (auto simp: dec_def)
    then have "digit_char d \<noteq> CHR ''-''" using digit_char_plain [of d] by simp
    with False c digits [of "nat z"] read [of "nat z"] show ?thesis by (simp add: dec_int_def number_def)
  qed
qed

lemma number_dec [simp]: "number (dec n) = Some (int n)"
  using number_dec_int [of "int n"] by (simp add: dec_int_def del: number_dec_int)

section \<open>Printing and reading\<close>

text \<open>The text of a line, and the lines whose parts hold no separators.\<close>

definition pair_text :: "string \<times> string \<Rightarrow> string" where
  "pair_text p = fst p @ ''='' @ snd p"

definition number_text :: "string \<times> int \<Rightarrow> string" where
  "number_text p = pair_text (fst p, dec_int (snd p))"

definition print_line :: "line \<Rightarrow> string" where
  "print_line l = measurement l @ concat (map (\<lambda>p. '','' @ pair_text p) (tag_set l)) @ '' '' @
     join_comma (map number_text (field_set l)) @ ''\<newline>''"

definition plain_line :: "line \<Rightarrow> bool" where
  "plain_line l \<longleftrightarrow> plain (measurement l) \<and> list_all (\<lambda>(k, v). plain k \<and> plain v) (tag_set l) \<and>
     field_set l \<noteq> [] \<and> list_all (\<lambda>(k, z). plain k) (field_set l)"

lemma splits_series:
  "CHR '','' \<notin> set m \<Longrightarrow> \<forall>w \<in> set ws. CHR '','' \<notin> set w \<Longrightarrow>
   splits CHR '','' (m @ concat (map (\<lambda>w. '','' @ w) ws)) = m # ws"
  by (induction ws arbitrary: m) auto

lemma set_join_comma: "set (join_comma ws) \<subseteq> insert CHR '','' (\<Union> (set ` set ws))"
  by (induction ws rule: join_comma.induct) auto

lemma those_map: "(\<And>x. x \<in> set xs \<Longrightarrow> f (g x) = Some x) \<Longrightarrow> those (map f (map g xs)) = Some xs"
  by (induction xs) auto

lemma pair_text_chars:
  "plain (fst p) \<Longrightarrow> plain (snd p) \<Longrightarrow> CHR '','' \<notin> set (pair_text p) \<and> CHR '' '' \<notin> set (pair_text p)"
  by (auto simp: pair_text_def plain_def)

definition no_separator :: "string list \<Rightarrow> bool" where
  "no_separator ws \<longleftrightarrow> (\<forall>w \<in> set ws. CHR '','' \<notin> set w \<and> CHR '' '' \<notin> set w)"

lemma read_parts:
  assumes "plain m" and ts: "no_separator ts" and fs: "no_separator fs" "fs \<noteq> []"
  shows "read_line ((m @ concat (map (\<lambda>w. '','' @ w) ts)) @ CHR '' '' # join_comma fs @ ''\<newline>'') =
    Option.bind (those (map key_value ts)) (\<lambda>tags.
      map_option (\<lambda>fs. \<lparr>measurement = m, tag_set = tags, field_set = fs\<rparr>) (those (map key_number fs)))"
proof -
  let ?series = "m @ concat (map (\<lambda>w. '','' @ w) ts)"
  have head: "CHR '' '' \<notin> set ?series" using assms(1) ts by (auto simp: plain_def no_separator_def)
  have rest: "CHR '' '' \<notin> set (join_comma fs)" using set_join_comma [of fs] fs(1) by (auto simp: no_separator_def)
  have parts: "splits CHR '' '' (?series @ CHR '' '' # join_comma fs) = [?series, join_comma fs]"
    by (simp only: splits_append [OF head] splits_one [OF rest])
  have series: "splits CHR '','' ?series = m # ts"
    by (rule splits_series) (use assms(1) ts in \<open>auto simp: plain_def no_separator_def\<close>)
  have body: "splits CHR '','' (join_comma fs) = fs"
    by (rule splits_join) (use fs in \<open>auto simp: no_separator_def\<close>)
  have snoc: "?series @ CHR '' '' # join_comma fs @ ''\<newline>'' = (?series @ CHR '' '' # join_comma fs) @ ''\<newline>''" by simp
  have "m \<noteq> []" using assms(1) by (simp add: plain_def)
  then show ?thesis
    unfolding snoc read_line_def butlast_snoc last_snoc parts
    by (simp only: list.case series body append_is_Nil_conv list.distinct simp_thms if_False)
qed

lemma no_separator_pairs:
  "(\<And>p. p \<in> set ps \<Longrightarrow> plain (fst p) \<and> plain (snd p)) \<Longrightarrow> no_separator (map pair_text ps)"
  by (auto simp: no_separator_def pair_text_chars)

lemma number_texts: "map number_text ps = map pair_text (map (map_prod id dec_int) ps)"
  by (simp add: number_text_def map_prod_def split_beta)

lemma read_print:
  assumes "plain_line l"
  shows "read_line (print_line l) = Some l"
proof -
  have plains: "p \<in> set (tag_set l) \<Longrightarrow> plain (fst p) \<and> plain (snd p)" "q \<in> set (field_set l) \<Longrightarrow> plain (fst q)" for p q
    using assms by (auto simp: plain_line_def list_all_iff)
  have m: "plain (measurement l)" and some: "map number_text (field_set l) \<noteq> []" using assms by (auto simp: plain_line_def)
  have ts: "no_separator (map pair_text (tag_set l))" using plains(1) by (rule no_separator_pairs)
  have fs: "no_separator (map number_text (field_set l))"
    unfolding number_texts by (rule no_separator_pairs) (use plains(2) in auto)
  have printed: "print_line l = (measurement l @ concat (map (\<lambda>w. '','' @ w) (map pair_text (tag_set l)))) @
      CHR '' '' # join_comma (map number_text (field_set l)) @ ''\<newline>''" by (simp add: print_line_def comp_def)
  have "those (map key_value (map pair_text (tag_set l))) = Some (tag_set l)"
    by (rule those_map) (simp add: pair_text_def key_value_plain plains)
  moreover have "those (map key_number (map number_text (field_set l))) = Some (field_set l)"
    by (rule those_map) (simp add: number_text_def pair_text_def key_number_def key_value_plain plains)
  ultimately show ?thesis unfolding printed read_parts [OF m ts fs some] by simp
qed

section \<open>The messages as lines\<close>

lemma dec_unat: "dec (unat v) = dec_int (uint v)" for v :: "'a::len word"
  by (simp add: dec_int_def)

lemmas dec_chars = plain_dec [unfolded plain_def] plain_dec_int [unfolded plain_def]

definition port_fields :: "string \<Rightarrow> eth_stats \<Rightarrow> (string \<times> int) list" where
  "port_fields d st =
     [(d @ ''rx_packets'', uint (ipackets st)), (d @ ''rx_Bytes'', uint (ibytes st)),
      (d @ ''rx_fail_packets'', uint (ierrors st)), (d @ ''tx_packets'', uint (opackets st)),
      (d @ ''tx_Bytes'', uint (obytes st)), (d @ ''tx_fail_packets'', uint (oerrors st))]"

definition ports_line :: "nat \<Rightarrow> u16 \<Rightarrow> u32 list \<Rightarrow> u16 \<Rightarrow> u32 list \<Rightarrow> eth_stats \<Rightarrow> eth_stats \<Rightarrow> u64 \<Rightarrow> line" where
  "ports_line lcore rx_id rx_bdf tx_id tx_bdf rx tx delta =
     \<lparr>measurement = ''Forwarder_stats(ports-'' @ dec lcore @ '')'',
      tag_set = [(''rx_port('' @ dec (unat rx_id) @ '')'', array_text rx_bdf),
                 (''tx_port('' @ dec (unat tx_id) @ '')'', array_text tx_bdf)],
      field_set = port_fields ''(R)'' rx @ port_fields ''(T)'' tx @ [(''DELTA_NS'', uint delta)]\<rparr>"

lemma ports_message:
  "stats_header lcore rx_id rx_bdf tx_id tx_bdf @ rte_stats_to_string rx ''(R)'' @ '','' @
     rte_stats_to_string tx ''(T)'' @ '','' @ ''DELTA_NS='' @ dec (unat delta) @ ''\<newline>'' =
   print_line (ports_line lcore rx_id rx_bdf tx_id tx_bdf rx tx delta)"
  by (simp add: print_line_def ports_line_def port_fields_def stats_header_def rte_stats_to_string_def pair_text_def
      number_text_def dec_unat)

lemma ports_line_plain:
  "rx_bdf \<noteq> [] \<Longrightarrow> tx_bdf \<noteq> [] \<Longrightarrow> plain_line (ports_line lcore rx_id rx_bdf tx_id tx_bdf rx tx delta)"
  by (auto simp: plain_line_def ports_line_def port_fields_def) (auto simp: plain_def dec_chars)

definition cmac_fields :: "string \<Rightarrow> cmac_stats \<Rightarrow> (string \<times> int) list" where
  "cmac_fields tag st = map (\<lambda>(name, f). (''('' @ tag @ '')'' @ name, sint (f st))) main_fields"

definition cmacs_line :: "int \<Rightarrow> u32 list \<Rightarrow> u32 list \<Rightarrow> cmac_stats \<Rightarrow> cmac_stats \<Rightarrow> u64 \<Rightarrow> line" where
  "cmacs_line core_id rx_bdf tx_bdf rx tx delta =
     \<lparr>measurement = ''Forwarder_stats(CMAC-'' @ dec_int core_id @ '')'',
      tag_set = [(''rx_port'', array_text rx_bdf), (''tx_port'', array_text tx_bdf)],
      field_set = cmac_fields ''R'' rx @ cmac_fields ''T'' tx @ [(''DELTA_NS'', uint delta)]\<rparr>"

lemma cmacs_message:
  "cmac_header core_id rx_bdf tx_bdf @ stats_to_string ''R'' rx @ '','' @ stats_to_string ''T'' tx @ '','' @
     ''DELTA_NS='' @ dec (unat delta) @ ''\<newline>'' =
   print_line (cmacs_line core_id rx_bdf tx_bdf rx tx delta)"
  by (simp add: print_line_def cmacs_line_def cmac_fields_def main_fields_def cmac_header_def stats_to_string_fields
      dec_int_show [symmetric] pair_text_def number_text_def dec_unat)

lemma cmacs_line_plain:
  "rx_bdf \<noteq> [] \<Longrightarrow> tx_bdf \<noteq> [] \<Longrightarrow> plain_line (cmacs_line core_id rx_bdf tx_bdf rx tx delta)"
  by (auto simp: plain_line_def cmacs_line_def cmac_fields_def main_fields_def) (auto simp: plain_def dec_chars)

section \<open>What the threads publish\<close>

text \<open>The message of a latency packet: the comma behind the table has no tag after it.\<close>

lemma latency_unreadable: "read_line (''Latency_stats, '' @ latency @ ''\<newline>'') = None"
proof -
  have "butlast (''Latency_stats, '' @ latency @ ''\<newline>'') = ''Latency_stats,'' @ CHR '' '' # latency"
    by (simp add: butlast_append)
  moreover have "splits CHR '' '' (''Latency_stats,'' @ CHR '' '' # latency) = ''Latency_stats,'' # splits CHR '' '' latency"
    by (rule splits_append) simp
  moreover have "splits CHR '','' ''Latency_stats,'' = [''Latency_stats'', []]" by simp
  ultimately show ?thesis by (simp add: read_line_def key_value_def split: list.splits)
qed


text \<open>
  A thread publishes only messages of a kind when it is quiet about all others.  The message is
  computed from the state.
\<close>

definition other_message :: "(string \<Rightarrow> bool) \<Rightarrow> stats_call \<Rightarrow> bool" where
  "other_message ok c \<longleftrightarrow> (\<exists>kt msg. c = KafkaProduce kt msg \<and> \<not> ok msg)"

lemma quiet_publish:
  assumes "\<And>s. ok (f s)" and "io_quiet (other_message ok) k"
  shows "io_quiet (other_message ok) (io_bind (io_get f) (\<lambda>msg. io_then (produce_kafka_message msg) k))"
proof -
  have "io_wp e k (\<lambda>_ _ t'. watched (other_message ok) t' = watched (other_message ok) t)
      (\<lambda>_ _ t'. watched (other_message ok) t' = watched (other_message ok) t) s (t @ [(KafkaProduce (rkt s) (f s), r)])" for e s t r
    by (rule io_quietD [OF assms(2)]) (simp add: other_message_def assms(1))
  then show ?thesis by (simp add: io_quiet_def io_wp_simps produce_kafka_message_def)
qed

lemma quiet_next_delta: "io_quiet (other_message ok) next_delta"
  by (auto simp: next_delta_def other_message_def intro!: quiet_rules)

lemma quiet_calls:
  "\<not> other_message ok StatsStopFlag" "\<not> other_message ok LcoreId" "\<not> other_message ok (EthStatsGet i)"
  "\<not> other_message ok (StatsDelay n)" "\<not> other_message ok (StatsDequeueBurst r n)" "\<not> other_message ok (PktAppend m n)"
  "\<not> other_message ok (PktPayload m k n)" "\<not> other_message ok (Dev d)"
  by (simp_all add: other_message_def)

lemma quiet_port_copy: "io_quiet (other_message ok) (port_copy onic p)" "io_quiet (other_message ok) (destroy_port cfg q)"
  by (auto simp: port_copy_def destroy_port_def other_message_def intro!: quiet_rules)

lemma quiet_latency:
  assumes "\<And>l. \<not> little \<Longrightarrow> ok (''Latency_stats, '' @ l @ ''\<newline>'')"
  shows "io_quiet (other_message ok) (extract_then_produce_latency_packets little junk ctx)"
proof -
  have "io_quiet (other_message ok)
      (io_bind (Timestamps_ctor little (junk m) m) (\<lambda>ts. produce_latency_message (get_latency_str ts)))" for m
  proof (cases little)
    case True
    then show ?thesis
      by (simp add: io_quiet_def Timestamps_ctor_def cpu_to_be_vlan io_wp_simps quiet_calls)
  next
    case False
    then have "ok (''Latency_stats, '' @ get_latency_str ts @ ''\<newline>'')" for ts using assms by simp
    then show ?thesis
      by (simp add: io_quiet_def Timestamps_ctor_def produce_latency_message_def produce_kafka_message_def io_wp_simps
          quiet_calls other_message_def [of ok "KafkaProduce _ _"])
  qed
  then show ?thesis unfolding extract_then_produce_latency_packets_def
    by (intro quiet_bind [OF quiet_call] quiet_for) (simp_all add: quiet_calls)
qed

lemma quiet_produce: "ok msg \<Longrightarrow> io_quiet (other_message ok) (produce_kafka_message msg)"
  by (auto simp: produce_kafka_message_def other_message_def intro!: quiet_rules)

lemma published_ok:
  assumes "io_quiet (other_message ok) m" and "m e s [] = Some (r, s', t')" and "(KafkaProduce kt msg, a) \<in> set t'"
  shows "ok msg"
  using quiet_result [OF assms(1, 2)] assms(3) by (auto simp: watched_def filter_empty_conv other_message_def)

text \<open>What the statistics thread may publish.\<close>

definition ports_message_of :: "bool \<Rightarrow> onic_port \<Rightarrow> onic_port \<Rightarrow> string \<Rightarrow> bool" where
  "ports_message_of little rxp txp msg \<longleftrightarrow>
     (\<exists>lcore rx tx delta. read_line msg = Some (ports_line lcore (word_of_int (port_id rxp)) (bdf rxp)
        (word_of_int (port_id txp)) (bdf txp) rx tx delta)) \<or>
     (\<not> little \<and> (\<exists>latency. msg = ''Latency_stats, '' @ latency @ ''\<newline>''))"

lemma quiet_stats_work:
  assumes "bdf rxp \<noteq> []" and "bdf txp \<noteq> []"
  shows "io_quiet (other_message (ports_message_of little rxp txp))
    (stats_work little junk ctx (word_of_int (port_id rxp)) (word_of_int (port_id txp))
      (stats_header lcore (word_of_int (port_id rxp)) (bdf rxp) (word_of_int (port_id txp)) (bdf txp)))"
proof -
  have "ports_message_of little rxp txp (stats_header lcore (word_of_int (port_id rxp)) (bdf rxp) (word_of_int (port_id txp)) (bdf txp) @
      rte_stats_to_string rx ''(R)'' @ '','' @ rte_stats_to_string tx ''(T)'' @ '','' @ ''DELTA_NS='' @ dec (unat delta) @ ''\<newline>'')"
    for rx tx and delta :: u64
    unfolding ports_message ports_message_of_def using read_print [OF ports_line_plain [OF assms]] by blast
  then show ?thesis unfolding stats_work_def
    by (intro quiet_bind [OF quiet_call] quiet_then [OF quiet_modify] quiet_if quiet_ret quiet_bind [OF quiet_next_delta]
        quiet_publish quiet_then [OF quiet_latency] quiet_then [OF quiet_do])
      (auto simp: quiet_calls ports_message_of_def)
qed

lemma quiet_run_stats:
  assumes "bdf rxp \<noteq> []" and "bdf txp \<noteq> []"
  shows "io_quiet (other_message (ports_message_of little rxp txp))
    (while_running StatsStopFlag stats_stop (stats_work little junk ctx (word_of_int (port_id rxp)) (word_of_int (port_id txp))
      (stats_header lcore (word_of_int (port_id rxp)) (bdf rxp) (word_of_int (port_id txp)) (bdf txp))))"
  by (intro quiet_while quiet_stats_work assms) (simp add: quiet_calls)


lemma quiet_card_stats: "io_quiet (other_message ok) (card_stats onic i)"
  by (auto simp: card_stats_def quiet_calls split: prod.splits intro!: quiet_rules)

definition cmacs_message_of :: "onic_port \<Rightarrow> onic_port \<Rightarrow> string \<Rightarrow> bool" where
  "cmacs_message_of rxp txp msg \<longleftrightarrow>
     (\<exists>core_id rx tx delta. read_line msg = Some (cmacs_line core_id (bdf rxp) (bdf txp) rx tx delta))"

lemma quiet_run_cmacs:
  assumes "bdf rxp \<noteq> []" and "bdf txp \<noteq> []"
  shows "io_quiet (other_message (cmacs_message_of rxp txp))
    (while_running StatsStopFlag stats_stop (cmac_work ctx rx_id tx_id (cmac_header core_id (bdf rxp) (bdf txp))))"
proof -
  have "cmacs_message_of rxp txp (cmac_header core_id (bdf rxp) (bdf txp) @ stats_to_string ''R'' rx @ '','' @
      stats_to_string ''T'' tx @ '','' @ ''DELTA_NS='' @ dec (unat delta) @ ''\<newline>'')" for rx tx and delta :: u64
    unfolding cmacs_message cmacs_message_of_def using read_print [OF cmacs_line_plain [OF assms]] by blast
  then have "io_quiet (other_message (cmacs_message_of rxp txp)) (cmac_work ctx rx_id tx_id (cmac_header core_id (bdf rxp) (bdf txp)))"
    unfolding cmac_work_def
    by (intro quiet_bind [OF quiet_card_stats] quiet_bind [OF quiet_next_delta] quiet_then [OF quiet_produce]
        quiet_then [OF quiet_do] quiet_ret) (simp_all add: quiet_calls)
  then show ?thesis by (rule quiet_while) (simp add: quiet_calls)
qed

text \<open>
  Every message of the other producer can be read as the totals of two CMACs, where a total
  of \<open>2 ^ 31\<close> and more is read as a negative number.
\<close>

theorem cmac_messages_readable:
  assumes "0 \<le> rx_port ctx" "nat (rx_port ctx) < length (ports (rx_onic ctx))"
    and "0 \<le> tx_port ctx" "nat (tx_port ctx) < length (ports (tx_onic ctx))"
    and "rxp = ports (rx_onic ctx) ! nat (rx_port ctx)" "txp = ports (tx_onic ctx) ! nat (tx_port ctx)"
    and "bdf rxp \<noteq> []" "bdf txp \<noteq> []"
    and "run_cmac_producer cfg ctx e s [] = Some (r, s', t')"
    and "(KafkaProduce kt msg, a) \<in> set t'"
  shows "\<exists>core_id rx tx delta. read_line msg = Some (cmacs_line core_id (bdf rxp) (bdf txp) rx tx delta)"
proof -
  have "port_copy (rx_onic ctx) (rx_port ctx) = io_ret rxp" "port_copy (tx_onic ctx) (tx_port ctx) = io_ret txp"
    using assms(1-6) by (simp_all add: port_copy_def nat_less_iff)
  then have "io_quiet (other_message (cmacs_message_of rxp txp)) (run_cmac_producer cfg ctx)"
    unfolding run_cmac_producer_def
    by simp (intro quiet_bind [OF quiet_call] quiet_then [OF quiet_run_cmacs] quiet_then [OF quiet_port_copy(2)] quiet_ret
        quiet_calls assms)
  from published_ok [OF this assms(9, 10)] show ?thesis by (simp add: cmacs_message_of_def)
qed

section \<open>A sample run\<close>

text \<open>A host that counts five packets at each port, and raises the flag after the first message.\<close>

definition one_round_env :: "(stats_call, stats_resp) env" where
  "one_round_env n c = \<lparr>ret_val = (case c of StatsStopFlag \<Rightarrow> (if n < 3 then 0 else 1) | _ \<Rightarrow> 2),
     eth = \<lparr>ipackets = 5, opackets = 0, ibytes = 300, obytes = 0, ierrors = 0, oerrors = 0\<rparr>,
     burst = [], payload = [], host = [], dev = \<lparr>rv = 0, out1 = 0, out2 = 0, out3 = 0\<rparr>\<rparr>"

lemma stats_one_round:
  assumes "work one_round_env s [(c, r), (StatsStopFlag, one_round_env 1 StatsStopFlag)] = Some (Inr True, s', t')" and "3 \<le> length t'"
  shows "while_running StatsStopFlag stats_stop work one_round_env s [(c, r)] =
    Some (Inr (), s', t' @ [(StatsStopFlag, one_round_env (length t') StatsStopFlag)])"
  using assms by (intro while_one_round [of stats_stop]) (simp_all add: stats_stop_def one_round_env_def)

lemma total_keeps_calls:
  assumes "io_total m" and "io_extends m" and "x \<in> set t"
  obtains r s' t' where "m e s t = Some (r, s', t')" and "x \<in> set t'"
proof -
  obtain r s' t' where run: "m e s t = Some (r, s', t')" using io_totalD [OF assms(1)] by blast
  from io_extendsD [OF assms(2) run] assms(3) have "x \<in> set t'" by auto
  with run that show ?thesis by blast
qed

lemma sample_publishes:
  "\<exists>r s' t' msg a. run_stats_producer sample_cfg True (\<lambda>_. \<lparr>timestamp_nb_sync = [], timestamp_curr_tick = []\<rparr>) sample_ctx
     one_round_env sample_log [] = Some (r, s', t') \<and> (KafkaProduce 0 msg, a) \<in> set t'"
proof -
  let ?junk = "\<lambda>_. \<lparr>timestamp_nb_sync = [], timestamp_curr_tick = []\<rparr>"
  let ?work = "stats_work True ?junk sample_ctx 0 0 (stats_header 2 0 [0, 0, 0] 0 [0, 0, 0])"
  let ?tail = "io_bind (io_get ret) (\<lambda>ret. io_then (destroy_port sample_cfg sample_port)
    (io_then (destroy_port sample_cfg sample_port) (io_ret (if ret < 0 then - 1 else (0 :: int)))))"
  obtain s' t' msg a where work: "?work one_round_env (sample_log\<lparr>ret := 0\<rparr>)
      [(LcoreId, one_round_env 0 LcoreId), (StatsStopFlag, one_round_env 1 StatsStopFlag)] = Some (Inr True, s', t')"
    and t': "3 \<le> length t'" "(KafkaProduce 0 msg, a) \<in> set t'"
    by (simp add: stats_work_def next_delta_def extract_then_produce_latency_packets_def produce_kafka_message_def io_simps
        one_round_env_def sample_log_def)
  let ?t = "t' @ [(StatsStopFlag, one_round_env (length t') StatsStopFlag)]"
  obtain tail where tail: "tail = ?tail" by simp
  have "io_total tail" "io_extends tail" and "(KafkaProduce 0 msg, a) \<in> set ?t"
    using t'(2) by (auto simp: tail destroy_port_def intro!: total_rules extends_rules)
  then obtain r s'' t'' where run: "tail one_round_env s' ?t = Some (r, s'', t'')" and "(KafkaProduce 0 msg, a) \<in> set t''"
    by (rule total_keeps_calls)
  moreover have "run_stats_producer sample_cfg True ?junk sample_ctx =
      io_then (io_modify (\<lambda>s. s\<lparr>ret := 0\<rparr>)) (io_bind (io_call LcoreId) (\<lambda>lcore.
        io_then (while_running StatsStopFlag stats_stop (stats_work True ?junk sample_ctx 0 0
          (stats_header (unat (word_of_int (ret_val lcore) :: u32)) 0 [0, 0, 0] 0 [0, 0, 0]))) tail))"
    by (simp add: tail run_stats_producer_def port_copy_def sample_ctx_def sample_onic_def sample_port_def)
  moreover have "unat (word_of_int (ret_val (one_round_env 0 LcoreId)) :: u32) = 2" by (simp add: one_round_env_def)
  ultimately show ?thesis
    using stats_one_round [where work = ?work, OF work t'(1)] run 
    by (simp add: io_then_run io_bind_run [of "io_call _"] io_modify_run io_call_run) blast
qed



end
