(* ===== verification/StatsLife.thy ===== *)
theory StatsLife
  imports StatsLines
begin

text \<open>
  The life of a \<open>StatsLog\<close> object of \<open>server/src/stats.h\<close>: constructor, producer, destructor,
  and what it does with the Kafka handles it holds.
\<close>

section \<open>The object\<close>

text \<open>The entry points of \<open>stats.cpp\<close> for C, and the destructor.\<close>

definition StatsLog_run_producer ::
  "dpdk_cfg \<Rightarrow> bool \<Rightarrow> (mbuf \<Rightarrow> timestamps) \<Rightarrow> forwarding_context \<Rightarrow> int stats_io" where
  "StatsLog_run_producer cfg little junk ctx = run_stats_producer cfg little junk ctx"

definition StatsLog_cmac_producer :: "dpdk_cfg \<Rightarrow> forwarding_context \<Rightarrow> int stats_io" where
  "StatsLog_cmac_producer cfg ctx = run_cmac_producer cfg ctx"

definition StatsLog_dtor :: "unit stats_io" where
  "StatsLog_dtor = cleanup_kafka"

text \<open>An object in a scope of its own, with a producer run on it.\<close>

definition log_scope :: "forwarding_context \<Rightarrow> string \<Rightarrow> int stats_io \<Rightarrow> int stats_io" where
  "log_scope ctx name producer =
     io_then (StatsLog_ctor ctx name)
    (io_bind producer (\<lambda>r.
     io_then StatsLog_dtor
     (io_ret r)))"

section \<open>Handles\<close>

text \<open>The calls on a producer or a topic of Kafka.\<close>

definition handle_call :: "stats_call \<Rightarrow> bool" where
  "handle_call c = (case c of KafkaNew _ \<Rightarrow> True | TopicNew _ _ _ \<Rightarrow> True | KafkaProduce _ _ \<Rightarrow> True
     | KafkaFlush _ _ \<Rightarrow> True | TopicDestroy _ \<Rightarrow> True | KafkaDestroy _ \<Rightarrow> True | _ \<Rightarrow> False)"

text \<open>The object holds its handles, and since \<open>pre\<close> has only published messages on its topic.\<close>

definition open_log :: "int \<Rightarrow> int \<Rightarrow> stats_call list \<Rightarrow> stats_log \<Rightarrow> (stats_call, stats_resp) trace \<Rightarrow> bool" where
  "open_log k kt pre s t \<longleftrightarrow> (rk s, rkt s) = (k, kt) \<and>
     (\<exists>msgs. calls (watched handle_call t) = pre @ map (KafkaProduce kt) msgs)"

lemma quiet_open_log:
  "io_quiet handle_call m \<Longrightarrow> io_keeps (\<lambda>s. (rk s, rkt s)) m \<Longrightarrow> steady (open_log k kt pre) m"
  by (rule steady_quiet [where f = "\<lambda>s. (rk s, rkt s)" and
        K = "\<lambda>h w. h = (k, kt) \<and> (\<exists>msgs. calls w = pre @ map (KafkaProduce kt) msgs)"])
     (auto simp: open_log_def)

lemma open_log_call [steady_rules]:
  "\<not> handle_call c \<Longrightarrow> steady (open_log k kt pre) (io_call c)"
  by (intro quiet_open_log quiet_rules keeps_rules)

lemma open_log_while [steady_rules]:
  "steady (open_log k kt pre) work \<Longrightarrow> \<not> handle_call flag \<Longrightarrow>
   steady (open_log k kt pre) (while_running flag stop work)"
  by (rule steady_while) (auto simp: open_log_def)

lemma open_log_do [steady_rules]:
  "\<not> handle_call c \<Longrightarrow> steady (open_log k kt pre) (io_do c)"
  by (intro quiet_open_log quiet_rules keeps_rules)

lemma open_log_modify [steady_rules]:
  "(\<And>s. rk (f s) = rk s) \<Longrightarrow> (\<And>s. rkt (f s) = rkt s) \<Longrightarrow> steady (open_log k kt pre) (io_modify f)"
  by (intro quiet_open_log quiet_rules keeps_rules) simp

lemma open_log_produce [steady_rules]: "steady (open_log k kt pre) (produce_kafka_message msg)"
proof -
  have "\<exists>msgs. pre @ map (KafkaProduce kt) ms @ [KafkaProduce kt msg] = pre @ map (KafkaProduce kt) msgs" for ms
    by (rule exI [of _ "ms @ [msg]"]) simp
  then show ?thesis
    by (auto simp: steady_def produce_kafka_message_def open_log_def io_wp_simps handle_call_def)
qed

lemma handle_calls [simp]:
  "\<not> handle_call StatsStopFlag" "\<not> handle_call LcoreId" "\<not> handle_call (EthStatsGet i)" "\<not> handle_call TscCycles"
  "\<not> handle_call TscHz"
  "\<not> handle_call (StatsDelay n)" "\<not> handle_call (StatsDequeueBurst r n)" "\<not> handle_call (PktAppend m n)"
  "\<not> handle_call (PktPayload m k n)" "\<not> handle_call (Dev d)" "\<not> handle_call ConfNew" "\<not> handle_call (GetHostname n)"
  "\<not> handle_call (ConfSet h a b)" "\<not> handle_call TopicConfNew" "\<not> handle_call (TopicConfSet h a b)"
  by (simp_all add: handle_call_def)

lemma open_log_embed [steady_rules]: "steady (open_log k kt pre) (io_embed Dev prj fx u m)"
  by (intro quiet_open_log quiet_rules keeps_rules) simp

lemma open_log_parts [steady_rules]:
  "steady (open_log k kt pre) (port_copy onic p)" "steady (open_log k kt pre) (destroy_port cfg q)"
  "steady (open_log k kt pre) (card_stats onic i)" "steady (open_log k kt pre) next_delta"
  "steady (open_log k kt pre) (Timestamps_ctor little ts m)"
  by (auto simp: port_copy_def destroy_port_def card_stats_def next_delta_def Timestamps_ctor_def Let_def
      split: prod.splits intro!: steady_rules)

lemma open_log_producers:
  "steady (open_log k kt pre) (StatsLog_run_producer cfg little junk ctx)"
  "steady (open_log k kt pre) (StatsLog_cmac_producer cfg ctx)"
  by (auto simp: StatsLog_run_producer_def StatsLog_cmac_producer_def run_stats_producer_def run_cmac_producer_def
      stats_work_def cmac_work_def extract_then_produce_latency_packets_def produce_latency_message_def Let_def
      intro!: steady_rules)

text \<open>A constructor that returns leaves an open log.\<close>

lemma ctor_opens:
  assumes "watched handle_call t = []"
  shows "io_wp e (StatsLog_ctor ctx name)
    (\<lambda>_ s' t'. rk s' \<noteq> 0 \<and> rkt s' \<noteq> 0 \<and> (\<exists>conf tconf. open_log (rk s') (rkt s') [KafkaNew conf, TopicNew (rk s') name tconf] s' t'))
    (\<lambda>_ _ _. True) s t"
  by (simp add: StatsLog_ctor_def create_kafka_topic_def io_wp_simps open_log_def assms handle_call_def)

lemma log_scope_wp:
  assumes "\<And>k kt pre. steady (open_log k kt pre) producer" and "watched handle_call t = []"
  shows "io_wp e (log_scope ctx name producer)
    (\<lambda>_ _ t'. \<exists>conf k tconf kt msgs. k \<noteq> 0 \<and> kt \<noteq> 0 \<and> calls (watched handle_call t') =
       [KafkaNew conf, TopicNew k name tconf] @ map (KafkaProduce kt) msgs @ [KafkaFlush k 10000, TopicDestroy kt, KafkaDestroy k])
    (\<lambda>_ _ _. True) s t"
  unfolding log_scope_def io_wp_then io_wp_bind
proof (rule io_wp_mono [OF ctor_opens [OF assms(2)]])
  fix s' t'
  assume "rk s' \<noteq> 0 \<and> rkt s' \<noteq> 0 \<and> (\<exists>conf tconf. open_log (rk s') (rkt s') [KafkaNew conf, TopicNew (rk s') name tconf] s' t')"
  then obtain conf tconf where nz: "rk s' \<noteq> 0" "rkt s' \<noteq> 0"
    and J: "open_log (rk s') (rkt s') [KafkaNew conf, TopicNew (rk s') name tconf] s' t'" by blast
  let ?k = "rk s'" and ?kt = "rkt s'"
  show "io_wp e producer (\<lambda>r. io_wp e StatsLog_dtor (\<lambda>_. io_wp e (io_ret r)
      (\<lambda>_ _ t'. \<exists>conf k tconf kt msgs. k \<noteq> 0 \<and> kt \<noteq> 0 \<and> calls (watched handle_call t') =
       [KafkaNew conf, TopicNew k name tconf] @ map (KafkaProduce kt) msgs @ [KafkaFlush k 10000, TopicDestroy kt, KafkaDestroy k])
      (\<lambda>_ _ _. True)) (\<lambda>_ _ _. True)) (\<lambda>_ _ _. True) s' t'"
  proof (rule io_wp_mono [OF steadyD [OF assms(1) J]])
    fix r s2 t2
    assume "open_log ?k ?kt [KafkaNew conf, TopicNew ?k name tconf] s2 t2"
    then obtain msgs where h: "rk s2 = ?k" "rkt s2 = ?kt" and m: "calls (watched handle_call t2) =
        [KafkaNew conf, TopicNew ?k name tconf] @ map (KafkaProduce ?kt) msgs"
      by (auto simp: open_log_def)
    show "io_wp e StatsLog_dtor (\<lambda>_. io_wp e (io_ret r)
      (\<lambda>_ _ t'. \<exists>conf k tconf kt msgs. k \<noteq> 0 \<and> kt \<noteq> 0 \<and> calls (watched handle_call t') =
       [KafkaNew conf, TopicNew k name tconf] @ map (KafkaProduce kt) msgs @ [KafkaFlush k 10000, TopicDestroy kt, KafkaDestroy k])
      (\<lambda>_ _ _. True)) (\<lambda>_ _ _. True) s2 t2"
      using nz m by (simp add: StatsLog_dtor_def cleanup_kafka_def io_wp_simps handle_call_def h) blast
  qed simp
qed simp

text \<open>
  C21: A log that has been made, used by a producer and destroyed has used its Kafka handles as
  they have to be: one producer and one topic on it, neither NULL, then messages on that topic
  only, then a flush, and each handle given back once, the topic before its producer.
\<close>

theorem kafka_lifetime:
  assumes "producer = StatsLog_run_producer cfg little junk ctx \<or> producer = StatsLog_cmac_producer cfg ctx"
    and "log_scope ctx name producer e s [] = Some (Inr r, s', t')"
  shows "\<exists>conf k tconf kt msgs. k \<noteq> 0 \<and> kt \<noteq> 0 \<and> calls (watched handle_call t') =
    [KafkaNew conf, TopicNew k name tconf] @ map (KafkaProduce kt) msgs @ [KafkaFlush k 10000, TopicDestroy kt, KafkaDestroy k]"
proof -
  have "\<And>k kt pre. steady (open_log k kt pre) producer" using assms(1) by (auto intro: open_log_producers)
  from io_wpD [OF log_scope_wp [OF this] assms(2)] show ?thesis by simp
qed

section \<open>A sample life\<close>

text \<open>A host where every set-up call works, no device is found, and the flag is raised at call 12.\<close>

definition life_env :: "(stats_call, stats_resp) env" where
  "life_env n c = \<lparr>ret_val = (case c of
      StatsStopFlag \<Rightarrow> (if n < 12 then 0 else 1)
    | KafkaNew _ \<Rightarrow> 5 | TopicNew _ _ _ \<Rightarrow> 6 | TscHz \<Rightarrow> 1000 | _ \<Rightarrow> 0),
     eth = \<lparr>ipackets = 0, opackets = 0, ibytes = 0, obytes = 0, ierrors = 0, oerrors = 0\<rparr>,
     burst = [], payload = [], host = ''host'', dev = \<lparr>rv = 0, out1 = 0, out2 = 0, out3 = 0\<rparr>\<rparr>"

abbreviation sample_producer :: "int stats_io" where
  "sample_producer \<equiv>
     StatsLog_run_producer sample_cfg True (\<lambda>_. \<lparr>timestamp_nb_sync = [], timestamp_curr_tick = []\<rparr>) sample_ctx"

lemma sample_ctor:
  "\<exists>s t. StatsLog_ctor sample_ctx ''Ports'' life_env sample_log [] = Some (Inr (), s, t) \<and> length t = 9 \<and> rk s = 5 \<and> rkt s = 6"
  by (simp add: StatsLog_ctor_def create_kafka_topic_def exit_unless_def io_simps life_env_def)

lemma sample_work:
  assumes "length t = 11"
  obtains s' t' where "stats_work True junk sample_ctx i j hdr life_env s t = Some (Inr True, s', t')" and "12 \<le> length t'"
  using assms by (simp add: stats_work_def next_delta_def extract_then_produce_latency_packets_def produce_kafka_message_def
      io_simps life_env_def)

lemma sample_dtor:
  "\<exists>t'. destroy_port sample_cfg sample_port life_env s t = Some (Inr (), s, t')"
  by (simp add: destroy_port_def OnicPort_dtor_def unregister_callbacks_def port_close_def io_embed_def io_simps life_env_def
      sample_port_def sample_info_def PortInfo_ctor_def)

lemma sample_run:
  assumes "length t = 9"
  shows "\<exists>r s' t'. sample_producer life_env s t = Some (Inr r, s', t')"
proof -
  let ?hdr = "stats_header (unat (word_of_int (ret_val (life_env 9 LcoreId)) :: u32)) 0 [0, 0, 0] 0 [0, 0, 0]"
  let ?t = "t @ [(LcoreId, life_env 9 LcoreId)]"
  have len: "length (?t @ [(StatsStopFlag, life_env (length ?t) StatsStopFlag)]) = 11" by (simp add: assms)
  obtain s' t' where w: "stats_work True (\<lambda>_. \<lparr>timestamp_nb_sync = [], timestamp_curr_tick = []\<rparr>) sample_ctx 0 0 ?hdr life_env
      (s\<lparr>ret := 0\<rparr>) (?t @ [(StatsStopFlag, life_env (length ?t) StatsStopFlag)]) = Some (Inr True, s', t')" and "12 \<le> length t'"
    by (rule sample_work [OF len])
  then have "while_running StatsStopFlag stats_stop (stats_work True (\<lambda>_. \<lparr>timestamp_nb_sync = [], timestamp_curr_tick = []\<rparr>)
      sample_ctx 0 0 ?hdr) life_env (s\<lparr>ret := 0\<rparr>) ?t =
      Some (Inr (), s', t' @ [(StatsStopFlag, life_env (length t') StatsStopFlag)])"
    by (intro while_one_round) (simp_all add: assms stats_stop_def life_env_def)
  moreover obtain d where "\<And>s t. destroy_port sample_cfg sample_port life_env s t = Some (Inr (), s, d s t)"
    using sample_dtor by metis
  moreover have "rx_onic sample_ctx = sample_onic" "tx_onic sample_ctx = sample_onic" "rx_port sample_ctx = 1"
    "tx_port sample_ctx = 0" "ports sample_onic = [sample_port, sample_port]" "port_id sample_port = 0" "bdf sample_port = [0, 0, 0]"
    by (simp_all add: sample_ctx_def sample_onic_def sample_port_def)
  ultimately show ?thesis
    by (simp add: StatsLog_run_producer_def run_stats_producer_def port_copy_def Let_def io_simps assms)
qed

theorem kafka_lifetime_witness:
  "\<exists>r s' t' k kt msgs. log_scope sample_ctx ''Ports'' sample_producer life_env sample_log [] = Some (Inr r, s', t') \<and>
     drop 2 (calls (watched handle_call t')) = map (KafkaProduce kt) msgs @ [KafkaFlush k 10000, TopicDestroy kt, KafkaDestroy k]"
proof -
  obtain s t where "StatsLog_ctor sample_ctx ''Ports'' life_env sample_log [] = Some (Inr (), s, t)" and "length t = 9"
    using sample_ctor by blast
  moreover obtain r s' t' where "sample_producer life_env s t = Some (Inr r, s', t')"
    using sample_run [OF \<open>length t = 9\<close>] by blast
  ultimately obtain r s' t' where run: "log_scope sample_ctx ''Ports'' sample_producer life_env sample_log [] = Some (Inr r, s', t')"
    by (simp add: log_scope_def StatsLog_dtor_def cleanup_kafka_def io_simps)
  from kafka_lifetime [OF disjI1 [OF refl] this] show ?thesis by (auto simp: run)
qed

end
