(* ===== verification/ClkSync.thy ===== *)
theory ClkSync
  imports Pipeline
begin

text \<open>
  The sender of clock synchronisation packets: \<open>server/src_clk_sync/main.cpp\<close>.  The state is
  the local variables of \<open>main\<close> the loop works on.  Of the arguments, those after the ones
  DPDK consumed are read; \<open>atoi\<close> and \<open>strtoull\<close> are those of the C library.
\<close>

section \<open>Data\<close>

record clk_state =
  next_tsc :: u64
  period :: u64
  count :: u64

datatype clk_call =
    EalInit "string list"
  | DevCount
  | TimerHz
  | ClkSocketId
  | ClkPoolCreate u32 int
  | ClkConfigure u16
  | ClkDevSocketId u16
  | ClkTxSetup u16 int
  | ClkDevStart u16
  | TimerCycles
  | ClkAlloc int
  | ClkAppend int u16
  | ClkPause
  | ClkClone int "u8 list"
  | ClkTxBurst u16 mbuf
  | ClkFree mbuf
  | Report string

datatype clk_exit = EalError | NoDevice | NoPool | ConfigFailed | TxSetupFailed | StartFailed | BadMemory

type_synonym 'a clk_io = "(clk_call, int, clk_state, clk_exit, 'a) io"

definition NUM_MBUFS :: u32 where "NUM_MBUFS = 4096"
definition DEFAULT_FILLER :: u8 where "DEFAULT_FILLER = 0xFF"
definition CLK_VLAN_ID :: u16 where "CLK_VLAN_ID = 0x0ABC"

section \<open>The packet\<close>

text \<open>The two bytes of \<open>rte_cpu_to_be_16(v)\<close> in memory: the high one first on every host.\<close>

definition be16_bytes :: "u16 \<Rightarrow> u8 list" where
  "be16_bytes v = [ucast (drop_bit 8 v), ucast v]"

definition sync_header :: "u8 list" where
  "sync_header =
     [0x52, 0x54, 0x00, 0x12, 0x34, 0x56] @ [0x52, 0x54, 0x00, 0x65, 0x43, 0x21] @
     be16_bytes RTE_ETHER_TYPE_VLAN @ be16_bytes CLK_VLAN_ID @ be16_bytes 0x0800"

text \<open>
  The filler, with the header written over its start.  The packet is as long as was asked,
  also where the header is longer.
\<close>

definition sync_packet :: "u16 \<Rightarrow> u8 list" where
  "sync_packet pkt_size = take (unat pkt_size)
     (sync_header @ drop (length sync_header) (replicate (unat pkt_size) DEFAULT_FILLER))"

section \<open>The arguments\<close>

text \<open>The values left after \<open>argc -= ret; argv += ret;\<close>, with the defaults of \<open>main\<close>.\<close>

definition port_arg :: "string list \<Rightarrow> u32" where
  "port_arg args = (if length args > 1 then word_of_int (atoi (args ! 1)) else 0)"

definition period_arg :: "string list \<Rightarrow> u64" where
  "period_arg args = (if length args > 2 then strtoull 10 (args ! 2) else 2550)"

definition size_arg :: "string list \<Rightarrow> u16" where
  "size_arg args = (if length args > 3 then word_of_int (atoi (args ! 3)) else 60)"

section \<open>The loop\<close>

text \<open>One round of the loop; it always goes on.\<close>

definition send_round :: "u16 \<Rightarrow> int \<Rightarrow> u8 list \<Rightarrow> bool clk_io" where
  "send_round port m pkt =
     io_bind (io_call TimerCycles) (\<lambda>cur.
     io_bind (io_get next_tsc) (\<lambda>next.
     if (word_of_int cur :: u64) < next then io_then (io_do ClkPause) (io_ret True)
     else
       io_then (io_modify (\<lambda>s. s\<lparr>next_tsc := next_tsc s + period s\<rparr>))
      (io_bind (io_call (ClkClone m pkt)) (\<lambda>txm.
       if txm = 0 then io_then (io_do (Report ''Failed to clone mbuf'')) (io_ret True)
       else
         io_bind (io_call (ClkTxBurst port (nat txm))) (\<lambda>sent.
         io_then (io_when ((word_of_int sent :: u16) < 1)
           (io_then (io_do (ClkFree (nat txm))) (io_do (Report ''Packet dropped''))))
        (io_then (io_modify (\<lambda>s. s\<lparr>count := count s + 1\<rparr>))
         (io_ret True)))))))"

definition send_loop :: "u16 \<Rightarrow> int \<Rightarrow> u8 list \<Rightarrow> unit clk_io" where
  "send_loop port m pkt = io_loop (send_round port m pkt)"

section \<open>main\<close>

text \<open>A call that ends the process when its answer fails the test.\<close>

definition clk_must :: "clk_call \<Rightarrow> (int \<Rightarrow> bool) \<Rightarrow> clk_exit \<Rightarrow> int clk_io" where
  "clk_must c fails x = io_bind (io_call c) (\<lambda>r. if fails r then io_exit x else io_ret r)"

text \<open>
  \<open>rte_pktmbuf_append\<close> on a NULL mbuf, and \<open>memset\<close> on the NULL it answers for a packet that
  does not fit, are bad accesses.
\<close>

definition clk_main :: "string list \<Rightarrow> int clk_io" where
  "clk_main argv =
     (if length argv < 1 \<or> argv ! 0 = ''-h'' \<or> argv ! 0 = ''help'' then io_ret 0
      else
        io_bind (clk_must (EalInit argv) (\<lambda>r. r < 0) EalError) (\<lambda>ret.
        io_bind (clk_must DevCount (\<lambda>r. r < 1) NoDevice) (\<lambda>num_ports.
        io_bind (io_call TimerHz) (\<lambda>hz.
        let args = drop (nat ret) argv; port = ucast (port_arg args); pkt_size = size_arg args in
        io_then (io_modify (\<lambda>s. s\<lparr>period := period_arg args\<rparr>))
       (io_bind (io_call ClkSocketId) (\<lambda>socket.
        io_bind (clk_must (ClkPoolCreate (NUM_MBUFS * word_of_int num_ports) socket) (\<lambda>r. r = 0) NoPool) (\<lambda>pool.
        io_bind (clk_must (ClkConfigure port) (\<lambda>r. r < 0) ConfigFailed) (\<lambda>_.
        io_bind (io_call (ClkDevSocketId port)) (\<lambda>socket.
        io_bind (clk_must (ClkTxSetup port socket) (\<lambda>r. r < 0) TxSetupFailed) (\<lambda>_.
        io_bind (clk_must (ClkDevStart port) (\<lambda>r. r < 0) StartFailed) (\<lambda>_.
        io_bind (io_call TimerCycles) (\<lambda>start.
        io_then (io_modify (\<lambda>s. s\<lparr>next_tsc := word_of_int start\<rparr>))
       (io_bind (clk_must (ClkAlloc pool) (\<lambda>r. r = 0) BadMemory) (\<lambda>m.
        io_bind (clk_must (ClkAppend m pkt_size) (\<lambda>r. r = 0) BadMemory) (\<lambda>data.
        io_then (io_modify (\<lambda>s. s\<lparr>count := 0\<rparr>))
       (io_then (send_loop port m (sync_packet pkt_size))
        (io_ret 0)))))))))))))))))"

section \<open>The packet is what the inspector looks for\<close>

lemma sync_packet_bytes:
  assumes "18 \<le> unat sz"
  shows "sync_packet sz = sync_header @ replicate (unat sz - 18) 0xFF"
  using assms by (simp add: sync_packet_def sync_header_def be16_bytes_def DEFAULT_FILLER_def)

text \<open>
  C25: A synchronisation packet of at least 18 bytes has the length asked for and is one the
  inspector takes for VLAN tagged, with the identifier 0xABC and an IPv4 payload behind the
  tag; the rest is filler.
\<close>

theorem sync_packet_is_vlan:
  assumes "18 \<le> unat sz"
  shows "length (sync_packet sz) = unat sz \<and> ether_type (sync_packet sz) = RTE_ETHER_TYPE_VLAN \<and>
    be16 (sync_packet sz ! 14) (sync_packet sz ! 15) = 0x0ABC \<and>
    be16 (sync_packet sz ! 16) (sync_packet sz ! 17) = 0x0800 \<and>
    drop 18 (sync_packet sz) = replicate (unat sz - 18) 0xFF"
  using assms
  by (simp add: sync_packet_bytes sync_header_def be16_bytes_def ether_type_def CLK_VLAN_ID_def
      RTE_ETHER_TYPE_VLAN_def be16_def)

theorem sync_packet_is_vlan_witness:
  "length (sync_packet (size_arg [''app''])) = 60 \<and> ether_type (sync_packet (size_arg [''app''])) = 0x8100"
proof -
  have "18 \<le> unat (size_arg [''app''])" by (simp add: size_arg_def)
  from sync_packet_is_vlan [OF this] show ?thesis by (simp add: size_arg_def RTE_ETHER_TYPE_VLAN_def)
qed

section \<open>The arguments\<close>

text \<open>
  Given a port, a period and a packet sz in decimal, the sender uses just those; without
  them it uses port 0, 2550 cycles and 60 bytes.
\<close>

theorem arguments_round_trip:
  assumes "p < 2 ^ 31" and "T < 2 ^ 64" and "z < 2 ^ 16"
  shows "port_arg [prog, dec p, dec T, dec z] = of_nat p \<and>
    period_arg [prog, dec p, dec T, dec z] = of_nat T \<and>
    size_arg [prog, dec p, dec T, dec z] = of_nat z \<and>
    port_arg [prog] = 0 \<and> period_arg [prog] = 2550 \<and> size_arg [prog] = 60"
proof -
  have "atoi (dec p) = int p" and "strtoull 10 (dec T) = of_nat T" and "atoi (dec z) = int z"
    using assms atoi_dec [of _ "[]"] strtoull_dec [of _ "[]"] by simp_all
  then show ?thesis by (simp add: port_arg_def period_arg_def size_arg_def)
qed

theorem arguments_round_trip_witness:
  "port_arg [''app'', ''3'', ''2550'', ''1500''] = 3 \<and> size_arg [''app'', ''3'', ''2550'', ''1500''] = 1500"
proof -
  have "dec 3 = ''3''" "dec 2550 = ''2550''" "dec 1500 = ''1500''"
    by (simp_all add: dec_def num_str.simps digit_char_def char_of_def bit_nat_def)
  with arguments_round_trip [of 3 2550 1500 "''app''"] show ?thesis by simp
qed

section \<open>Pacing\<close>

text \<open>
  Walking along a trace, the due time of the next attempt to send (a clone) and the reading of
  the clock right before, if any: an attempt is on time when the clock had reached its due
  time, and moves the due time on by the period \<open>p\<close>.
\<close>

fun pace_step :: "u64 \<Rightarrow> bool \<times> u64 \<times> u64 option \<Rightarrow> clk_call \<times> int \<Rightarrow> bool \<times> u64 \<times> u64 option" where
  "pace_step p (ok, due, prev) (c, r) = (case c of
       TimerCycles \<Rightarrow> (ok, due, Some (word_of_int r))
     | ClkClone _ _ \<Rightarrow> (ok \<and> (case prev of Some cur \<Rightarrow> due \<le> cur | None \<Rightarrow> False), due + p, None)
     | _ \<Rightarrow> (ok, due, None))"

definition on_time :: "u64 \<Rightarrow> u64 \<Rightarrow> (clk_call \<times> int) list \<Rightarrow> u64 \<Rightarrow> bool" where
  "on_time p due t due' \<longleftrightarrow> (\<exists>prev. foldl (pace_step p) (True, due, None) t = (True, due', prev))"

definition number :: "(clk_call \<times> int \<Rightarrow> bool) \<Rightarrow> (clk_call \<times> int) list \<Rightarrow> nat" where
  "number P t = length (filter P t)"

lemma number_simps [simp]:
  "number P [] = 0" "number P (t @ u) = number P t + number P u"
  "number P (x # t) = (if P x then Suc (number P t) else number P t)"
  by (simp_all add: number_def)

fun is_attempt :: "clk_call \<times> int \<Rightarrow> bool" where
  "is_attempt (c, r) = (case c of ClkClone _ _ \<Rightarrow> True | _ \<Rightarrow> False)"

text \<open>A clone that was made, one that the card took, and one that was freed.\<close>

fun is_made :: "clk_call \<times> int \<Rightarrow> bool" where
  "is_made (c, r) = (case c of ClkClone _ _ \<Rightarrow> r \<noteq> 0 | _ \<Rightarrow> False)"
fun is_sent :: "clk_call \<times> int \<Rightarrow> bool" where
  "is_sent (c, r) = (case c of ClkTxBurst _ _ \<Rightarrow> 1 \<le> (word_of_int r :: u16) | _ \<Rightarrow> False)"
fun is_freed :: "clk_call \<times> int \<Rightarrow> bool" where
  "is_freed (c, r) = (case c of ClkFree _ \<Rightarrow> True | _ \<Rightarrow> False)"

text \<open>What a run of the loop has done when it is at its head.\<close>

definition sender_inv :: "clk_state \<Rightarrow> clk_state \<Rightarrow> (clk_call \<times> int) list \<Rightarrow> bool" where
  "sender_inv s s' d \<longleftrightarrow>
     period s' = period s \<and> on_time (period s) (next_tsc s) d (next_tsc s') \<and>
     next_tsc s' = next_tsc s + of_nat (number is_attempt d) * period s \<and>
     number is_made d = number is_sent d + number is_freed d \<and>
     count s' = count s + of_nat (number is_made d)"

lemma word_ge_1: "1 \<le> (x :: u16) \<longleftrightarrow> x \<noteq> 0"
  by (simp flip: not_less)

lemma send_round_inv:
  assumes "sender_inv s0 s d"
  shows "io_wp e (send_round port m pkt)
     (\<lambda>go s' t'. go \<and> (\<exists>d'. t' = (t @ d) @ d' \<and> sender_inv s0 s' (d @ d'))) (\<lambda>_ _ _. False) s (t @ d)"
proof -
  obtain prev where "foldl (pace_step (period s0)) (True, next_tsc s0, None) d = (True, next_tsc s, prev)"
    using assms by (auto simp: sender_inv_def on_time_def)
  with assms show ?thesis
    by (auto simp: send_round_def io_wp_simps sender_inv_def on_time_def algebra_simps not_less word_ge_1)
qed

lemma sender_heads:
  assumes "loop_heads (send_round port m pkt) e s t s' t'"
  shows "\<exists>d. t' = t @ d \<and> sender_inv s s' d"
  using assms
proof (rule loop_heads_invariant [where I = "\<lambda>s' t'. \<exists>d. t' = t @ d \<and> sender_inv s s' d"])
  show "\<exists>d. t = t @ d \<and> sender_inv s s d" by (simp add: sender_inv_def on_time_def)
next
  fix s1 t1
  assume "\<exists>d. t1 = t @ d \<and> sender_inv s s1 d"
  then obtain d where "t1 = t @ d" and inv: "sender_inv s s1 d" by blast
  then show "io_wp e (send_round port m pkt) (\<lambda>go s' t'. go \<longrightarrow> (\<exists>d. t' = t @ d \<and> sender_inv s s' d))
      (\<lambda>_ _ _. True) s1 t1"
    by (auto intro!: io_wp_mono [OF send_round_inv [OF inv]])
qed

text \<open>
  C9: The sender keeps its pace: the attempt to send number \<open>k\<close> is made only once the clock
  has reached the start plus \<open>k\<close> periods, and no attempt is skipped or moved after a delay, so
  that a late sender catches up.
\<close>

theorem sender_paced:
  assumes "loop_heads (send_round port m pkt) e s t s' t'"
  shows "\<exists>d. t' = t @ d \<and> on_time (period s) (next_tsc s) d (next_tsc s') \<and>
    next_tsc s' = next_tsc s + of_nat (number is_attempt d) * period s"
  using sender_heads [OF assms] by (auto simp: sender_inv_def)

text \<open>
  Every clone the sender makes is taken by the card or freed, so that a card that drops
  packets does not drain the pool; \<open>count\<close> counts the clones, dropped ones included.
\<close>

theorem sender_conserves:
  assumes "loop_heads (send_round port m pkt) e s t s' t'"
  shows "\<exists>d. t' = t @ d \<and> number is_made d = number is_sent d + number is_freed d \<and>
    count s' = count s + of_nat (number is_made d)"
  using sender_heads [OF assms] by (auto simp: sender_inv_def)

text \<open>
  The loop of the sender never ends, whatever the card answers: the code behind it, which
  stops and closes the port and frees the pool, is not reached, and \<open>main\<close> returns only to
  show its usage.
\<close>

theorem sender_never_returns:
  "send_loop port m pkt e s t = None \<and>
   (case clk_main argv e s t of
      Some (Inr r, _, t') \<Rightarrow> t' = t \<and> (argv = [] \<or> hd argv \<in> {''-h'', ''help''})
    | _ \<Rightarrow> True)"
proof -
  have loop: "io_wp e (send_loop port m pkt) (\<lambda>_ _ _. False) (\<lambda>_ _ _. False) s t" for port m pkt s t
    unfolding send_loop_def
    by (rule io_wp_loop [where I = "\<lambda>_ _. True"]) (auto simp: send_round_def io_wp_simps)
  have "send_loop port m pkt e s t = None"
  proof (rule ccontr)
    assume "send_loop port m pkt e s t \<noteq> None"
    then obtain r s' t' where "send_loop port m pkt e s t = Some (r, s', t')" by auto
    with loop [of port m pkt s t] show False by (cases r) (auto simp: io_wp_def)
  qed
  moreover have "io_wp e (clk_main argv)
      (\<lambda>_ _ t'. t' = t \<and> (argv = [] \<or> hd argv \<in> {''-h'', ''help''})) (\<lambda>_ _ _. True) s t"
    unfolding clk_main_def clk_must_def Let_def
    by (cases argv) (auto simp: io_wp_simps intro!: io_wp_mono [OF loop])
  ultimately show ?thesis by (auto simp: io_wp_def split: option.splits sum.splits)
qed

section \<open>Sample runs\<close>

text \<open>A clock that moves 100 cycles per call, and a card that takes the first packet and drops the next.\<close>

definition clock_env :: "nat \<Rightarrow> clk_call \<Rightarrow> int" where
  "clock_env n c = (case c of TimerCycles \<Rightarrow> 100 * int n | ClkClone _ _ \<Rightarrow> 5 + int n
     | ClkTxBurst _ _ \<Rightarrow> (if n < 4 then 1 else 0) | _ \<Rightarrow> 0)"

definition sample_clk :: clk_state where
  "sample_clk = \<lparr>next_tsc = 0, period = 150, count = 0\<rparr>"

abbreviation sample_send :: "bool clk_io" where
  "sample_send \<equiv> send_round 0 1 (sync_packet 60)"

lemma sample_sends:
  "\<exists>t1 t2. sample_send clock_env sample_clk [] = Some (Inr True, \<lparr>next_tsc = 150, period = 150, count = 1\<rparr>, t1) \<and>
     sample_send clock_env \<lparr>next_tsc = 150, period = 150, count = 1\<rparr> t1 =
       Some (Inr True, \<lparr>next_tsc = 300, period = 150, count = 2\<rparr>, t2) \<and>
     number is_sent t2 = 1 \<and> number is_freed t2 = 1 \<and> number is_attempt t2 = 2"
  by (simp add: send_round_def io_simps clock_env_def sample_clk_def)

lemma sample_sender_heads:
  "\<exists>t. loop_heads sample_send clock_env sample_clk [] \<lparr>next_tsc = 300, period = 150, count = 2\<rparr> t \<and>
     number is_sent t = 1 \<and> number is_freed t = 1 \<and> number is_attempt t = 2"
  using sample_sends loop_heads.round [OF loop_heads.round [OF loop_heads.start]] by metis

theorem sender_paced_witness:
  "\<exists>t. loop_heads sample_send clock_env sample_clk [] \<lparr>next_tsc = 300, period = 150, count = 2\<rparr> t \<and>
     number is_attempt t = 2 \<and> on_time 150 0 t 300"
proof -
  obtain t where h: "loop_heads sample_send clock_env sample_clk [] \<lparr>next_tsc = 300, period = 150, count = 2\<rparr> t"
    and "number is_attempt t = 2" using sample_sender_heads by blast
  from sender_paced [OF h] h this(2) show ?thesis by (auto simp: sample_clk_def)
qed

theorem sender_conserves_witness:
  "\<exists>t. loop_heads sample_send clock_env sample_clk [] \<lparr>next_tsc = 300, period = 150, count = 2\<rparr> t \<and>
     number is_made t = 2 \<and> number is_sent t = 1 \<and> number is_freed t = 1"
proof -
  obtain t where h: "loop_heads sample_send clock_env sample_clk [] \<lparr>next_tsc = 300, period = 150, count = 2\<rparr> t"
    and "number is_sent t = 1" "number is_freed t = 1" using sample_sender_heads by blast
  from sender_conserves [OF h] h this(2,3) show ?thesis by (auto simp: sample_clk_def)
qed

end
