(* ===== verification/DmaSplit.thy ===== *)
theory DmaSplit
  imports CText
begin

text \<open>
  How the two DMA commands of \<open>server/src/commands.c\<close> divide a transfer among queues and
  descriptors: the parts of the loop bodies of \<open>cmd_obj_dma_to_device_parsed\<close> and
  \<open>cmd_obj_dma_from_device_parsed\<close> that only compute.  A C \<open>int\<close> is an \<open>int\<close>, an
  \<open>unsigned int\<close> a 32-bit word.
\<close>

section \<open>Shares of the queues\<close>

text \<open>\<open>size\<close> and \<open>r_size\<close>.\<close>

definition queue_size :: "int \<Rightarrow> int \<Rightarrow> int" where
  "queue_size input_size num_queues = c_div input_size num_queues"

definition rest_size :: "int \<Rightarrow> int \<Rightarrow> int" where
  "rest_size input_size num_queues =
     (if c_mod input_size num_queues \<noteq> 0 then c_mod input_size num_queues else 0)"

text \<open>
  What one queue gets, \<open>q_data_size\<close>, and what is left, \<open>total_size\<close>, in
  \<open>dma_to_device\<close> (where \<open>buff\<close> is the buffer size of the port) and in \<open>dma_from_device\<close>.
\<close>

definition xmit_share :: "u32 \<Rightarrow> int \<Rightarrow> int \<Rightarrow> int \<Rightarrow> u32 \<times> int" where
  "xmit_share buff r_size sz total_size =
     (if total_size = 0 then (buff, total_size)
      else if total_size = r_size + sz then (word_of_int total_size, 0)
      else (word_of_int sz, total_size - sz))"

definition recv_share :: "int \<Rightarrow> int \<Rightarrow> int \<Rightarrow> u32 \<times> int" where
  "recv_share r_size sz total_size =
     (if total_size = r_size + sz then (word_of_int total_size, 0)
      else (word_of_int sz, total_size - sz))"

text \<open>The shares of \<open>n\<close> queues in a row.\<close>

fun shares :: "(int \<Rightarrow> u32 \<times> int) \<Rightarrow> int \<Rightarrow> nat \<Rightarrow> u32 list" where
  "shares share left 0 = []"
| "shares share left (Suc n) = (let (q, left') = share left in q # shares share left' n)"

section \<open>Descriptors of a queue\<close>

text \<open>
  The number of descriptors and the length of the last one, from the length in use before.
\<close>

definition descs :: "u32 \<Rightarrow> u32 \<Rightarrow> int \<Rightarrow> u32 \<times> int" where
  "descs q buff ld_size =
     (if buff \<le> q
      then if q mod buff \<noteq> 0 then (q div buff + 1, to_cint (uint (q mod buff)))
           else (q div buff, ld_size)
      else (1, to_cint (uint (q mod buff))))"

text \<open>The place of the queue in the file, \<open>offset\<close>.\<close>

definition file_offset :: "int \<Rightarrow> int \<Rightarrow> int \<Rightarrow> int" where
  "file_offset input_size num_queues i = c_div input_size num_queues * i"

section \<open>The contract of a split\<close>

text \<open>
  What the loop needs of the share of a queue: while more than the last share is left it is
  \<open>size\<close>, and the last share is all that is left.
\<close>

locale split =
  fixes share :: "int \<Rightarrow> int \<Rightarrow> int \<Rightarrow> u32 \<times> int"
  assumes share_last: "0 < r + sz \<Longrightarrow> share r sz (r + sz) = (word_of_int (r + sz), 0)"
    and share_more: "0 < left \<Longrightarrow> left \<noteq> r + sz \<Longrightarrow> share r sz left = (word_of_int sz, left - sz)"
begin

lemma shares_full:
  assumes "0 < sz" and "0 \<le> r"
  shows "shares (share r sz) (int (Suc n) * sz + r) (Suc n) =
     replicate n (word_of_int sz) @ [word_of_int (sz + r)]"
proof (induction n)
  case 0
  have "share r sz (r + sz) = (word_of_int (r + sz), 0)" using assms by (intro share_last) simp
  then show ?case by (simp add: add.commute)
next
  case (Suc n)
  have eq: "int (Suc (Suc n)) * sz + r = sz * int n + sz + (r + sz)" by (simp add: algebra_simps)
  have "0 < sz * int n + sz" using assms by (simp add: add_nonneg_pos)
  then have "int (Suc (Suc n)) * sz + r \<noteq> r + sz" and "0 < int (Suc (Suc n)) * sz + r"
    unfolding eq using assms by linarith+
  then have "share r sz (int (Suc (Suc n)) * sz + r) = (word_of_int sz, int (Suc (Suc n)) * sz + r - sz)"
    by (intro share_more)
  moreover have "int (Suc (Suc n)) * sz + r - sz = int (Suc n) * sz + r" by (simp add: algebra_simps)
  ultimately show ?case using Suc.IH
    by (subst shares.simps) (simp only: prod.case Let_def replicate_Suc append_Cons)
qed

end

interpretation xmit: split "xmit_share buff"
  by unfold_locales (simp_all add: xmit_share_def)

interpretation recv: split recv_share
  by unfold_locales (simp_all add: recv_share_def)

section \<open>Arithmetic of the sizes\<close>

lemma sizes_nonneg:
  assumes "0 \<le> input" and "0 < n"
  shows "queue_size input (int n) = input div int n" and "rest_size input (int n) = input mod int n"
  using assms by (simp_all add: queue_size_def rest_size_def c_div_nonneg c_mod_nonneg)

lemma uint_word_of_cint: "0 \<le> z \<Longrightarrow> in_cint z \<Longrightarrow> uint (word_of_int z :: u32) = z"
  by (simp add: in_cint_def uint_word_of_int)

lemma in_cint_le: "0 \<le> a \<Longrightarrow> a \<le> b \<Longrightarrow> in_cint b \<Longrightarrow> in_cint a"
  by (simp add: in_cint_def)

lemma split_shares:
  assumes "split share" and "0 < n" and "int n \<le> input"
  shows "shares (share (rest_size input (int n)) (queue_size input (int n))) input n =
    replicate (n - 1) (word_of_int (input div int n)) @ [word_of_int (input div int n + input mod int n)]"
proof -
  have "0 < input div int n" and "0 \<le> input mod int n"
    using assms by (simp_all add: pos_imp_zdiv_pos_iff)
  moreover have "int (Suc (n - 1)) * (input div int n) + input mod int n = input"
    using assms by (simp add: mult.commute)
  ultimately show ?thesis
    using split.shares_full [OF assms(1), of "input div int n" "input mod int n" "n - 1"] assms
    by (simp add: sizes_nonneg)
qed



lemma xmit_zero: "shares (xmit_share buff r sz) 0 n = replicate n buff"
  by (induction n) (simp_all add: xmit_share_def)

lemma recv_zero: "0 < r \<Longrightarrow> shares (recv_share r 0) 0 n = replicate n 0"
  by (induction n) (simp_all add: recv_share_def)

text \<open>
  A transfer of fewer bytes than queues is divided differently in the two directions.  The
  first queue takes it all; to the device every other queue then sends a whole buffer, bytes
  that were not asked for, while from the device it receives none.  A transfer of no bytes to
  the device sends a buffer on every queue.
\<close>

theorem dma_split_small:
  assumes "0 < input" and "input < int n"
  shows "shares (xmit_share buff (rest_size input (int n)) (queue_size input (int n))) input n =
      word_of_int input # replicate (n - 1) buff \<and>
    shares (recv_share (rest_size input (int n)) (queue_size input (int n))) input n =
      word_of_int input # replicate (n - 1) 0 \<and>
    shares (xmit_share buff (rest_size 0 (int n)) (queue_size 0 (int n))) 0 n = replicate n buff"
proof -
  obtain m where n: "n = Suc m" using assms by (cases n) auto
  have "queue_size input (int n) = 0" "rest_size input (int n) = input"
    using assms sizes_nonneg [of input n] by (simp_all add: n)
  with assms(1) show ?thesis
    by (simp add: xmit_zero del: of_nat_Suc)
       (simp add: n recv_zero xmit_zero xmit_share_def [of _ _ _ input] recv_share_def [of _ _ input])
qed

theorem dma_split_small_witness:
  "shares (xmit_share 4096 (rest_size 2 3) (queue_size 2 3)) 2 3 = [2, 4096, 4096] \<and>
   shares (recv_share (rest_size 2 3) (queue_size 2 3)) 2 3 = [2, 0, 0]"
  using dma_split_small [of 2 3 4096] by (simp add: numeral_2_eq_2)

text \<open>
  The descriptors of a share hold it exactly: all but the last are full, and the last one
  holds the length given, except that for a share that is a multiple of the buffer size the
  length is the one of an earlier share and the last descriptor is full.
\<close>

theorem descs_exact:
  assumes "0 < buff" and "in_cint (uint buff)"
  shows "let (num, ld') = descs q buff ld in
    1 \<le> num \<and> (if 0 < q \<and> q mod buff = 0 then ld' = ld \<and> uint q = uint num * uint buff
      else uint q = (uint num - 1) * uint buff + ld' \<and> 0 \<le> ld' \<and> ld' < uint buff)"
proof -
  let ?q = "uint q" and ?b = "uint buff"
  have b: "0 < ?b" using assms(1) by (simp add: word_less_def)
  have div: "uint (q div buff) = ?q div ?b" and md: "uint (q mod buff) = ?q mod ?b"
    by (simp_all add: uint_div uint_mod)
  have md0: "q mod buff = 0 \<longleftrightarrow> ?q mod ?b = 0"
    by (metis md unsigned_0 word_uint_eqI)
  have lt: "?q mod ?b < ?b" "0 \<le> ?q mod ?b" using b by simp_all
  have md_c: "to_cint (?q mod ?b) = ?q mod ?b"
    using assms(2) lt by (intro to_cint_id) (auto simp: in_cint_def)
  have eq: "?q = ?q div ?b * ?b + ?q mod ?b" by simp
  show ?thesis
  proof (cases "buff \<le> q")
    case False
    then have "?q < ?b" by (simp add: word_less_def not_le)
    then have "?q mod ?b = ?q" by simp
    moreover have "to_cint ?q = ?q" using md_c calculation by simp
    ultimately show ?thesis
      using False \<open>?q < ?b\<close> b by (auto simp: descs_def md md0 word_less_def)
  next
    case True
    then have ge: "?b \<le> ?q" by (simp add: word_le_def)
    with b have pos: "1 \<le> ?q div ?b" by (simp add: pos_imp_zdiv_pos_iff int_one_le_iff_zero_less)
    show ?thesis
    proof (cases "?q mod ?b = 0")
      case True
      then have "?q = ?q div ?b * ?b" using eq by simp
      with pos ge b True \<open>buff \<le> q\<close> show ?thesis
        by (auto simp: descs_def md0 div word_less_def word_le_def)
    next
      case False
      have "?q div ?b \<le> ?q div ?b * ?b" using b pos by (simp add: mult_le_cancel_left1)
      moreover have "?q div ?b * ?b < ?q" using False lt eq by linarith
      moreover have "?q < 2 ^ 32" using uint_lt2p [of q] by simp
      ultimately have "?q div ?b + 1 < 2 ^ 32" by linarith
      then have "uint (q div buff + 1) = ?q div ?b + 1"
        using pos by (simp add: uint_word_ariths div)
      with False lt pos eq True show ?thesis
        by (auto simp: descs_def md0 md md_c word_le_def)
    qed
  qed
qed

theorem descs_exact_witness:
  "descs 10 4 0 = (3, 2) \<and> descs 8 4 2 = (2, 2) \<and> descs 3 4 0 = (1, 3) \<and>
   uint (10 :: u32) = (3 - 1) * 4 + 2 \<and> uint (8 :: u32) = 2 * uint (4 :: u32)"
  using descs_exact [of 4 10 0] descs_exact [of 4 8 2] descs_exact [of 4 3 0]
  by (simp add: descs_def to_cint_def in_cint_def)

end
