(* ===== verification/Commands.thy ===== *)
theory Commands
  imports DmaSplit OnicPort
begin

text \<open>
  The commands of the DMA test tool: \<open>server/src/commands.c\<close>.  The state is the table of
  ports \<open>pinfo\<close> and the number of ports.  Both are declared in \<open>testapp.h\<close>, which is not in
  the repository: an entry of the table is taken to have the fields of \<open>PortInfo\<close> of
  \<open>onic_port.h\<close>, which was made from it.  The functions of the test application
  (\<open>port_init\<close>, \<open>do_xmit\<close>, \<open>PciRead\<close> and so on), the driver, the files and the command
  line library answer calls.  A function that works on the table leaves the table it answers.

  A handler gets the words of its command.  The \<open>return\<close> in the middle of a handler is the
  exit \<open>Returned\<close>, which \<open>handler\<close> catches; the other exits are accesses outside of the
  table and divisions by zero, which C leaves undefined.
\<close>

section \<open>State and calls\<close>

record tool =
  pinfos :: "port_info list"
  num_ports :: int

datatype open_mode = ReadWrite | CreateTruncate
datatype whence = SeekSet | SeekEnd
datatype dma_dir = DirTx | DirRx
datatype desc_kind = DescC2H | DescH2C | DescCmpt

datatype cmd_call =
    Out string
  | TPortInit int int int int int
  | TPortClose int
  | TPortReset int int int int int
  | TPortRemove int
  | TPciRead int int int
  | TPciWrite int int int int
  | OpenFile string open_mode
  | CloseFile int
  | Lseek int int whence
  | SetMmAddr int int dma_dir u64
  | DoXmit int int int int int int
  | DoRecvSt int int int int
  | DoRecvMm int int int int int
  | RegDump int
  | RegInfoDump int int int
  | QInfo int int
  | QStats int int
  | QStatsClear int int
  | QDesc int int int int desc_kind
  | FOpen string
  | FClose int
  | RdlineReset
  | CmdlineIn string

record cmd_resp =
  crv :: int
  ports_after :: "port_info list"
  contents :: string

datatype cmd_exit = Returned | OutOfBounds | DivideByZero

type_synonym 'a cmd_io = "(cmd_call, cmd_resp, tool, cmd_exit, 'a) io"

definition ALIGN_TO_WORD_BYTES :: int where "ALIGN_TO_WORD_BYTES = 4"
definition MAX_NUM_QUEUES :: int where "MAX_NUM_QUEUES = 4096"
definition ST_LOOPBACK_EN :: u32 where "ST_LOOPBACK_EN = 0x1"

definition handler :: "unit cmd_io \<Rightarrow> unit cmd_io" where
  "handler m = (\<lambda>e s t. case m e s t of
       Some (Inl Returned, s', t') \<Rightarrow> Some (Inr (), s', t')
     | r \<Rightarrow> r)"

definition out :: "string \<Rightarrow> unit cmd_io" where
  "out msg = io_do (Out msg)"

definition stop_with :: "string \<Rightarrow> 'a cmd_io" where
  "stop_with msg = io_then (out msg) (io_exit Returned)"

text \<open>\<open>pinfo[port_id]\<close>, read and with its \<open>num_queues\<close> set to 0.\<close>

definition pinfo_at :: "int \<Rightarrow> port_info cmd_io" where
  "pinfo_at i = io_bind (io_get pinfos) (\<lambda>ps.
     if 0 \<le> i \<and> i < int (length ps) then io_ret (ps ! nat i) else io_exit OutOfBounds)"

definition clear_queues :: "int \<Rightarrow> unit cmd_io" where
  "clear_queues i = io_then (pinfo_at i)
     (io_modify (\<lambda>s. s\<lparr>pinfos := (pinfos s)[nat i := (pinfos s ! nat i)\<lparr>num_queues := 0\<rparr>]\<rparr>))"

text \<open>A function of the test application that works on the table.\<close>

definition call_table :: "cmd_call \<Rightarrow> int cmd_io" where
  "call_table c = io_bind (io_call c) (\<lambda>r.
     io_then (io_modify (\<lambda>s. s\<lparr>pinfos := ports_after r\<rparr>)) (io_ret (crv r)))"

text \<open>\<open>if (port_id >= num_ports) { cmdline_printf(...); return; }\<close>\<close>

definition check_port :: "int \<Rightarrow> unit cmd_io \<Rightarrow> unit cmd_io" where
  "check_port port err = io_bind (io_get num_ports) (\<lambda>n.
     if port \<ge> n then io_then err (io_exit Returned) else io_ret ())"

definition tab :: char where "tab = CHR 0x09"

definition hex8 :: "int \<Rightarrow> string" where
  "hex8 v = (let h = hex (unat (word_of_int v :: u32)) in replicate (8 - length h) CHR ''0'' @ h)"

definition bad_port_text :: "int \<Rightarrow> string" where
  "bad_port_text port = ''Error: please enter valid port number: '' @ dec_int port @ ''\<newline>''"

definition unsupported_text :: "int \<Rightarrow> string" where
  "unsupported_text port =
     ''Error: port-id:'' @ dec_int port @ '' not supported\<newline> Please enter valid port-id\<newline>''"

definition bad_queues_text :: "int \<Rightarrow> string" where
  "bad_queues_text n = ''Error: please enter valid number of queues,entered: '' @ dec_int n @
     '' max allowed: '' @ dec_int MAX_NUM_QUEUES @ ''\<newline>''"

definition hex_arg :: "string \<Rightarrow> int" where
  "hex_arg s = to_cint (strtol 16 s)"

section \<open>Ports\<close>

definition cmd_obj_port_init_parsed :: "string \<Rightarrow> string \<Rightarrow> string \<Rightarrow> string \<Rightarrow> string \<Rightarrow> unit cmd_io" where
  "cmd_obj_port_init_parsed a_port a_queues a_st a_descs a_buff = handler (
     io_then (out (''Port-init Port:'' @ a_port @ '', num-queues:'' @ a_queues @ '', st-queues: '' @ a_st @ ''\<newline>''))
    (let port = atoi a_port in
     io_bind (pinfo_at port) (\<lambda>p.
     if num_queues p \<noteq> 0 then
       stop_with (''Error: port-id:'' @ dec_int port @
         '' already initialized\<newline>To re-initialize please close the port\<newline>'')
     else
       let nq = atoi a_queues; st = atoi a_st; nb = atoi a_descs; bs = atoi a_buff in
       if nq < 1 \<or> nq > MAX_NUM_QUEUES then stop_with (bad_queues_text nq)
       else
         io_then (check_port port (out (bad_port_text port)))
        (io_bind (call_table (TPortInit port nq st nb bs)) (\<lambda>result.
         if result < 0 then out (''Error: Port initialization on port-id:'' @ dec_int port @ '' failed\<newline>'')
         else out (''Port initialization done successfully on port-id:'' @ dec_int port @ ''\<newline>''))))))"

definition cmd_obj_port_close_parsed :: "string \<Rightarrow> unit cmd_io" where
  "cmd_obj_port_close_parsed a_port = handler (
     io_then (out (''Port-close on Port-id:'' @ a_port @ ''\<newline>''))
    (let port = atoi a_port in
     io_bind (pinfo_at port) (\<lambda>p.
     if num_queues p = 0 then stop_with (''Error: port-id:'' @ dec_int port @ '' already closed\<newline>'')
     else
       io_then (check_port port (out (bad_port_text port)))
      (io_then (io_bind (call_table (TPortClose port)) (\<lambda>_. io_ret ()))
      (io_then (clear_queues port)
       (out (''Port-id:'' @ dec_int port @ '' closed successfully\<newline>'')))))))"

definition cmd_obj_port_reset_parsed :: "string \<Rightarrow> string \<Rightarrow> string \<Rightarrow> string \<Rightarrow> string \<Rightarrow> unit cmd_io" where
  "cmd_obj_port_reset_parsed a_port a_queues a_st a_descs a_buff = handler (
     io_then (out (''Port-reset Port:'' @ a_port @ '', num-queues:'' @ a_queues @ '', st-queues: '' @ a_st @ ''\<newline>''))
    (let port = atoi a_port; nq = atoi a_queues; st = atoi a_st; nb = atoi a_descs; bs = atoi a_buff in
     if nq < 1 \<or> nq > MAX_NUM_QUEUES then stop_with (bad_queues_text nq)
     else
       io_then (check_port port (out (bad_port_text port)))
      (io_bind (call_table (TPortReset port nq st nb bs)) (\<lambda>result.
       io_when (result < 0) (out (''Error: Port reset on port-id:'' @ dec_int port @ '' failed\<newline>''))))))"

definition cmd_obj_port_remove_parsed :: "string \<Rightarrow> unit cmd_io" where
  "cmd_obj_port_remove_parsed a_port = handler (
     io_then (out (''Port-remove on Port-id:'' @ a_port @ ''\<newline>''))
    (let port = atoi a_port in
     io_then (check_port port (out (bad_port_text port)))
    (io_bind (call_table (TPortRemove port)) (\<lambda>result.
     io_then (clear_queues port)
     (io_when (result < 0) (out (''Error: Port remove on port-id:'' @ dec_int port @ '' failed\<newline>'')))))))"

section \<open>Registers\<close>

definition read_text :: "int \<Rightarrow> int \<Rightarrow> int \<Rightarrow> string" where
  "read_text port addr result = ''Read ('' @ dec_int port @ '':0x'' @ hex8 addr @ '') = 0x'' @ hex8 result @ ''\<newline>''"

definition cmd_obj_reg_read_parsed :: "string \<Rightarrow> string \<Rightarrow> string \<Rightarrow> unit cmd_io" where
  "cmd_obj_reg_read_parsed a_port a_bar a_addr = handler (
     io_then (out (''Read Port:'' @ a_port @ '', BAR-index:'' @ a_bar @ '', Address:'' @ a_addr @ ''\<newline>\<newline>''))
    (let addr = hex_arg a_addr in
     if c_mod addr ALIGN_TO_WORD_BYTES \<noteq> 0 then
       out ''ERROR: Read address must aligned to a 4-byte boundary.\<newline>\<newline>''
     else
       let port = atoi a_port; bar = atoi a_bar in
       io_then (check_port port (out (unsupported_text port)))
      (io_bind (io_call (TPciRead bar addr port)) (\<lambda>result.
       out (read_text port addr (crv result))))))"

definition cmd_obj_reg_write_parsed :: "string \<Rightarrow> string \<Rightarrow> string \<Rightarrow> string \<Rightarrow> unit cmd_io" where
  "cmd_obj_reg_write_parsed a_port a_bar a_addr a_value = handler (
     io_then (out (''Write Port:'' @ a_port @ '', Address:'' @ a_addr @ '', Value:'' @ a_value @ ''\<newline>''))
    (let bar = atoi a_bar; port = atoi a_port; addr = hex_arg a_addr in
     io_then (check_port port (out (unsupported_text port)))
    (if c_mod addr ALIGN_TO_WORD_BYTES \<noteq> 0 then
       out ''ERROR: Write address must aligned to a 4-byte boundary.\<newline>\<newline>''
     else
       let v = hex_arg a_value in
       io_then (io_do (TPciWrite bar addr v port))
      (io_bind (io_call (TPciRead bar addr port)) (\<lambda>result.
       out (read_text port addr (crv result)))))))"

section \<open>DMA\<close>

text \<open>\<open>close(fd); return;\<close>, with a message before it or without.\<close>

definition close_stop :: "int \<Rightarrow> 'a cmd_io" where
  "close_stop fd = io_then (io_do (CloseFile fd)) (io_exit Returned)"

definition fail_close :: "int \<Rightarrow> string \<Rightarrow> 'a cmd_io" where
  "fail_close fd msg = io_then (out msg) (close_stop fd)"

text \<open>The local variables the loop over the queues works on.\<close>

record dma_vars =
  addr :: u64
  left_size :: int
  q_size :: u32
  ld :: int

definition dma_text :: "string \<Rightarrow> int \<Rightarrow> string \<Rightarrow> int \<Rightarrow> int \<Rightarrow> string" where
  "dma_text name input sep l num = name @ '': with input-size:'' @ dec_int input @ '', ld_size:'' @ dec_int l @
     sep @ ''tot_num_desc:'' @ dec_int num @ ''\<newline>''"

text \<open>\<open>q_data_size / buff_size\<close> with a buffer size of 0 is a division by zero.\<close>

definition queue_descs :: "port_info \<Rightarrow> u32 \<Rightarrow> int \<Rightarrow> (u32 \<times> int) cmd_io" where
  "queue_descs p q ld_size =
     (if buff_size p = 0 then io_exit DivideByZero else io_ret (descs q (buff_size p) ld_size))"

definition set_mm :: "int \<Rightarrow> port_info \<Rightarrow> int \<Rightarrow> int \<Rightarrow> dma_dir \<Rightarrow> u64 \<Rightarrow> unit cmd_io" where
  "set_mm fd p port i dir a =
     io_when ((word_of_int i :: u32) \<ge> st_queues p)
       (io_bind (io_call (SetMmAddr port i dir a)) (\<lambda>ret. if crv ret < 0 then close_stop fd else io_ret ()))"

definition seek :: "int \<Rightarrow> int \<Rightarrow> whence \<Rightarrow> unit cmd_io" where
  "seek fd offset wh =
     io_bind (io_call (Lseek fd offset wh)) (\<lambda>r.
     if crv r = - 1 then fail_close fd ''DMA-to-Device: lseek func failed\<newline>'' else io_ret ())"

text \<open>One queue of \<open>dma_to_device\<close>; the port \<open>p\<close> of the table does not change meanwhile.\<close>

definition xmit_queue ::
  "u64 \<Rightarrow> int \<Rightarrow> port_info \<Rightarrow> int \<Rightarrow> u32 \<Rightarrow> int \<Rightarrow> int \<Rightarrow> int \<Rightarrow> int \<Rightarrow> dma_vars \<Rightarrow> dma_vars cmd_io" where
  "xmit_queue bram fd p port regval input nq zbyte i v =
     (let r_size = rest_size input nq; sz = queue_size input nq;
          dst = (addr v + ucast (q_size v)) mod bram in
      io_then (set_mm fd p port i DirTx dst)
     (let (q, left') = xmit_share (buff_size p) r_size sz (left_size v) in
      io_bind (queue_descs p q (ld v)) (\<lambda>(num, ld_size).
      let tot_num_desc = to_cint (uint num); offset = file_offset input nq i in
      io_then (if (word_of_int i :: u32) < st_queues p \<and> \<not> (and regval ST_LOOPBACK_EN \<noteq> 0)
               then seek fd 0 SeekSet else seek fd offset SeekSet)
     (io_then (out (dma_text ''DMA-to-Device'' input '','' ld_size tot_num_desc))
     (io_bind (io_call (DoXmit port fd i ld_size tot_num_desc zbyte)) (\<lambda>ret.
      if crv ret < 0 then close_stop fd
      else io_ret \<lparr>addr = dst, left_size = left', q_size = q, ld = ld_size\<rparr>))))))"

text \<open>One queue of \<open>dma_from_device\<close>.\<close>

definition recv_queue ::
  "u64 \<Rightarrow> int \<Rightarrow> port_info \<Rightarrow> int \<Rightarrow> int \<Rightarrow> int \<Rightarrow> int \<Rightarrow> dma_vars \<Rightarrow> dma_vars cmd_io" where
  "recv_queue bram fd p port input nq i v =
     (let r_size = rest_size input nq; sz = queue_size input nq;
          src = (addr v + ucast (q_size v)) mod bram in
      io_then (set_mm fd p port i DirRx src)
     (let (q, left') = recv_share r_size sz (left_size v) in
      io_bind (queue_descs p q (ld v)) (\<lambda>(num, ld_size).
      let mm_tdesc = to_cint (uint num); offset = file_offset input nq i in
      io_then (seek fd offset SeekSet)
     (io_then (out (dma_text ''DMA-from-Device'' input '', '' ld_size mm_tdesc))
     (io_bind (io_call (if (word_of_int i :: u32) < st_queues p then DoRecvSt port fd i (to_cint (uint q))
                        else DoRecvMm port fd i ld_size mm_tdesc)) (\<lambda>ret.
      if crv ret < 0 then close_stop fd
      else
        io_then (seek fd offset SeekEnd)
        (io_ret \<lparr>addr = src, left_size = left', q_size = q, ld = ld_size\<rparr>)))))))"

text \<open>The loop over \<open>n\<close> queues from \<open>i\<close> on.\<close>

fun queue_loop :: "(int \<Rightarrow> dma_vars \<Rightarrow> dma_vars cmd_io) \<Rightarrow> nat \<Rightarrow> nat \<Rightarrow> dma_vars \<Rightarrow> dma_vars cmd_io" where
  "queue_loop body i 0 v = io_ret v"
| "queue_loop body i (Suc n) v = io_bind (body (int i) v) (queue_loop body (Suc i) n)"

text \<open>
  The \<open>do ... while (loop < num_loops)\<close>: \<open>n\<close> passes, of which the first is always made.  Only
  the length of the last descriptor survives a pass.
\<close>

fun pass_loop :: "(int \<Rightarrow> dma_vars cmd_io) \<Rightarrow> nat \<Rightarrow> int \<Rightarrow> unit cmd_io" where
  "pass_loop pass 0 ld_size = io_ret ()"
| "pass_loop pass (Suc n) ld_size = io_bind (pass ld_size) (\<lambda>v. pass_loop pass n (ld v))"

definition passes :: "int \<Rightarrow> nat" where
  "passes num_loops = max 1 (nat num_loops)"

definition many_queues_text :: "int \<Rightarrow> port_info \<Rightarrow> string \<Rightarrow> string" where
  "many_queues_text nq p sep = ''Error: num-queues:'' @ dec_int nq @ '' are more than the configured queues:'' @
     dec_int (sint (num_queues p)) @ '','' @ sep @ ''Please enter valid number of queues\<newline>''"

definition bram_text :: "string \<Rightarrow> u64 \<Rightarrow> int \<Rightarrow> u64 \<Rightarrow> string" where
  "bram_text name a input bram = ''Error: ('' @ name @ '' '' @ dec_int (sint a) @ '' + input size '' @ dec_int input @
     '') shall be less than BRAM_SIZE '' @ dec_int (to_cint (uint bram)) @ ''.\<newline>''"

definition cmd_obj_dma_to_device_parsed ::
  "u64 \<Rightarrow> string \<Rightarrow> string \<Rightarrow> string \<Rightarrow> string \<Rightarrow> string \<Rightarrow> string \<Rightarrow> unit cmd_io" where
  "cmd_obj_dma_to_device_parsed bram a_port a_queues filename a_dst a_size a_loops = handler (
     io_then (out (''xmit on Port:'' @ a_port @ '', filename:'' @ filename @ '', num-queues:'' @ a_queues @ ''\<newline>\<newline>''))
    (io_bind (io_call (OpenFile filename ReadWrite)) (\<lambda>r.
     let ifd = crv r in
     if ifd < 0 then stop_with (''Error: Invalid filename: '' @ filename @ ''\<newline>'')
     else
       let port = atoi a_port in
       io_then (check_port port (io_then (out (unsupported_text port)) (io_do (CloseFile ifd))))
      (let nq = atoi a_queues in
       io_bind (pinfo_at port) (\<lambda>p.
       if (word_of_int nq :: u32) > num_queues p then fail_close ifd (many_queues_text nq p ''\<newline> '')
       else if nq = 0 then fail_close ifd ''Error: Please enter valid number of queues\<newline>''
       else
         io_bind (io_call (TPciRead (user_bar_idx p) (uint C2H_CONTROL_REG) port)) (\<lambda>rv.
         let regval = word_of_int (crv rv); input = atoi a_size; dst = strtoull 0 a_dst in
         if dst + word_of_int input > bram then fail_close ifd (bram_text ''dst_addr'' dst input bram)
         else if input = 0 \<and> \<not> (word_of_int nq :: u32) \<le> st_queues p then
           fail_close ifd ''Error: Zero-length support is for queues with ST-mode only\<newline>''
         else
           let zbyte = (if input = 0 then 1 else 0) in
           io_then (pass_loop
             (\<lambda>ld_size. queue_loop (xmit_queue bram ifd p port regval input nq zbyte) 0 (nat nq)
               \<lparr>addr = dst, left_size = input, q_size = 0, ld = ld_size\<rparr>) (passes (atoi a_loops)) 0)
          (io_then (io_do (CloseFile ifd))
           (out ''\<newline>######## DMA transfer to device is completed successfully #######\<newline>''))))))))"

definition cmd_obj_dma_from_device_parsed ::
  "u64 \<Rightarrow> string \<Rightarrow> string \<Rightarrow> string \<Rightarrow> string \<Rightarrow> string \<Rightarrow> string \<Rightarrow> unit cmd_io" where
  "cmd_obj_dma_from_device_parsed bram a_port a_queues filename a_src a_size a_loops = handler (
     io_then (out (''recv on Port:'' @ a_port @ '', filename:'' @ filename @ ''\<newline>''))
    (io_bind (io_call (OpenFile filename CreateTruncate)) (\<lambda>r.
     let ofd = crv r in
     if ofd < 0 then stop_with (''Error: Invalid filename: '' @ filename @ ''\<newline>'')
     else
       let port = atoi a_port in
       io_then (check_port port (io_then (out (unsupported_text port)) (io_do (CloseFile ofd))))
      (let nq = atoi a_queues in
       io_bind (pinfo_at port) (\<lambda>p.
       if (word_of_int nq :: u32) > num_queues p then fail_close ofd (many_queues_text nq p ''\<newline>'')
       else if nq = 0 then fail_close ofd ''Error: Please enter valid number of queues\<newline>''
       else
         let input = atoi a_size; src = word_of_int (atoi a_src) in
         if src + word_of_int input > bram then fail_close ofd (bram_text ''src_addr'' src input bram)
         else if input = 0 \<and> (word_of_int nq :: u32) > st_queues p then
           fail_close ofd ''Error: Zero-length support is for queues with ST-mode only\<newline>''
         else
           io_then (pass_loop
             (\<lambda>ld_size. queue_loop (recv_queue bram ofd p port input nq) 0 (nat nq)
               \<lparr>addr = src, left_size = input, q_size = 0, ld = ld_size\<rparr>) (passes (atoi a_loops)) 0)
          (io_then (io_do (CloseFile ofd))
           (out ''\<newline>####### DMA transfer from device is completed successfully #######\<newline>'')))))))"

section \<open>Dumps\<close>

definition no_bar_text :: "int \<Rightarrow> string" where
  "no_bar_text port = ''Error: fetching QDMA config BAR-id on port-id:'' @ dec_int port @
     '' not supported\<newline> Please enter valid port-id\<newline>''"

definition bad_queue_text :: "int \<Rightarrow> string" where
  "bad_queue_text qid = ''Error: queue-id:'' @ dec_int qid @ '' is greater than the number of confgiured queues in '' @
     ''the port\<newline> Please enter valid queue-id\<newline>''"

definition cmd_obj_reg_dump_parsed :: "string \<Rightarrow> unit cmd_io" where
  "cmd_obj_reg_dump_parsed a_port = handler (
     (let port = atoi a_port in
      io_bind (pinfo_at port) (\<lambda>p.
      if config_bar_idx p < 0 then stop_with (no_bar_text port)
      else
        io_then (out (''Register dump on cofig BAR-id:'' @ dec_int (config_bar_idx p) @ '' with Port-id:'' @ a_port @ ''\<newline>''))
       (io_then (check_port port (out (unsupported_text port)))
        (io_do (RegDump port))))))"

definition cmd_obj_reg_info_read_parsed :: "string \<Rightarrow> string \<Rightarrow> string \<Rightarrow> unit cmd_io" where
  "cmd_obj_reg_info_read_parsed a_port a_addr a_num = handler (
     io_then (out (''Read Reg info Port:'' @ a_port @ '', Address:'' @ a_addr @ '', Num Regs: '' @ a_num @ ''\<newline>\<newline>''))
    (let reg_addr = hex_arg a_addr in
     if c_mod reg_addr ALIGN_TO_WORD_BYTES \<noteq> 0 then
       out ''ERROR: Read address must aligned to a 4-byte boundary.\<newline>\<newline>''
     else
       let port = atoi a_port; num_regs = atoi a_num in
       io_then (check_port port (out (unsupported_text port)))
       (io_do (RegInfoDump port num_regs reg_addr))))"

text \<open>
  \<open>queue_dump\<close>, \<open>qstats\<close> and \<open>qstats_clr\<close> differ only in the driver function at the end.
\<close>

definition queue_command :: "(int \<Rightarrow> int \<Rightarrow> cmd_call) \<Rightarrow> string \<Rightarrow> string \<Rightarrow> unit cmd_io" where
  "queue_command f a_port a_queue = handler (
     io_then (out (''queue-dump on Port:'' @ a_port @ '', queue-id:'' @ a_queue @ ''\<newline>\<newline>''))
    (let port = atoi a_port; qid = atoi a_queue in
     io_bind (pinfo_at port) (\<lambda>p.
     if config_bar_idx p < 0 then stop_with (no_bar_text port)
     else
       io_then (check_port port (out (unsupported_text port)))
      (if (word_of_int qid :: u32) \<ge> num_queues p then stop_with (bad_queue_text qid)
       else io_do (f port qid)))))"

definition cmd_obj_queue_dump_parsed :: "string \<Rightarrow> string \<Rightarrow> unit cmd_io" where
  "cmd_obj_queue_dump_parsed = queue_command QInfo"

definition cmd_obj_qstats_parsed :: "string \<Rightarrow> string \<Rightarrow> unit cmd_io" where
  "cmd_obj_qstats_parsed = queue_command QStats"

definition cmd_obj_qstats_clr_parsed :: "string \<Rightarrow> string \<Rightarrow> unit cmd_io" where
  "cmd_obj_qstats_clr_parsed = queue_command QStatsClear"

definition cmd_obj_desc_dump_parsed :: "string \<Rightarrow> string \<Rightarrow> unit cmd_io" where
  "cmd_obj_desc_dump_parsed a_port a_queue = handler (
     io_then (out (''Descriptor-dump on Port:'' @ a_port @ '', queue-id:'' @ a_queue @ ''\<newline>\<newline>''))
    (let port = atoi a_port; qid = atoi a_queue in
     io_then (check_port port (out (''Error: port-id:'' @ dec_int port @ '' not supported\<newline>Please enter valid port-id\<newline>'')))
    (io_bind (pinfo_at port) (\<lambda>p.
     if (word_of_int qid :: u32) \<ge> num_queues p then stop_with (bad_queue_text qid)
     else
       let start = 0; stop = to_cint (uint (nb_descs p - 1)) in
       io_then (io_do (QDesc port qid start stop DescC2H))
      (io_then (io_do (QDesc port qid start stop DescH2C))
       (io_when ((word_of_int qid :: u32) < st_queues p) (io_do (QDesc port qid start stop DescCmpt))))))))"

section \<open>Commands from a file, and help\<close>

text \<open>
  \<open>while (fgets(buff, 256, fp)) cmdline_in(cl, buff, strlen(buff));\<close> over what is left of the
  file.
\<close>

function feed :: "string \<Rightarrow> unit cmd_io" where
  "feed [] = io_ret ()"
| "feed (c # cs) = (let (buff, rest) = fgets_take 255 (c # cs) in
     io_then (io_do (CmdlineIn (strlen_prefix buff))) (feed rest))"
  by pat_completeness auto
termination
proof (relation "measure length")
  fix c cs x buff rest
  assume "x = fgets_take 255 (c # cs)" and "(buff, rest) = x"
  then have "fgets_take (Suc 254) (c # cs) = (buff, rest)" by simp
  from fgets_take_progress [OF this] show "(rest, c # cs) \<in> measure length" by simp
qed simp

definition cmd_obj_load_cmds_parsed :: "string \<Rightarrow> unit cmd_io" where
  "cmd_obj_load_cmds_parsed filename = handler (
     io_then (out (''load-cmds from file:'' @ filename @ ''\<newline>\<newline>''))
    (io_bind (io_call (FOpen filename)) (\<lambda>fp.
     if crv fp = 0 then stop_with (''Error: Invalid filename: '' @ filename @ ''\<newline>'')
     else
       io_then (io_do RdlineReset)
      (io_then (io_do (CmdlineIn [CHR 0x0D]))
      (io_then (feed (contents fp))
      (io_then (io_do (CmdlineIn [CHR 0x0D]))
       (io_do (FClose (crv fp)))))))))"

definition help_text :: string where
  "help_text =
     ''Demo example of command line interface in RTE\<newline>'' @
     ''\<newline>'' @
     ''This is a readline-like interface that can be used to\<newline>'' @
     '' debug your RTE application.\<newline>'' @
     ''\<newline>'' @
     ''Supported Commands:\<newline>'' @
     [tab] @ ''port_init            <port-id> <num-queues> <st-queues> <ring-depth> <pkt-buff-size>     :port-initailization\<newline>'' @
     [tab] @ ''port_close           <port-id> :port-close\<newline>'' @
     [tab] @ ''port_reset            <port-id> <num-queues> <st-queues> <ring-depth> <pkt-buff-size>     :port-reset\<newline>'' @
     [tab] @ ''port_remove          <port-id> :port-remove\<newline>'' @
     [tab] @ ''reg_read             <port-id> <bar-num> <address> :Reads Specified Register\<newline>'' @
     [tab] @ ''reg_write            <port-id> <bar-num> <address> <value>    :Writes Specified Register\<newline>'' @
     [tab] @ ''dma_to_device        <port-id> <num-queues> <input-filename> <dst_addr> <size> <iterations>   :To Transmit\<newline>'' @
     [tab] @ ''dma_from_device      <port-id> <num-queues> <output-filename> <src_addr> <size> <iterations>  :To Receive\<newline>'' @
     [tab] @ ''reg_dump             <port-id>  :To dump all the valid registers\<newline>'' @
     [tab] @ ''reg_info_read        <port-id> <reg-addr> <num-regs> :Reads the field info for the specified number of registers\<newline>'' @
     [tab] @ ''queue_dump           <port-id> <queue-id>  :To dump the queue-context of a queue-number\<newline>'' @
     [tab] @ ''qstats               <port-id> <queue-id>  :To dump the queue-stats of a queue-number\<newline>'' @
     [tab] @ ''qstats_clr               <port-id> <queue-id>  :To clear the queue-stats of a queue-number\<newline>'' @
     [tab] @ ''desc_dump            <port-id> <queue-id>  :To dump the descriptor-fields of a queue-number\<newline>'' @
     [tab] @ ''load_cmds            <file-name> :To execute the list of commands from file\<newline>'' @
     [tab] @ ''help\<newline>'' @
     [tab] @ ''Ctrl-d                           : To quit from this command-line type Ctrl+d\<newline>'' @
     ''\<newline>''"

definition cmd_help_parsed :: "unit cmd_io" where
  "cmd_help_parsed = out help_text"

section \<open>How the constructs of a handler run\<close>

lemma wp_handler [io_wp_simps]:
  "io_wp e (handler m) Q E s t =
   io_wp e m Q (\<lambda>x s t. if x = Returned then Q () s t else E x s t) s t"
  by (auto simp: io_wp_def handler_def split: option.splits sum.splits prod.splits cmd_exit.splits)

lemma wp_out [io_wp_simps]:
  "io_wp e (out msg) Q E s t = Q () s (t @ [(Out msg, e (length t) (Out msg))])"
  by (simp add: out_def io_wp_do)

lemma wp_stop_with [io_wp_simps]:
  "io_wp e (stop_with msg) Q E s t = E Returned s (t @ [(Out msg, e (length t) (Out msg))])"
  by (simp add: stop_with_def io_wp_simps)

lemma wp_pinfo_at [io_wp_simps]:
  "io_wp e (pinfo_at i) Q E s t =
   (if 0 \<le> i \<and> i < int (length (pinfos s)) then Q (pinfos s ! nat i) s t else E OutOfBounds s t)"
  by (simp add: pinfo_at_def io_wp_simps)

lemma wp_clear_queues [io_wp_simps]:
  "io_wp e (clear_queues i) Q E s t =
   (if 0 \<le> i \<and> i < int (length (pinfos s))
    then Q () (s\<lparr>pinfos := (pinfos s)[nat i := (pinfos s ! nat i)\<lparr>num_queues := 0\<rparr>]\<rparr>) t
    else E OutOfBounds s t)"
  by (simp add: clear_queues_def io_wp_simps)

lemma wp_call_table [io_wp_simps]:
  "io_wp e (call_table c) Q E s t =
   Q (crv (e (length t) c)) (s\<lparr>pinfos := ports_after (e (length t) c)\<rparr>) (t @ [(c, e (length t) c)])"
  by (simp add: call_table_def io_wp_simps)

lemma wp_check_port [io_wp_simps]:
  "io_wp e (check_port port err) Q E s t =
   (if port \<ge> num_ports s then io_wp e err (\<lambda>_. E Returned) E s t else Q () s t)"
proof -
  have "io_wp e (io_exit Returned) Q E = E Returned" by (simp add: fun_eq_iff io_wp_simps)
  then show ?thesis by (simp add: check_port_def io_wp_simps)
qed

lemma wp_close_stop [io_wp_simps]:
  "io_wp e (close_stop fd) Q E s t = E Returned s (t @ [(CloseFile fd, e (length t) (CloseFile fd))])"
  by (simp add: close_stop_def io_wp_simps)

lemma wp_fail_close [io_wp_simps]:
  "io_wp e (fail_close fd msg) Q E s t =
   (let t' = t @ [(Out msg, e (length t) (Out msg))] in
    E Returned s (t' @ [(CloseFile fd, e (length t') (CloseFile fd))]))"
  by (simp add: fail_close_def io_wp_simps Let_def)

lemma wp_queue_descs [io_wp_simps]:
  "io_wp e (queue_descs p q l) Q E s t =
   (if buff_size p = 0 then E DivideByZero s t else Q (descs q (buff_size p) l) s t)"
  by (simp add: queue_descs_def io_wp_simps)

lemma total_handler [total_rules]: "io_total m \<Longrightarrow> io_total (handler m)"
  by (auto simp: io_total_def handler_def split: option.splits sum.splits cmd_exit.splits)

lemma total_commands [total_rules]:
  "io_total (out msg)" "io_total (stop_with msg)" "io_total (pinfo_at i)" "io_total (clear_queues i)"
  "io_total (call_table c)" "io_total (close_stop fd)" "io_total (fail_close fd msg)"
  "io_total (queue_descs p q l)" "io_total (set_mm fd p port i dir a)" "io_total (seek fd off wh)"
  by (auto simp: out_def stop_with_def pinfo_at_def clear_queues_def call_table_def close_stop_def fail_close_def
      queue_descs_def set_mm_def seek_def intro!: total_rules)

lemma total_check_port [total_rules]: "io_total err \<Longrightarrow> io_total (check_port port err)"
  by (auto simp: check_port_def intro!: total_rules)

lemma total_queue_loop [total_rules]: "(\<And>i v. io_total (body i v)) \<Longrightarrow> io_total (queue_loop body i n v)"
  by (induction n arbitrary: i v) (auto intro!: total_rules)

lemma total_pass_loop [total_rules]: "(\<And>l. io_total (pass l)) \<Longrightarrow> io_total (pass_loop pass n l)"
  by (induction n arbitrary: l) (auto intro!: total_rules)

lemma total_feed [total_rules]: "io_total (feed s)"
  by (induction s rule: feed.induct) (auto split: prod.split intro!: total_rules)

lemma total_queues [total_rules]:
  "io_total (xmit_queue bram fd p port regval input nq zbyte i v)"
  "io_total (recv_queue bram fd p port input nq i v)"
  by (auto simp: xmit_queue_def recv_queue_def Let_def split: prod.split intro!: total_rules)

lemma total_handlers:
  "io_total (cmd_obj_dma_to_device_parsed bram a b c d f g)"
  "io_total (cmd_obj_dma_from_device_parsed bram a b c d f g)"
  by (auto simp: cmd_obj_dma_to_device_parsed_def cmd_obj_dma_from_device_parsed_def Let_def intro!: total_rules)

end
