(* ===== verification/CommandTable.thy ===== *)
theory CommandTable
  imports Commands
begin

text \<open>
  The table of commands of \<open>server/src/commands.c\<close>: for each command its parse instance, with
  the tokens of a line and the handler, and \<open>main_ctx\<close>, the list of all.  The command line
  library matches the words of a line with the tokens, a token with a keyword matching that
  word only and one without any word, stores each word in the field the token names, and calls
  the handler with the fields.
\<close>

section \<open>Parse instances\<close>

record parse_inst =
  run_f :: "(string \<Rightarrow> string) \<Rightarrow> unit cmd_io"
  help_str :: string
  tokens :: "(string \<times> string option) list"

definition cmd_help :: "parse_inst" where
  "cmd_help = \<lparr>
     run_f = (\<lambda>res. cmd_help_parsed),
     help_str = ''show help'',
     tokens = [(''help'', Some ''help'')]\<rparr>"

definition cmd_obj_port_init :: "parse_inst" where
  "cmd_obj_port_init = \<lparr>
     run_f = (\<lambda>res. cmd_obj_port_init_parsed (res ''port_id'') (res ''num_queues'') (res ''st_queues'') (res ''nb_descs'') (res ''buff_size'')),
     help_str = ''port_init  port-id num-queues st-queues queue-ring-size buffer-size'',
     tokens = [(''action'', Some ''port_init''), (''port_id'', None), (''num_queues'', None), (''st_queues'', None),
       (''nb_descs'', None), (''buff_size'', None)]\<rparr>"

definition cmd_obj_port_close :: "parse_inst" where
  "cmd_obj_port_close = \<lparr>
     run_f = (\<lambda>res. cmd_obj_port_close_parsed (res ''port_id'')),
     help_str = ''port_close  port-id '',
     tokens = [(''action'', Some ''port_close''), (''port_id'', None)]\<rparr>"

definition cmd_obj_port_reset :: "parse_inst" where
  "cmd_obj_port_reset = \<lparr>
     run_f = (\<lambda>res. cmd_obj_port_reset_parsed (res ''port_id'') (res ''num_queues'') (res ''st_queues'') (res ''nb_descs'') (res ''buff_size'')),
     help_str = ''port_reset  port-id num-queues st-queues queue-ring-size buffer-size'',
     tokens = [(''action'', Some ''port_reset''), (''port_id'', None), (''num_queues'', None), (''st_queues'', None),
       (''nb_descs'', None), (''buff_size'', None)]\<rparr>"

definition cmd_obj_port_remove :: "parse_inst" where
  "cmd_obj_port_remove = \<lparr>
     run_f = (\<lambda>res. cmd_obj_port_remove_parsed (res ''port_id'')),
     help_str = ''port_remove  port-id '',
     tokens = [(''action'', Some ''port_remove''), (''port_id'', None)]\<rparr>"

definition cmd_obj_reg_read :: "parse_inst" where
  "cmd_obj_reg_read = \<lparr>
     run_f = (\<lambda>res. cmd_obj_reg_read_parsed (res ''port_id'') (res ''bar_id'') (res ''addr'')),
     help_str = ''reg_read port-id bar-id address'',
     tokens = [(''action'', Some ''reg_read''), (''port_id'', None), (''bar_id'', None), (''addr'', None)]\<rparr>"

definition cmd_obj_reg_write :: "parse_inst" where
  "cmd_obj_reg_write = \<lparr>
     run_f = (\<lambda>res. cmd_obj_reg_write_parsed (res ''port_id'') (res ''bar_id'') (res ''address'') (res ''value'')),
     help_str = ''reg_write port-id bar-id address value'',
     tokens = [(''action'', Some ''reg_write''), (''port_id'', None), (''bar_id'', None), (''address'', None), (''value'',
       None)]\<rparr>"

definition cmd_obj_dma_to_device :: "u64 \<Rightarrow> parse_inst" where
  "cmd_obj_dma_to_device bram = \<lparr>
     run_f = (\<lambda>res. cmd_obj_dma_to_device_parsed bram (res ''port_id'') (res ''queues'') (res ''filename'') (res ''dst_addr'') (res ''size'') (res ''loops'')),
     help_str = ''dma_to_device port-id num-queues filename dst_addr size loops'',
     tokens = [(''action'', Some ''dma_to_device''), (''port_id'', None), (''queues'', None), (''filename'', None),
       (''dst_addr'', None), (''size'', None), (''loops'', None)]\<rparr>"

definition cmd_obj_dma_from_device :: "u64 \<Rightarrow> parse_inst" where
  "cmd_obj_dma_from_device bram = \<lparr>
     run_f = (\<lambda>res. cmd_obj_dma_from_device_parsed bram (res ''port_id'') (res ''queues'') (res ''filename'') (res ''src_addr'') (res ''size'') (res ''loops'')),
     help_str = ''dma_from_device port_id num-queues filename src_addr size loops'',
     tokens = [(''action'', Some ''dma_from_device''), (''port_id'', None), (''queues'', None), (''filename'', None),
       (''src_addr'', None), (''size'', None), (''loops'', None)]\<rparr>"

definition cmd_obj_reg_dump :: "parse_inst" where
  "cmd_obj_reg_dump = \<lparr>
     run_f = (\<lambda>res. cmd_obj_reg_dump_parsed (res ''port_id'')),
     help_str = ''reg_dump  port-id'',
     tokens = [(''action'', Some ''reg_dump''), (''port_id'', None)]\<rparr>"

definition cmd_obj_reg_info_read :: "parse_inst" where
  "cmd_obj_reg_info_read = \<lparr>
     run_f = (\<lambda>res. cmd_obj_reg_info_read_parsed (res ''port_id'') (res ''reg_addr'') (res ''num_regs'')),
     help_str = ''reg_info_read port-id reg-addr'',
     tokens = [(''action'', Some ''reg_info_read''), (''port_id'', None), (''reg_addr'', None), (''num_regs'', None)]\<rparr>"

definition cmd_obj_queue_dump :: "parse_inst" where
  "cmd_obj_queue_dump = \<lparr>
     run_f = (\<lambda>res. cmd_obj_queue_dump_parsed (res ''port_id'') (res ''queue_id'')),
     help_str = ''queue_dump port-id queue_id'',
     tokens = [(''action'', Some ''queue_dump''), (''port_id'', None), (''queue_id'', None)]\<rparr>"

definition cmd_obj_qstats :: "parse_inst" where
  "cmd_obj_qstats = \<lparr>
     run_f = (\<lambda>res. cmd_obj_qstats_parsed (res ''port_id'') (res ''queue_id'')),
     help_str = ''qstats port-id queue_id'',
     tokens = [(''action'', Some ''qstats''), (''port_id'', None), (''queue_id'', None)]\<rparr>"

definition cmd_obj_qstats_clr :: "parse_inst" where
  "cmd_obj_qstats_clr = \<lparr>
     run_f = (\<lambda>res. cmd_obj_qstats_clr_parsed (res ''port_id'') (res ''queue_id'')),
     help_str = ''qstats_clr port-id queue_id'',
     tokens = [(''action'', Some ''qstats_clr''), (''port_id'', None), (''queue_id'', None)]\<rparr>"

definition cmd_obj_desc_dump :: "parse_inst" where
  "cmd_obj_desc_dump = \<lparr>
     run_f = (\<lambda>res. cmd_obj_desc_dump_parsed (res ''port_id'') (res ''queue_id'')),
     help_str = ''desc_dump port-id queue_id'',
     tokens = [(''action'', Some ''desc_dump''), (''port_id'', None), (''queue_id'', None)]\<rparr>"

definition cmd_obj_load_cmds :: "parse_inst" where
  "cmd_obj_load_cmds = \<lparr>
     run_f = (\<lambda>res. cmd_obj_load_cmds_parsed (res ''filename'')),
     help_str = ''load_cmds file-name'',
     tokens = [(''action'', Some ''load_cmds''), (''filename'', None)]\<rparr>"

section \<open>The table\<close>

definition main_ctx :: "u64 \<Rightarrow> parse_inst list" where
  "main_ctx bram = [
     cmd_obj_port_init, cmd_obj_port_close, cmd_obj_port_reset, cmd_obj_port_remove, cmd_obj_reg_read,
     cmd_obj_reg_write, cmd_obj_dma_to_device bram, cmd_obj_dma_from_device bram, cmd_obj_reg_dump,
     cmd_obj_reg_info_read, cmd_obj_queue_dump, cmd_obj_qstats, cmd_obj_qstats_clr, cmd_obj_desc_dump,
     cmd_obj_load_cmds, cmd_help]"

text \<open>What the library documents of the words of a line; only the theorem on dispatch uses it.\<close>

definition token_matches :: "string \<times> string option \<Rightarrow> string \<Rightarrow> bool" where
  "token_matches tok word = (case snd tok of None \<Rightarrow> True | Some k \<Rightarrow> word = k)"

definition inst_matches :: "string list \<Rightarrow> parse_inst \<Rightarrow> bool" where
  "inst_matches words inst = list_all2 token_matches (tokens inst) words"

definition parsed :: "parse_inst \<Rightarrow> string list \<Rightarrow> string \<Rightarrow> string" where
  "parsed inst words field =
     (case map_of (zip (map fst (tokens inst)) words) field of None \<Rightarrow> [] | Some w \<Rightarrow> w)"

definition run_command :: "u64 \<Rightarrow> string list \<Rightarrow> unit cmd_io option" where
  "run_command bram words =
     map_option (\<lambda>inst. run_f inst (parsed inst words)) (find (inst_matches words) (main_ctx bram))"

lemmas inst_defs =
  cmd_help_def cmd_obj_port_init_def cmd_obj_port_close_def cmd_obj_port_reset_def
  cmd_obj_port_remove_def cmd_obj_reg_read_def cmd_obj_reg_write_def cmd_obj_dma_to_device_def
  cmd_obj_dma_from_device_def cmd_obj_reg_dump_def cmd_obj_reg_info_read_def cmd_obj_queue_dump_def
  cmd_obj_qstats_def cmd_obj_qstats_clr_def cmd_obj_desc_dump_def cmd_obj_load_cmds_def

text \<open>What all handlers have in common: they come to an end.\<close>

lemma main_ctx_total:
  assumes "inst \<in> set (main_ctx bram)"
  shows "io_total (run_f inst res)"
proof -
  have "list_all (\<lambda>inst. io_total (run_f inst res)) (main_ctx bram)"
    unfolding main_ctx_def inst_defs
    by (auto simp: cmd_obj_port_init_parsed_def cmd_obj_port_close_parsed_def cmd_obj_port_reset_parsed_def
        cmd_obj_port_remove_parsed_def cmd_obj_reg_read_parsed_def cmd_obj_reg_write_parsed_def
        cmd_obj_reg_dump_parsed_def cmd_obj_reg_info_read_parsed_def cmd_obj_queue_dump_parsed_def
        cmd_obj_qstats_parsed_def cmd_obj_qstats_clr_parsed_def queue_command_def cmd_obj_desc_dump_parsed_def
        cmd_obj_load_cmds_parsed_def cmd_help_parsed_def Let_def total_handlers intro!: total_rules)
  with assms show ?thesis by (simp add: list_all_iff)
qed

section \<open>Dispatch\<close>

definition keyword :: "parse_inst \<Rightarrow> string option" where
  "keyword inst = (case tokens inst of [] \<Rightarrow> None | tok # _ \<Rightarrow> snd tok)"

lemma keywords_distinct: "distinct (map keyword (main_ctx bram))"
  and keywords_given: "list_all (\<lambda>inst. keyword inst \<noteq> None) (main_ctx bram)"
  by (simp_all add: main_ctx_def inst_defs keyword_def)

lemma inst_matches_keyword:
  "inst_matches words inst \<Longrightarrow> keyword inst \<noteq> None \<Longrightarrow> keyword inst = Some (hd words)"
  by (cases "tokens inst"; cases words)
     (auto simp: inst_matches_def keyword_def token_matches_def split: option.splits)

lemma filter_by_key:
  assumes "distinct (map key xs)" and "\<And>x. x \<in> set xs \<Longrightarrow> P x \<Longrightarrow> key x = k"
  shows "length (filter P xs) \<le> 1"
proof -
  have "distinct (map key (filter P xs))" using assms(1) by (rule distinct_map_filter)
  moreover have "set (map key (filter P xs)) \<subseteq> {k}" using assms(2) by auto
  ultimately show ?thesis
    by (metis card.empty card_mono distinct_card finite.emptyI finite_insert is_singletonI is_singleton_altdef length_map)
qed

lemma main_ctx_unique: "length (filter (inst_matches words) (main_ctx bram)) \<le> 1"
  using keywords_given
  by (intro filter_by_key [OF keywords_distinct, where k = "Some (hd words)"] inst_matches_keyword)
     (auto simp: list_all_iff)


fun word_count :: "bool \<Rightarrow> string \<Rightarrow> nat" where
  "word_count inside [] = (if inside then 1 else 0)"
| "word_count inside (c # cs) =
     (if c = CHR '' '' then (if inside then 1 else 0) + word_count False cs else word_count True cs)"

text \<open>
  The usage line of each command names its keyword and its arguments, except that the one of
  \<open>reg_info_read\<close> leaves out the number of registers, which the command needs; the one of
  \<open>help\<close> is no usage line.
\<close>

theorem usage_lines:
  "map help_str (filter (\<lambda>inst. word_count False (help_str inst) \<noteq> length (tokens inst)) (main_ctx bram)) =
   [''reg_info_read port-id reg-addr'', ''show help'']"
  by (simp add: main_ctx_def inst_defs)

end
