(* ===== verification/CommandPorts.thy ===== *)
theory CommandPorts
  imports CommandTable
begin

text \<open>
  Which ports and which entries of the table the commands touch: no command asks the driver
  for a port from the number of ports on, but some read the table before they know that.
\<close>

section \<open>Ports of the calls\<close>

text \<open>The port a call of the test application or the driver works on.\<close>

fun call_port :: "cmd_call \<Rightarrow> int option" where
  "call_port (TPortInit i _ _ _ _) = Some i"
| "call_port (TPortClose i) = Some i"
| "call_port (TPortReset i _ _ _ _) = Some i"
| "call_port (TPortRemove i) = Some i"
| "call_port (TPciRead _ _ i) = Some i"
| "call_port (TPciWrite _ _ _ i) = Some i"
| "call_port (SetMmAddr i _ _ _) = Some i"
| "call_port (DoXmit i _ _ _ _ _) = Some i"
| "call_port (DoRecvSt i _ _ _) = Some i"
| "call_port (DoRecvMm i _ _ _ _) = Some i"
| "call_port (RegDump i) = Some i"
| "call_port (RegInfoDump i _ _) = Some i"
| "call_port (QInfo i _) = Some i"
| "call_port (QStats i _) = Some i"
| "call_port (QStatsClear i _) = Some i"
| "call_port (QDesc i _ _ _ _) = Some i"
| "call_port _ = None"

definition beyond :: "int \<Rightarrow> cmd_call \<Rightarrow> bool" where
  "beyond n c \<longleftrightarrow> (case call_port c of None \<Rightarrow> False | Some i \<Rightarrow> n \<le> i)"

lemma beyond_simps [simp]:
  "call_port c = None \<Longrightarrow> \<not> beyond n c" "call_port c = Some i \<Longrightarrow> beyond n c \<longleftrightarrow> n \<le> i"
  by (simp_all add: beyond_def)

lemma quiet_queue_loop [quiet_rules]:
  "(\<And>i v. io_quiet W (body i v)) \<Longrightarrow> io_quiet W (queue_loop body i n v)"
  by (induction n arbitrary: i v) (auto intro!: quiet_rules)

lemma quiet_pass_loop [quiet_rules]: "(\<And>l. io_quiet W (pass l)) \<Longrightarrow> io_quiet W (pass_loop pass n l)"
  by (induction n arbitrary: l) (auto intro!: quiet_rules)

lemma quiet_feed [quiet_rules]: "(\<And>x. \<not> W (CmdlineIn x)) \<Longrightarrow> io_quiet W (feed s)"
  by (induction s rule: feed.induct) (auto split: prod.split intro!: quiet_rules)

lemma quiet_queues [quiet_rules]:
  assumes "port < n"
  shows "io_quiet (beyond n) (xmit_queue bram fd p port regval input nq zbyte i v)"
    and "io_quiet (beyond n) (recv_queue bram fd p port input nq i v)"
  using assms
  by (auto simp: xmit_queue_def recv_queue_def set_mm_def seek_def close_stop_def fail_close_def out_def
      queue_descs_def Let_def split: prod.split intro!: quiet_rules)

text \<open>\<open>port_safe m\<close>: \<open>m\<close> asks for no port from the number of ports on.\<close>

definition port_safe :: "'a cmd_io \<Rightarrow> bool" where
  "port_safe m \<longleftrightarrow> (\<forall>e s t. io_wp e m
     (\<lambda>_ _ t'. watched (beyond (num_ports s)) t' = watched (beyond (num_ports s)) t)
     (\<lambda>_ _ t'. watched (beyond (num_ports s)) t' = watched (beyond (num_ports s)) t) s t)"

lemma port_safe_quiet: "(\<And>n. io_quiet (beyond n) m) \<Longrightarrow> port_safe m"
  by (simp add: port_safe_def io_quiet_def)

lemma port_safe_simple:
  "port_safe (cmd_obj_port_init_parsed a b c d f)" "port_safe (cmd_obj_port_close_parsed a)"
  "port_safe (cmd_obj_port_reset_parsed a b c d f)" "port_safe (cmd_obj_port_remove_parsed a)"
  "port_safe (cmd_obj_reg_read_parsed a b c)" "port_safe (cmd_obj_reg_write_parsed a b c d)"
  "port_safe (cmd_obj_reg_dump_parsed a)" "port_safe (cmd_obj_reg_info_read_parsed a b c)"
  "port_safe (cmd_obj_desc_dump_parsed a b)"
  by (simp_all add: port_safe_def cmd_obj_port_init_parsed_def cmd_obj_port_close_parsed_def
      cmd_obj_port_reset_parsed_def cmd_obj_port_remove_parsed_def cmd_obj_reg_read_parsed_def
      cmd_obj_reg_write_parsed_def cmd_obj_reg_dump_parsed_def cmd_obj_reg_info_read_parsed_def
      cmd_obj_desc_dump_parsed_def io_wp_simps Let_def)

lemma port_safe_queue: "(\<And>i q. call_port (f i q) = Some i) \<Longrightarrow> port_safe (queue_command f a b)"
  by (simp add: port_safe_def queue_command_def io_wp_simps Let_def)

lemma quiet_handler [quiet_rules]: "io_quiet W m \<Longrightarrow> io_quiet W (handler m)"
  by (simp add: io_quiet_def io_wp_simps)

lemma port_safe_load: "port_safe (cmd_obj_load_cmds_parsed a)" "port_safe cmd_help_parsed"
  by (auto simp: cmd_obj_load_cmds_parsed_def cmd_help_parsed_def out_def stop_with_def Let_def
      intro!: port_safe_quiet quiet_rules)

lemmas quiet_port_wp = io_quiet_wp [where W = "beyond (num_ports s)" and s = s for s]

lemma port_safe_dma:
  "port_safe (cmd_obj_dma_to_device_parsed bram a b c d f g)"
  "port_safe (cmd_obj_dma_from_device_parsed bram a b c d f g)"
  by (auto simp: port_safe_def cmd_obj_dma_to_device_parsed_def cmd_obj_dma_from_device_parsed_def
      io_wp_simps Let_def intro!: quiet_port_wp [OF quiet_pass_loop] quiet_rules)

lemma main_ctx_port_safe:
  assumes "inst \<in> set (main_ctx bram)"
  shows "port_safe (run_f inst res)"
proof -
  have "list_all (\<lambda>inst. port_safe (run_f inst res)) (main_ctx bram)"
    unfolding main_ctx_def inst_defs
    by (simp add: cmd_obj_queue_dump_parsed_def cmd_obj_qstats_parsed_def cmd_obj_qstats_clr_parsed_def
        port_safe_simple port_safe_queue port_safe_load port_safe_dma)
  with assms show ?thesis by (simp add: list_all_iff)
qed

definition faults :: "unit cmd_io \<Rightarrow> (cmd_call, cmd_resp) env \<Rightarrow> tool \<Rightarrow> (cmd_call, cmd_resp) trace \<Rightarrow> bool" where
  "faults m e s t \<longleftrightarrow> (case m e s t of Some (Inl OutOfBounds, _, _) \<Rightarrow> True | _ \<Rightarrow> False)"

lemma faultsI:
  "io_total m \<Longrightarrow> io_wp e m (\<lambda>_ _ _. False) (\<lambda>x _ _. x = OutOfBounds) s t \<Longrightarrow> faults m e s t"
  by (auto simp: faults_def io_wp_def io_total_def split: option.splits sum.splits cmd_exit.splits)

lemma not_faultsI: "io_wp e m (\<lambda>_ _ _. True) (\<lambda>x _ _. x \<noteq> OutOfBounds) s t \<Longrightarrow> \<not> faults m e s t"
  by (auto simp: faults_def io_wp_def split: option.splits sum.splits cmd_exit.splits)

lemma total_parsed:
  "io_total (cmd_obj_port_init_parsed a b c d f)" "io_total (cmd_obj_port_close_parsed a)"
  "io_total (cmd_obj_reg_dump_parsed a)" "io_total (queue_command g a b)"
  "io_total (cmd_obj_reg_read_parsed a b c)"
  by (auto simp: cmd_obj_port_init_parsed_def cmd_obj_port_close_parsed_def cmd_obj_reg_dump_parsed_def
      queue_command_def cmd_obj_reg_read_parsed_def Let_def intro!: total_rules)


text \<open>
  C37: Six handlers read the table of ports before they check the port: with a port outside of
  the table they read outside of it, where the other handlers refuse the port.
\<close>

theorem table_read_before_check:
  assumes "int (length (pinfos s)) \<le> atoi a" and "num_ports s \<le> atoi a"
  shows "list_all (\<lambda>m. faults m e s t) [cmd_obj_port_init_parsed a q st n b, cmd_obj_port_close_parsed a,
      cmd_obj_reg_dump_parsed a, cmd_obj_queue_dump_parsed a q, cmd_obj_qstats_parsed a q, cmd_obj_qstats_clr_parsed a q] \<and>
    list_all (\<lambda>m. \<not> faults m e s t) [cmd_obj_port_reset_parsed a q st n b, cmd_obj_port_remove_parsed a,
      cmd_obj_desc_dump_parsed a q, cmd_obj_dma_to_device_parsed bram a q f d z l,
      cmd_obj_dma_from_device_parsed bram a q f d z l]"
proof -
  note qs = cmd_obj_queue_dump_parsed_def cmd_obj_qstats_parsed_def cmd_obj_qstats_clr_parsed_def
  have "faults (cmd_obj_port_init_parsed a q st n b) e s t" "faults (cmd_obj_port_close_parsed a) e s t"
    "faults (cmd_obj_reg_dump_parsed a) e s t" "faults (queue_command g a q) e s t" for g
    by (rule faultsI [OF total_parsed(1)] faultsI [OF total_parsed(2)] faultsI [OF total_parsed(3)]
        faultsI [OF total_parsed(4)], insert assms,
        simp add: cmd_obj_port_init_parsed_def cmd_obj_port_close_parsed_def cmd_obj_reg_dump_parsed_def
          queue_command_def io_wp_simps Let_def)+
  moreover have "\<not> faults (cmd_obj_port_reset_parsed a q st n b) e s t" "\<not> faults (cmd_obj_port_remove_parsed a) e s t"
    "\<not> faults (cmd_obj_desc_dump_parsed a q) e s t" "\<not> faults (cmd_obj_dma_to_device_parsed bram a q f d z l) e s t"
    "\<not> faults (cmd_obj_dma_from_device_parsed bram a q f d z l) e s t"
    by (rule not_faultsI, insert assms,
        simp add: cmd_obj_port_reset_parsed_def cmd_obj_port_remove_parsed_def cmd_obj_desc_dump_parsed_def
          cmd_obj_dma_to_device_parsed_def cmd_obj_dma_from_device_parsed_def io_wp_simps Let_def)+
  ultimately show ?thesis by (simp add: qs)
qed

definition one_port :: tool where
  "one_port = \<lparr>pinfos = [sample_info], num_ports = 1\<rparr>"

theorem table_read_before_check_witness:
  "faults (cmd_obj_port_close_parsed ''1'') (\<lambda>_ _. \<lparr>crv = 0, ports_after = [], contents = []\<rparr>) one_port []"
proof -
  have "int (length (pinfos one_port)) \<le> atoi ''1''" and "num_ports one_port \<le> atoi ''1''"
    by (simp add: one_port_def, code_simp)+
  from table_read_before_check [OF this] show ?thesis by simp
qed

text \<open>
  A negative port passes the range check: \<open>reg_read\<close> hands it to the driver.
\<close>

theorem negative_port_reaches_driver:
  assumes "atoi a < 0" and "0 \<le> num_ports s" and "c_mod (hex_arg d) ALIGN_TO_WORD_BYTES = 0"
  shows "case cmd_obj_reg_read_parsed a b d e s t of
      Some (Inr _, s', t') \<Rightarrow> s' = s \<and> TPciRead (atoi b) (hex_arg d) (atoi a) \<in> set (calls (drop (length t) t'))
    | _ \<Rightarrow> False"
proof -
  have "io_wp e (cmd_obj_reg_read_parsed a b d) (\<lambda>_ s' t'. s' = s \<and>
      TPciRead (atoi b) (hex_arg d) (atoi a) \<in> set (calls (drop (length t) t'))) (\<lambda>_ _ _. False) s t"
    using assms by (simp add: cmd_obj_reg_read_parsed_def io_wp_simps Let_def)
  from io_total_wp [OF total_parsed(5) this] obtain s' t' where
    "cmd_obj_reg_read_parsed a b d e s t = Some (Inr (), s', t')" and "s' = s"
    and "TPciRead (atoi b) (hex_arg d) (atoi a) \<in> set (calls (drop (length t) t'))"
    by (metis (full_types) old.unit.exhaust)
  then show ?thesis by simp
qed

theorem negative_port_reaches_driver_witness:
  "case cmd_obj_reg_read_parsed ''-1'' ''2'' ''8'' (\<lambda>_ _. \<lparr>crv = 0, ports_after = [], contents = []\<rparr>) one_port [] of
      Some (Inr _, s', t') \<Rightarrow> TPciRead 2 8 (- 1) \<in> set (calls t')
    | _ \<Rightarrow> False"
proof -
  have v: "atoi ''-1'' = - 1" "atoi ''2'' = 2" "hex_arg ''8'' = 8"
    by code_simp+
  let ?t = "[] :: (cmd_call \<times> cmd_resp) list"
  let ?e = "\<lambda>_ _. \<lparr>crv = 0, ports_after = [], contents = []\<rparr> :: cmd_resp"
  have "c_mod (hex_arg ''8'') ALIGN_TO_WORD_BYTES = 0" unfolding v by code_simp
  then have "case cmd_obj_reg_read_parsed ''-1'' ''2'' ''8'' ?e one_port ?t of
      Some (Inr _, s', t') \<Rightarrow> s' = one_port \<and>
        TPciRead (atoi ''2'') (hex_arg ''8'') (atoi ''-1'') \<in> set (calls (drop (length ?t) t'))
    | _ \<Rightarrow> False"
    by (intro negative_port_reaches_driver) (simp_all add: v one_port_def)
  then show ?thesis unfolding v by (simp split: option.splits sum.splits prod.splits)
qed

section \<open>The table of ports\<close>

lemma keeps_parts [keeps_rules]:
  "io_keeps f (out msg)" "io_keeps f (stop_with msg)" "io_keeps f (pinfo_at i)" "io_keeps f (queue_descs p q l)"
  "io_keeps f (close_stop fd)" "io_keeps f (fail_close fd msg)"
  by (simp_all add: io_keeps_def io_wp_simps)

lemma keeps_check [keeps_rules]: "io_keeps f err \<Longrightarrow> io_keeps f (check_port i err)"
  by (simp add: check_port_def keeps_bind keeps_basic keeps_then)

lemma keeps_handler [keeps_rules]: "io_keeps f m \<Longrightarrow> io_keeps f (handler m)"
  by (simp add: io_keeps_def io_wp_simps)

lemma keeps_loops [keeps_rules]:
  "(\<And>i v. io_keeps f (body i v)) \<Longrightarrow> io_keeps f (queue_loop body i n v)"
  "(\<And>l. io_keeps f (pass l)) \<Longrightarrow> io_keeps f (pass_loop pass n l)"
  by (induction n arbitrary: i v l) (auto intro!: keeps_rules)

lemma keeps_feed [keeps_rules]: "io_keeps f (feed s)"
  by (induction s rule: feed.induct) (auto split: prod.split intro!: keeps_rules)

lemma keeps_queues [keeps_rules]:
  "io_keeps f (xmit_queue bram fd p port regval input nq zbyte i v)"
  "io_keeps f (recv_queue bram fd p port input nq i v)"
  by (auto simp: xmit_queue_def recv_queue_def set_mm_def seek_def Let_def split: prod.split intro!: keeps_rules)

lemma keeps_table:
  "io_keeps num_ports (call_table c)" "io_keeps num_ports (clear_queues i)"
  by (simp_all add: io_keeps_def io_wp_simps)

text \<open>The four commands that open and close ports, which come first in the table.\<close>

definition port_words :: "string set" where
  "port_words = {''port_init'', ''port_close'', ''port_reset'', ''port_remove''}"

lemma keeps_port_commands:
  "list_all (\<lambda>inst. io_keeps num_ports (run_f inst res)) (take 4 (main_ctx bram))"
  unfolding main_ctx_def inst_defs
  by (auto simp: cmd_obj_port_init_parsed_def cmd_obj_port_close_parsed_def cmd_obj_port_reset_parsed_def
      cmd_obj_port_remove_parsed_def Let_def intro!: keeps_rules keeps_table)

lemma keeps_other_commands:
  "list_all (\<lambda>inst. io_keeps f (run_f inst res)) (drop 4 (main_ctx bram))"
  unfolding main_ctx_def inst_defs
  by (auto simp: cmd_obj_reg_read_parsed_def cmd_obj_reg_write_parsed_def
      cmd_obj_reg_dump_parsed_def cmd_obj_reg_info_read_parsed_def cmd_obj_queue_dump_parsed_def
      cmd_obj_qstats_parsed_def cmd_obj_qstats_clr_parsed_def queue_command_def cmd_obj_desc_dump_parsed_def
      cmd_obj_load_cmds_parsed_def cmd_help_parsed_def cmd_obj_dma_to_device_parsed_def
      cmd_obj_dma_from_device_parsed_def Let_def intro!: keeps_rules)

lemma port_keywords: "list_all (\<lambda>inst. the (keyword inst) \<in> port_words) (take 4 (main_ctx bram))"
  by (simp add: main_ctx_def inst_defs keyword_def port_words_def)

lemma commands_keep:
  assumes "inst \<in> set (main_ctx bram)"
  shows "io_keeps num_ports (run_f inst res)" and "the (keyword inst) \<in> port_words \<or> io_keeps pinfos (run_f inst res)"
proof -
  have part: "inst \<in> set (take 4 (main_ctx bram)) \<or> inst \<in> set (drop 4 (main_ctx bram))"
    using assms by (metis UnE append_take_drop_id set_append)
  then show "io_keeps num_ports (run_f inst res)"
    using keeps_port_commands keeps_other_commands unfolding list_all_iff by (elim disjE) blast+
  show "the (keyword inst) \<in> port_words \<or> io_keeps pinfos (run_f inst res)"
    using part port_keywords keeps_other_commands unfolding list_all_iff by (elim disjE) blast+
qed

text \<open>
  No command changes the number of ports, and only the four commands that open and close
  ports change the table, whatever their words and whatever happens in them.
\<close>

theorem commands_keep_table:
  "list_all (\<lambda>inst. case run_f inst res e s t of None \<Rightarrow> False
     | Some (_, s', _) \<Rightarrow> num_ports s' = num_ports s \<and>
         (pinfos s' = pinfos s \<or> the (keyword inst) \<in> port_words)) (main_ctx bram)"
  unfolding list_all_iff
proof
  fix inst
  assume inst: "inst \<in> set (main_ctx bram)"
  from io_totalD [OF main_ctx_total [OF this, of res], of e s t]
  obtain r s' t' where run: "run_f inst res e s t = Some (r, s', t')" by (elim exE)
  have kept: "f s' = f s" if "io_keeps f (run_f inst res)" for f :: "tool \<Rightarrow> 'b"
    using io_keepsD [OF that refl, of e s t] by (cases r) (simp_all add: io_wp_def run)
  from kept [OF commands_keep(1) [OF inst]]
  have n: "num_ports s' = num_ports s" .
  from commands_keep(2) [OF inst, of res] have p: "pinfos s' = pinfos s \<or> the (keyword inst) \<in> port_words"
    by (elim disjE) (simp_all add: kept)
  show "case run_f inst res e s t of None \<Rightarrow> False
     | Some (_, s', _) \<Rightarrow> num_ports s' = num_ports s \<and> (pinfos s' = pinfos s \<or> the (keyword inst) \<in> port_words)"
    by (simp add: run n p)
qed

end
