(* ===== verification/DmaCommands.thy ===== *)
theory DmaCommands
  imports CommandPorts "HOL-Library.Sublist"
begin

text \<open>
  What the two DMA commands do: the calls of a pass over the queues are the ones planned from
  the shares of \<open>DmaSplit\<close>, a run that stops early has made the first of them, and the file
  is closed once whatever happens.
\<close>

section \<open>Calls and open files\<close>

text \<open>All calls but the ones that print.\<close>

definition work :: "cmd_call \<Rightarrow> bool" where
  "work c \<longleftrightarrow> (case c of Out _ \<Rightarrow> False | _ \<Rightarrow> True)"

abbreviation did :: "(cmd_call, cmd_resp) trace \<Rightarrow> cmd_call list" where
  "did t \<equiv> calls (watched work t)"

lemma work_simps [simp]:
  "\<not> work (Out msg)" "work (OpenFile f mode)" "work (CloseFile fd)" "work (Lseek fd off wh)"
  "work (SetMmAddr port i dir ad)" "work (DoXmit port fd i l n z)" "work (DoRecvSt port fd i q)"
  "work (DoRecvMm port fd i l n)" "work (TPciRead bar rg port)"
  by (simp_all add: work_def)

text \<open>
  The files a trace leaves open; \<open>None\<close> when it closes or uses a file that is not open.
\<close>

fun file_used :: "cmd_call \<Rightarrow> int option" where
  "file_used (Lseek fd _ _) = Some fd"
| "file_used (DoXmit _ fd _ _ _ _) = Some fd"
| "file_used (DoRecvSt _ fd _ _) = Some fd"
| "file_used (DoRecvMm _ fd _ _ _) = Some fd"
| "file_used _ = None"

fun file_step :: "int list option \<Rightarrow> cmd_call \<times> cmd_resp \<Rightarrow> int list option" where
  "file_step None x = None"
| "file_step (Some fs) (OpenFile f m, r) = Some (if 0 \<le> crv r then crv r # fs else fs)"
| "file_step (Some fs) (CloseFile fd, r) = (if fd \<in> set fs then Some (remove1 fd fs) else None)"
| "file_step (Some fs) (c, r) =
     (case file_used c of None \<Rightarrow> Some fs | Some fd \<Rightarrow> if fd \<in> set fs then Some fs else None)"

definition files :: "(cmd_call, cmd_resp) trace \<Rightarrow> int list option" where
  "files t = foldl file_step (Some []) t"

lemma files_append [simp]: "files (t @ u) = foldl file_step (files t) u"
  by (simp add: files_def)

section \<open>What the loops of a transfer need of a queue\<close>

text \<open>
  A queue that succeeds keeps the file open and makes the calls \<open>q_calls\<close>; one that fails has
  made the first of them and closed the file.
\<close>

definition ends_pass ::
  "int \<Rightarrow> int list \<Rightarrow> bool \<Rightarrow> cmd_call list \<Rightarrow> cmd_call list \<Rightarrow> tool \<Rightarrow>
   cmd_exit \<Rightarrow> tool \<Rightarrow> (cmd_call, cmd_resp) trace \<Rightarrow> bool" where
  "ends_pass fd fs zero before cs s x s' t' \<longleftrightarrow> s' = s \<and>
     (x = Returned \<and> files t' = Some fs \<and> fst (last t') = CloseFile fd \<and>
        (\<exists>p. prefix p cs \<and> did t' = before @ p @ [CloseFile fd]) \<or>
      x = DivideByZero \<and> zero)"

lemma ends_pass_weaken:
  "ends_pass fd fs z b cs s x s' t' \<Longrightarrow> ends_pass fd fs z b (cs @ ds) s x s' t'"
  unfolding ends_pass_def by (metis prefix_prefix)

lemma ends_pass_later:
  "ends_pass fd fs z (b @ cs) ds s x s' t' \<Longrightarrow> ends_pass fd fs z b (cs @ ds) s x s' t'"
  unfolding ends_pass_def by (metis append.assoc same_prefix_prefix)

primrec loop_calls :: "(dma_vars \<Rightarrow> dma_vars) \<Rightarrow> (int \<Rightarrow> dma_vars \<Rightarrow> cmd_call list) \<Rightarrow> nat \<Rightarrow> nat \<Rightarrow> dma_vars \<Rightarrow> cmd_call list" where
  "loop_calls nxt cs i 0 v = []"
| "loop_calls nxt cs i (Suc n) v = cs (int i) v @ loop_calls nxt cs (Suc i) n (nxt v)"

primrec pass_calls :: "(int \<Rightarrow> cmd_call list) \<Rightarrow> (int \<Rightarrow> int) \<Rightarrow> nat \<Rightarrow> int \<Rightarrow> cmd_call list" where
  "pass_calls cs nxt 0 l = []"
| "pass_calls cs nxt (Suc n) l = cs l @ pass_calls cs nxt n (nxt l)"

locale queue_body =
  fixes fd :: int and zero :: bool
    and body :: "int \<Rightarrow> dma_vars \<Rightarrow> dma_vars cmd_io"
    and nxt :: "dma_vars \<Rightarrow> dma_vars"
    and q_calls :: "int \<Rightarrow> dma_vars \<Rightarrow> cmd_call list"
  assumes body: "files t = Some (fd # fs) \<Longrightarrow> io_wp e (body i v)
      (\<lambda>v' s' t'. v' = nxt v \<and> s' = s \<and> files t' = Some (fd # fs) \<and> did t' = did t @ q_calls i v)
      (ends_pass fd fs zero (did t) (q_calls i v) s) s t"
begin

lemma loop:
  assumes "files t = Some (fd # fs)"
  shows "io_wp e (queue_loop body i n v)
      (\<lambda>v' s' t'. v' = (nxt ^^ n) v \<and> s' = s \<and> files t' = Some (fd # fs) \<and>
        did t' = did t @ loop_calls nxt q_calls i n v)
      (ends_pass fd fs zero (did t) (loop_calls nxt q_calls i n v) s) s t"
  using assms
proof (induction n arbitrary: i v t)
  case 0
  then show ?case by (simp add: io_wp_simps)
next
  case (Suc n)
  show ?case
  proof (simp only: queue_loop.simps io_wp_bind, rule io_wp_mono [OF body [OF Suc.prems]])
    fix v' s' t'
    assume *: "v' = nxt v \<and> s' = s \<and> files t' = Some (fd # fs) \<and> did t' = did t @ q_calls (int i) v"
    then have "files t' = Some (fd # fs)" by simp
    from Suc.IH [OF this, of "Suc i" v'] *
    show "io_wp e (queue_loop body (Suc i) n v')
      (\<lambda>v' s' t'. v' = (nxt ^^ Suc n) v \<and> s' = s \<and> files t' = Some (fd # fs) \<and>
        did t' = did t @ loop_calls nxt q_calls i (Suc n) v)
      (ends_pass fd fs zero (did t) (loop_calls nxt q_calls i (Suc n) v) s) s' t'"
      by (elim conjE) (simp, erule io_wp_mono; simp add: funpow_swap1 ends_pass_later)
  qed (simp add: ends_pass_weaken)
qed

lemma passes:
  assumes "files t = Some (fd # fs)"
  shows "io_wp e (pass_loop (\<lambda>l. queue_loop body 0 n (start l)) m l)
      (\<lambda>_ s' t'. s' = s \<and> files t' = Some (fd # fs) \<and>
        did t' = did t @ pass_calls (\<lambda>l. loop_calls nxt q_calls 0 n (start l)) (\<lambda>l. ld ((nxt ^^ n) (start l))) m l)
      (ends_pass fd fs zero (did t)
        (pass_calls (\<lambda>l. loop_calls nxt q_calls 0 n (start l)) (\<lambda>l. ld ((nxt ^^ n) (start l))) m l) s) s t"
  using assms
proof (induction m arbitrary: l t)
  case 0
  then show ?case by (simp add: io_wp_simps)
next
  case (Suc m)
  let ?cs = "pass_calls (\<lambda>l. loop_calls nxt q_calls 0 n (start l)) (\<lambda>l. ld ((nxt ^^ n) (start l)))"
  show ?case
  proof (simp only: pass_loop.simps io_wp_bind, rule io_wp_mono [OF loop [OF Suc.prems]])
    fix v' s' t'
    assume *: "v' = (nxt ^^ n) (start l) \<and> s' = s \<and> files t' = Some (fd # fs) \<and>
        did t' = did t @ loop_calls nxt q_calls 0 n (start l)"
    then have "files t' = Some (fd # fs)" by simp
    from Suc.IH [OF this, of "ld v'"] *
    show "io_wp e (pass_loop (\<lambda>l. queue_loop body 0 n (start l)) m (ld v'))
      (\<lambda>_ s' t'. s' = s \<and> files t' = Some (fd # fs) \<and> did t' = did t @ ?cs (Suc m) l)
      (ends_pass fd fs zero (did t) (?cs (Suc m) l) s) s' t'"
      by (elim conjE) (simp, erule io_wp_mono; simp add: ends_pass_later)
  qed (simp add: ends_pass_weaken)
qed

end
section \<open>The plan of a transfer\<close>

text \<open>
  What a pass over the queues is to do, from the shares of the queues alone: the address in
  the memory of the card, the bytes, and the descriptors with the length of the last one.
\<close>

fun plan :: "u64 \<Rightarrow> u32 \<Rightarrow> u64 \<Rightarrow> int \<Rightarrow> u32 list \<Rightarrow> (u64 \<times> u32 \<times> u32 \<times> int) list" where
  "plan bram buff a l [] = []"
| "plan bram buff a l (q # qs) =
     (a mod bram, q, descs q buff l) # plan bram buff (a mod bram + ucast q) (snd (descs q buff l)) qs"

definition xmit_do ::
  "int \<Rightarrow> port_info \<Rightarrow> int \<Rightarrow> u32 \<Rightarrow> int \<Rightarrow> int \<Rightarrow> int \<Rightarrow> int \<Rightarrow> u64 \<times> u32 \<times> u32 \<times> int \<Rightarrow> cmd_call list" where
  "xmit_do fd p port regval input nq zbyte i = (\<lambda>(a, q, num, l).
     (if st_queues p \<le> word_of_int i then [SetMmAddr port i DirTx a] else []) @
     [Lseek fd (if word_of_int i < st_queues p \<and> and regval ST_LOOPBACK_EN = 0 then 0 else file_offset input nq i) SeekSet,
      DoXmit port fd i l (to_cint (uint num)) zbyte])"

definition recv_do ::
  "int \<Rightarrow> port_info \<Rightarrow> int \<Rightarrow> int \<Rightarrow> int \<Rightarrow> int \<Rightarrow> u64 \<times> u32 \<times> u32 \<times> int \<Rightarrow> cmd_call list" where
  "recv_do fd p port input nq i = (\<lambda>(a, q, num, l).
     (if st_queues p \<le> word_of_int i then [SetMmAddr port i DirRx a] else []) @
     [Lseek fd (file_offset input nq i) SeekSet,
      if word_of_int i < st_queues p then DoRecvSt port fd i (to_cint (uint q))
      else DoRecvMm port fd i l (to_cint (uint num)),
      Lseek fd (file_offset input nq i) SeekEnd])"

definition next_vars :: "(int \<Rightarrow> u32 \<times> int) \<Rightarrow> u64 \<Rightarrow> u32 \<Rightarrow> dma_vars \<Rightarrow> dma_vars" where
  "next_vars share bram buff v = (let (q, left') = share (left_size v) in
     \<lparr>addr = (addr v + ucast (q_size v)) mod bram, left_size = left', q_size = q, ld = snd (descs q buff (ld v))\<rparr>)"

definition planned :: "(int \<Rightarrow> u32 \<times> int) \<Rightarrow> u64 \<Rightarrow> u32 \<Rightarrow> dma_vars \<Rightarrow> u64 \<times> u32 \<times> u32 \<times> int" where
  "planned share bram buff v = (let q = fst (share (left_size v)) in
     ((addr v + ucast (q_size v)) mod bram, q, descs q buff (ld v)))"

lemma loop_calls_plan:
  "loop_calls (next_vars share bram buff) (\<lambda>i v. f i (planned share bram buff v)) i n v =
   concat (map (\<lambda>(k, x). f (int k) x)
     (enumerate i (plan bram buff (addr v + ucast (q_size v)) (ld v) (shares share (left_size v) n))))"
  by (induction n arbitrary: i v)
     (auto simp: planned_def next_vars_def split: prod.splits)

abbreviation xmit_part :: "port_info \<Rightarrow> int \<Rightarrow> int \<Rightarrow> int \<Rightarrow> u32 \<times> int" where
  "xmit_part p input nq \<equiv> xmit_share (buff_size p) (rest_size input nq) (queue_size input nq)"

abbreviation recv_part :: "int \<Rightarrow> int \<Rightarrow> int \<Rightarrow> u32 \<times> int" where
  "recv_part input nq \<equiv> recv_share (rest_size input nq) (queue_size input nq)"

lemma wp_set_mm [io_wp_simps]:
  "io_wp e (set_mm fd p port i dir a) Q E s t =
   (if st_queues p \<le> word_of_int i then
      let c = SetMmAddr port i dir a; t' = t @ [(c, e (length t) c)] in
      if crv (e (length t) c) < 0 then E Returned s (t' @ [(CloseFile fd, e (length t') (CloseFile fd))]) else Q () s t'
    else Q () s t)"
  by (simp add: set_mm_def io_wp_simps Let_def)

lemma wp_seek [io_wp_simps]:
  "io_wp e (seek fd off wh) Q E s t =
   (let c = Lseek fd off wh; t' = t @ [(c, e (length t) c)] in
    if crv (e (length t) c) = - 1 then io_wp e (fail_close fd ''DMA-to-Device: lseek func failed\<newline>'') Q E s t' else Q () s t')"
  by (simp add: seek_def io_wp_simps Let_def)

fun cut_by :: "'c \<Rightarrow> 'c list \<Rightarrow> 'c list \<Rightarrow> bool" where
  "cut_by c cs [] = False"
| "cut_by c [] (d # D) = (d = c \<and> D = [])"
| "cut_by c (x # cs) (d # D) = (d = c \<and> D = [] \<or> d = x \<and> cut_by c cs D)"

lemma cut_by_iff: "(\<exists>p. prefix p cs \<and> D = p @ [c]) = cut_by c cs D"
proof (induction c cs D rule: cut_by.induct)
  case (3 c x cs d D)
  show ?case (is "?l = ?r")
  proof
    assume ?l
    then obtain p where "prefix p (x # cs)" "d # D = p @ [c]" by blast
    then show ?r using "3.IH" by (cases p) auto
  next
    assume ?r
    then consider "d = c \<and> D = []" | p where "d = x" "prefix p cs" "D = p @ [c]" using "3.IH" by auto
    then show ?l
    proof cases
      case 1
      then show ?thesis by (intro exI [of _ "[]"]) simp
    next
      case 2
      then show ?thesis by (intro exI [of _ "x # p"]) simp
    qed
  qed
qed (auto simp: Cons_eq_append_conv)

lemma xmit_queue_runs:
  assumes "files t = Some (fd # fs)"
  shows "io_wp e (xmit_queue bram fd p port regval input nq zbyte i v)
      (\<lambda>v' s' t'. v' = next_vars (xmit_part p input nq) bram (buff_size p) v \<and> s' = s \<and>
         files t' = Some (fd # fs) \<and>
         did t' = did t @ xmit_do fd p port regval input nq zbyte i (planned (xmit_part p input nq) bram (buff_size p) v))
      (ends_pass fd fs (buff_size p = 0) (did t)
         (xmit_do fd p port regval input nq zbyte i (planned (xmit_part p input nq) bram (buff_size p) v)) s) s t"
proof -
  obtain q l' where x: "xmit_part p input nq (left_size v) = (q, l')" by (cases "xmit_part p input nq (left_size v)")
  obtain num l where d: "descs q (buff_size p) (ld v) = (num, l)" by (cases "descs q (buff_size p) (ld v)")
  have lt: "(word_of_int i < st_queues p) = (\<not> st_queues p \<le> word_of_int i)" by auto
  show ?thesis
    using assms
    by (cases "st_queues p \<le> word_of_int i"; cases "and regval ST_LOOPBACK_EN = 0")
       (simp_all add: xmit_queue_def xmit_do_def planned_def next_vars_def Let_def io_wp_simps x d ends_pass_def
          cut_by_iff lt)
qed

lemma recv_queue_runs:
  assumes "files t = Some (fd # fs)"
  shows "io_wp e (recv_queue bram fd p port input nq i v)
      (\<lambda>v' s' t'. v' = next_vars (recv_part input nq) bram (buff_size p) v \<and> s' = s \<and>
         files t' = Some (fd # fs) \<and>
         did t' = did t @ recv_do fd p port input nq i (planned (recv_part input nq) bram (buff_size p) v))
      (ends_pass fd fs (buff_size p = 0) (did t)
         (recv_do fd p port input nq i (planned (recv_part input nq) bram (buff_size p) v)) s) s t"
proof -
  obtain q l' where x: "recv_part input nq (left_size v) = (q, l')" by (cases "recv_part input nq (left_size v)")
  obtain num l where d: "descs q (buff_size p) (ld v) = (num, l)" by (cases "descs q (buff_size p) (ld v)")
  have lt: "(word_of_int i < st_queues p) = (\<not> st_queues p \<le> word_of_int i)" by auto
  show ?thesis
    using assms
    by (cases "st_queues p \<le> word_of_int i")
       (simp_all add: recv_queue_def recv_do_def planned_def next_vars_def Let_def io_wp_simps x d ends_pass_def
          cut_by_iff lt)
qed

interpretation xmit_body: queue_body fd "buff_size p = 0" "xmit_queue bram fd p port regval input nq zbyte"
    "next_vars (xmit_part p input nq) bram (buff_size p)"
    "\<lambda>i v. xmit_do fd p port regval input nq zbyte i (planned (xmit_part p input nq) bram (buff_size p) v)"
  by unfold_locales (rule xmit_queue_runs)

interpretation recv_body: queue_body fd "buff_size p = 0" "recv_queue bram fd p port input nq"
    "next_vars (recv_part input nq) bram (buff_size p)"
    "\<lambda>i v. recv_do fd p port input nq i (planned (recv_part input nq) bram (buff_size p) v)"
  by unfold_locales (rule recv_queue_runs)

section \<open>The commands\<close>

definition next_ld :: "u32 \<Rightarrow> u32 list \<Rightarrow> int \<Rightarrow> int" where
  "next_ld buff qs l = foldl (\<lambda>l q. snd (descs q buff l)) l qs"

lemma ld_after:
  "ld ((next_vars share bram buff ^^ n) v) = next_ld buff (shares share (left_size v) n) (ld v)"
  by (induction n arbitrary: v)
     (auto simp: next_ld_def next_vars_def funpow_swap1 split: prod.splits)

text \<open>The calls of a whole pass, and of all passes, of the two commands.\<close>

definition xmit_pass ::
  "u64 \<Rightarrow> int \<Rightarrow> port_info \<Rightarrow> int \<Rightarrow> u32 \<Rightarrow> int \<Rightarrow> int \<Rightarrow> u64 \<Rightarrow> int \<Rightarrow> cmd_call list" where
  "xmit_pass bram fd p port regval input nq a l =
     concat (map (\<lambda>(k, x). xmit_do fd p port regval input nq (if input = 0 then 1 else 0) (int k) x)
       (enumerate 0 (plan bram (buff_size p) a l (shares (xmit_part p input nq) input (nat nq)))))"

definition recv_pass :: "u64 \<Rightarrow> int \<Rightarrow> port_info \<Rightarrow> int \<Rightarrow> int \<Rightarrow> int \<Rightarrow> u64 \<Rightarrow> int \<Rightarrow> cmd_call list" where
  "recv_pass bram fd p port input nq a l =
     concat (map (\<lambda>(k, x). recv_do fd p port input nq (int k) x)
       (enumerate 0 (plan bram (buff_size p) a l (shares (recv_part input nq) input (nat nq)))))"

definition xmit_schedule ::
  "u64 \<Rightarrow> int \<Rightarrow> port_info \<Rightarrow> int \<Rightarrow> u32 \<Rightarrow> int \<Rightarrow> int \<Rightarrow> u64 \<Rightarrow> nat \<Rightarrow> cmd_call list" where
  "xmit_schedule bram fd p port regval input nq a m =
     pass_calls (xmit_pass bram fd p port regval input nq a)
       (next_ld (buff_size p) (shares (xmit_part p input nq) input (nat nq))) m 0"

definition recv_schedule :: "u64 \<Rightarrow> int \<Rightarrow> port_info \<Rightarrow> int \<Rightarrow> int \<Rightarrow> int \<Rightarrow> u64 \<Rightarrow> nat \<Rightarrow> cmd_call list" where
  "recv_schedule bram fd p port input nq a m =
     pass_calls (recv_pass bram fd p port input nq a)
       (next_ld (buff_size p) (shares (recv_part input nq) input (nat nq))) m 0"

lemma xmit_passes:
  assumes "files t = Some (fd # fs)" and "zbyte = (if input = 0 then 1 else 0)"
  shows "io_wp e (pass_loop (\<lambda>l. queue_loop (xmit_queue bram fd p port regval input nq zbyte) 0 (nat nq)
        \<lparr>addr = a, left_size = input, q_size = 0, ld = l\<rparr>) m 0)
     (\<lambda>_ s' t'. s' = s \<and> files t' = Some (fd # fs) \<and>
        did t' = did t @ xmit_schedule bram fd p port regval input nq a m)
     (ends_pass fd fs (buff_size p = 0) (did t) (xmit_schedule bram fd p port regval input nq a m) s) s t"
  using xmit_body.passes [OF assms(1), where p = p and bram = bram and port = port and regval = regval and
      input = input and nq = nq and zbyte = zbyte and n = "nat nq" and m = m and l = 0 and
      start = "\<lambda>l. \<lparr>addr = a, left_size = input, q_size = 0, ld = l\<rparr>" and e = e and s = s]
  by (simp add: assms(2) loop_calls_plan ld_after xmit_schedule_def xmit_pass_def [abs_def])

lemma recv_passes:
  assumes "files t = Some (fd # fs)"
  shows "io_wp e (pass_loop (\<lambda>l. queue_loop (recv_queue bram fd p port input nq) 0 (nat nq)
        \<lparr>addr = a, left_size = input, q_size = 0, ld = l\<rparr>) m 0)
     (\<lambda>_ s' t'. s' = s \<and> files t' = Some (fd # fs) \<and>
        did t' = did t @ recv_schedule bram fd p port input nq a m)
     (ends_pass fd fs (buff_size p = 0) (did t) (recv_schedule bram fd p port input nq a m) s) s t"
  using recv_body.passes [OF assms, where p = p and bram = bram and port = port and
      input = input and nq = nq and n = "nat nq" and m = m and l = 0 and
      start = "\<lambda>l. \<lparr>addr = a, left_size = input, q_size = 0, ld = l\<rparr>" and e = e and s = s]
  by (simp add: loop_calls_plan ld_after recv_schedule_def recv_pass_def [abs_def])
lemma ends_pass_files:
  "ends_pass fd fs z b cs s x s' t' \<Longrightarrow> s' = s \<and> (x = Returned \<longrightarrow> files t' = Some fs) \<and> (x \<noteq> Returned \<longrightarrow> x = DivideByZero \<and> z)"
  by (auto simp: ends_pass_def)

lemma dma_to_device_files:
  assumes "files t = Some fs"
  shows "io_wp e (cmd_obj_dma_to_device_parsed bram a_port a_queues filename a_dst a_size a_loops)
     (\<lambda>_ s' t'. s' = s \<and> files t' = Some fs)
     (\<lambda>x s' t'. s' = s \<and> (if 0 \<le> atoi a_port \<and> atoi a_port < int (length (pinfos s))
        then x = DivideByZero \<and> buff_size (pinfos s ! nat (atoi a_port)) = 0 else x = OutOfBounds)) s t"
  using assms
  by (auto simp: cmd_obj_dma_to_device_parsed_def io_wp_simps Let_def dest!: ends_pass_files
      intro!: io_wp_mono [OF xmit_passes])

lemma dma_from_device_files:
  assumes "files t = Some fs"
  shows "io_wp e (cmd_obj_dma_from_device_parsed bram a_port a_queues filename a_src a_size a_loops)
     (\<lambda>_ s' t'. s' = s \<and> files t' = Some fs)
     (\<lambda>x s' t'. s' = s \<and> (if 0 \<le> atoi a_port \<and> atoi a_port < int (length (pinfos s))
        then x = DivideByZero \<and> buff_size (pinfos s ! nat (atoi a_port)) = 0 else x = OutOfBounds)) s t"
  using assms
  by (auto simp: cmd_obj_dma_from_device_parsed_def io_wp_simps Let_def dest!: ends_pass_files
      intro!: io_wp_mono [OF recv_passes])

text \<open>
  C8: The DMA commands close the file they opened exactly once, never use it after that, and
  leave the table as it is, whatever fails on the way; they come to an end, and what ends the
  process is a port outside of the table or a port with a buffer size of 0.
\<close>

theorem dma_files_closed:
  "list_all (\<lambda>m. case files t of None \<Rightarrow> True | Some fs \<Rightarrow>
     (case m e s t of None \<Rightarrow> False
      | Some (Inr _, s', t') \<Rightarrow> s' = s \<and> files t' = Some fs
      | Some (Inl x, s', t') \<Rightarrow> s' = s \<and> (if 0 \<le> atoi a_port \<and> atoi a_port < int (length (pinfos s))
          then x = DivideByZero \<and> buff_size (pinfos s ! nat (atoi a_port)) = 0 else x = OutOfBounds)))
   [cmd_obj_dma_to_device_parsed bram a_port a_queues filename a_addr a_size a_loops,
    cmd_obj_dma_from_device_parsed bram a_port a_queues filename a_addr a_size a_loops]"
proof (cases "files t")
  case (Some fs)
  let ?E = "\<lambda>x s' (t' :: (cmd_call, cmd_resp) trace). s' = s \<and> (if 0 \<le> atoi a_port \<and> atoi a_port < int (length (pinfos s))
          then x = DivideByZero \<and> buff_size (pinfos s ! nat (atoi a_port)) = 0 else x = OutOfBounds)"
  have "case m e s t of None \<Rightarrow> False | Some (Inr _, s', t') \<Rightarrow> s' = s \<and> files t' = Some fs | Some (Inl x, s', t') \<Rightarrow> ?E x s' t'"
    if total: "io_total m" and wp: "io_wp e m (\<lambda>_ s' t'. s' = s \<and> files t' = Some fs) ?E s t" for m :: "unit cmd_io"
  proof -
    from io_totalD [OF total, of e s t] obtain r s' t' where run: "m e s t = Some (r, s', t')" by (elim exE)
    with wp show ?thesis by (cases r) (simp_all add: io_wp_def)
  qed
  from this [OF total_handlers(1) dma_to_device_files [OF Some]] this [OF total_handlers(2) dma_from_device_files [OF Some]]
  show ?thesis by (simp only: list.pred_inject Some option.case simp_thms)
qed simp

definition accepts :: "tool \<Rightarrow> u64 \<Rightarrow> int \<Rightarrow> int \<Rightarrow> u64 \<Rightarrow> int \<Rightarrow> bool" where
  "accepts s bram port nq a input \<longleftrightarrow> 0 \<le> port \<and> port < num_ports s \<and> port < int (length (pinfos s)) \<and>
     nq \<noteq> 0 \<and> (word_of_int nq :: u32) \<le> num_queues (pinfos s ! nat port) \<and>
     buff_size (pinfos s ! nat port) \<noteq> 0 \<and> a + word_of_int input \<le> bram \<and>
     (if input = 0 then (word_of_int nq :: u32) \<le> st_queues (pinfos s ! nat port) else True)"

text \<open>The calls of a run: all planned when it reports success, else the first of them.\<close>

definition follows ::
  "cmd_call list \<Rightarrow> cmd_call list \<Rightarrow> cmd_call \<Rightarrow> (cmd_call, cmd_resp) trace \<Rightarrow> (cmd_call, cmd_resp) trace \<Rightarrow> bool" where
  "follows before sched close t t' \<longleftrightarrow> (\<exists>q. did t' = did t @ before @ q @ [close] \<and>
     (if fst (last t') = close then prefix q sched else q = sched))"

lemma dma_to_device_follows:
  assumes "accepts s bram (atoi a_port) (atoi a_queues) (strtoull 0 a_dst) (atoi a_size)"
    and "files t = Some fs"
    and "fd = crv (e (Suc (length t)) (OpenFile filename ReadWrite))" and "0 \<le> fd"
    and "p = pinfos s ! nat (atoi a_port)" and "rd = TPciRead (user_bar_idx p) (uint C2H_CONTROL_REG) (atoi a_port)"
    and "regval = word_of_int (crv (e (Suc (Suc (length t))) rd))"
  shows "io_wp e (cmd_obj_dma_to_device_parsed bram a_port a_queues filename a_dst a_size a_loops)
    (\<lambda>_ s' t'. s' = s \<and> follows [OpenFile filename ReadWrite, rd]
       (xmit_schedule bram fd p (atoi a_port) regval (atoi a_size) (atoi a_queues) (strtoull 0 a_dst) (passes (atoi a_loops)))
       (CloseFile fd) t t') (\<lambda>_ _ _. False) s t"
  using assms
  by (cases "atoi a_size = 0")
   (auto simp: accepts_def cmd_obj_dma_to_device_parsed_def io_wp_simps Let_def follows_def ends_pass_def not_le not_less
      intro!: io_wp_mono [OF xmit_passes])
lemma dma_from_device_follows:
  assumes "accepts s bram (atoi a_port) (atoi a_queues) (word_of_int (atoi a_src)) (atoi a_size)"
    and "files t = Some fs"
    and "fd = crv (e (Suc (length t)) (OpenFile filename CreateTruncate))" and "0 \<le> fd"
    and "p = pinfos s ! nat (atoi a_port)"
  shows "io_wp e (cmd_obj_dma_from_device_parsed bram a_port a_queues filename a_src a_size a_loops)
    (\<lambda>_ s' t'. s' = s \<and> follows [OpenFile filename CreateTruncate]
       (recv_schedule bram fd p (atoi a_port) (atoi a_size) (atoi a_queues) (word_of_int (atoi a_src)) (passes (atoi a_loops)))
       (CloseFile fd) t t') (\<lambda>_ _ _. False) s t"
  using assms
  by (cases "atoi a_size = 0")
   (auto simp: accepts_def cmd_obj_dma_from_device_parsed_def io_wp_simps Let_def follows_def ends_pass_def not_le not_less
      intro!: io_wp_mono [OF recv_passes])

lemma total_wp_case:
  assumes "io_total m" and "io_wp e m Q (\<lambda>_ _ _. False) s t"
  shows "case m e s t of Some (Inr a, s', t') \<Rightarrow> Q a s' t' | _ \<Rightarrow> False"
proof -
  from io_total_wp [OF assms] obtain a s' t' where "m e s t = Some (Inr a, s', t')" "Q a s' t'" by blast
  then show ?thesis by simp
qed

text \<open>
  C3: A transfer to the device that is accepted reads the control register and then makes, pass
  after pass and queue after queue, the calls planned from the shares of the queues: the
  address on the card for a memory-mapped queue, the place in the file, the descriptors.  It
  reports success only when it has made all of them; else it made the first of them and
  closed the file.
\<close>

theorem dma_to_device_schedule:
  assumes "accepts s bram (atoi a_port) (atoi a_queues) (strtoull 0 a_dst) (atoi a_size)"
    and "files t = Some fs" and "0 \<le> crv (e (Suc (length t)) (OpenFile filename ReadWrite))"
  shows "case cmd_obj_dma_to_device_parsed bram a_port a_queues filename a_dst a_size a_loops e s t of
      Some (Inr _, s', t') \<Rightarrow>
        (let fd = crv (e (Suc (length t)) (OpenFile filename ReadWrite)); p = pinfos s ! nat (atoi a_port);
             rd = TPciRead (user_bar_idx p) (uint C2H_CONTROL_REG) (atoi a_port);
             regval = word_of_int (crv (e (Suc (Suc (length t))) rd)) in
         s' = s \<and> follows [OpenFile filename ReadWrite, rd]
           (xmit_schedule bram fd p (atoi a_port) regval (atoi a_size) (atoi a_queues) (strtoull 0 a_dst)
             (passes (atoi a_loops))) (CloseFile fd) t t')
    | _ \<Rightarrow> False"
  unfolding Let_def
  by (rule total_wp_case [OF total_handlers(1) dma_to_device_follows]) (use assms in simp_all)

text \<open>
  A transfer from the device that is accepted makes, pass after pass and queue after queue,
  the calls planned from the shares of the queues, with the file moved to its end after each;
  it reports success only when it has made all of them.
\<close>

theorem dma_from_device_schedule:
  assumes "accepts s bram (atoi a_port) (atoi a_queues) (word_of_int (atoi a_src)) (atoi a_size)"
    and "files t = Some fs" and "0 \<le> crv (e (Suc (length t)) (OpenFile filename CreateTruncate))"
  shows "case cmd_obj_dma_from_device_parsed bram a_port a_queues filename a_src a_size a_loops e s t of
      Some (Inr _, s', t') \<Rightarrow>
        (let fd = crv (e (Suc (length t)) (OpenFile filename CreateTruncate)); p = pinfos s ! nat (atoi a_port) in
         s' = s \<and> follows [OpenFile filename CreateTruncate]
           (recv_schedule bram fd p (atoi a_port) (atoi a_size) (atoi a_queues) (word_of_int (atoi a_src))
             (passes (atoi a_loops))) (CloseFile fd) t t')
    | _ \<Rightarrow> False"
  unfolding Let_def
  by (rule total_wp_case [OF total_handlers(2) dma_from_device_follows]) (use assms in simp_all)

definition dma_env :: "(cmd_call, cmd_resp) env" where
  "dma_env n c = \<lparr>crv = 3, ports_after = [], contents = []\<rparr>"

lemma sample_texts: "atoi ''0'' = 0" "atoi ''2'' = 2" "atoi ''5'' = 5" "atoi ''1'' = 1" "atoi ''16'' = 16"
  by code_simp+

lemma sample_addr: "strtoull 0 ''16'' = 16"
proof -
  have "read_sign (skip_space ''16'') = (False, ''16'')" and "read_base 0 ''16'' = 16" by code_simp+
  then show ?thesis by (simp add: strtoull_def)
qed

lemmas one_port_defs = one_port_def sample_info_def PortInfo_ctor_def

lemma sample_schedules:
  "xmit_schedule 4096 3 sample_info 0 3 5 2 16 1 =
     [Lseek 3 0 SeekSet, DoXmit 0 3 0 2 1 0, SetMmAddr 0 1 DirTx 18, Lseek 3 2 SeekSet, DoXmit 0 3 1 3 1 0]"
  "recv_schedule 4096 3 sample_info 0 5 2 16 1 =
     [Lseek 3 0 SeekSet, DoRecvSt 0 3 0 2, Lseek 3 0 SeekEnd,
      SetMmAddr 0 1 DirRx 18, Lseek 3 2 SeekSet, DoRecvMm 0 3 1 3 1, Lseek 3 2 SeekEnd]"
  by code_simp+
lemma sample_accepts: "accepts one_port 4096 (atoi ''0'') (atoi ''2'') 16 (atoi ''5'')"
  by (simp add: accepts_def sample_texts one_port_defs)

lemma sample_values:
  "crv (dma_env n c) = 3" "pinfos one_port ! nat 0 = sample_info" "user_bar_idx sample_info = 2" "passes 1 = 1"
  by (simp_all add: dma_env_def one_port_defs passes_def)

theorem dma_to_device_schedule_witness:
  "case cmd_obj_dma_to_device_parsed 4096 ''0'' ''2'' ''f'' ''16'' ''5'' ''1'' dma_env one_port [] of
     Some (Inr _, s', t') \<Rightarrow> s' = one_port \<and> follows [OpenFile ''f'' ReadWrite, TPciRead 2 (uint C2H_CONTROL_REG) 0]
       (xmit_schedule 4096 3 sample_info 0 (word_of_int 3) 5 2 16 1) (CloseFile 3) [] t'
   | _ \<Rightarrow> False"
proof -
  have "accepts one_port 4096 (atoi ''0'') (atoi ''2'') (strtoull 0 ''16'') (atoi ''5'')"
    using sample_accepts by (simp add: sample_addr sample_texts)
  moreover have "files [] = Some []" by (simp add: files_def)
  moreover have "0 \<le> crv (dma_env (Suc (length ([] :: (cmd_call, cmd_resp) trace))) (OpenFile ''f'' ReadWrite))"
    by (simp add: dma_env_def)
  ultimately show ?thesis
    using dma_to_device_schedule [where s = one_port and bram = 4096 and a_port = "''0''" and a_queues = "''2''" and
        a_dst = "''16''" and a_size = "''5''" and a_loops = "''1''" and t = "[]" and fs = "[]" and e = dma_env and
        filename = "''f''"]
    unfolding Let_def sample_texts sample_addr sample_values by blast
qed

theorem dma_from_device_schedule_witness:
  "case cmd_obj_dma_from_device_parsed 4096 ''0'' ''2'' ''f'' ''16'' ''5'' ''1'' dma_env one_port [] of
     Some (Inr _, s', t') \<Rightarrow> s' = one_port \<and> follows [OpenFile ''f'' CreateTruncate]
       (recv_schedule 4096 3 sample_info 0 5 2 (word_of_int 16) 1) (CloseFile 3) [] t'
   | _ \<Rightarrow> False"
proof -
  have "accepts one_port 4096 (atoi ''0'') (atoi ''2'') (word_of_int (atoi ''16'')) (atoi ''5'')"
    using sample_accepts by (simp add: sample_addr sample_texts)
  moreover have "files [] = Some []" by (simp add: files_def)
  moreover have "0 \<le> crv (dma_env (Suc (length ([] :: (cmd_call, cmd_resp) trace))) (OpenFile ''f'' CreateTruncate))"
    by (simp add: dma_env_def)
  ultimately show ?thesis
    using dma_from_device_schedule [where s = one_port and bram = 4096 and a_port = "''0''" and a_queues = "''2''" and
        a_src = "''16''" and a_size = "''5''" and a_loops = "''1''" and t = "[]" and fs = "[]" and e = dma_env and
        filename = "''f''"]
    unfolding Let_def sample_texts sample_addr sample_values by blast
qed

end
