(* ===== verification/CommandRuns.thy ===== *)
theory CommandRuns
  imports DmaCommands
begin

text \<open>
  Runs of single commands from beginning to end: a negative transfer size, a port closed and
  opened again, and a file of commands.
\<close>

lemma work_more [simp]:
  "work (TPortInit a b c d f)" "work (TPortClose i)" "work (FOpen f')" "work (FClose fp)" "work RdlineReset"
  "work (CmdlineIn txt)"
  by (simp_all add: work_def)

section \<open>Sizes\<close>

lemma len32: "LENGTH(32) = 32"
  by simp

text \<open>
  The check against the memory of the card lets a negative size through, because address and
  size are added modulo 2^64: the one queue asked for then sends \<open>2^32 - k\<close> bytes.
\<close>

theorem negative_size_accepted:
  assumes "accepts s bram port 1 0 1" and "0 < k" and "k \<le> 2 ^ 31" and "a - word_of_int k \<le> bram"
  shows "accepts s bram port 1 a (- k) \<and>
    map uint (shares (xmit_share buff (rest_size (- k) 1) (queue_size (- k) 1)) (- k) 1) = [2 ^ 32 - k]"
proof
  show "accepts s bram port 1 a (- k)" using assms by (simp add: accepts_def)
  have "queue_size (- k) 1 = - k" "rest_size (- k) 1 = 0"
    using assms by (simp_all add: queue_size_def rest_size_def c_div_def c_mod_def sgn_if)
  moreover have "uint (word_of_int (- k) :: u32) = 2 ^ 32 - k"
  proof -
    have "k mod 2 ^ 32 = k" using assms by (intro mod_pos_pos_trivial) simp_all
    then have "(- k) mod 2 ^ 32 = 2 ^ 32 - k" using assms by (subst zmod_zminus1_eq_if) simp
    then show ?thesis by (simp only: uint_word_of_int len32)
  qed
  ultimately show "map uint (shares (xmit_share buff (rest_size (- k) 1) (queue_size (- k) 1)) (- k) 1) = [2 ^ 32 - k]"
    using assms by (simp add: xmit_share_def)
qed

theorem negative_size_accepted_witness:
  "accepts one_port 4096 0 1 16 (- 5) \<and>
   map uint (shares (xmit_share 4096 (rest_size (- 5) 1) (queue_size (- 5) 1)) (- 5) 1) = [4294967291]"
proof -
  have "accepts one_port 4096 0 1 0 1" by (simp add: accepts_def one_port_defs)
  from negative_size_accepted [OF this, of 5 16 4096] show ?thesis by simp
qed

section \<open>Opening and closing a port\<close>

lemma total_ports:
  "io_total (cmd_obj_port_init_parsed a b c d f)" "io_total (cmd_obj_port_close_parsed a)"
  by (rule total_parsed)+

text \<open>
  C34: A port in use cannot be initialised: the command makes no call.  Closing it closes the
  device, clears the number of queues of that port only, and lets the port be initialised
  again, with the numbers that were given.
\<close>

theorem port_cycle:
  assumes "port = atoi a_port" and "0 \<le> port" and "port < num_ports s" and "port < int (length (pinfos s))"
    and "num_queues (pinfos s ! nat port) \<noteq> 0" and "1 \<le> atoi a_queues" and "atoi a_queues \<le> 4096"
    and "ps = ports_after (e (Suc (length t)) (TPortClose port))" and "port < int (length ps)"
  shows "(case cmd_obj_port_init_parsed a_port a_queues a_st a_descs a_buff e s t of
      Some (Inr _, s', t') \<Rightarrow> s' = s \<and> did t' = did t | _ \<Rightarrow> False) \<and>
    (case cmd_obj_port_close_parsed a_port e s t of
      Some (Inr _, s', t') \<Rightarrow> did t' = did t @ [TPortClose port] \<and>
        s' = s\<lparr>pinfos := ps[nat port := (ps ! nat port)\<lparr>num_queues := 0\<rparr>]\<rparr> \<and>
        (case cmd_obj_port_init_parsed a_port a_queues a_st a_descs a_buff e s' t' of
          Some (Inr _, _, t'') \<Rightarrow> did t'' = did t' @
            [TPortInit port (atoi a_queues) (atoi a_st) (atoi a_descs) (atoi a_buff)]
        | _ \<Rightarrow> False)
    | _ \<Rightarrow> False)" (is "?refused \<and> ?closed")
proof
  show ?refused
    by (rule total_wp_case [OF total_parsed(1)])
       (use assms in \<open>simp add: cmd_obj_port_init_parsed_def io_wp_simps Let_def\<close>)
  have init: "case cmd_obj_port_init_parsed a_port a_queues a_st a_descs a_buff e s' t' of
      Some (Inr _, _, t'') \<Rightarrow> did t'' = did t' @
        [TPortInit port (atoi a_queues) (atoi a_st) (atoi a_descs) (atoi a_buff)] | _ \<Rightarrow> False"
    if "s' = s\<lparr>pinfos := ps[nat port := (ps ! nat port)\<lparr>num_queues := 0\<rparr>]\<rparr>" for s' t'
    by (rule total_wp_case [OF total_parsed(1)])
       (use assms that in \<open>simp add: cmd_obj_port_init_parsed_def io_wp_simps Let_def MAX_NUM_QUEUES_def\<close>)
  show ?closed
    by (rule total_wp_case [OF total_parsed(2)])
       (use assms init in \<open>simp add: cmd_obj_port_close_parsed_def io_wp_simps Let_def\<close>)
qed

section \<open>Commands from a file\<close>

text \<open>The pieces a file is fed in.\<close>

function pieces :: "string \<Rightarrow> string list" where
  "pieces [] = []"
| "pieces (c # cs) = (let (buff, rest) = fgets_take 255 (c # cs) in buff # pieces rest)"
  by pat_completeness auto
termination
proof (relation "measure length")
  fix c cs x buff rest
  assume "x = fgets_take 255 (c # cs)" and "(buff, rest) = x"
  then have "fgets_take (Suc 254) (c # cs) = (buff, rest)" by simp
  from fgets_take_progress [OF this] show "(rest, c # cs) \<in> measure length" by simp
qed simp

lemma concat_pieces: "concat (pieces s) = s"
  by (induction s rule: pieces.induct) (auto split: prod.splits dest: fgets_take_append)

lemma piece_shape: "list_all (\<lambda>b. length b \<le> 255 \<and> CHR 0x0A \<notin> set (butlast b)) (pieces s)"
proof (induction s rule: pieces.induct)
  case (2 c cs)
  obtain b r where f: "fgets_take 255 (c # cs) = (b, r)" by (cases "fgets_take 255 (c # cs)")
  with "2.IH" [OF refl, of b r] fgets_take_length [OF f] fgets_take_newline [OF f] show ?case
    by (simp add: Let_def) blast
qed simp

lemma wp_feed:
  "io_wp e (feed s) (\<lambda>_ u' t'. u' = u \<and> did t' = did t @ map (\<lambda>b. CmdlineIn (strlen_prefix b)) (pieces s))
     (\<lambda>_ _ _. False) u t"
proof (induction s arbitrary: t rule: feed.induct)
  case (2 c cs)
  obtain b r where f: "fgets_take 255 (c # cs) = (b, r)" by (cases "fgets_take 255 (c # cs)")
  from "2.IH" [OF refl, of b r] f show ?case
    by (simp add: f Let_def io_wp_simps) (rule io_wp_mono, assumption, simp_all)
qed (simp add: io_wp_simps)


definition file_env :: "(cmd_call, cmd_resp) env" where
  "file_env n c = \<lparr>crv = 1, ports_after = [sample_info], contents = ''help\<newline>qstats 0 1\<newline>''\<rparr>"


theorem port_cycle_witness:
  "case cmd_obj_port_close_parsed ''0'' file_env one_port [] of
      Some (Inr _, s', t') \<Rightarrow> did t' = [TPortClose 0] \<and>
        s' = \<lparr>pinfos = [sample_info\<lparr>num_queues := 0\<rparr>], num_ports = 1\<rparr> \<and>
        (case cmd_obj_port_init_parsed ''0'' ''2'' ''1'' ''5'' ''5'' file_env s' t' of
          Some (Inr _, _, t'') \<Rightarrow> did t'' = did t' @ [TPortInit 0 2 1 5 5]
        | _ \<Rightarrow> False)
    | _ \<Rightarrow> False"
proof -
  let ?t = "[] :: (cmd_call, cmd_resp) trace"
  have "case cmd_obj_port_close_parsed ''0'' file_env one_port ?t of
      Some (Inr _, s', t') \<Rightarrow> did t' = did ?t @ [TPortClose 0] \<and>
        s' = one_port\<lparr>pinfos := [sample_info][nat 0 := ([sample_info] ! nat 0)\<lparr>num_queues := 0\<rparr>]\<rparr> \<and>
        (case cmd_obj_port_init_parsed ''0'' ''2'' ''1'' ''5'' ''5'' file_env s' t' of
          Some (Inr _, _, t'') \<Rightarrow> did t'' = did t' @
            [TPortInit 0 (atoi ''2'') (atoi ''1'') (atoi ''5'') (atoi ''5'')]
        | _ \<Rightarrow> False)
    | _ \<Rightarrow> False"
    by (rule port_cycle [THEN conjunct2]) (simp_all add: sample_texts one_port_defs file_env_def)
  moreover have did0: "did ?t @ [TPortClose 0] = [TPortClose 0]" by simp
  moreover have closed: "one_port\<lparr>pinfos := [sample_info][nat 0 := ([sample_info] ! nat 0)\<lparr>num_queues := 0\<rparr>]\<rparr> =
      \<lparr>pinfos = [sample_info\<lparr>num_queues := 0\<rparr>], num_ports = 1\<rparr>" by (simp add: one_port_def)
  ultimately show ?thesis unfolding sample_texts did0 closed by blast
qed

end
