(* ===== verification/MainProgram.thy ===== *)
theory MainProgram
  imports Stats
begin

text \<open>
  The main program: \<open>server/src/main.cpp\<close>, with \<open>ForwardingContext::print_schema\<close> of
  \<open>server/src/forward_context.h\<close>.  It builds the two cards, the four forwarding contexts and
  the ring for the statistics, starts the threads of one context, shows the counters of the
  cards until the process is interrupted, and then stops the threads and waits for them.

  The state holds the local variables of \<open>main\<close> and the array of contexts.  A context holds
  its cards; the code has pointers, but a card does not change after its constructor.  The
  stop flags, which other threads read, are written by a call.  The calls of a card are those
  of its component, marked as such.
\<close>

section \<open>State and calls\<close>

record program =
  contexts :: "forwarding_context list"
  onic0 :: onic
  onic1 :: onic
  ring_ids :: int
  oldStats_0 :: cmac_stats
  oldStats_1 :: cmac_stats

datatype worker = RxThread | TxThread

datatype main_call =
    SignalInt
  | SigKill
  | Say string
  | EalInit
  | LogSetLevel
  | DevCountAvail
  | MemzoneReserve
  | SocketId
  | StatsRingCreate string nat int "ring_flag list"
  | StopFlagWrite nat int
  | NextLcore u32 int int
  | RemoteLaunch worker nat u32
  | SleepSeconds nat
  | LcoreCount
  | LcoreIsEnabled u32
  | WaitLcore u32
  | Delay nat
  | OnCard dpdk_call

record main_resp =
  ans :: int
  dresp :: resp

text \<open>How the process ends early: \<open>rte_exit\<close> here or in a card, or an index outside of an array.\<close>

datatype main_exit = EalInitError | NoEthDevices | NoStatsRing | BadArrayIndex | CardExit exit_reason

type_synonym 'a main_io = "(main_call, main_resp, program, main_exit, 'a) io"

definition NB_FORWARDS :: nat where "NB_FORWARDS = 4"
definition STATS_RING_SIZE :: nat where "STATS_RING_SIZE = 8192"

text \<open>A member function of one of the two cards.\<close>

definition on_card :: "(program \<Rightarrow> onic) \<Rightarrow> (onic \<Rightarrow> program \<Rightarrow> program) \<Rightarrow> 'a onic_io \<Rightarrow> 'a main_io" where
  "on_card sel upd m =
     io_bind (io_get sel) (\<lambda>u.
     io_bind (io_embed OnCard dresp CardExit u m) (\<lambda>(a, u').
     io_then (io_modify (upd u')) (io_ret a)))"

definition on_onic0 :: "'a onic_io \<Rightarrow> 'a main_io" where
  "on_onic0 = on_card onic0 (\<lambda>u s. s\<lparr>onic0 := u\<rparr>)"

definition on_onic1 :: "'a onic_io \<Rightarrow> 'a main_io" where
  "on_onic1 = on_card onic1 (\<lambda>u s. s\<lparr>onic1 := u\<rparr>)"

section \<open>Setting up\<close>

definition start_up :: "unit main_io" where
  "start_up =
     io_then (io_do SignalInt)
    (io_then (io_do (Say ''Onic rte eal init...\<newline>''))
    (io_bind (io_call EalInit) (\<lambda>r.
     if ans r < 0 then io_exit EalInitError
     else
       io_then (io_do LogSetLevel)
      (io_bind (io_call DevCountAvail) (\<lambda>n.
       if ans n < 1 then io_exit NoEthDevices
       else io_do MemzoneReserve)))))"

text \<open>One of the two entries of \<open>pinfos\<close>; the socket is the default argument.\<close>

definition main_pinfo :: "u32 \<Rightarrow> string \<Rightarrow> port_info main_io" where
  "main_pinfo base_q junk = io_bind (io_call SocketId) (\<lambda>r.
     io_ret (PortInfo_ctor base_q 2 1024 2 4096 0 2 (- 1) (word_of_int (ans r)) junk))"

text \<open>The two cards, with the constructor's default arguments.\<close>

definition make_cards :: "dpdk_cfg \<Rightarrow> string list \<Rightarrow> unit main_io" where
  "make_cards cfg junk =
     io_bind (main_pinfo 0 (junk ! 0)) (\<lambda>p0.
     io_bind (main_pinfo 1 (junk ! 1)) (\<lambda>p1.
     let pinfos = [p0, p1]; onic0_port_ids = [0, 1]; onic1_port_ids = [2, 3];
         nb_ports = int (length onic0_port_ids) in
     io_bind (io_get ring_ids) (\<lambda>n.
     io_bind (on_onic0 (Onic_ctor cfg n pinfos onic0_port_ids nb_ports (- 1) (- 1) 0)) (\<lambda>n.
     io_bind (on_onic1 (Onic_ctor cfg n pinfos onic1_port_ids nb_ports (- 1) (- 1) 0)) (\<lambda>n.
     io_modify (\<lambda>s. s\<lparr>ring_ids := n\<rparr>))))))"

definition forwarder :: "int \<Rightarrow> onic \<Rightarrow> int \<Rightarrow> int \<Rightarrow> int \<Rightarrow> forwarding_context" where
  "forwarder i onic rx tx ring =
     \<lparr>ctx_id = i, rx_onic = onic, tx_onic = onic, rx_port = rx, tx_port = tx,
      rx_Qs = [0, - 1, - 1], tx_Qs = [0, - 1, - 1], nb_rx_Qs = 1, nb_tx_Qs = 1, stats_ring = ring\<rparr>"

definition set_context :: "nat \<Rightarrow> (program \<Rightarrow> forwarding_context) \<Rightarrow> unit main_io" where
  "set_context i ctx =
     io_then (io_modify (\<lambda>s. s\<lparr>contexts := (contexts s)[i := ctx s]\<rparr>))
             (io_do (StopFlagWrite i 0))"

definition make_contexts :: "unit main_io" where
  "make_contexts =
     io_bind (io_call SocketId) (\<lambda>socket.
     io_bind (io_call (StatsRingCreate ''mbuf_ring'' STATS_RING_SIZE (ans socket) [RING_F_SC_DEQ])) (\<lambda>r.
     let ring = ans r in
     if ring = 0 then io_exit NoStatsRing
     else
       io_then (set_context 0 (\<lambda>s. forwarder 0 (onic0 s) 0 1 ring))
      (io_then (set_context 1 (\<lambda>s. forwarder 1 (onic0 s) 1 0 ring))
      (io_then (set_context 2 (\<lambda>s. forwarder 2 (onic1 s) 0 1 ring))
       (set_context 3 (\<lambda>s. forwarder 3 (onic1 s) 1 0 ring))))))"

definition main_setup :: "dpdk_cfg \<Rightarrow> string list \<Rightarrow> unit main_io" where
  "main_setup cfg junk = io_then start_up (io_then (make_cards cfg junk) make_contexts)"

section \<open>Starting the threads\<close>

definition schema_text :: "forwarding_context \<Rightarrow> u32 list \<Rightarrow> u32 list \<Rightarrow> string" where
  "schema_text ctx rx_bdf tx_bdf =
     ''CTX('' @ dec_int (ctx_id ctx) @ ''): '' @ ''\<newline>'' @
     CHR 0x09 # '' Forwarding '' @ array_text rx_bdf @ '' --------> '' @ array_text tx_bdf @ ''\<newline>'' @
     CHR 0x09 # '' rx_port '' @ dec_int (rx_port ctx) @ CHR 0x09 # '' --------> '' @ ''tx_port '' @
     dec_int (tx_port ctx) @ ''\<newline>''"

definition onic_bdf :: "onic \<Rightarrow> int \<Rightarrow> u32 list main_io" where
  "onic_bdf onic i =
     (if 0 \<le> i \<and> i < int (length (ports onic)) then io_ret (bdf (ports onic ! nat i)) else io_exit BadArrayIndex)"

definition print_schema :: "forwarding_context \<Rightarrow> unit main_io" where
  "print_schema ctx =
     io_bind (onic_bdf (rx_onic ctx) (rx_port ctx)) (\<lambda>rx_bdf.
     io_bind (onic_bdf (tx_onic ctx) (tx_port ctx)) (\<lambda>tx_bdf.
     io_do (Say (schema_text ctx rx_bdf tx_bdf))))"

definition next_lcore :: "u32 \<Rightarrow> u32 main_io" where
  "next_lcore prev = io_bind (io_call (NextLcore prev 1 0)) (\<lambda>r. io_ret (word_of_int (ans r)))"

definition launch_software_forwarder :: "u32 \<Rightarrow> nat \<Rightarrow> u32 main_io" where
  "launch_software_forwarder prev i =
     io_bind (io_get (\<lambda>s. contexts s ! i)) (\<lambda>ctx.
     io_then (print_schema ctx)
    (io_bind (next_lcore prev) (\<lambda>lcore.
     io_then (io_do (RemoteLaunch RxThread i lcore))
    (io_bind (next_lcore lcore) (\<lambda>lcore.
     io_then (io_do (RemoteLaunch TxThread i lcore))
     (io_ret lcore))))))"

section \<open>The loop over the counters\<close>

definition counters_changed :: "cmac_stats \<Rightarrow> cmac_stats \<Rightarrow> program \<Rightarrow> bool" where
  "counters_changed stats0 stats1 s \<longleftrightarrow>
     (rx_total_pkts stats0 \<noteq> rx_total_pkts (oldStats_0 s) \<or> rx_total_pkts stats1 \<noteq> rx_total_pkts (oldStats_1 s)) \<and>
     (rx_total_pkts stats0 \<noteq> 0 \<or> rx_total_pkts stats1 \<noteq> 0)"

definition show_counters :: "cmac_stats \<Rightarrow> cmac_stats \<Rightarrow> unit main_io" where
  "show_counters stats0 stats1 =
     io_then (io_modify (\<lambda>s. s\<lparr>oldStats_0 := stats0, oldStats_1 := stats1\<rparr>))
    (io_bind (on_onic0 (print_packet_adaptor_stats 0)) (\<lambda>text.
     io_then (io_do (Say text))
    (io_then (io_do (Say (print_stats False stats0)))
    (io_bind (on_onic1 (print_packet_adaptor_stats 1)) (\<lambda>text.
     io_then (io_do (Say text))
    (io_then (io_do (Say (print_stats False stats1)))
     (io_do (Say (replicate 58 CHR ''*'' @ '' '')))))))))"

definition main_work :: "bool main_io" where
  "main_work =
     io_bind (on_onic0 (get_cmac_stats 0 False)) (\<lambda>stats0.
     io_bind (on_onic1 (get_cmac_stats 1 False)) (\<lambda>stats1.
     io_bind (io_get (counters_changed stats0 stats1)) (\<lambda>changed.
     io_then (io_when changed (show_counters stats0 stats1))
    (io_then (io_do (SleepSeconds 1))
     (io_ret True)))))"

definition sigkill_set :: "main_resp \<Rightarrow> bool" where
  "sigkill_set r \<longleftrightarrow> ans r \<noteq> 0"

section \<open>Stopping\<close>

definition wait_lcore :: "u32 \<Rightarrow> unit main_io" where
  "wait_lcore lcore =
     io_bind (io_call (LcoreIsEnabled lcore)) (\<lambda>r.
     io_when (ans r \<noteq> 0)
      (io_then (io_do (Say (''Waiting for Lcore '' @ dec (unat lcore) @ '' to finish...\<newline>'')))
       (io_do (WaitLcore lcore))))"

definition main_cleanup :: "unit main_io" where
  "main_cleanup =
     io_then (io_for [0..<NB_FORWARDS] (\<lambda>i. io_do (StopFlagWrite i 1)))
    (io_bind (io_call LcoreCount) (\<lambda>n.
     io_then (io_for (map word_of_nat [1..<unat (word_of_int (ans n) :: u32)]) wait_lcore)
     (io_do (Delay 1000))))"

text \<open>The whole of \<open>main\<close>; the cards are destroyed when it returns, the last one first.\<close>

definition main_program :: "dpdk_cfg \<Rightarrow> string list \<Rightarrow> int main_io" where
  "main_program cfg junk =
     io_then (main_setup cfg junk)
    (io_bind (next_lcore (- 1)) (\<lambda>lcore.
     io_bind (launch_software_forwarder lcore 3) (\<lambda>lcore.
     io_then (io_modify (\<lambda>s. s\<lparr>oldStats_0 := cmac_stats_zero, oldStats_1 := cmac_stats_zero\<rparr>))
    (io_then (while_running SigKill sigkill_set main_work)
    (io_then main_cleanup
    (io_then (on_onic1 (Onic_dtor cfg))
    (io_then (on_onic0 (Onic_dtor cfg))
     (io_ret 0))))))))"

section \<open>The Kafka test\<close>

text \<open>
  \<open>produce_kafka\<close>, which \<open>main\<close> does not call: one message of the first \<open>payload_len\<close>
  bytes at \<open>payload\<close>, with a key, through a producer made for it and destroyed after it.  A
  failing \<open>rd_kafka_produce\<close> is only reported.  The calls it shares with the statistics
  producer are those of that component.
\<close>

datatype kafka_call =
    Lib stats_call
  | SendKeyed int string "string option" nat

type_synonym 'a kafka_io = "(kafka_call, stats_resp, unit, stats_exit, 'a) io"

definition kafka_check :: "bool \<Rightarrow> 'a kafka_io \<Rightarrow> 'a kafka_io" where
  "kafka_check b m = (if b then m else io_exit ExitFailure)"

definition produce_kafka :: "string \<Rightarrow> string \<Rightarrow> nat \<Rightarrow> string option \<Rightarrow> nat \<Rightarrow> unit kafka_io" where
  "produce_kafka topic_name msg payload_len key key_len =
     io_bind (io_call (Lib ConfNew)) (\<lambda>conf.
     io_bind (io_call (Lib (GetHostname 128))) (\<lambda>h. kafka_check (ret_val h = 0)
    (io_bind (io_call (Lib (ConfSet (ret_val conf) ''client.id'' (host h)))) (\<lambda>r. kafka_check (ret_val r = 0)
    (io_bind (io_call (Lib (ConfSet (ret_val conf) ''bootstrap.servers'' ''localhost:9092''))) (\<lambda>r. kafka_check (ret_val r = 0)
    (io_bind (io_call (Lib TopicConfNew)) (\<lambda>topic_conf.
     io_bind (io_call (Lib (TopicConfSet (ret_val topic_conf) ''acks'' ''all''))) (\<lambda>r. kafka_check (ret_val r = 0)
    (io_bind (io_call (Lib (KafkaNew (ret_val conf)))) (\<lambda>k. kafka_check (ret_val k \<noteq> 0)
    (io_bind (io_call (Lib (TopicNew (ret_val k) topic_name (ret_val topic_conf)))) (\<lambda>kt. kafka_check (ret_val kt \<noteq> 0)
    (io_then (io_do (SendKeyed (ret_val kt) (take payload_len msg) key key_len))
    (io_then (io_do (Lib (KafkaFlush (ret_val k) (10 * 1000))))
    (io_then (io_do (Lib (TopicDestroy (ret_val kt))))
     (io_do (Lib (KafkaDestroy (ret_val k))))))))))))))))))))"

text \<open>
  A call of produce_kafka that returns has sent one keyed message, of the first payload_len
  bytes, and then flushed and destroyed the topic and the producer it made for it; a call that
  ends the process has sent nothing.
\<close>

theorem produce_kafka_outcome:
  "case produce_kafka topic_name msg n key m e () [] of
     None \<Rightarrow> False
   | Some (Inl x, _, t) \<Rightarrow> x = ExitFailure \<and> set (calls t) \<subseteq> range Lib
   | Some (Inr _, _, t) \<Rightarrow> (\<exists>before k kt. k \<noteq> 0 \<and> kt \<noteq> 0 \<and> calls t = before @
       [SendKeyed kt (take n msg) key m, Lib (KafkaFlush k 10000), Lib (TopicDestroy kt), Lib (KafkaDestroy k)])"
  by (auto simp: produce_kafka_def kafka_check_def io_simps split: if_splits)

end
