(* ===== verification/MainSafety.thy ===== *)
theory MainSafety
  imports MainProgram "HOL-Library.Sublist"
begin

text \<open>
  What the main program owes the threads: contexts they can work with, and an end in which
  they are stopped and waited for before their cards go.
\<close>

section \<open>The cards keep their ports\<close>

abbreviation port_count :: "onic \<Rightarrow> nat" where
  "port_count s \<equiv> length (ports s)"

lemma keeps_regs [keeps_rules]: "io_keeps f (read_reg off)" "io_keeps f (write_reg off v)"
  by (simp_all add: io_keeps_def io_wp_simps Let_def)

lemma keeps_poll [keeps_rules]:
  "io_keeps f rd \<Longrightarrow> io_keeps f body \<Longrightarrow> io_keeps f (poll_until rd m body)"
  by (auto simp: poll_until_def poll_body_def intro!: keeps_rules)

lemma keeps_init_hardware [keeps_rules]: "io_keeps f init_hardware"
proof -
  have "io_keeps f (init_cmacs i n)" for i n
    by (induction i n rule: init_cmacs.induct)
       (auto simp: enable_cmac_def shell_wait_def write_regs_def Let_def split: prod.splits intro!: keeps_rules)
  then show ?thesis by (auto simp: init_hardware_def write_regs_def Let_def split: prod.splits intro!: keeps_rules)
qed

lemma keeps_on_port [keeps_rules]: "io_keeps port_count (on_port i m)"
  by (auto simp: on_port_def intro!: keeps_rules)

lemma keeps_Onic_ctor: "io_keeps port_count (Onic_ctor cfg n pinfos ids nb c a f)"
  by (auto simp: Onic_ctor_def intro!: keeps_rules)

section \<open>Contexts the threads can work with\<close>

definition wf_context :: "forwarding_context \<Rightarrow> bool" where
  "wf_context ctx \<longleftrightarrow> 0 \<le> rx_port ctx \<and> rx_port ctx < int (port_count (rx_onic ctx)) \<and>
     0 \<le> tx_port ctx \<and> tx_port ctx < int (port_count (tx_onic ctx)) \<and>
     0 < nb_rx_Qs ctx \<and> nb_rx_Qs ctx \<le> int (length (rx_Qs ctx)) \<and>
     0 < nb_tx_Qs ctx \<and> nb_tx_Qs ctx \<le> int (length (tx_Qs ctx))"

lemma wp_array_at:
  "io_wp e (array_at xs i) Q E s t =
   (if 0 \<le> i \<and> i < int (length xs) then Q (xs ! nat i) s t else E BadIndex s t)"
  by (simp add: array_at_def io_wp_simps)

lemma next_queue_index:
  assumes "0 < n" and "n \<le> int m"
  shows "uint (word_of_int (c_mod (uint (cq :: u16)) n) :: u16) < int m"
proof -
  let ?q = "c_mod (uint cq) n"
  have "0 \<le> ?q" and "?q < n" using assms(1) by (simp_all add: c_mod_nonneg)
  moreover have "uint (word_of_int ?q :: u16) \<le> ?q"
    using \<open>0 \<le> ?q\<close> by (simp add: uint_word_of_int zmod_le_nonneg_dividend)
  ultimately show ?thesis using assms(2) by linarith
qed

lemma safe_loop:
  assumes "\<And>s t. io_wp e work (\<lambda>_ _ _. True) (\<lambda>_ _ _. False) s t"
  shows "io_wp e (while_running flag stop work) (\<lambda>_ _ _. True) (\<lambda>_ _ _. False) s t"
  unfolding while_running_def
  by (rule io_wp_loop [where I = "\<lambda>_ _. True"]) (auto simp: loop_round_wp Let_def intro: assms)
lemma safe_frees: "io_wp e (io_for ms (\<lambda>m. io_do (PktFree m))) (\<lambda>_ _ _. True) (\<lambda>_ _ _. False) s t"
  by (rule io_wp_for [where I = "\<lambda>_ _. True"]) (simp_all add: io_wp_simps)

lemma safe_final_packets:
  "io_wp e (io_for ms (final_packet ctx)) (\<lambda>_ _ _. True) (\<lambda>_ _ _. False) s t"
  by (rule io_wp_for [where I = "\<lambda>_ _. True"])
     (simp_all add: final_packet_def is_vlan_packet_def io_wp_simps)

lemma safe_frees_mono:
  "(\<And>s t. Q () s t) \<Longrightarrow> io_wp e (io_for ms (\<lambda>m. io_do (PktFree m))) Q (\<lambda>_ _ _. False) s t"
  by (rule io_wp_mono [OF safe_frees]) simp_all

lemma safe_rx_work:
  "wf_context ctx \<Longrightarrow> io_wp e (rx_work ctx p) (\<lambda>_ _ _. True) (\<lambda>_ _ _. False) s t"
  by (auto simp: wf_context_def rx_work_def io_wp_simps Let_def
      next_queue_index intro!: safe_frees_mono)

lemma safe_final_work:
  "wf_context ctx \<Longrightarrow> io_wp e (final_work ctx p) (\<lambda>_ _ _. True) (\<lambda>_ _ _. False) s t"
  by (auto simp: wf_context_def final_work_def io_wp_simps Let_def wp_array_at
      next_queue_index intro!: io_wp_mono [OF safe_final_packets])

lemma safe_tx_work:
  "wf_context ctx \<Longrightarrow> io_wp e (tx_work ctx p) (\<lambda>_ _ _. True) (\<lambda>_ _ _. False) s t"
  by (auto simp: wf_context_def tx_work_def io_wp_simps Let_def wp_array_at
      next_queue_index intro!: safe_frees_mono)

lemma wp_dpdk_port:
  "io_wp e (dpdk_port onic i) Q E s t =
   (if 0 \<le> i \<and> i < int (port_count onic) then Q (word_of_int (port_id (ports onic ! nat i))) s t else E BadIndex s t)"
  by (simp add: dpdk_port_def io_wp_simps wp_array_at)

lemma threads_safe:
  assumes "wf_context ctx"
  shows "io_wp e (fpga_rx_thread ctx) (\<lambda>_ _ _. True) (\<lambda>_ _ _. False) s t"
    and "io_wp e (fpga_rx_final_thread ctx) (\<lambda>_ _ _. True) (\<lambda>_ _ _. False) s t"
    and "io_wp e (fpga_tx_thread ctx) (\<lambda>_ _ _. True) (\<lambda>_ _ _. False) s t"
proof -
  note wf = assms [unfolded wf_context_def]
  show "io_wp e (fpga_rx_thread ctx) (\<lambda>_ _ _. True) (\<lambda>_ _ _. False) s t"
    using wf by (auto simp: fpga_rx_thread_def io_wp_simps wp_dpdk_port intro!: io_wp_mono [OF safe_loop [OF safe_rx_work [OF assms]]])
  show "io_wp e (fpga_rx_final_thread ctx) (\<lambda>_ _ _. True) (\<lambda>_ _ _. False) s t"
    using wf by (auto simp: fpga_rx_final_thread_def io_wp_simps wp_dpdk_port intro!: io_wp_mono [OF safe_loop [OF safe_final_work [OF assms]]])
  show "io_wp e (fpga_tx_thread ctx) (\<lambda>_ _ _. True) (\<lambda>_ _ _. False) s t"
    using wf by (auto simp: fpga_tx_thread_def io_wp_simps wp_dpdk_port intro!: io_wp_mono [OF safe_loop [OF safe_tx_work [OF assms]]])
qed

section \<open>What main sets up\<close>

text \<open>The two cards have the ports of the default constructor.\<close>

definition fresh_cards :: "program \<Rightarrow> bool" where
  "fresh_cards s \<longleftrightarrow> port_count (onic0 s) = NB_PORTS \<and> port_count (onic1 s) = NB_PORTS \<and>
     length (contexts s) = NB_FORWARDS"

lemma wp_on_card:
  assumes "io_keeps port_count m"
    and "\<And>a u' d. port_count u' = port_count (sel s) \<Longrightarrow> Q a (upd u' s) (t @ d)"
    and "\<And>x d. E (CardExit x) s (t @ d)"
  shows "io_wp e (on_card sel upd m) Q E s t"
  unfolding on_card_def
  by (simp add: io_wp_simps)
     (rule embed_wp [where A = "\<lambda>_ u'. port_count u' = port_count (sel s)" and X = "\<lambda>x. \<exists>y. x = CardExit y"],
      rule io_wp_mono [OF io_keepsD [OF assms(1) refl]], auto simp: io_wp_simps assms)
lemma wp_onic0:
  assumes "io_keeps port_count m"
    and "\<And>a u' d. port_count u' = port_count (onic0 s) \<Longrightarrow> Q a (s\<lparr>onic0 := u'\<rparr>) (t @ d)"
    and "\<And>x d. E (CardExit x) s (t @ d)"
  shows "io_wp e (on_onic0 m) Q E s t"
  unfolding on_onic0_def by (rule wp_on_card) (use assms in auto)

lemma wp_onic1:
  assumes "io_keeps port_count m"
    and "\<And>a u' d. port_count u' = port_count (onic1 s) \<Longrightarrow> Q a (s\<lparr>onic1 := u'\<rparr>) (t @ d)"
    and "\<And>x d. E (CardExit x) s (t @ d)"
  shows "io_wp e (on_onic1 m) Q E s t"
  unfolding on_onic1_def by (rule wp_on_card) (use assms in auto)

lemma make_cards_wp:
  assumes "fresh_cards s"
  shows "io_wp e (make_cards cfg junk) (\<lambda>_ s' _. fresh_cards s') (\<lambda>x _ _. x \<noteq> BadArrayIndex) s t"
  using assms
  by (auto simp: make_cards_def main_pinfo_def io_wp_simps Let_def fresh_cards_def
      intro!: wp_onic0 wp_onic1 keeps_Onic_ctor)

lemma make_contexts_wp:
  assumes "fresh_cards s"
  shows "io_wp e make_contexts (\<lambda>_ s' _. fresh_cards s' \<and> list_all wf_context (contexts s'))
    (\<lambda>x _ _. x \<noteq> BadArrayIndex) s t"
proof -
  obtain c0 c1 c2 c3 where c: "contexts s = [c0, c1, c2, c3]"
    using assms by (auto simp: fresh_cards_def NB_FORWARDS_def numeral_eq_Suc length_Suc_conv)
  show ?thesis
    using assms
    by (simp add: make_contexts_def set_context_def forwarder_def fresh_cards_def io_wp_simps Let_def c
        NB_PORTS_def NB_FORWARDS_def wf_context_def)
qed

lemma main_setup_wp:
  assumes "fresh_cards s"
  shows "io_wp e (main_setup cfg junk) (\<lambda>_ s' _. fresh_cards s' \<and> list_all wf_context (contexts s'))
    (\<lambda>x _ _. x \<noteq> BadArrayIndex) s t"
  using assms
  by (auto simp: main_setup_def start_up_def io_wp_simps
      intro!: io_wp_mono [OF make_cards_wp] io_wp_mono [OF make_contexts_wp])

lemma while_running_keeps [keeps_rules]: "io_keeps f work \<Longrightarrow> io_keeps f (while_running flag stop work)"
  by (auto simp: while_running_def loop_round_def intro!: keeps_rules)

definition no_bad_index :: "'a main_io \<Rightarrow> bool" where
  "no_bad_index m \<longleftrightarrow> (\<forall>e s t. io_wp e m (\<lambda>_ _ _. True) (\<lambda>x _ _. x \<noteq> BadArrayIndex) s t)"

lemma no_bad_indexD: "no_bad_index m \<Longrightarrow> io_wp e m (\<lambda>_ _ _. True) (\<lambda>x _ _. x \<noteq> BadArrayIndex) s t"
  by (simp add: no_bad_index_def)

lemma nbi_card: "no_bad_index (on_onic0 m)" "no_bad_index (on_onic1 m)"
  by (auto simp: no_bad_index_def on_onic0_def on_onic1_def on_card_def io_wp_def io_embed_def io_simps
      map_sum_def split: option.splits sum.splits)

lemma nbi_bind:
  assumes "no_bad_index m" and "\<And>a. no_bad_index (k a)"
  shows "no_bad_index (io_bind m k)"
  unfolding no_bad_index_def io_wp_bind
  by (intro allI io_wp_mono [OF no_bad_indexD [OF assms(1)]] no_bad_indexD [OF assms(2)])

lemma nbi_then: "no_bad_index m \<Longrightarrow> no_bad_index k \<Longrightarrow> no_bad_index (io_then m k)"
  by (simp add: io_then_def nbi_bind)

lemma nbi_basic:
  "no_bad_index (io_ret a)" "no_bad_index (io_call c)" "no_bad_index (io_do c)" "no_bad_index (io_get f)"
  "no_bad_index (io_modify g)"
  by (simp_all add: no_bad_index_def io_wp_simps)

lemma nbi_when: "no_bad_index m \<Longrightarrow> no_bad_index (io_when b m)"
  by (simp add: io_when_def nbi_basic)

lemma nbi_for: "(\<And>x. no_bad_index (f x)) \<Longrightarrow> no_bad_index (io_for xs f)"
  by (induction xs) (auto intro: nbi_basic nbi_then)

lemma nbi_loop:
  assumes "no_bad_index work"
  shows "no_bad_index (while_running flag stop work)"
proof -
  have "io_wp e (loop_round flag stop work) (\<lambda>_ _ _. True) (\<lambda>x _ _. x \<noteq> BadArrayIndex) s t" for e s t
    using no_bad_indexD [OF assms] by (simp add: loop_round_wp Let_def)
  then show ?thesis
    unfolding no_bad_index_def while_running_def
    by (intro allI io_wp_loop [where I = "\<lambda>_ _. True"]) simp_all
qed

lemmas nbi_rules = nbi_card nbi_bind nbi_then nbi_basic nbi_when nbi_for nbi_loop

lemma nbi_parts: "no_bad_index main_work" "no_bad_index main_cleanup" "no_bad_index (next_lcore l)"
  by (auto simp: main_work_def show_counters_def main_cleanup_def wait_lcore_def next_lcore_def intro!: nbi_rules)

lemma launch_wp:
  assumes "i < length (contexts s)" and "wf_context (contexts s ! i)"
  shows "io_wp e (launch_software_forwarder prev i) (\<lambda>_ _ _. True) (\<lambda>x _ _. x \<noteq> BadArrayIndex) s t"
  using assms by (simp add: launch_software_forwarder_def print_schema_def onic_bdf_def next_lcore_def
      wf_context_def io_wp_simps)

lemma main_program_wp:
  assumes "fresh_cards s"
  shows "io_wp e (main_program cfg junk) (\<lambda>_ _ _. True) (\<lambda>x _ _. x \<noteq> BadArrayIndex) s t"
  unfolding main_program_def
proof (subst io_wp_then, rule io_wp_mono [OF main_setup_wp [OF assms]])
  fix u s' t'
  assume "fresh_cards s' \<and> list_all wf_context (contexts s')"
  then have 3: "3 < length (contexts s')" "wf_context (contexts s' ! 3)"
    by (auto simp: fresh_cards_def NB_FORWARDS_def list_all_length)
  let ?rest = "io_then (io_modify (\<lambda>s. s\<lparr>oldStats_0 := cmac_stats_zero, oldStats_1 := cmac_stats_zero\<rparr>))
    (io_then (while_running SigKill sigkill_set main_work) (io_then main_cleanup
    (io_then (on_onic1 (Onic_dtor cfg)) (io_then (on_onic0 (Onic_dtor cfg)) (io_ret 0)))))"
  have rest: "no_bad_index ?rest" by (intro nbi_rules nbi_parts)
  have "io_wp e (io_bind (launch_software_forwarder l 3) (\<lambda>_. ?rest)) (\<lambda>_ _ _. True) (\<lambda>x _ _. x \<noteq> BadArrayIndex) s' t''"
    for l t''
    by (subst io_wp_bind, rule io_wp_mono [OF launch_wp [OF 3]]) (rule no_bad_indexD [OF rest])
  then show "io_wp e (io_bind (next_lcore (- 1)) (\<lambda>l. io_bind (launch_software_forwarder l 3) (\<lambda>_. ?rest)))
      (\<lambda>_ _ _. True) (\<lambda>x _ _. x \<noteq> BadArrayIndex) s' t'"
    by (simp only: next_lcore_def io_bind_assoc io_wp_bind [of _ "io_call _"] io_wp_call io_ret_bind)
qed simp

definition faultless :: "(('x + 'a) \<times> 's \<times> 't) option \<Rightarrow> bool" where
  "faultless r \<longleftrightarrow> (case r of Some (Inl _, _) \<Rightarrow> False | _ \<Rightarrow> True)"

lemma faultlessI: "io_wp e m (\<lambda>_ _ _. True) (\<lambda>_ _ _. False) s t \<Longrightarrow> faultless (m e s t)"
  by (auto simp: faultless_def io_wp_def split: option.splits sum.splits)

text \<open>
  C13: The contexts \<open>main\<close> sets up are ones the forwarding threads can work with: a thread that
  runs on one of them, whatever DPDK answers, never leaves an array and never takes a
  remainder by 0.  The main program itself never leaves an array either.
\<close>

theorem main_contexts_safe:
  assumes "fresh_cards s"
  shows "(case main_setup cfg junk e s t of
      Some (Inr _, s', _) \<Rightarrow> length (contexts s') = NB_FORWARDS \<and>
        list_all (\<lambda>ctx. faultless (fpga_rx_thread ctx e' q u) \<and> faultless (fpga_rx_final_thread ctx e' q u) \<and>
          faultless (fpga_tx_thread ctx e' q u)) (contexts s')
    | _ \<Rightarrow> True) \<and>
    (case main_program cfg junk e s t of Some (Inl x, _) \<Rightarrow> x \<noteq> BadArrayIndex | _ \<Rightarrow> True)"
proof
  have "io_wp e (main_setup cfg junk) (\<lambda>_ s' _. length (contexts s') = NB_FORWARDS \<and>
        list_all (\<lambda>ctx. faultless (fpga_rx_thread ctx e' q u) \<and> faultless (fpga_rx_final_thread ctx e' q u) \<and>
          faultless (fpga_tx_thread ctx e' q u)) (contexts s')) (\<lambda>_ _ _. True) s t"
    by (rule io_wp_mono [OF main_setup_wp [OF assms]])
       (auto simp: fresh_cards_def list_all_iff intro: faultlessI threads_safe)
  then show "case main_setup cfg junk e s t of
      Some (Inr _, s', _) \<Rightarrow> length (contexts s') = NB_FORWARDS \<and>
        list_all (\<lambda>ctx. faultless (fpga_rx_thread ctx e' q u) \<and> faultless (fpga_rx_final_thread ctx e' q u) \<and>
          faultless (fpga_tx_thread ctx e' q u)) (contexts s')
    | _ \<Rightarrow> True" by (auto simp: io_wp_def split: option.splits sum.splits)
  show "case main_program cfg junk e s t of Some (Inl x, _) \<Rightarrow> x \<noteq> BadArrayIndex | _ \<Rightarrow> True"
    using main_program_wp [OF assms, of e cfg junk t] by (auto simp: io_wp_def split: option.splits sum.splits)
qed

section \<open>The end\<close>

text \<open>The calls that stop, wait and remove.\<close>

definition ending :: "main_call \<Rightarrow> bool" where
  "ending c \<longleftrightarrow> (case c of StopFlagWrite _ v \<Rightarrow> v = 1 | LcoreCount \<Rightarrow> True | WaitLcore _ \<Rightarrow> True
     | OnCard (DevRemove _) \<Rightarrow> True | _ \<Rightarrow> False)"

definition removes :: "dpdk_call \<Rightarrow> bool" where
  "removes c \<longleftrightarrow> (case c of DevRemove _ \<Rightarrow> True | _ \<Rightarrow> False)"

abbreviation ends :: "(main_call, main_resp) trace \<Rightarrow> main_call list" where
  "ends t \<equiv> calls (watched ending t)"

lemma ending_simps [simp]:
  "\<not> ending SignalInt" "\<not> ending SigKill" "\<not> ending (Say txt)" "\<not> ending EalInit" "\<not> ending LogSetLevel"
  "\<not> ending DevCountAvail" "\<not> ending MemzoneReserve" "\<not> ending SocketId" "\<not> ending (StatsRingCreate a b c d)"
  "ending (StopFlagWrite i v) \<longleftrightarrow> v = 1" "\<not> ending (NextLcore l x y)" "\<not> ending (RemoteLaunch w i l)"
  "\<not> ending (SleepSeconds n)" "ending LcoreCount" "\<not> ending (LcoreIsEnabled l)" "ending (WaitLcore l)"
  "\<not> ending (Delay n)" "ending (OnCard dc) \<longleftrightarrow> removes dc"
  by (simp_all add: ending_def removes_def split: dpdk_call.split)

lemma quiet_regs [quiet_rules]: "io_quiet removes (read_reg off)" "io_quiet removes (write_reg off v)"
  by (simp_all add: io_quiet_def io_wp_simps Let_def removes_def)

lemma removes_simps [simp]:
  "\<not> removes (PciReadReg a b c)" "\<not> removes (PciWriteReg a b c d)" "\<not> removes (Usleep n)" "\<not> removes (DelayMs n)"
  "\<not> removes (EthSocketId i)" "\<not> removes (RingCreate x y z fl)" "\<not> removes (SpinInit l)" "removes (DevRemove i)"
  by (simp_all add: removes_def)

lemma quiet_cards [quiet_rules]: "io_quiet removes init_hardware" "io_quiet removes (get_cmac_stats i debug)"
  "io_quiet removes (print_packet_adaptor_stats i)"
proof -
  have "io_quiet removes (init_cmacs i n)" for i n
    by (induction i n rule: init_cmacs.induct)
       (auto simp: enable_cmac_def shell_wait_def poll_until_def poll_body_def write_regs_def Let_def
          split: prod.splits intro!: quiet_rules)
  then show "io_quiet removes init_hardware"
    by (auto simp: init_hardware_def write_regs_def poll_until_def poll_body_def Let_def split: prod.splits intro!: quiet_rules)
  have "io_quiet removes (read_into xs st)" for xs st
    by (induction xs arbitrary: st) (auto simp: read_into.simps intro!: quiet_rules)
  then show "io_quiet removes (get_cmac_stats i debug)"
    by (auto simp: get_cmac_stats_def get_cmac_debug_stats_def intro!: quiet_rules simp del: read_into.simps)
  show "io_quiet removes (print_packet_adaptor_stats i)"
    by (auto simp: print_packet_adaptor_stats_def intro!: quiet_rules)
qed

lemma quiet_port_setup [quiet_rules]: "io_quiet removes (OnicPort_ctor cfg junk p pid)"
proof -
  have "io_quiet removes (port_init cfg)"
    by (fastforce simp: port_init_def setup_queue_def removes_def intro!: quiet_rules)
  then show ?thesis by (auto simp: OnicPort_ctor_def intro!: quiet_rules)
qed

lemma quiet_Onic_ctor [quiet_rules]: "io_quiet removes (Onic_ctor cfg n pinfos ids nb c a f)"
  by (auto simp: Onic_ctor_def on_port_def intro!: quiet_rules)

lemma watched_embedded:
  "watched W (map (\<lambda>(i, c). (ic c, f i c)) (enumerate n cs)) =
   map (\<lambda>(i, c). (ic c, f i c)) (filter (\<lambda>(i, c). W (ic c)) (enumerate n cs))"
  by (induction cs arbitrary: n) auto

lemma quiet_embedded:
  assumes "io_quiet (\<lambda>c. W (ic c)) m"
  shows "io_quiet W (io_embed ic prj fx u m)"
proof -
  have none: "filter (\<lambda>(i, c). W (ic c)) (enumerate n (calls d)) = []"
    if "watched (\<lambda>c. W (ic c)) d = []" for d :: "(_, _) trace" and n
  proof -
    from that have "list_all (\<lambda>c. \<not> W (ic c)) (calls d)" by (induction d) (auto split: if_splits)
    then show ?thesis by (induction d arbitrary: n) auto
  qed
  have d: "watched (\<lambda>c. W (ic c)) d = []"
    if "m (\<lambda>n c. prj (e (length t + n) (ic c))) u [] = Some (r, u', d)" for e t r u' d
    using io_quietD [OF assms, of "[]" "[]" "\<lambda>n c. prj (e (length t + n) (ic c))" u] that
    by (cases r) (auto simp: io_wp_def)
  show ?thesis
    by (auto simp: io_quiet_def io_embed_def io_wp_def watched_embedded none [OF d] split: option.splits sum.splits)
qed

lemma quiet_on_cards [quiet_rules]:
  "io_quiet removes m \<Longrightarrow> io_quiet ending (on_onic0 m)" "io_quiet removes m \<Longrightarrow> io_quiet ending (on_onic1 m)"
  by (auto simp: on_onic0_def on_onic1_def on_card_def split: prod.splits intro!: quiet_rules quiet_embedded)

lemma quiet_main [quiet_rules]:
  "io_quiet ending (main_setup cfg junk)" "io_quiet ending (next_lcore l)" "io_quiet ending (launch_software_forwarder l i)"
  "io_quiet ending main_work"
  by (auto simp: main_setup_def start_up_def make_cards_def main_pinfo_def make_contexts_def set_context_def
      next_lcore_def launch_software_forwarder_def print_schema_def onic_bdf_def main_work_def show_counters_def Let_def
      intro!: quiet_rules)
lemma wp_wait_lcore:
  "io_wp e (wait_lcore l) Q E s t =
   (let t1 = t @ [(LcoreIsEnabled l, e (length t) (LcoreIsEnabled l))];
        c = Say (''Waiting for Lcore '' @ dec (unat l) @ '' to finish...\<newline>''); t2 = t1 @ [(c, e (length t1) c)] in
    if ans (e (length t) (LcoreIsEnabled l)) \<noteq> 0 then Q () s (t2 @ [(WaitLcore l, e (length t2) (WaitLcore l))])
    else Q () s t1)"
  by (simp add: wait_lcore_def io_wp_simps Let_def)

lemma wait_lcores_wp:
  "io_wp e (io_for ls wait_lcore) (\<lambda>_ s' t'. \<exists>ws. subseq ws ls \<and> ends t' = ends t @ map WaitLcore ws)
     (\<lambda>_ _ _. False) s t"
proof (induction ls arbitrary: s t)
  case (Cons l ls)
  have skip: "io_wp e (io_for ls wait_lcore) (\<lambda>_ s' t'. \<exists>ws. subseq ws (l # ls) \<and> ends t' = us @ map WaitLcore ws)
      (\<lambda>_ _ _. False) s' t'" if "ends t' = us" for s' t' us
    by (rule io_wp_mono [OF Cons.IH]) (use that in \<open>auto intro: subseq_Cons'\<close>)
  have take: "io_wp e (io_for ls wait_lcore) (\<lambda>_ s' t'. \<exists>ws. subseq ws (l # ls) \<and> ends t' = us @ map WaitLcore ws)
      (\<lambda>_ _ _. False) s' t'" if "ends t' = us @ [WaitLcore l]" for s' t' us
  proof (rule io_wp_mono [OF Cons.IH])
    fix u s'' t''
    assume "\<exists>ws. subseq ws ls \<and> ends t'' = ends t' @ map WaitLcore ws"
    then obtain ws where "subseq ws ls" "ends t'' = ends t' @ map WaitLcore ws" by blast
    with that show "\<exists>ws. subseq ws (l # ls) \<and> ends t'' = us @ map WaitLcore ws"
      by (intro exI [of _ "l # ws"]) simp
  qed
  show ?case
    by (cases "ans (e (length t) (LcoreIsEnabled l)) = 0")
       (simp_all add: wp_wait_lcore io_wp_simps Let_def skip take)
qed (simp add: io_wp_simps)

text \<open>The calls from the raising of the stop flags on.\<close>

definition end_calls :: "main_call list \<Rightarrow> main_call list \<Rightarrow> bool" where
  "end_calls before cs \<longleftrightarrow> (\<exists>n ws. subseq ws (map word_of_nat [1..<n]) \<and>
     cs = before @ map (\<lambda>i. StopFlagWrite i 1) [0..<NB_FORWARDS] @ [LcoreCount] @ map WaitLcore ws)"

lemma cleanup_wp:
  "io_wp e main_cleanup (\<lambda>_ s' t'. end_calls (ends t) (ends t')) (\<lambda>_ _ _. False) s t"
proof -
  have flags: "[0..<NB_FORWARDS] = [0, 1, 2, 3]" by (simp add: NB_FORWARDS_def upt_rec)
  show ?thesis
    unfolding main_cleanup_def flags
    by (simp add: io_wp_simps) (rule io_wp_mono [OF wait_lcores_wp], auto simp: end_calls_def flags io_wp_simps)
qed
lemma io_wp_for_run: "io_wp e m (\<lambda>_ _ _. True) (\<lambda>_ _ _. True) s t"
  by (simp add: io_wp_def split: option.splits sum.splits)

text \<open>The destructor of a card makes only calls to the card.\<close>

lemma ends_card:
  "io_wp e (on_card sel upd m) (\<lambda>_ _ t'. \<exists>rs. list_all removes rs \<and> ends t' = ends t @ map OnCard rs)
     (\<lambda>_ _ _. True) s t"
proof -
  have "\<exists>rs. list_all removes rs \<and> calls (watched ending (map (\<lambda>(i, c). (OnCard c, f i c)) (enumerate n cs))) = map OnCard rs"
    for f :: "nat \<Rightarrow> dpdk_call \<Rightarrow> main_resp" and n cs
  proof (induction cs arbitrary: n)
    case (Cons c cs)
    from Cons.IH [of "Suc n"] obtain rs where "list_all removes rs"
      "calls (watched ending (map (\<lambda>(i, c). (OnCard c, f i c)) (enumerate (Suc n) cs))) = map OnCard rs" by blast
    then show ?case by (intro exI [of _ "if removes c then c # rs else rs"]) simp
  qed simp
  then show ?thesis
    by (auto simp: on_card_def io_embed_def io_wp_def io_simps split: option.splits sum.splits)
qed

definition waits_then_removes :: "main_call list \<Rightarrow> main_call list \<Rightarrow> bool" where
  "waits_then_removes before cs \<longleftrightarrow> (\<exists>mid rs. end_calls before mid \<and> list_all removes rs \<and> cs = mid @ map OnCard rs)"

lemma ends_onic:
  assumes "waits_then_removes b (ends t)"
  shows "io_wp e (on_onic0 m) (\<lambda>_ _ t'. waits_then_removes b (ends t')) (\<lambda>_ _ _. True) s t"
    and "io_wp e (on_onic1 m) (\<lambda>_ _ t'. waits_then_removes b (ends t')) (\<lambda>_ _ _. True) s t"
proof -
  have "waits_then_removes b (ends t')" if "\<exists>rs. list_all removes rs \<and> ends t' = ends t @ map OnCard rs" for t'
    using assms that unfolding waits_then_removes_def by (metis append.assoc list_all_append map_append)
  then show "io_wp e (on_onic0 m) (\<lambda>_ _ t'. waits_then_removes b (ends t')) (\<lambda>_ _ _. True) s t"
    and "io_wp e (on_onic1 m) (\<lambda>_ _ t'. waits_then_removes b (ends t')) (\<lambda>_ _ _. True) s t"
    unfolding on_onic0_def on_onic1_def by (blast intro: io_wp_mono [OF ends_card])+
qed

lemma shutdown_wp:
  "io_wp e (main_program cfg junk) (\<lambda>r _ t'. r = 0 \<and> waits_then_removes (ends t) (ends t')) (\<lambda>_ _ _. True) s t"
proof -
  let ?Q = "\<lambda>b r s t'. r = 0 \<and> waits_then_removes b (ends t')"
  have dtors: "io_wp e (io_then (on_onic1 (Onic_dtor cfg)) (io_then (on_onic0 (Onic_dtor cfg)) (io_ret 0)))
      (?Q b) (\<lambda>_ _ _. True) s t" if "end_calls b (ends t)" for b s t
  proof -
    from that have w: "waits_then_removes b (ends t)"
      unfolding waits_then_removes_def by (intro exI [of _ "ends t"] exI [of _ "[]"]) simp
    show ?thesis unfolding io_wp_then
      by (rule io_wp_mono [OF ends_onic(2) [OF w]], rule io_wp_mono [OF ends_onic(1)]) (auto simp: io_wp_simps)
  qed
  have tail: "io_wp e (io_then main_cleanup (io_then (on_onic1 (Onic_dtor cfg)) (io_then (on_onic0 (Onic_dtor cfg)) (io_ret 0))))
      (?Q (ends t)) (\<lambda>_ _ _. True) s t" for s t
    by (subst io_wp_then) (rule io_wp_mono [OF cleanup_wp]; (rule dtors)?; simp)
  let ?pre = "io_then (main_setup cfg junk) (io_bind (next_lcore (- 1)) (\<lambda>l.
      io_bind (launch_software_forwarder l 3) (\<lambda>_.
      io_then (io_modify (\<lambda>s. s\<lparr>oldStats_0 := cmac_stats_zero, oldStats_1 := cmac_stats_zero\<rparr>))
        (while_running SigKill sigkill_set main_work))))"
  have eq: "main_program cfg junk = io_then ?pre (io_then main_cleanup
      (io_then (on_onic1 (Onic_dtor cfg)) (io_then (on_onic0 (Onic_dtor cfg)) (io_ret 0))))"
    by (simp add: main_program_def io_then_def io_bind_assoc)
  have quiet: "io_quiet ending ?pre" by (intro quiet_rules) simp_all
  show ?thesis
    unfolding eq by (subst io_wp_then, rule io_wp_mono [OF io_quietD [OF quiet refl]], metis tail, simp)
qed


section \<open>Interrupting\<close>

lemma total_regs_main [total_rules]: "io_total (print_packet_adaptor_stats i)"
  by (auto simp: print_packet_adaptor_stats_def intro!: total_rules)

lemma total_on_cards [total_rules]:
  "io_total m \<Longrightarrow> io_total (on_onic0 m)" "io_total m \<Longrightarrow> io_total (on_onic1 m)"
  by (auto simp: on_onic0_def on_onic1_def on_card_def split: prod.split intro!: total_rules)

lemma extends_on_cards [extends_rules]: "io_extends (on_onic0 m)" "io_extends (on_onic1 m)"
  by (auto simp: on_onic0_def on_onic1_def on_card_def split: prod.split intro!: extends_rules)

interpretation main_loop: stoppable SigKill sigkill_set main_work
  by unfold_locales (auto simp: main_work_def show_counters_def intro!: total_rules extends_rules)

lemma total_Onic_dtor [total_rules]: "io_total (Onic_dtor cfg)"
  by (auto simp: Onic_dtor_def on_port_def intro!: total_rules)

lemma total_launch [total_rules]: "io_total (launch_software_forwarder l i)" "io_total (next_lcore l)" "io_total main_cleanup"
  by (auto simp: launch_software_forwarder_def print_schema_def onic_bdf_def next_lcore_def main_cleanup_def wait_lcore_def
      intro!: total_rules)

lemma ends_after: "io_ends e k \<Longrightarrow> m e s t \<noteq> None \<Longrightarrow> io_then m k e s t \<noteq> None"
  by (auto simp: io_ends_def io_simps split: sum.splits)

definition interrupted_from :: "(main_call, main_resp) env \<Rightarrow> nat \<Rightarrow> bool" where
  "interrupted_from e N \<longleftrightarrow> (\<forall>n \<ge> N. sigkill_set (e n SigKill))"


section \<open>A run\<close>

text \<open>Outside code that answers every call well, with a card that is ready.\<close>

definition well_env :: "(dpdk_call, resp) env" where
  "well_env n c = \<lparr>rv = 0x110, out1 = 0, out2 = 2, out3 = 4\<rparr>"

definition safe_in :: "('c, 'r) env \<Rightarrow> ('c, 'r, 's, 'x, 'a) io \<Rightarrow> bool" where
  "safe_in e m \<longleftrightarrow> (\<forall>s t. io_wp e m (\<lambda>_ _ _. True) (\<lambda>_ _ _. False) s t)"

lemma safe_bind: "safe_in e m \<Longrightarrow> (\<And>a. safe_in e (k a)) \<Longrightarrow> safe_in e (io_bind m k)"
  unfolding safe_in_def io_wp_bind by (intro allI, rule io_wp_mono) auto

lemma safe_then: "safe_in e m \<Longrightarrow> safe_in e k \<Longrightarrow> safe_in e (io_then m k)"
  by (simp add: io_then_def safe_bind)

lemma safe_call: "(\<And>n. safe_in e (k (e n c))) \<Longrightarrow> safe_in e (io_bind (io_call c) k)"
  by (simp add: safe_in_def io_wp_simps)

lemma safe_basic: "safe_in e (io_ret a)" "safe_in e (io_do c)" "safe_in e (io_get f)" "safe_in e (io_modify g)"
  by (simp_all add: safe_in_def io_wp_simps)

lemma safe_for: "(\<And>x. safe_in e (f x)) \<Longrightarrow> safe_in e (io_for xs f)"
  by (induction xs) (auto intro: safe_basic safe_then)

lemma safe_on: "safe_in e m \<Longrightarrow> safe_in e (io_on sel upd m)"
  by (simp add: safe_in_def io_wp_simps)

lemma safe_must: "(\<And>n. 0 \<le> rv (e n c)) \<Longrightarrow> safe_in e (must x c)"
  by (simp add: safe_in_def must_def io_wp_simps not_less)

lemma well_answers: "rv (well_env n c) = 0x110"
  by (simp add: well_env_def)

lemmas safe_rules = safe_call safe_then safe_bind safe_basic safe_for safe_on safe_must

lemma safe_port_init: "safe_in well_env (port_init cfg)"
  unfolding port_init_def setup_queue_def
  by (intro safe_rules; simp add: well_answers; (intro safe_rules; simp add: well_answers)?)+

lemma well_ready: "ready_from well_env s 0"
  by (simp add: ready_from_def shell_ready_def status_ready_def well_answers)

lemma well_init_hardware: "returns init_hardware well_env s t"
  unfolding init_hardware_def NB_CMAC_def
  by (intro returns_then returns_bind returns_basic returns_poll [OF well_ready] returns_init_cmacs [OF well_ready]) simp_all

lemma safe_init_hardware: "safe_in well_env init_hardware"
proof -
  have "io_wp well_env init_hardware (\<lambda>_ _ _. True) (\<lambda>_ _ _. False) s t" for s t
    using well_init_hardware [of s t] by (auto simp: returns_def io_wp_def)
  then show ?thesis by (simp add: safe_in_def)
qed

lemma safe_Onic_ctor: "safe_in well_env (Onic_ctor cfg n pinfos ids 2 c a f)"
  by (auto simp: Onic_ctor_def NB_PORTS_def on_port_def OnicPort_ctor_def intro!: safe_rules safe_init_hardware safe_port_init)
lemma ends_Onic_ctor: "io_ends well_env (Onic_ctor cfg n pinfos ids nb c a f)"
proof -
  have "io_ends well_env init_hardware"
  proof -
    have "init_hardware well_env s t \<noteq> None" for s t using well_init_hardware [of s t] by (auto simp: returns_def)
    then show ?thesis by (simp add: io_ends_def)
  qed
  moreover have "io_ends well_env (io_for xs (\<lambda>i. io_bind (io_get (g i)) (\<lambda>junk. on_port i (OnicPort_ctor cfg junk (p i) (q i)))))"
    for g p q and xs :: "nat list"
    by (intro ends_total) (auto simp: on_port_def intro!: total_rules)
  ultimately show ?thesis
    unfolding Onic_ctor_def
    by (auto intro!: ends_rules)
qed

definition good_env :: "(main_call, main_resp) env" where
  "good_env n c = \<lparr>ans = 1, dresp = well_env n undefined\<rparr>"

lemma good_answers [simp]: "ans (good_env n c) = 1" "dresp (good_env n c) = well_env k d"
  by (simp_all add: good_env_def well_env_def)

definition completes :: "('c, 'r) env \<Rightarrow> ('c, 'r, 's, 'x, 'a) io \<Rightarrow> bool" where
  "completes e m \<longleftrightarrow> (\<forall>s t. \<exists>a s' t'. m e s t = Some (Inr a, s', t'))"

lemma completesD: "completes e m \<Longrightarrow> \<exists>a s' t'. m e s t = Some (Inr a, s', t')"
  by (simp add: completes_def)

lemma completes_safe:
  assumes "safe_in e m" and "io_ends e m"
  shows "completes e m"
  unfolding completes_def
proof (intro allI)
  fix s t
  obtain r s' t' where run: "m e s t = Some (r, s', t')"
    using assms(2) unfolding io_ends_def by (metis not_None_eq prod_cases3)
  have "io_wp e m (\<lambda>_ _ _. True) (\<lambda>_ _ _. False) s t" using assms(1) by (simp add: safe_in_def)
  with run show "\<exists>a s' t'. m e s t = Some (Inr a, s', t')" by (cases r) (auto simp: io_wp_def)
qed

lemma completes_bind: "completes e m \<Longrightarrow> (\<And>a. completes e (k a)) \<Longrightarrow> completes e (io_bind m k)"
  unfolding completes_def io_bind_run by (metis (mono_tags, lifting) option.case sum.case prod.case)

lemma completes_then: "completes e m \<Longrightarrow> completes e k \<Longrightarrow> completes e (io_then m k)"
  by (simp add: io_then_def completes_bind)

lemma completes_call: "(\<And>n. completes e (k (e n c))) \<Longrightarrow> completes e (io_bind (io_call c) k)"
  by (simp add: completes_def io_simps)

lemma completes_basic: "completes e (io_ret a)" "completes e (io_do c)" "completes e (io_get f)" "completes e (io_modify g)"
  by (simp_all add: completes_def io_simps)

lemma completes_card:
  assumes "completes well_env m"
  shows "completes good_env (on_card sel upd m)"
  unfolding completes_def
proof (intro allI)
  fix s t
  have env: "(\<lambda>n c. dresp (good_env (l + n) (OnCard c))) = well_env" for l
    by (simp add: fun_eq_iff)
  obtain a u' d where "m well_env (sel s) [] = Some (Inr a, u', d)" using completesD [OF assms] by blast
  then show "\<exists>a s' t'. on_card sel upd m good_env s t = Some (Inr a, s', t')"
    by (simp add: on_card_def io_embed_def io_simps env)
qed

lemmas completes_rules = completes_call completes_then completes_bind completes_basic

lemma completes_setup: "completes good_env (main_setup cfg junk)"
proof -
  have "completes good_env (on_onic0 (Onic_ctor cfg n pinfos ids 2 c a f))"
    and "completes good_env (on_onic1 (Onic_ctor cfg n pinfos ids 2 c a f))" for n pinfos ids c a f
    unfolding on_onic0_def on_onic1_def
    by (intro completes_card completes_safe safe_Onic_ctor ends_Onic_ctor)+
  then show ?thesis
    unfolding main_setup_def start_up_def make_cards_def main_pinfo_def make_contexts_def set_context_def Let_def
    by (auto intro!: completes_rules)
qed
definition start_state :: program where
  "start_state = \<lparr>contexts = replicate NB_FORWARDS (forwarder 0 sample_onic 0 0 0), onic0 = sample_onic, onic1 = sample_onic,
     ring_ids = 0, oldStats_0 = cmac_stats_zero, oldStats_1 = cmac_stats_zero\<rparr>"


theorem main_contexts_safe_witness:
  "\<exists>s' t'. main_setup sample_cfg [[], []] good_env start_state [] = Some (Inr (), s', t') \<and>
     length (contexts s') = 4 \<and> faultless (fpga_tx_thread (contexts s' ! 3) busy_env 0 [])"
proof -
  obtain u s' t' where run: "main_setup sample_cfg [[], []] good_env start_state [] = Some (Inr u, s', t')"
    using completesD [OF completes_setup] by blast
  have "fresh_cards start_state"
    by (simp add: fresh_cards_def start_state_def sample_onic_def NB_PORTS_def)
  from main_contexts_safe [OF this, where cfg = sample_cfg and junk = "[[], []]" and e = good_env and t = "[]" and
      e' = busy_env and q = 0 and u = "[]"] run
  show ?thesis by (auto simp: list_all_length NB_FORWARDS_def)
qed

end
