(* ===== verification/CommandFields.thy ===== *)
theory CommandFields
  imports CommandTable
begin

text \<open>
  The structures the command line library leaves the words of a line in (\<open>server/src/commands.c\<close>,
  \<open>struct cmd_..._result\<close>).  Every field is a \<open>cmdline_fixed_string_t\<close>, an array of the library
  whose size is a parameter here, so that a structure is the list of its fields and a field
  starts at its index times that size.  A handler finds a word only where a token has put it.
\<close>

section \<open>The structures\<close>

definition cmd_help_result :: "string list" where
  "cmd_help_result = [''help'']"

definition cmd_obj_port_init_result :: "string list" where
  "cmd_obj_port_init_result = [''action'', ''port_id'', ''num_queues'', ''st_queues'', ''nb_descs'', ''buff_size'']"

definition cmd_obj_port_close_result :: "string list" where
  "cmd_obj_port_close_result = [''action'', ''port_id'']"

definition cmd_obj_port_reset_result :: "string list" where
  "cmd_obj_port_reset_result = [''action'', ''port_id'', ''num_queues'', ''st_queues'', ''nb_descs'', ''buff_size'']"

definition cmd_obj_port_remove_result :: "string list" where
  "cmd_obj_port_remove_result = [''action'', ''port_id'']"

definition cmd_obj_reg_read_result :: "string list" where
  "cmd_obj_reg_read_result = [''action'', ''port_id'', ''bar_id'', ''addr'']"

definition cmd_obj_reg_write_result :: "string list" where
  "cmd_obj_reg_write_result = [''action'', ''port_id'', ''bar_id'', ''address'', ''value'']"

definition cmd_obj_dma_to_device_result :: "string list" where
  "cmd_obj_dma_to_device_result = [''action'', ''port_id'', ''queues'', ''filename'', ''dst_addr'', ''size'', ''loops'']"

definition cmd_obj_dma_from_device_result :: "string list" where
  "cmd_obj_dma_from_device_result = [''action'', ''port_id'', ''queues'', ''filename'', ''src_addr'', ''size'', ''loops'']"

definition cmd_obj_reg_dump_result :: "string list" where
  "cmd_obj_reg_dump_result = [''action'', ''port_id'']"

definition cmd_obj_reg_info_read_result :: "string list" where
  "cmd_obj_reg_info_read_result = [''action'', ''port_id'', ''reg_addr'', ''num_regs'']"

definition cmd_obj_queue_dump_result :: "string list" where
  "cmd_obj_queue_dump_result = [''action'', ''port_id'', ''queue_id'']"

definition cmd_obj_qstats_result :: "string list" where
  "cmd_obj_qstats_result = [''action'', ''port_id'', ''queue_id'']"

definition cmd_obj_qstats_clr_result :: "string list" where
  "cmd_obj_qstats_clr_result = [''action'', ''port_id'', ''queue_id'']"

definition cmd_obj_desc_dump_result :: "string list" where
  "cmd_obj_desc_dump_result = [''action'', ''port_id'', ''queue_id'']"

definition cmd_obj_load_cmds_result :: "string list" where
  "cmd_obj_load_cmds_result = [''action'', ''filename'']"

definition results :: "string list list" where
  "results = [
     cmd_obj_port_init_result, cmd_obj_port_close_result, cmd_obj_port_reset_result,
     cmd_obj_port_remove_result, cmd_obj_reg_read_result, cmd_obj_reg_write_result,
     cmd_obj_dma_to_device_result, cmd_obj_dma_from_device_result, cmd_obj_reg_dump_result,
     cmd_obj_reg_info_read_result, cmd_obj_queue_dump_result, cmd_obj_qstats_result,
     cmd_obj_qstats_clr_result, cmd_obj_desc_dump_result, cmd_obj_load_cmds_result,
     cmd_help_result]"

lemmas result_defs =
  cmd_obj_port_init_result_def cmd_obj_port_close_result_def cmd_obj_port_reset_result_def
  cmd_obj_port_remove_result_def cmd_obj_reg_read_result_def cmd_obj_reg_write_result_def
  cmd_obj_dma_to_device_result_def cmd_obj_dma_from_device_result_def cmd_obj_reg_dump_result_def
  cmd_obj_reg_info_read_result_def cmd_obj_queue_dump_result_def cmd_obj_qstats_result_def
  cmd_obj_qstats_clr_result_def cmd_obj_desc_dump_result_def cmd_obj_load_cmds_result_def
  cmd_help_result_def

section \<open>Where the words go\<close>

text \<open>
  A field by its structure and name, as the macro \<open>TOKEN_STRING_INITIALIZER\<close> computes its offset.
\<close>

definition field_offset :: "nat \<Rightarrow> string list \<Rightarrow> string \<Rightarrow> nat" where
  "field_offset w fs f = w * length (takeWhile (\<lambda>g. g \<noteq> f) fs)"

definition field_bytes :: "nat \<Rightarrow> string list \<Rightarrow> string \<Rightarrow> nat set" where
  "field_bytes w fs f = {field_offset w fs f ..< field_offset w fs f + w}"

lemma index_less: "f \<in> set fs \<Longrightarrow> length (takeWhile (\<lambda>g. g \<noteq> f) fs) < length fs"
  by (induction fs) auto

lemma nth_index: "f \<in> set fs \<Longrightarrow> fs ! length (takeWhile (\<lambda>g. g \<noteq> f) fs) = f"
  by (induction fs) auto

lemma field_bytes_disjoint:
  assumes "f \<in> set fs" and "g \<in> set fs" and "f \<noteq> g"
  shows "field_bytes w fs f \<inter> field_bytes w fs g = {}"
proof -
  let ?i = "length (takeWhile (\<lambda>h. h \<noteq> f) fs)" and ?j = "length (takeWhile (\<lambda>h. h \<noteq> g) fs)"
  have "?i \<noteq> ?j" using nth_index [OF assms(1)] nth_index [OF assms(2)] assms(3) by metis
  then have "Suc ?i \<le> ?j \<or> Suc ?j \<le> ?i" by auto
  then have "w * Suc ?i \<le> w * ?j \<or> w * Suc ?j \<le> w * ?i" using mult_le_mono2 by blast
  then show ?thesis by (auto simp: field_bytes_def field_offset_def)
qed

lemma field_bytes_inside:
  assumes "f \<in> set fs"
  shows "field_bytes w fs f \<subseteq> {..< w * length fs}"
proof -
  have "Suc (length (takeWhile (\<lambda>g. g \<noteq> f) fs)) \<le> length fs" using index_less [OF assms] by simp
  from mult_le_mono2 [OF this, of w] show ?thesis by (auto simp: field_bytes_def field_offset_def)
qed

text \<open>A handler looks at nothing but the fields of its structure.\<close>

lemma reads_fields:
  "list_all2 (\<lambda>inst fs. (\<forall>f \<in> set fs. res f = res' f) \<longrightarrow> run_f inst res = run_f inst res') (main_ctx bram) results"
  by (simp add: main_ctx_def inst_defs results_def result_defs)

text \<open>
  C22: The tokens of a command fill its structure: they name all its fields, each once, in bytes
  that are the structure's own and no other field's, and the handler reads nothing else, so that
  no handler sees a field without a word of the line.
\<close>

theorem tokens_fill_results:
  "list_all2 (\<lambda>inst fs.
     map fst (tokens inst) = fs \<and> distinct fs \<and>
     (\<forall>f \<in> set fs. field_bytes w fs f \<subseteq> {..< w * length fs} \<and>
        (\<forall>g \<in> set fs. f \<noteq> g \<longrightarrow> field_bytes w fs f \<inter> field_bytes w fs g = {})) \<and>
     ((\<forall>f \<in> set fs. res f = res' f) \<longrightarrow> run_f inst res = run_f inst res')) (main_ctx bram) results"
proof -
  have "list_all2 (\<lambda>inst fs. map fst (tokens inst) = fs) (main_ctx bram) results"
    by (simp add: main_ctx_def inst_defs results_def result_defs)
  moreover have "list_all distinct results" by (simp add: results_def result_defs)
  ultimately show ?thesis using reads_fields [of res res' bram]
    by (auto simp: list_all2_conv_all_nth list_all_length field_bytes_disjoint dest!: field_bytes_inside [THEN subsetD])
qed

theorem tokens_fill_results_witness:
  "field_bytes 128 cmd_obj_port_close_result ''action'' \<inter> field_bytes 128 cmd_obj_port_close_result ''port_id'' = {}"
proof -
  have "main_ctx 0 ! 1 = cmd_obj_port_close" and "results ! 1 = cmd_obj_port_close_result"
    and "length (main_ctx 0) = 16"
    by (simp_all add: main_ctx_def results_def)
  moreover note list_all2_nthD [OF tokens_fill_results [of 128 "\<lambda>_. []" "\<lambda>_. []" 0], of 1]
  ultimately show ?thesis by (simp add: cmd_obj_port_close_result_def)
qed

end
