(* ===== verification/SyncPulse.thy ===== *)
theory SyncPulse
  imports Prelude
begin

text \<open>
  The clock block of the FPGA: \<open>fpga/hw/IPs/clk_sync_pulse/clk_sync_pulse.sv\<close> and
  \<open>clk_sync_pulse_regs.sv\<close>.  A synchronous circuit is a record of its registers, a function per
  wire, and the state after a rising edge of \<open>axis_aclk\<close>, in which every register gets its
  value from the ones before the edge (non-blocking assignment).  \<open>axi_lite_register\<close> is not in
  the repository; the processes that would use it are commented out, so that nothing of it
  reaches a register.
\<close>

section \<open>Registers and wires\<close>

datatype mode_t = SLAVE | MASTER

record sync_regs =
  reg_master_mode :: mode_t
  reg_sync_period :: u32
  reg_nb_sync :: u32
  reg_curr_tick :: u32
  reg_sync_period_meta :: u32
  reg_sync_period_sync :: u32
  reg_master_mode_meta :: u32
  reg_master_mode_sync :: u32
  master_sync_period_detect_r :: bool

definition DEFAULT_MODE :: mode_t where "DEFAULT_MODE = SLAVE"
definition DEFAULT_PERIOD :: u32 where "DEFAULT_PERIOD = 322"

definition mode_bits :: "mode_t \<Rightarrow> u32" where
  "mode_bits m = (case m of SLAVE \<Rightarrow> 0 | MASTER \<Rightarrow> 1)"

text \<open>\<open>master_mode_o\<close> is one bit wide and takes the lowest one of the register.\<close>

definition master_mode_w :: "sync_regs \<Rightarrow> bool" where
  "master_mode_w r = odd (reg_master_mode_sync r)"

definition incr_nb_sync_w :: "bool \<Rightarrow> sync_regs \<Rightarrow> bool" where
  "incr_nb_sync_w sync_pulse_i r \<longleftrightarrow> \<not> master_mode_w r \<and> sync_pulse_i"

definition incr_curr_tick_w :: "bool \<Rightarrow> sync_regs \<Rightarrow> bool" where
  "incr_curr_tick_w sync_pulse_i r \<longleftrightarrow> master_mode_w r \<or> incr_nb_sync_w sync_pulse_i r"

definition sync_period_detect_w :: "bool \<Rightarrow> sync_regs \<Rightarrow> bool" where
  "sync_period_detect_w sync_pulse_i r \<longleftrightarrow> master_sync_period_detect_r r \<and> incr_curr_tick_w sync_pulse_i r"

definition sync_pulse_o :: "bool \<Rightarrow> sync_regs \<Rightarrow> bool" where
  "sync_pulse_o sync_pulse_i r \<longleftrightarrow> master_mode_w r \<and> sync_period_detect_w sync_pulse_i r"

section \<open>A rising edge\<close>

definition next_nb_sync :: "bool \<Rightarrow> bool \<Rightarrow> sync_regs \<Rightarrow> u32" where
  "next_nb_sync axis_aresetn sync_pulse_i r =
     (if \<not> axis_aresetn then 0
      else if incr_nb_sync_w sync_pulse_i r \<or> sync_period_detect_w sync_pulse_i r then reg_nb_sync r + 1
      else reg_nb_sync r)"

definition next_curr_tick :: "bool \<Rightarrow> bool \<Rightarrow> sync_regs \<Rightarrow> u32" where
  "next_curr_tick axis_aresetn sync_pulse_i r =
     (if \<not> axis_aresetn then 0
      else if incr_nb_sync_w sync_pulse_i r then 0
      else if incr_curr_tick_w sync_pulse_i r then
        (if master_sync_period_detect_r r then 0 else reg_curr_tick r + 1)
      else reg_curr_tick r)"

text \<open>The whole block, with the mode and the period its instance is given.\<close>

definition sync_edge :: "mode_t \<Rightarrow> u32 \<Rightarrow> bool \<Rightarrow> bool \<Rightarrow> sync_regs \<Rightarrow> sync_regs" where
  "sync_edge mode period axis_aresetn sync_pulse_i r =
     \<lparr>reg_master_mode = (if \<not> axis_aresetn then mode else reg_master_mode r),
      reg_sync_period = (if \<not> axis_aresetn then period - 1 else reg_sync_period r),
      reg_nb_sync = next_nb_sync axis_aresetn sync_pulse_i r,
      reg_curr_tick = next_curr_tick axis_aresetn sync_pulse_i r,
      reg_sync_period_meta = reg_sync_period r,
      reg_sync_period_sync = reg_sync_period_meta r,
      reg_master_mode_meta = mode_bits (reg_master_mode r),
      reg_master_mode_sync = reg_master_mode_meta r,
      master_sync_period_detect_r =
        (reg_master_mode_sync r \<noteq> 0 \<and> reg_curr_tick r = reg_sync_period_sync r)\<rparr>"

text \<open>A run over the values of reset and pulse at each edge.\<close>

fun sync_run :: "mode_t \<Rightarrow> u32 \<Rightarrow> (bool \<times> bool) list \<Rightarrow> sync_regs \<Rightarrow> sync_regs" where
  "sync_run mode period [] r = r"
| "sync_run mode period ((rstn, pulse) # es) r = sync_run mode period es (sync_edge mode period rstn pulse r)"

lemma sync_run_append: "sync_run mode period (es @ fs) r = sync_run mode period fs (sync_run mode period es r)"
  by (induction es arbitrary: r) auto

section \<open>Reset\<close>

text \<open>
  The state a reset leads to: mode and period have passed the two registers that bring them
  into the clock domain, and the counters are zero.
\<close>

definition sync_reset :: "mode_t \<Rightarrow> u32 \<Rightarrow> sync_regs" where
  "sync_reset mode period =
     \<lparr>reg_master_mode = mode, reg_sync_period = period - 1, reg_nb_sync = 0, reg_curr_tick = 0,
      reg_sync_period_meta = period - 1, reg_sync_period_sync = period - 1,
      reg_master_mode_meta = mode_bits mode, reg_master_mode_sync = mode_bits mode,
      master_sync_period_detect_r = (mode = MASTER \<and> period = 1)\<rparr>"

lemma edge_in_reset: "sync_edge mode period False pulse r = sync_edge mode period False pulse' r"
  by (simp add: sync_edge_def next_nb_sync_def next_curr_tick_def)

lemma reset_edge: "sync_edge mode period False pulse (sync_reset mode period) = sync_reset mode period"
  by (cases mode) (auto simp: sync_edge_def sync_reset_def next_nb_sync_def next_curr_tick_def mode_bits_def)

lemma reset_stays: "sync_run mode period (map (Pair False) qs) (sync_reset mode period) = sync_reset mode period"
  by (induction qs) (simp_all add: reset_edge)

lemma sync_reset_reached:
  assumes "4 \<le> length qs"
  shows "sync_run mode period (map (Pair False) qs) r = sync_reset mode period"
proof -
  obtain a b c d rest where qs: "qs = [a, b, c, d] @ rest"
    using assms by (auto simp: Suc_le_length_iff numeral_eq_Suc)
  have "sync_run mode period (map (Pair False) [a, b, c, d]) r = sync_reset mode period"
    by (cases mode) (auto simp: sync_edge_def sync_reset_def next_nb_sync_def next_curr_tick_def mode_bits_def)
  then show ?thesis by (simp only: qs map_append sync_run_append reset_stays)
qed

section \<open>The block as a slave\<close>

text \<open>
  What the block keeps once it is a slave out of reset: no process makes it a master again.
\<close>

definition is_slave :: "sync_regs \<Rightarrow> bool" where
  "is_slave r \<longleftrightarrow> reg_master_mode r = SLAVE \<and> reg_master_mode_meta r = 0 \<and> reg_master_mode_sync r = 0"

lemma slave_edge:
  assumes "is_slave r"
  shows "is_slave (sync_edge SLAVE period rstn pulse r)"
    and "reg_curr_tick (sync_edge SLAVE period rstn pulse r) = (if rstn \<and> \<not> pulse then reg_curr_tick r else 0)"
    and "reg_nb_sync (sync_edge SLAVE period rstn pulse r) =
      (if \<not> rstn then 0 else reg_nb_sync r + of_bool pulse)"
  using assms by (auto simp: is_slave_def sync_edge_def next_nb_sync_def next_curr_tick_def incr_nb_sync_w_def
      incr_curr_tick_w_def sync_period_detect_w_def master_mode_w_def mode_bits_def)

lemma slave_run:
  assumes "is_slave r"
  shows "is_slave (sync_run SLAVE period es r)"
    and "reg_curr_tick r = 0 \<Longrightarrow> reg_curr_tick (sync_run SLAVE period es r) = 0"
  using assms by (induction es arbitrary: r) (auto simp: slave_edge)

lemma slave_run_counts:
  "is_slave r \<Longrightarrow> reg_nb_sync (sync_run SLAVE period (map (Pair True) ps) r) = reg_nb_sync r + of_nat (count_list ps True)"
  by (induction ps arbitrary: r) (auto simp: slave_edge)

lemma slave_after_reset: "is_slave (sync_reset SLAVE period)"
  by (simp add: is_slave_def sync_reset_def mode_bits_def)

text \<open>
  C16: In the mode the block is built in, nothing but a pulse changes its counters, whatever it
  held before: once it has been in reset for four edges, the number of synchronisations is the
  number of edges with a pulse, it sends no pulse, and the current tick is zero at every edge.
  The tick that time stamps are made of never counts.
\<close>

theorem default_block_never_ticks:
  assumes "4 \<le> length qs"
  shows "let r = sync_run DEFAULT_MODE DEFAULT_PERIOD (map (Pair False) qs @ map (Pair True) ps) r0 in
    reg_curr_tick r = 0 \<and> reg_nb_sync r = of_nat (count_list ps True) \<and> \<not> sync_pulse_o pulse r"
proof -
  have run: "sync_run SLAVE DEFAULT_PERIOD (map (Pair False) qs @ map (Pair True) ps) r0 =
      sync_run SLAVE DEFAULT_PERIOD (map (Pair True) ps) (sync_reset SLAVE DEFAULT_PERIOD)" (is "_ = ?r")
    by (simp add: sync_run_append sync_reset_reached [OF assms])
  have "is_slave ?r" and "reg_curr_tick ?r = 0" and "reg_nb_sync ?r = of_nat (count_list ps True)"
    using slave_run [OF slave_after_reset] slave_run_counts [OF slave_after_reset] by (simp_all add: sync_reset_def)
  then show ?thesis
    by (simp add: DEFAULT_MODE_def run Let_def sync_pulse_o_def master_mode_w_def is_slave_def)
qed

theorem default_block_never_ticks_witness:
  "reg_nb_sync (sync_run SLAVE 322 (replicate 4 (False, True) @ map (Pair True) [True, False, True]) (sync_reset MASTER 7)) = 2"
  using default_block_never_ticks [of "replicate 4 True" "[True, False, True]"]
  by (simp add: Let_def DEFAULT_MODE_def DEFAULT_PERIOD_def)

section \<open>The block as a master\<close>

text \<open>The state of a master \<open>n\<close> edges after its reset.\<close>

definition master_state :: "u32 \<Rightarrow> nat \<Rightarrow> sync_regs" where
  "master_state period n =
     (sync_reset MASTER period)\<lparr>reg_nb_sync := of_nat (n div (unat period + 1)),
       reg_curr_tick := of_nat (n mod (unat period + 1)),
       master_sync_period_detect_r := (n mod (unat period + 1) = unat period)\<rparr>"

lemma unat_tick: "unat (of_nat (n mod Suc (unat p)) :: u32) = n mod Suc (unat p)" for p :: u32
proof -
  have "n mod Suc (unat p) < Suc (unat p)" by simp
  moreover have "unat p < 2 ^ 32" using unsigned_less [of p, where 'a = nat] by simp
  ultimately have "n mod Suc (unat p) < 2 ^ 32" by linarith
  then show ?thesis by (simp add: unat_of_nat take_bit_nat_eq_self)
qed

lemma master_edge:
  assumes "2 \<le> period"
  shows "sync_edge MASTER period True pulse (master_state period n) = master_state period (Suc n)"
proof -
  let ?k = "unat period + 1"
  have "2 \<le> unat period" using assms by (simp add: word_le_nat_alt)
  have lt: "n mod ?k < ?k" by simp
  have nat: "unat (of_nat (n mod ?k) :: u32) = n mod ?k" by (simp add: unat_tick)
  have "(1 :: u32) \<le> period" using \<open>2 \<le> unat period\<close> by (simp add: word_le_nat_alt)
  then have "unat (period - 1) = unat period - 1" by (simp add: unat_sub)
  with nat have at: "(of_nat (n mod ?k) :: u32) = period - 1 \<longleftrightarrow> n mod ?k = unat period - 1"
    by (simp only: word_unat_eq_iff)
  show ?thesis
  proof (cases "n mod ?k = unat period")
    case True
    then have "Suc n mod ?k = 0" "Suc n div ?k = Suc (n div ?k)" by (simp_all add: mod_Suc div_Suc)
    with True at \<open>2 \<le> unat period\<close> show ?thesis
      by (simp add: master_state_def sync_edge_def sync_reset_def next_nb_sync_def next_curr_tick_def mode_bits_def
          incr_nb_sync_w_def incr_curr_tick_w_def sync_period_detect_w_def master_mode_w_def)
  next
    case False
    with lt have "Suc n mod ?k = Suc (n mod ?k)" "Suc n div ?k = n div ?k" by (simp_all add: mod_Suc div_Suc)
    with False at \<open>2 \<le> unat period\<close> show ?thesis
      by (auto simp: master_state_def sync_edge_def sync_reset_def next_nb_sync_def next_curr_tick_def mode_bits_def
          incr_nb_sync_w_def incr_curr_tick_w_def sync_period_detect_w_def master_mode_w_def)
  qed
qed

lemma master_run:
  "2 \<le> period \<Longrightarrow> sync_run MASTER period (map (Pair True) ps) (master_state period n) = master_state period (n + length ps)"
  by (induction ps arbitrary: n) (simp_all add: master_edge)

lemma master_start: "2 \<le> period \<Longrightarrow> sync_reset MASTER period = master_state period 0"
  by (auto simp: master_state_def sync_reset_def word_le_nat_alt)

text \<open>
  C29: A block built as a master counts a period too many ticks: after a reset the counters are
  quotient and remainder of the number of edges by the period and one, because the comparison
  with the period is registered, and it sends its pulse at the last tick of each.  With 322
  ticks to a period, the 1289 edges of the test bench make three periods and not four.
\<close>

theorem master_period_one_too_long:
  assumes "4 \<le> length qs" and "2 \<le> period"
  shows "let r = sync_run MASTER period (map (Pair False) qs @ map (Pair True) ps) r0; k = unat period + 1 in
    unat (reg_curr_tick r) = length ps mod k \<and> reg_nb_sync r = of_nat (length ps div k) \<and>
    (sync_pulse_o pulse r \<longleftrightarrow> length ps mod k = unat period)"
proof -
  have "sync_run MASTER period (map (Pair False) qs @ map (Pair True) ps) r0 = master_state period (length ps)"
    using master_run [OF assms(2), of ps 0]
    by (simp add: sync_run_append sync_reset_reached [OF assms(1)] master_start [OF assms(2)])
  then show ?thesis
    by (simp add: Let_def master_state_def sync_reset_def sync_pulse_o_def sync_period_detect_w_def incr_curr_tick_w_def
        master_mode_w_def mode_bits_def unat_tick)
qed

theorem master_period_one_too_long_witness:
  "reg_nb_sync (sync_run MASTER 322 (replicate 4 (False, False) @ replicate 1289 (True, False)) (sync_reset SLAVE 0)) = 3"
  using master_period_one_too_long [of "replicate 4 False" 322 "replicate 1289 False" "sync_reset SLAVE 0"]
  by (simp add: Let_def map_replicate)

end
