(* ===== verification/TimestampInject.thy ===== *)
theory TimestampInject
  imports Prelude
begin

text \<open>
  The packet detector and the time stamp inserter of the FPGA:
  \<open>fpga/hw/IPs/packet_detect/packet_detect.sv\<close> and
  \<open>fpga/hw/IPs/timestamp_inject/timestamp_inject.sv\<close>, with one stream each, as they are
  instantiated.  A beat of the stream is a word of 512 bits; byte \<open>k\<close> of a packet is on the
  lanes \<open>8 k\<close> to \<open>8 k + 7\<close> of its first beat, as AXI streams have it.  The macro \<open>getbit\<close>, of
  the shell, picks a bit of a stream; with one stream it is the bit itself.
\<close>

unbundle bit_operations_syntax

section \<open>Part selects\<close>

text \<open>\<open>d[k +: w]\<close>, read and assigned; \<open>w\<close> is the width of the type of the part.\<close>

definition part :: "512 word \<Rightarrow> nat \<Rightarrow> 'a::len word" where
  "part d k = ucast (drop_bit k d)"

definition set_part :: "nat \<Rightarrow> 'a::len word \<Rightarrow> 512 word \<Rightarrow> 512 word" where
  "set_part k v d = (d AND NOT (push_bit k (mask LENGTH('a)))) OR push_bit k (ucast v)"

lemma bit_part: "bit (part d k :: 'a::len word) n \<longleftrightarrow> n < LENGTH('a) \<and> bit d (k + n)"
  by (simp add: part_def bit_simps)

lemma bit_set_part:
  "bit (set_part k (v :: 'a::len word) d) n \<longleftrightarrow>
     n < 512 \<and> (if k \<le> n \<and> n < k + LENGTH('a) then bit v (n - k) else bit d n)"
  by (auto simp: set_part_def bit_simps dest: bit_imp_le_length)

text \<open>The first beat of a packet.\<close>

primrec tdata_of :: "u8 list \<Rightarrow> 512 word" where
  "tdata_of [] = 0"
| "tdata_of (b # bs) = push_bit 8 (tdata_of bs) OR ucast b"

definition byte_at :: "512 word \<Rightarrow> nat \<Rightarrow> u8" where
  "byte_at d k = part d (8 * k)"

lemma bit_tdata_of:
  "bit (tdata_of bs) n \<longleftrightarrow> n < 512 \<and> n div 8 < length bs \<and> bit (bs ! (n div 8)) (n mod 8)"
proof (induction bs arbitrary: n)
  case (Cons b bs)
  show ?case
  proof (cases "n < 8")
    case True
    then show ?thesis by (auto simp: bit_simps)
  next
    case False
    then have "n div 8 = Suc ((n - 8) div 8)" "n mod 8 = (n - 8) mod 8"
      by (metis le_div_geq linorder_not_less zero_less_numeral, metis le_mod_geq linorder_not_less)
    with False show ?thesis by (auto simp: bit_simps Cons.IH dest: bit_imp_le_length)
  qed
qed simp

lemma byte_at_tdata: "k < length bs \<Longrightarrow> k < 64 \<Longrightarrow> byte_at (tdata_of bs) k = bs ! k"
  by (rule bit_word_eqI) (simp add: byte_at_def bit_part bit_tdata_of)

section \<open>The packet detector\<close>

record axis_in =
  tvalid :: bool
  tdata :: "512 word"
  tlast :: bool
  tready :: bool

definition ETH_TYPE_OFFSET :: nat where "ETH_TYPE_OFFSET = 12 * 8"
definition VLAN_TAG :: u16 where "VLAN_TAG = 0x8100"
definition VLAN_ID_OFFSET :: nat where "VLAN_ID_OFFSET = (6 + 6 + 2) * 8 + 4"
definition VLAN_ID :: "12 word" where "VLAN_ID = 0xABC"

definition next_in_packet :: "bool \<Rightarrow> axis_in \<Rightarrow> bool \<Rightarrow> bool" where
  "next_in_packet aresetn i in_packet =
     (if \<not> aresetn then False
      else if tvalid i \<and> tready i then
        (if tlast i then False else if \<not> in_packet then True else in_packet)
      else in_packet)"

definition first_beat :: "axis_in \<Rightarrow> bool \<Rightarrow> bool" where
  "first_beat i in_packet \<longleftrightarrow> tvalid i \<and> tready i \<and> \<not> in_packet"

definition is_VLAN :: "512 word \<Rightarrow> bool" where
  "is_VLAN d \<longleftrightarrow> (part d ETH_TYPE_OFFSET :: u16) = VLAN_TAG"

definition is_correct_VLAN :: "512 word \<Rightarrow> bool" where
  "is_correct_VLAN d \<longleftrightarrow> (part d VLAN_ID_OFFSET :: 12 word) = VLAN_ID"

definition sync_detected :: "axis_in \<Rightarrow> bool \<Rightarrow> bool" where
  "sync_detected i in_packet \<longleftrightarrow> first_beat i in_packet \<and> is_VLAN (tdata i) \<and> is_correct_VLAN (tdata i)"

section \<open>The time stamp inserter\<close>

definition PAYLOAD_OFFSET :: nat where "PAYLOAD_OFFSET = (6 + 6 + 2 + 2 + 2) * 8"
definition TIMESTAMP_SIZE :: nat where "TIMESTAMP_SIZE = 32 + 32"
definition EMPTY_TIMESTAMP :: u32 where "EMPTY_TIMESTAMP = 0xDEADBEEF"

text \<open>The loop over the places for a stamp, with \<open>found_timestamp_idx\<close> and the index.\<close>

function get_timestamp_idx :: "512 word \<Rightarrow> nat \<Rightarrow> bool \<times> nat \<Rightarrow> bool \<times> nat" where
  "get_timestamp_idx d j (found, idx) =
     (if j < 512 - TIMESTAMP_SIZE then
        get_timestamp_idx d (j + TIMESTAMP_SIZE)
          (if \<not> found \<and> part d j \<noteq> EMPTY_TIMESTAMP then (True, j) else (found, idx))
      else (found, idx))"
  by pat_completeness auto
termination by (relation "measure (\<lambda>(d, j, _). 512 - j)") (auto simp: TIMESTAMP_SIZE_def)

declare get_timestamp_idx.simps [simp del]

definition timestamp_insert_idx :: "512 word \<Rightarrow> nat" where
  "timestamp_insert_idx d = snd (get_timestamp_idx d PAYLOAD_OFFSET (False, 0))"

text \<open>\<open>{31'hABCD, i_curr_tick}\<close>, extended to the 64 bits it is assigned to.\<close>

definition stamp :: "u32 \<Rightarrow> u64" where
  "stamp i_curr_tick = push_bit 32 (ucast (0xABCD :: 31 word)) OR ucast i_curr_tick"

definition inject :: "u32 \<Rightarrow> axis_in \<Rightarrow> bool \<Rightarrow> 512 word" where
  "inject i_curr_tick i in_packet =
     (if sync_detected i in_packet
      then set_part (timestamp_insert_idx (tdata i)) (stamp i_curr_tick) (tdata i) else tdata i)"

section \<open>What is detected\<close>

lemma two_bytes: "(push_bit 8 (ucast a) OR ucast b :: u16) = c \<longleftrightarrow> a = ucast (drop_bit 8 c) \<and> b = ucast c"
  for a b :: u8
proof
  assume c: "push_bit 8 (ucast a) OR ucast b = c"
  have "a = ucast (drop_bit 8 c)" unfolding c [symmetric]
    by (rule bit_word_eqI) (auto simp: bit_simps dest: bit_imp_le_length)
  moreover have "b = ucast c" unfolding c [symmetric]
    by (rule bit_word_eqI) (auto simp: bit_simps dest: bit_imp_le_length)
  ultimately show "a = ucast (drop_bit 8 c) \<and> b = ucast c" by blast
next
  assume "a = ucast (drop_bit 8 c) \<and> b = ucast c"
  then show "push_bit 8 (ucast a) OR ucast b = c"
    by (auto intro!: bit_word_eqI simp: bit_simps)
qed

lemma nibble_byte:
  "(push_bit 4 (ucast a) OR ucast (drop_bit 4 b) :: 12 word) = c \<longleftrightarrow> a = ucast (drop_bit 4 c) \<and> drop_bit 4 b = ucast (take_bit 4 c)"
  for a b :: u8
proof
  assume c: "push_bit 4 (ucast a) OR ucast (drop_bit 4 b) = c"
  have "a = ucast (drop_bit 4 c)" unfolding c [symmetric]
    by (rule bit_word_eqI) (auto simp: bit_simps dest: bit_imp_le_length)
  moreover have "drop_bit 4 b = ucast (take_bit 4 c)" unfolding c [symmetric]
    by (rule bit_word_eqI) (auto simp: bit_simps dest: bit_imp_le_length)
  ultimately show "a = ucast (drop_bit 4 c) \<and> drop_bit 4 b = ucast (take_bit 4 c)" by blast
next
  assume c: "a = ucast (drop_bit 4 c) \<and> drop_bit 4 b = ucast (take_bit 4 c)"
  then show "push_bit 4 (ucast a) OR ucast (drop_bit 4 b) = c"
    by (auto intro!: bit_word_eqI simp: bit_simps)
qed

lemma is_VLAN_bytes: "is_VLAN d \<longleftrightarrow> byte_at d 12 = 0x00 \<and> byte_at d 13 = 0x81"
proof -
  have "(part d 96 :: u16) = push_bit 8 (ucast (byte_at d 13)) OR ucast (byte_at d 12)"
    by (rule bit_word_eqI) (auto simp: bit_part byte_at_def bit_simps)
  then show ?thesis by (auto simp: is_VLAN_def ETH_TYPE_OFFSET_def VLAN_TAG_def two_bytes)
qed

lemma is_correct_VLAN_bytes: "is_correct_VLAN d \<longleftrightarrow> byte_at d 15 = 0xAB \<and> drop_bit 4 (byte_at d 14) = 0xC"
proof -
  have "(part d 116 :: 12 word) = push_bit 4 (ucast (byte_at d 15)) OR ucast (drop_bit 4 (byte_at d 14))"
    by (rule bit_word_eqI) (auto simp: bit_part byte_at_def bit_simps)
  then show ?thesis by (auto simp: is_correct_VLAN_def VLAN_ID_OFFSET_def VLAN_ID_def nibble_byte)
qed

text \<open>
  The detector reads the fields of the header in the wrong byte order: it takes a first beat
  for a synchronisation packet exactly if the type is 00 81 on the wire and the tag ends in AB
  with C in the high half of the byte before.
\<close>

theorem detector_byte_order:
  assumes "tdata i = tdata_of pkt" and "16 \<le> length pkt"
  shows "sync_detected i in_packet \<longleftrightarrow> first_beat i in_packet \<and>
    pkt ! 12 = 0x00 \<and> pkt ! 13 = 0x81 \<and> drop_bit 4 (pkt ! 14) = 0xC \<and> pkt ! 15 = 0xAB"
  using assms by (auto simp: sync_detected_def is_VLAN_bytes is_correct_VLAN_bytes byte_at_tdata)

section \<open>Where a stamp goes\<close>

definition stamp_places :: "nat list" where
  "stamp_places = [144, 208, 272, 336, 400]"

lemma insert_idx_find:
  "timestamp_insert_idx d =
    (case find (\<lambda>j. (part d j :: u32) \<noteq> EMPTY_TIMESTAMP) stamp_places of None \<Rightarrow> 0 | Some j \<Rightarrow> j)"
  by (simp add: timestamp_insert_idx_def get_timestamp_idx.simps PAYLOAD_OFFSET_def TIMESTAMP_SIZE_def stamp_places_def)

lemma insert_idx_range: "timestamp_insert_idx d \<in> insert 0 (set stamp_places)"
  by (auto simp: insert_idx_find stamp_places_def)

lemma part_set_part: "part (set_part k v d) k = v" if "k + LENGTH('a) \<le> 512" for v :: "'a::len word"
  by (rule bit_word_eqI) (use that in \<open>auto simp: bit_part bit_set_part\<close>)

lemma part_set_part_other:
  "k + LENGTH('a) \<le> j \<or> j + LENGTH('b) \<le> k \<Longrightarrow> (part (set_part k (v :: 'a::len word) d) j :: 'b::len word) = part d j"
  by (rule bit_word_eqI) (auto simp: bit_part bit_set_part dest: bit_imp_le_length)

lemma set_part_twice: "set_part k v (set_part k w d) = set_part k v d" for v w :: "'a::len word"
  by (rule bit_word_eqI) (auto simp: bit_set_part)

lemma byte_set_part:
  assumes "j \<in> insert 0 (set stamp_places)" and "k < 64"
  shows "byte_at (set_part j (v :: u64) d) k =
    (if j div 8 \<le> k \<and> k < j div 8 + 8 then ucast (drop_bit (8 * (k - j div 8)) v) else byte_at d k)"
proof -
  obtain n where n: "j = 8 * n" "n \<le> 50" using assms(1) that [of "j div 8"] by (auto simp: stamp_places_def)
  show ?thesis
    by (rule bit_word_eqI) (use assms(2) in \<open>auto simp: n byte_at_def bit_part bit_set_part bit_simps algebra_simps\<close>)
qed

text \<open>
  C18: A stamp takes eight bytes: those of the first place behind the header that does not hold
  the mark of an empty one, though it is the empty places that are free.  If all five hold the
  mark, it takes the first eight bytes of the packet, the MAC addresses.  Every other byte of
  the beat is kept.
\<close>

theorem stamped_bytes:
  assumes "sync_detected i in_packet"
  shows "let n = timestamp_insert_idx (tdata i) div 8 in
    n \<in> {0, 18, 26, 34, 42, 50} \<and>
    (n = 0 \<longleftrightarrow> list_all (\<lambda>j. part (tdata i) j = EMPTY_TIMESTAMP) stamp_places) \<and>
    (n \<noteq> 0 \<longrightarrow> part (tdata i) (8 * n) \<noteq> EMPTY_TIMESTAMP) \<and>
    (\<forall>k < 64. byte_at (inject tick i in_packet) k =
       (if n \<le> k \<and> k < n + 8 then ucast (drop_bit (8 * (k - n)) (stamp tick)) else byte_at (tdata i) k))"
proof -
  let ?j = "timestamp_insert_idx (tdata i)"
  have "?j div 8 \<in> {0, 18, 26, 34, 42, 50}" using insert_idx_range [of "tdata i"] by (auto simp: stamp_places_def)
  moreover have "?j div 8 = 0 \<longleftrightarrow> list_all (\<lambda>j. part (tdata i) j = EMPTY_TIMESTAMP) stamp_places"
    by (auto simp: insert_idx_find stamp_places_def)
  moreover have "?j div 8 \<noteq> 0 \<longrightarrow> part (tdata i) (8 * (?j div 8)) \<noteq> EMPTY_TIMESTAMP"
    by (auto simp: insert_idx_find stamp_places_def)
  moreover have "\<forall>k < 64. byte_at (inject tick i in_packet) k =
       (if ?j div 8 \<le> k \<and> k < ?j div 8 + 8 then ucast (drop_bit (8 * (k - ?j div 8)) (stamp tick)) else byte_at (tdata i) k)"
    using assms by (simp add: inject_def byte_set_part [OF insert_idx_range])
  ultimately show ?thesis unfolding Let_def by (intro conjI)
qed

lemma low_half: "ucast (push_bit 32 a OR ucast b :: u64) = b" for b :: u32
  by (rule bit_word_eqI) (auto simp: bit_simps)

lemma stamp_tick: "ucast (stamp tick) = tick"
  unfolding stamp_def by (rule low_half)

lemma detected_after_stamp:
  assumes "j \<in> set stamp_places"
  shows "sync_detected (i\<lparr>tdata := set_part j (v :: u64) (tdata i)\<rparr>) in_packet = sync_detected i in_packet"
proof -
  have "(part (set_part j v (tdata i)) 96 :: u16) = part (tdata i) 96"
    and "(part (set_part j v (tdata i)) 116 :: 12 word) = part (tdata i) 116"
    by (rule part_set_part_other, use assms in \<open>auto simp: stamp_places_def\<close>)+
  then show ?thesis
    by (simp add: sync_detected_def first_beat_def is_VLAN_def is_correct_VLAN_def ETH_TYPE_OFFSET_def VLAN_ID_OFFSET_def)
qed

lemma part_stamped: "k + 64 \<le> 512 \<Longrightarrow> (part (set_part k (stamp tick) d) k :: u32) = tick"
  by (subst stamp_tick [symmetric], rule bit_word_eqI) (auto simp: bit_part bit_set_part bit_simps)

text \<open>
  The stamps of several cards do not add up in a packet: where a stamp has been put, the next
  card puts its own, unless the tick of the first happens to be the mark.
\<close>

theorem stamps_overwrite:
  assumes "part (tdata i) 144 \<noteq> EMPTY_TIMESTAMP" and "tick \<noteq> EMPTY_TIMESTAMP"
  shows "inject tick' (i\<lparr>tdata := inject tick i in_packet\<rparr>) in_packet = inject tick' i in_packet"
proof (cases "sync_detected i in_packet")
  case True
  have idx: "timestamp_insert_idx d = 144" if "(part d 144 :: u32) \<noteq> EMPTY_TIMESTAMP" for d
    using that by (simp add: insert_idx_find stamp_places_def)
  have "part (set_part 144 (stamp tick) (tdata i)) 144 \<noteq> EMPTY_TIMESTAMP" using assms(2) by (simp add: part_stamped)
  with assms(1) True show ?thesis
    by (simp add: inject_def idx detected_after_stamp stamp_places_def set_part_twice)
qed (simp add: inject_def)

definition swapped_packet :: "u8 list" where
  "swapped_packet = replicate 12 0x11 @ [0x00, 0x81, 0xC0, 0xAB, 0x08, 0x00] @ replicate 46 0xFF"

definition swapped_beat :: axis_in where
  "swapped_beat = \<lparr>tvalid = True, tdata = tdata_of swapped_packet, tlast = True, tready = True\<rparr>"

theorem detector_byte_order_witness: "sync_detected swapped_beat False"
  using detector_byte_order [of swapped_beat swapped_packet False]
  by (simp add: swapped_beat_def swapped_packet_def first_beat_def nth_append)

lemma place_byte: "part d (8 * k) = (c :: u32) \<Longrightarrow> byte_at d k = ucast c"
  by (auto simp: byte_at_def intro!: bit_word_eqI simp: bit_part bit_simps)

lemma swapped_nths:
  "swapped_packet ! 12 = 0x00" "swapped_packet ! 13 = 0x81" "swapped_packet ! 14 = 0xC0" "swapped_packet ! 15 = 0xAB"
  "swapped_packet ! 18 = 0xFF" "swapped_packet ! 26 = 0xFF"
  by (simp_all add: swapped_packet_def nth_append)

lemma swapped_bytes: "k < 64 \<Longrightarrow> byte_at (tdata swapped_beat) k = swapped_packet ! k"
  by (simp add: swapped_beat_def byte_at_tdata swapped_packet_def)

lemma swapped_place: "part (tdata swapped_beat) 144 \<noteq> EMPTY_TIMESTAMP" "timestamp_insert_idx (tdata swapped_beat) = 144"
proof -
  show "part (tdata swapped_beat) 144 \<noteq> EMPTY_TIMESTAMP"
    using place_byte [of "tdata swapped_beat" 18 EMPTY_TIMESTAMP] swapped_bytes [of 18]
    by (auto simp: EMPTY_TIMESTAMP_def swapped_nths)
  then show "timestamp_insert_idx (tdata swapped_beat) = 144"
    by (simp add: insert_idx_find stamp_places_def)
qed

lemma swapped_detected: "sync_detected swapped_beat False"
  by (simp add: sync_detected_def first_beat_def is_VLAN_bytes is_correct_VLAN_bytes swapped_bytes swapped_nths)
     (simp add: swapped_beat_def)

theorem stamped_bytes_witness:
  "byte_at (inject 5 swapped_beat False) 18 = 5 \<and> byte_at (inject 5 swapped_beat False) 26 = 0xFF"
  using stamped_bytes [OF swapped_detected, of 5] swapped_bytes [of 26]
  by (simp add: Let_def swapped_place stamp_def swapped_nths)

theorem stamps_overwrite_witness:
  "inject 9 (swapped_beat\<lparr>tdata := inject 5 swapped_beat False\<rparr>) False = inject 9 swapped_beat False \<and>
   byte_at (inject 5 swapped_beat False) 18 \<noteq> byte_at (inject 9 swapped_beat False) 18"
proof -
  have "(5 :: u32) \<noteq> EMPTY_TIMESTAMP" by (simp add: EMPTY_TIMESTAMP_def)
  from stamps_overwrite [OF swapped_place(1) this, of 9 False]
  have "inject 9 (swapped_beat\<lparr>tdata := inject 5 swapped_beat False\<rparr>) False = inject 9 swapped_beat False" .
  moreover have "byte_at (inject n swapped_beat False) 18 = ucast (stamp n)" for n
    by (simp add: inject_def swapped_detected swapped_place byte_set_part stamp_places_def)
  ultimately show ?thesis by (simp add: stamp_def)
qed

end
