(* ===== verification/InjectPlugin.thy ===== *)
theory InjectPlugin
  imports SyncPulse TimestampInject ClkSync Stats
begin

text \<open>
  The plugin of the FPGA, \<open>fpga/hw/plugins/inject_timestamp/p2p_322mhz.sv\<close>, which puts the
  clock block and a detector and inserter per stream together, and what becomes of its stamps
  on the host.  The register slices around the inserters are blocks of the shell: the streams
  are the ones between them, and those from the network are always taken.  Each port has a
  clock of its own; an instant is given by the clocks that rise.
\<close>

section \<open>State\<close>

text \<open>\<open>in_packets\<close> holds the registers of the detectors, two to a port, transmit before receive.\<close>

record plugin =
  sync_detected_combined_meta :: bool
  sync_detected_combined_r :: bool
  clk_sync_pulse_inst :: sync_regs
  in_packets :: "bool list"

record instant =
  cmac_clk :: "bool list"
  cmac_rstn :: bool
  tx_beats :: "axis_in list"
  rx_beats :: "axis_in list"

text \<open>The streams in the order of \<open>syncs_detected\<close>: bit \<open>2 i\<close> is sent, bit \<open>2 i + 1\<close> received.\<close>

fun streams :: "axis_in list \<Rightarrow> axis_in list \<Rightarrow> axis_in list" where
  "streams (t # ts) (r # rs) = t # r\<lparr>tready := True\<rparr> # streams ts rs"
| "streams _ _ = []"

definition beats :: "instant \<Rightarrow> axis_in list" where
  "beats x = streams (tx_beats x) (rx_beats x)"

definition syncs_detected :: "instant \<Rightarrow> plugin \<Rightarrow> bool list" where
  "syncs_detected x p = map2 sync_detected (beats x) (in_packets p)"

text \<open>
  What happens at an instant.  The reset of the detectors is not connected, so what it reads as
  is a parameter.
\<close>

definition plugin_step :: "bool \<Rightarrow> instant \<Rightarrow> plugin \<Rightarrow> plugin" where
  "plugin_step unconnected x p =
     (let own = map2 (\<lambda>i ip. next_in_packet unconnected i ip) (beats x) (in_packets p) in
      \<lparr>sync_detected_combined_meta =
         (if cmac_clk x ! 0 then list_ex id (syncs_detected x p) else sync_detected_combined_meta p),
       sync_detected_combined_r =
         (if cmac_clk x ! 0 then sync_detected_combined_meta p else sync_detected_combined_r p),
       clk_sync_pulse_inst =
         (if cmac_clk x ! 0
          then sync_edge DEFAULT_MODE DEFAULT_PERIOD (cmac_rstn x) (sync_detected_combined_r p) (clk_sync_pulse_inst p)
          else clk_sync_pulse_inst p),
       in_packets = map (\<lambda>k. if cmac_clk x ! (k div 2) then own ! k else in_packets p ! k) [0..<length (in_packets p)]\<rparr>)"

text \<open>The data of the streams behind the inserters.\<close>

definition plugin_out :: "instant \<Rightarrow> plugin \<Rightarrow> 512 word list" where
  "plugin_out x p = map2 (inject (reg_curr_tick (clk_sync_pulse_inst p))) (beats x) (in_packets p)"

definition plugin_run :: "bool \<Rightarrow> instant list \<Rightarrow> plugin \<Rightarrow> plugin" where
  "plugin_run unconnected = fold (plugin_step unconnected)"

section \<open>Stamps carry no time\<close>

lemma clk_in_reset:
  assumes "list_all (\<lambda>x. cmac_clk x ! 0 \<and> \<not> cmac_rstn x) rs"
  shows "\<exists>qs. length qs = length rs \<and> clk_sync_pulse_inst (plugin_run unconnected rs p) =
    sync_run DEFAULT_MODE DEFAULT_PERIOD (map (Pair False) qs) (clk_sync_pulse_inst p)"
  using assms
proof (induction rs arbitrary: p)
  case (Cons x rs)
  from Cons.IH [of "plugin_step unconnected x p"] Cons.prems obtain qs where "length qs = length rs"
    and "clk_sync_pulse_inst (plugin_run unconnected rs (plugin_step unconnected x p)) =
      sync_run DEFAULT_MODE DEFAULT_PERIOD (map (Pair False) qs) (clk_sync_pulse_inst (plugin_step unconnected x p))"
    by auto
  with Cons.prems show ?case
    by (intro exI [of _ "sync_detected_combined_r p # qs"]) (simp add: plugin_run_def plugin_step_def Let_def)
qed (simp add: plugin_run_def)

definition no_ticks :: "sync_regs \<Rightarrow> bool" where
  "no_ticks r \<longleftrightarrow> is_slave r \<and> reg_curr_tick r = 0"

lemma plugin_step_no_ticks:
  "no_ticks (clk_sync_pulse_inst p) \<Longrightarrow> no_ticks (clk_sync_pulse_inst (plugin_step unconnected x p))"
  by (simp add: no_ticks_def plugin_step_def Let_def DEFAULT_MODE_def slave_edge)

lemma plugin_run_no_ticks:
  "no_ticks (clk_sync_pulse_inst p) \<Longrightarrow> no_ticks (clk_sync_pulse_inst (plugin_run unconnected xs p))"
  by (induction xs arbitrary: p) (simp_all add: plugin_run_def plugin_step_no_ticks)

text \<open>
  C14: The stamps carry no time: once the plugin has been in reset for four edges of its clock,
  whatever comes in, every beat that leaves it is the beat that came in or that beat with the
  constant 0000ABCD00000000 in the place of the stamp.
\<close>

theorem stamps_carry_no_time:
  assumes "4 \<le> length rs" and "list_all (\<lambda>x. cmac_clk x ! 0 \<and> \<not> cmac_rstn x) rs"
  shows "plugin_out x (plugin_run unconnected (rs @ xs) p) =
    map2 (\<lambda>i ip. if sync_detected i ip then set_part (timestamp_insert_idx (tdata i)) (0x0000ABCD00000000 :: u64) (tdata i)
                 else tdata i) (beats x) (in_packets (plugin_run unconnected (rs @ xs) p))"
proof -
  obtain qs where "length qs = length rs" and "clk_sync_pulse_inst (plugin_run unconnected rs p) =
      sync_run DEFAULT_MODE DEFAULT_PERIOD (map (Pair False) qs) (clk_sync_pulse_inst p)"
    using clk_in_reset [OF assms(2)] by blast
  then have "clk_sync_pulse_inst (plugin_run unconnected rs p) = sync_reset SLAVE DEFAULT_PERIOD"
    using assms(1) by (simp add: sync_reset_reached DEFAULT_MODE_def)
  then have "no_ticks (clk_sync_pulse_inst (plugin_run unconnected rs p))"
    using slave_after_reset by (simp add: no_ticks_def sync_reset_def)
  then have "no_ticks (clk_sync_pulse_inst (plugin_run unconnected (rs @ xs) p))"
    using plugin_run_no_ticks by (simp add: plugin_run_def)
  then have "reg_curr_tick (clk_sync_pulse_inst (plugin_run unconnected (rs @ xs) p)) = 0" by (simp add: no_ticks_def)
  moreover have "stamp 0 = 0x0000ABCD00000000" by (simp add: stamp_def)
  ultimately show ?thesis by (auto simp: plugin_out_def inject_def)
qed

section \<open>The packets of the sender\<close>

lemma sync_packet_type:
  assumes "18 \<le> unat sz"
  shows "16 \<le> length (sync_packet sz)" and "sync_packet sz ! 12 = 0x81"
  using assms by (simp_all add: sync_packet_def sync_header_def be16_bytes_def RTE_ETHER_TYPE_VLAN_def CLK_VLAN_ID_def nth_append)


section \<open>The host behind the card\<close>

definition bytes_of :: "512 word \<Rightarrow> u8 list" where
  "bytes_of d = map (byte_at d) [0..<64]"

lemma bytes_of_stamped:
  "bytes_of (set_part 144 (v :: u64) d) =
     take 18 (bytes_of d) @ map (\<lambda>k. ucast (drop_bit (8 * k) v)) [0..<8] @ drop 26 (bytes_of d)"
  by (rule nth_equalityI) (auto simp: bytes_of_def byte_set_part stamp_places_def nth_append)

lemma read_hops_skips:
  assumes "length s = 8" and "length s' = 8" and "length a = 18"
  shows "read_hops little (drop TIMESTAMP_OFFSET (a @ s @ b)) 0 0 NB_HOPS ts =
    read_hops little (drop TIMESTAMP_OFFSET (a @ s' @ b)) 0 0 NB_HOPS ts"
  using assms by (simp add: NB_HOPS_def TIMESTAMP_OFFSET_def NB_SYNC_LEN_def CURR_TICK_LEN_def numeral_eq_Suc load64_def Let_def)

lemma bytes_of_split:
  "bytes_of d = take 18 (bytes_of d) @ take 8 (drop 18 (bytes_of d)) @ drop 26 (bytes_of d)"
  using append_take_drop_id [of 18 "bytes_of d"] append_take_drop_id [of 8 "drop 18 (bytes_of d)"] by simp

text \<open>
  The host does not read the stamp: the times it takes from a packet do not depend on
  whether a card has put its stamp in the first place, on which tick, or on the order of the
  bytes of the host.
\<close>

theorem host_never_reads_stamp:
  assumes "part (tdata i) 144 \<noteq> EMPTY_TIMESTAMP"
  shows "read_hops little (drop TIMESTAMP_OFFSET (bytes_of (inject tick i in_packet) @ rest)) 0 0 NB_HOPS ts =
    read_hops little (drop TIMESTAMP_OFFSET (bytes_of (tdata i) @ rest)) 0 0 NB_HOPS ts"
proof (cases "sync_detected i in_packet")
  case True
  from assms True have out: "bytes_of (inject tick i in_packet) =
      take 18 (bytes_of (tdata i)) @ map (\<lambda>k. ucast (drop_bit (8 * k) (stamp tick))) [0..<8] @ drop 26 (bytes_of (tdata i))"
    by (simp add: inject_def insert_idx_find stamp_places_def bytes_of_stamped)
  show ?thesis
    by (simp only: out append_assoc, subst bytes_of_split [of "tdata i"], simp only: append_assoc,
        rule read_hops_skips) (simp_all add: bytes_of_def)
qed (simp add: inject_def)

section \<open>A sample run\<close>

definition idle_beat :: axis_in where
  "idle_beat = \<lparr>tvalid = False, tdata = 0, tlast = False, tready = False\<rparr>"

definition reset_instant :: instant where
  "reset_instant = \<lparr>cmac_clk = [True], cmac_rstn = False, tx_beats = [idle_beat], rx_beats = [idle_beat]\<rparr>"

definition packet_instant :: instant where
  "packet_instant = \<lparr>cmac_clk = [True], cmac_rstn = True, tx_beats = [swapped_beat], rx_beats = [idle_beat]\<rparr>"

definition sample_plugin :: plugin where
  "sample_plugin = \<lparr>sync_detected_combined_meta = False, sync_detected_combined_r = False,
     clk_sync_pulse_inst = sync_reset MASTER 7, in_packets = [False, False]\<rparr>"

lemma reset_in_packets:
  "in_packets p = [False, False] \<Longrightarrow> in_packets (plugin_run True (replicate n reset_instant) p) = [False, False]"
proof (induction n arbitrary: p)
  case (Suc n)
  then have "in_packets (plugin_step True reset_instant p) = [False, False]"
    by (simp add: plugin_step_def reset_instant_def beats_def next_in_packet_def idle_beat_def Let_def numeral_eq_Suc)
  with Suc.IH show ?case by (simp add: plugin_run_def)
qed (simp add: plugin_run_def)

theorem stamps_carry_no_time_witness:
  "plugin_out packet_instant (plugin_run True (replicate 4 reset_instant @ []) sample_plugin) =
    [set_part 144 (0x0000ABCD00000000 :: u64) (tdata swapped_beat), 0]"
proof -
  have "in_packets (plugin_run True (replicate 4 reset_instant @ []) sample_plugin) = [False, False]"
    by (simp add: reset_in_packets sample_plugin_def)
  moreover have "list_all (\<lambda>x. cmac_clk x ! 0 \<and> \<not> cmac_rstn x) (replicate 4 reset_instant)"
    by (simp add: reset_instant_def list_all_iff)
  ultimately show ?thesis
    using stamps_carry_no_time [of "replicate 4 reset_instant" packet_instant True "[]" sample_plugin]
    by (simp add: beats_def packet_instant_def swapped_detected swapped_place)
       (simp add: sync_detected_def first_beat_def idle_beat_def)
qed


theorem host_never_reads_stamp_witness:
  "let ts = \<lparr>timestamp_nb_sync = [0, 0, 0], timestamp_curr_tick = [0, 0, 0]\<rparr> in
   read_hops True (drop TIMESTAMP_OFFSET (bytes_of (inject 5 swapped_beat False) @ [])) 0 0 NB_HOPS ts =
   read_hops True (drop TIMESTAMP_OFFSET (bytes_of (tdata swapped_beat) @ [])) 0 0 NB_HOPS ts"
  using host_never_reads_stamp [OF swapped_place(1), of True 5 False "[]"] by (simp only: Let_def)

end
