(* ===== verification/TestBench.thy ===== *)
theory TestBench
  imports SyncPulse CText
begin

text \<open>
  The test bench of the clock block: \<open>fpga/hw/IPs/clk_sync_pulse/tb/testbench.cpp\<close>.  The class
  \<open>Vclk_sync_pulse\<close> is generated from the sources of the block: the state holds its pins and
  its registers, and \<open>eval\<close> lets the registers see a rising edge of \<open>axis_aclk\<close> when the pin went
  up since the last \<open>eval\<close>.  The block is built with the parameters it has by default.  The two
  ready lines come from \<open>axi_lite_register\<close>, which is not in the repository; reading one is a
  call.  The lines on the console and the dumps of the waves are calls too.
\<close>

section \<open>Data\<close>

record bench =
  now :: int
  axil_aclk :: bool
  axil_aresetn :: bool
  axis_aclk :: bool
  axis_aresetn :: bool
  sync_pulse_i :: bool
  s_axil_awvalid :: bool
  s_axil_wvalid :: bool
  s_axil_awaddr :: u32
  s_axil_wdata :: u32
  axis_seen :: bool
  regs :: sync_regs

datatype bench_call = SetupTrace | AwReady | WReady | Dump int | Print string | CloseTrace

text \<open>The global \<open>t\<close> is an \<open>int\<close>: counting it beyond its range is undefined.\<close>

datatype bench_exit = TimeOverflow

type_synonym 'a bench_io = "(bench_call, bool, bench, bench_exit, 'a) io"

definition BENCH_PERIOD :: int where "BENCH_PERIOD = 322"
definition TICK_PER_CLK :: int where "TICK_PER_CLK = 2"

section \<open>Evaluation of the block\<close>

definition eval_model :: "bench \<Rightarrow> bench" where
  "eval_model s = s\<lparr>regs :=
     (if axis_aclk s \<and> \<not> axis_seen s then sync_edge DEFAULT_MODE DEFAULT_PERIOD (axis_aresetn s) (sync_pulse_i s) (regs s)
      else regs s),
     axis_seen := axis_aclk s\<rparr>"

definition eval_and_dump_wave :: "unit bench_io" where
  "eval_and_dump_wave = io_then (io_modify eval_model) (io_bind (io_get now) (\<lambda>n. io_do (Dump n)))"

definition count_now :: "unit bench_io" where
  "count_now = io_bind (io_get now) (\<lambda>n.
     if in_cint (n + 1) then io_modify (now_update (\<lambda>_. n + 1)) else io_exit TimeOverflow)"

definition shown :: "(bench \<Rightarrow> string) \<Rightarrow> unit bench_io" where
  "shown text_of = io_bind (io_get text_of) (\<lambda>line. io_do (Print line))"

text \<open>\<open>t % 2\<close> of a time, which is never negative, as the level of a pin.\<close>

definition level :: "int \<Rightarrow> bool" where
  "level n \<longleftrightarrow> c_mod n 2 \<noteq> 0"

definition drive_axis :: "unit bench_io" where
  "drive_axis = io_then (io_modify (\<lambda>s. s\<lparr>axis_aclk := level (now s)\<rparr>)) (io_then eval_and_dump_wave count_now)"

definition drive_axil :: "unit bench_io" where
  "drive_axil = io_then (io_modify (\<lambda>s. s\<lparr>axil_aclk := level (now s)\<rparr>)) (io_then eval_and_dump_wave count_now)"

text \<open>A loop that runs until a time.\<close>

definition until :: "int \<Rightarrow> unit bench_io \<Rightarrow> unit bench_io" where
  "until end_t body = io_loop (io_bind (io_get now) (\<lambda>n.
     if n < end_t then io_then body (io_ret True) else io_ret False))"

definition test_length :: "int \<Rightarrow> int" where
  "test_length nb_periods = TICK_PER_CLK * (nb_periods * BENCH_PERIOD + 1)"

section \<open>The tests\<close>

definition TAB :: string where "TAB = [CHR 0x09]"

definition period_message :: string where
  "period_message = ''!!!!! nb_sync_o should increment every '' @ dec_int BENCH_PERIOD @ '' ticks''"

definition finished :: "string \<Rightarrow> string \<Rightarrow> bench \<Rightarrow> string" where
  "finished gap test s = ''t=('' @ dec_int (now s) @ '')'' @ gap @ ''Finished '' @ test"

definition initial_reset :: "unit bench_io" where
  "initial_reset = io_then (io_modify (axil_aresetn_update (\<lambda>_. False)))
     (io_then (io_modify (axil_aclk_update (\<lambda>_. False))) (io_then eval_and_dump_wave (io_then count_now
     (io_then (io_modify (axil_aclk_update (\<lambda>_. True))) (io_then eval_and_dump_wave (io_then count_now
     (io_then (io_modify (axil_aresetn_update (\<lambda>_. True)))
       (shown (finished (TAB @ TAB) ''initial reset'')))))))))"

definition nb_sync_int :: "bench \<Rightarrow> int" where
  "nb_sync_int s = sint (reg_nb_sync (regs s))"

definition test_master_mode :: "unit bench_io" where
  "test_master_mode = io_bind (io_get now) (\<lambda>n.
     io_then (until (n + test_length 4) drive_axis)
     (io_then (shown (finished TAB ''master mode test''))
     (io_bind (io_get nb_sync_int) (\<lambda>nb.
       io_when (nb \<noteq> 4) (shown (\<lambda>s. dec (unat (reg_nb_sync (regs s))) @ period_message))))))"

definition wait_ready :: "unit bench_io" where
  "wait_ready = io_loop (io_bind (io_call AwReady) (\<lambda>aw.
     io_bind (if aw then io_call WReady else io_ret False) (\<lambda>w.
     if w then io_ret False else io_then drive_axis (io_ret True))))"

definition test_axi_write :: "unit bench_io" where
  "test_axi_write = io_then wait_ready
     (io_then (io_modify (\<lambda>s. s\<lparr>s_axil_awvalid := True, s_axil_wvalid := True, s_axil_awaddr := 0, s_axil_wdata := 0\<rparr>))
     (io_then (io_for [0..<4 :: nat] (\<lambda>i. drive_axil))
       (io_modify (\<lambda>s. s\<lparr>s_axil_awvalid := False, s_axil_wvalid := False\<rparr>))))"

definition pulse_at :: "int \<Rightarrow> bool" where
  "pulse_at n \<longleftrightarrow> c_mod (n + 1) (TICK_PER_CLK * BENCH_PERIOD) = 0 \<or> c_mod n (TICK_PER_CLK * BENCH_PERIOD) = 0"

definition drive_pulse :: "unit bench_io" where
  "drive_pulse = io_then (io_modify (sync_pulse_i_update (\<lambda>_. False)))
     (io_then (io_modify (\<lambda>s. if pulse_at (now s) then s\<lparr>sync_pulse_i := True\<rparr> else s)) drive_axis)"

definition test_slave_mode :: "unit bench_io" where
  "test_slave_mode = io_bind (io_get now) (\<lambda>n.
     io_then (until (n + test_length 2) drive_axis)
     (io_bind (io_get now) (\<lambda>n.
     io_bind (io_get nb_sync_int) (\<lambda>curr_nb_sync.
     io_then (until (n + test_length 2) drive_pulse)
     (io_then (shown (finished TAB ''slave mode test''))
     (io_bind (io_get nb_sync_int) (\<lambda>nb.
       io_when (nb \<noteq> curr_nb_sync + 2)
         (io_then (io_do (Print period_message))
           (io_do (Print (dec_int nb @ '' '' @ dec_int curr_nb_sync @ '' '' @ dec_int 2)))))))))))"

definition bench_main :: "int bench_io" where
  "bench_main = io_then (io_do SetupTrace) (io_then initial_reset (io_then test_master_mode
     (io_then test_axi_write (io_then test_slave_mode (io_then (io_do CloseTrace) (io_ret 0))))))"


section \<open>How the loops run\<close>

definition printed :: "(bench_call, bool) trace \<Rightarrow> string list" where
  "printed t = concat (map (\<lambda>(c, a). case c of Print line \<Rightarrow> [line] | _ \<Rightarrow> []) t)"

lemma printed_simps [simp]:
  "printed [] = []"
  "printed (x # u) = (case fst x of Print line \<Rightarrow> [line] | _ \<Rightarrow> []) @ printed u"
  "printed (u @ v) = printed u @ printed v"
  by (simp_all add: printed_def split: prod.splits)

text \<open>A step of the bench that succeeds, as a function on its state, and what it prints.\<close>

definition runs_to :: "unit bench_io \<Rightarrow> (bench_call, bool) env \<Rightarrow> bench \<Rightarrow> bench \<Rightarrow> string list \<Rightarrow> bool" where
  "runs_to m e s s' lines \<longleftrightarrow> (\<forall>t. \<exists>u. m e s t = Some (Inr (), s', t @ u) \<and> printed u = lines)"

lemma runs_toI: "(\<And>t. \<exists>u. m e s t = Some (Inr (), s', t @ u) \<and> printed u = lines) \<Longrightarrow> runs_to m e s s' lines"
  by (simp add: runs_to_def)

lemma runs_to_then:
  assumes "runs_to m e s s1 l1" and "runs_to k e s1 s2 l2"
  shows "runs_to (io_then m k) e s s2 (l1 @ l2)"
proof (rule runs_toI)
  fix t
  obtain u where u: "m e s t = Some (Inr (), s1, t @ u)" "printed u = l1" using assms(1) unfolding runs_to_def by blast
  obtain v where v: "k e s1 (t @ u) = Some (Inr (), s2, (t @ u) @ v)" "printed v = l2" using assms(2) unfolding runs_to_def by blast
  show "\<exists>w. io_then m k e s t = Some (Inr (), s2, t @ w) \<and> printed w = l1 @ l2"
    by (rule exI [of _ "u @ v"]) (simp add: io_simps u v)
qed

lemma runs_to_get: "runs_to (k (f s)) e s s' lines \<Longrightarrow> runs_to (io_bind (io_get f) k) e s s' lines"
  by (simp add: runs_to_def io_simps)

lemma runs_to_basic:
  "runs_to (io_modify f) e s (f s) []"
  "runs_to (io_ret ()) e s s []"
  "runs_to (io_do c) e s s (case c of Print line \<Rightarrow> [line] | _ \<Rightarrow> [])"
  "runs_to (shown text_of) e s s [text_of s]"
  "runs_to eval_and_dump_wave e s (eval_model s) []"
  by (simp_all add: runs_to_def shown_def eval_and_dump_wave_def io_simps)

lemma runs_to_when: "(b \<Longrightarrow> runs_to m e s s lines) \<Longrightarrow> runs_to (io_when b m) e s s (if b then lines else [])"
  by (simp add: runs_to_def io_simps)

definition axis_step :: "bench \<Rightarrow> bench" where
  "axis_step s = (eval_model (s\<lparr>axis_aclk := level (now s)\<rparr>))\<lparr>now := now s + 1\<rparr>"

lemma now_eval [simp]: "now (eval_model s) = now s"
  by (simp add: eval_model_def)

lemma runs_to_drive_axis:
  "in_cint (now s + 1) \<Longrightarrow> runs_to drive_axis e s (axis_step s) []"
  by (simp add: runs_to_def drive_axis_def count_now_def eval_and_dump_wave_def io_simps axis_step_def)

lemma runs_to_until:
  assumes body: "\<And>s. now s < end_t \<Longrightarrow> P s \<Longrightarrow> runs_to body e s (step s) [] \<and> P (step s) \<and> now (step s) = now s + 1"
    and "P s"
  shows "runs_to (until end_t body) e s ((step ^^ nat (end_t - now s)) s) []"
  using \<open>P s\<close>
proof (induction "nat (end_t - now s)" arbitrary: s)
  case 0
  then have stop: "\<not> now s < end_t" by simp
  show ?case unfolding until_def
    by (rule runs_toI, rule exI [of _ "[]"], subst io_loop.simps) (use 0 stop in \<open>simp add: io_simps\<close>)
next
  case (Suc n)
  then have lt: "now s < end_t" by simp
  note b = body [OF lt Suc.prems]
  have n: "n = nat (end_t - now (step s))" using Suc.hyps(2) b by simp
  have IH: "runs_to (until end_t body) e (step s) ((step ^^ n) (step s)) []"
    using Suc.hyps(1) [OF n] b n by simp
  show ?case
  proof (rule runs_toI)
    fix t
    obtain u where u: "body e s t = Some (Inr (), step s, t @ u)" "printed u = []" using b unfolding runs_to_def by blast
    obtain v where v: "until end_t body e (step s) (t @ u) = Some (Inr (), (step ^^ n) (step s), (t @ u) @ v)" "printed v = []"
      using IH unfolding runs_to_def by blast
    have "until end_t body e s t = until end_t body e (step s) (t @ u)"
      unfolding until_def by (rule io_loop_go) (simp add: io_simps lt u)
    with u v show "\<exists>w. until end_t body e s t = Some (Inr (), (step ^^ nat (end_t - now s)) s, t @ w) \<and> printed w = []"
      by (intro exI [of _ "u @ v"]) (simp add: Suc.hyps(2) [symmetric] funpow_Suc_right del: funpow.simps)
  qed
qed


section \<open>What the block does under the bench\<close>

lemma level_odd: "0 \<le> n \<Longrightarrow> level n \<longleftrightarrow> odd n"
  by (simp add: level_def c_mod_nonneg odd_iff_mod_2_eq_one)

text \<open>A slave that counted nothing and is sent no pulse; \<open>b\<close> is the reset pin of its clock.\<close>

definition idle :: "bool \<Rightarrow> bench \<Rightarrow> bool" where
  "idle b s \<longleftrightarrow> is_slave (regs s) \<and> reg_nb_sync (regs s) = 0 \<and> \<not> sync_pulse_i s \<and> axis_aresetn s = b"

lemma idle_eval: "idle b s \<Longrightarrow> idle b (eval_model s)"
  by (simp add: idle_def eval_model_def slave_edge DEFAULT_MODE_def)

lemma idle_axis: "idle b s \<Longrightarrow> idle b (axis_step s)"
  using idle_eval [of b "s\<lparr>axis_aclk := level (now s)\<rparr>"] by (simp add: axis_step_def idle_def)

lemma now_axis [simp]: "now (axis_step s) = now s + 1"
  by (simp add: axis_step_def)

lemma seen_axis [simp]: "axis_seen (axis_step s) = level (now s)"
  by (simp add: axis_step_def eval_model_def)

lemma now_axis_steps [simp]: "now ((axis_step ^^ n) s) = now s + int n"
  by (induction n) simp_all

lemma seen_axis_steps: "0 < n \<Longrightarrow> axis_seen ((axis_step ^^ n) s) = level (now s + int n - 1)"
  by (cases n) simp_all

lemma idle_axis_steps: "idle b s \<Longrightarrow> idle b ((axis_step ^^ n) s)"
  by (induction n) (simp_all add: idle_axis)

definition pulse_step :: "bench \<Rightarrow> bench" where
  "pulse_step s = axis_step (s\<lparr>sync_pulse_i := pulse_at (now s)\<rparr>)"

text \<open>The rising edges with a pulse in \<open>n\<close> steps from a time on.\<close>

definition pulses :: "int \<Rightarrow> nat \<Rightarrow> nat" where
  "pulses from n = length (filter (\<lambda>i. odd (from + int i) \<and> pulse_at (from + int i)) [0..<n])"

lemma pulse_step_simps:
  assumes "is_slave (regs s)" and "0 < now s" and "axis_seen s = level (now s - 1)"
  shows "is_slave (regs (pulse_step s))" "axis_aresetn (pulse_step s) = axis_aresetn s" "now (pulse_step s) = now s + 1"
    and "axis_seen (pulse_step s) = level (now s)"
    and "reg_nb_sync (regs (pulse_step s)) = (if \<not> odd (now s) then reg_nb_sync (regs s)
      else if axis_aresetn s then reg_nb_sync (regs s) + of_bool (pulse_at (now s)) else 0)"
  using assms by (auto simp: pulse_step_def axis_step_def eval_model_def level_odd slave_edge DEFAULT_MODE_def)

lemma pulses_Suc:
  "pulses from (Suc n) = pulses from n + of_bool (odd (from + int n) \<and> pulse_at (from + int n))"
  by (simp add: pulses_def)

lemma pulse_steps:
  assumes "is_slave (regs s)" and "axis_aresetn s = b" and "reg_nb_sync (regs s) = 0" and "0 < now s"
    and "axis_seen s = level (now s - 1)"
  shows "is_slave (regs ((pulse_step ^^ n) s)) \<and> axis_aresetn ((pulse_step ^^ n) s) = b \<and>
    now ((pulse_step ^^ n) s) = now s + int n \<and> axis_seen ((pulse_step ^^ n) s) = level (now s + int n - 1) \<and>
    reg_nb_sync (regs ((pulse_step ^^ n) s)) = (if b then of_nat (pulses (now s) n) else 0)"
proof (induction n)
  case 0
  then show ?case using assms by (simp add: pulses_def)
next
  case (Suc n)
  let ?s = "(pulse_step ^^ n) s"
  have "is_slave (regs ?s)" "0 < now ?s" "axis_seen ?s = level (now ?s - 1)" using Suc.IH assms(4) by simp_all
  note pulse_step_simps [OF this]
  with Suc.IH show ?case by (simp add: pulses_Suc)
qed

lemma runs_to_drive_pulse: "in_cint (now s + 1) \<Longrightarrow> runs_to drive_pulse e s (pulse_step s) []"
  by (simp add: runs_to_def drive_pulse_def drive_axis_def count_now_def eval_and_dump_wave_def io_simps
      pulse_step_def axis_step_def)


section \<open>The verdicts\<close>

lemma axis_until:
  assumes "0 \<le> now s" and "end_t < 2 ^ 31"
  shows "runs_to (until end_t drive_axis) e s ((axis_step ^^ nat (end_t - now s)) s) []"
  by (rule runs_to_until [where P = "\<lambda>s. 0 \<le> now s"])
    (use assms in \<open>auto simp: in_cint_def intro!: runs_to_drive_axis\<close>)

lemma pulse_until:
  assumes "0 \<le> now s" and "end_t < 2 ^ 31"
  shows "runs_to (until end_t drive_pulse) e s ((pulse_step ^^ nat (end_t - now s)) s) []"
  by (rule runs_to_until [where P = "\<lambda>s. 0 \<le> now s"])
    (use assms in \<open>auto simp: in_cint_def pulse_step_def intro!: runs_to_drive_pulse [unfolded pulse_step_def]\<close>)

text \<open>The block is reset from the pins of the other clock, which no register sees.\<close>

definition reset_step :: "bench \<Rightarrow> bench" where
  "reset_step s = (let s1 = eval_model (s\<lparr>axil_aresetn := False, axil_aclk := False\<rparr>);
       s2 = eval_model (s1\<lparr>now := now s + 1, axil_aclk := True\<rparr>)
     in s2\<lparr>now := now s + 2, axil_aresetn := True\<rparr>)"

lemma runs_to_reset:
  assumes "now s = 0"
  shows "runs_to initial_reset e s (reset_step s) [finished (TAB @ TAB) ''initial reset'' (reset_step s)]"
  using assms by (simp add: runs_to_def initial_reset_def count_now_def eval_and_dump_wave_def io_simps in_cint_def
      shown_def reset_step_def Let_def)

lemma idle_reset: "idle b s \<Longrightarrow> idle b (reset_step s)"
  by (auto simp: idle_def reset_step_def Let_def eval_model_def slave_edge DEFAULT_MODE_def)

lemma now_reset: "now (reset_step s) = now s + 2"
  by (simp add: reset_step_def Let_def)

definition axil_step :: "bench \<Rightarrow> bench" where
  "axil_step s = (eval_model (s\<lparr>axil_aclk := level (now s)\<rparr>))\<lparr>now := now s + 1\<rparr>"

lemma runs_to_drive_axil: "in_cint (now s + 1) \<Longrightarrow> runs_to drive_axil e s (axil_step s) []"
  by (simp add: runs_to_def drive_axil_def count_now_def eval_and_dump_wave_def io_simps axil_step_def)

lemma now_axil_steps [simp]: "now ((axil_step ^^ n) s) = now s + int n"
  by (induction n) (simp_all add: axil_step_def)

lemma idle_axil_steps: "idle b s \<Longrightarrow> idle b ((axil_step ^^ n) s)"
  by (induction n) (auto simp: idle_def axil_step_def eval_model_def slave_edge DEFAULT_MODE_def)

lemma runs_to_for_axil:
  "0 \<le> now s \<Longrightarrow> now s + int (length xs) < 2 ^ 31 \<Longrightarrow>
   runs_to (io_for xs (\<lambda>i. drive_axil)) e s ((axil_step ^^ length xs) s) []"
proof (induction xs arbitrary: s)
  case Nil
  show ?case by (simp add: runs_to_basic)
next
  case (Cons x xs)
  have "runs_to drive_axil e s (axil_step s) []"
    by (rule runs_to_drive_axil) (use Cons.prems in \<open>simp add: in_cint_def\<close>)
  moreover have "runs_to (io_for xs (\<lambda>i. drive_axil)) e (axil_step s) ((axil_step ^^ length xs) (axil_step s)) []"
    by (rule Cons.IH) (use Cons.prems in \<open>simp_all add: axil_step_def\<close>)
  ultimately show ?case using runs_to_then by (fastforce simp: funpow_Suc_right simp del: funpow.simps)
qed

text \<open>The state after the write to the mode register, when the block is ready for it.\<close>

definition write_step :: "bench \<Rightarrow> bench" where
  "write_step s = ((axil_step ^^ 4) (s\<lparr>s_axil_awvalid := True, s_axil_wvalid := True, s_axil_awaddr := 0, s_axil_wdata := 0\<rparr>))
     \<lparr>s_axil_awvalid := False, s_axil_wvalid := False\<rparr>"

lemma runs_to_write:
  assumes "\<And>n. e n AwReady \<and> e n WReady" and "0 \<le> now s" and "now s + 4 < 2 ^ 31"
  shows "runs_to test_axi_write e s (write_step s) []"
proof -
  have wait: "runs_to wait_ready e s s []"
    unfolding wait_ready_def runs_to_def by (subst io_loop.simps) (simp add: io_simps assms(1))
  have "runs_to (io_for [0..<4 :: nat] (\<lambda>i. drive_axil)) e
      (s\<lparr>s_axil_awvalid := True, s_axil_wvalid := True, s_axil_awaddr := 0, s_axil_wdata := 0\<rparr>)
      ((axil_step ^^ length [0..<4 :: nat]) (s\<lparr>s_axil_awvalid := True, s_axil_wvalid := True, s_axil_awaddr := 0, s_axil_wdata := 0\<rparr>)) []"
    by (rule runs_to_for_axil) (use assms in simp_all)
  with runs_to_then [OF wait runs_to_then [OF runs_to_basic(1) runs_to_then [OF _ runs_to_basic(1)]]]
  show ?thesis by (fastforce simp: test_axi_write_def write_step_def)
qed

lemma idle_write: "idle b s \<Longrightarrow> idle b (write_step s)"
  using idle_axil_steps [of b "s\<lparr>s_axil_awvalid := True, s_axil_wvalid := True, s_axil_awaddr := 0, s_axil_wdata := 0\<rparr>" 4]
  by (simp add: idle_def write_step_def)

lemma now_write: "now (write_step s) = now s + 4"
  by (simp add: write_step_def)

lemma lengths [simp]: "test_length 4 = 2578" "test_length 2 = 1290"
  by (simp_all add: test_length_def TICK_PER_CLK_def BENCH_PERIOD_def)


lemma idle_counts: "idle b s \<Longrightarrow> nb_sync_int s = 0"
  by (simp add: idle_def nb_sync_int_def)

lemma dec_0 [simp]: "dec 0 = ''0''"
  by code_simp

lemma runs_to_master:
  assumes "idle b s" and "0 \<le> now s" and "now s + 2578 < 2 ^ 31"
  shows "runs_to test_master_mode e s ((axis_step ^^ 2578) s)
    [finished TAB ''master mode test'' ((axis_step ^^ 2578) s), ''0'' @ period_message]"
proof -
  let ?s = "(axis_step ^^ 2578) s"
  have s: "idle b ?s" by (rule idle_axis_steps [OF assms(1)])
  have loop: "runs_to (until (now s + test_length 4) drive_axis) e s ?s []"
    using axis_until [of s "now s + test_length 4" e] assms by simp
  have verdict: "runs_to (io_bind (io_get nb_sync_int) (\<lambda>nb.
       io_when (nb \<noteq> 4) (shown (\<lambda>s. dec (unat (reg_nb_sync (regs s))) @ period_message)))) e ?s ?s [''0'' @ period_message]"
    by (rule runs_to_get) (use s runs_to_basic(4) in \<open>simp add: idle_counts [OF s] runs_to_def io_simps shown_def idle_def\<close>)
  have "runs_to test_master_mode e s ?s
      ([] @ [finished TAB ''master mode test'' ?s] @ [''0'' @ period_message])"
    unfolding test_master_mode_def
    by (intro runs_to_get runs_to_then [OF loop] runs_to_then [OF runs_to_basic(4)] verdict)
  then show ?thesis by simp
qed

lemma rising_pulse:
  assumes "0 \<le> n"
  shows "odd n \<and> pulse_at n \<longleftrightarrow> n mod 644 = 643"
proof -
  have n: "n = 644 * (n div 644) + n mod 644" by simp
  have next_n: "(n + 1) mod 644 = (n mod 644 + 1) mod 644" by (simp add: mod_add_left_eq)
  have "(n + 1) mod 644 = 0 \<longleftrightarrow> n mod 644 = 643"
  proof (cases "n mod 644 = 643")
    case True
    then show ?thesis by (simp add: next_n)
  next
    case False
    then have "n mod 644 + 1 < 644" and "0 \<le> n mod 644" using pos_mod_bound [of 644 n] by simp_all
    with False next_n show ?thesis by simp
  qed
  moreover have "n mod 644 = 0 \<Longrightarrow> even n" and "n mod 644 = 643 \<Longrightarrow> odd n" by (subst n, simp)+
  ultimately show ?thesis using assms by (auto simp: pulse_at_def TICK_PER_CLK_def BENCH_PERIOD_def c_mod_nonneg)
qed

lemma bench_numbers:
  "dec_int 0 = ''0''" "dec_int 2 = ''2''" "dec_int 322 = ''322''" "dec_int 2580 = ''2580''" "dec_int 5164 = ''5164''"
  by (simp_all add: dec_int_def dec_def num_str.simps digit_char_def char_of_def bit_nat_def)

lemma pulses_of_bench: "pulses 3874 1290 = 2"
proof -
  have "{i. i < 1290 \<and> odd (3874 + int i) \<and> pulse_at (3874 + int i)} = {633, 1277}" (is "?A = _")
  proof (rule set_eqI)
    fix i :: nat
    have at: "odd (3874 + int i) \<and> pulse_at (3874 + int i) \<longleftrightarrow> (10 + i) mod 644 = 643"
    proof -
      have "(3874 + int i) mod 644 = int ((3874 + i) mod 644)" by (simp add: zmod_int)
      also have "(3874 + i) mod 644 = (10 + i) mod 644" using mod_mult_self2 [of "10 + i" 644 6] by (simp add: add.commute)
      finally have "(3874 + int i) mod 644 = int ((10 + i) mod 644)" .
      moreover have "int k = 643 \<longleftrightarrow> k = 643" for k by auto
      ultimately have "(3874 + int i) mod 644 = 643 \<longleftrightarrow> (10 + i) mod 644 = 643" by (simp only:)
      then show ?thesis using rising_pulse [of "3874 + int i"] by simp
    qed
    have "(10 + i) mod 644 = 643 \<longleftrightarrow> 10 + i = 643 \<or> 10 + i = 1287" if "i < 1290"
    proof
      assume "(10 + i) mod 644 = 643"
      then have "10 + i = 644 * ((10 + i) div 644) + 643" by (metis mult_div_mod_eq)
      moreover from this that have "(10 + i) div 644 < 2" by linarith
      ultimately show "10 + i = 643 \<or> 10 + i = 1287" by (auto simp: less_2_cases_iff)
    qed auto
    with at show "i \<in> ?A \<longleftrightarrow> i \<in> {633, 1277}" by auto
  qed
  moreover have "pulses 3874 1290 = card ?A"
    unfolding pulses_def length_filter_conv_card by (rule arg_cong [where f = card]) auto
  ultimately show ?thesis by simp
qed

lemma runs_to_slave:
  assumes "idle b s" and "now s = 2584"
  shows "\<exists>s'. now s' = 5164 \<and> runs_to test_slave_mode e s s' (finished TAB ''slave mode test'' s' #
    (if b then [] else [period_message, ''0 0 2'']))"
proof -
  let ?q = "(axis_step ^^ 1290) s"
  let ?s = "(pulse_step ^^ 1290) ?q"
  have q: "idle b ?q" "now ?q = 3874" using idle_axis_steps [OF assms(1)] assms(2) by simp_all
  have seen: "axis_seen ?q = level (now ?q - 1)" using seen_axis_steps [of 1290 s] assms(2) by simp
  have l1: "runs_to (until (now s + test_length 2) drive_axis) e s ?q []"
    using axis_until [of s "now s + test_length 2" e] assms by simp
  have l2: "runs_to (until (now ?q + test_length 2) drive_pulse) e ?q ?s []"
    using pulse_until [of ?q "now ?q + test_length 2" e] q by (simp del: now_axis_steps)
  have s: "now ?s = 5164" "nb_sync_int ?s = (if b then 2 else 0)"
    using pulse_steps [of ?q b 1290] q seen unfolding nb_sync_int_def
    by (simp_all add: idle_def pulses_of_bench del: now_axis_steps)
  let ?verdict = "io_bind (io_get nb_sync_int) (\<lambda>nb. io_when (nb \<noteq> nb_sync_int ?q + 2)
       (io_then (io_do (Print period_message))
         (io_do (Print (dec_int nb @ '' '' @ dec_int (nb_sync_int ?q) @ '' '' @ dec_int 2)))))"
  have verdict: "runs_to ?verdict e ?s ?s (if b then [] else [period_message, ''0 0 2''])"
    by (rule runs_to_get) (use s in \<open>simp add: idle_counts [OF q(1)] runs_to_def io_simps bench_numbers\<close>)
  have "runs_to test_slave_mode e s ?s
      ([] @ [] @ [finished TAB ''slave mode test'' ?s] @ (if b then [] else [period_message, ''0 0 2'']))"
    unfolding test_slave_mode_def
    by (intro runs_to_get runs_to_then [OF l1] runs_to_then [OF l2] runs_to_then [OF runs_to_basic(4)] verdict)
  with s show ?thesis by auto
qed



section \<open>The end of the bench\<close>

text \<open>The time left to the overflow.\<close>

definition time_left :: "bench \<Rightarrow> nat" where
  "time_left s = nat (2 ^ 31 - now s)"

lemma drive_axis_takes_time:
  "drive_axis e s t = Some (Inr (), s', t') \<Longrightarrow> time_left s' < time_left s \<and> now s' = now s + 1"
  by (auto simp: drive_axis_def count_now_def eval_and_dump_wave_def io_simps in_cint_def time_left_def split: if_splits)

lemma drive_pulse_takes_time:
  "drive_pulse e s t = Some (Inr (), s', t') \<Longrightarrow> time_left s' < time_left s \<and> now s' = now s + 1"
  by (auto simp: drive_pulse_def drive_axis_def count_now_def eval_and_dump_wave_def io_simps in_cint_def time_left_def split: if_splits)

lemma total_eval [total_rules]: "io_total eval_and_dump_wave" "io_total count_now" "io_total (shown text_of)"
  by (auto simp: eval_and_dump_wave_def count_now_def shown_def intro!: total_rules)

lemma total_drive [total_rules]: "io_total drive_axis" "io_total drive_axil" "io_total drive_pulse"
  by (auto simp: drive_axis_def drive_axil_def drive_pulse_def intro!: total_rules)

lemma total_until:
  assumes "io_total body" and "\<And>e s t s' t'. body e s t = Some (Inr (), s', t') \<Longrightarrow> time_left s' < time_left s"
  shows "io_total (until end_t body)"
  unfolding until_def
  by (rule total_loop [where f = time_left])
    (use assms in \<open>auto simp: io_simps intro!: total_rules split: if_splits option.splits sum.splits\<close>)

lemma total_wait: "io_total wait_ready"
  unfolding wait_ready_def
  by (rule total_loop [where f = time_left])
    (auto simp: io_simps intro!: total_rules dest!: drive_axis_takes_time split: if_splits option.splits sum.splits)

lemma total_bench: "io_total bench_main"
  by (auto simp: bench_main_def initial_reset_def test_master_mode_def test_axi_write_def test_slave_mode_def
      intro!: total_rules total_until total_wait dest: drive_axis_takes_time drive_pulse_takes_time)

lemma wp_trivial: "io_wp e m (\<lambda>_ _ _. True) (\<lambda>_ _ _. True) s t"
  by (simp add: io_wp_def split: option.splits sum.splits)

lemma wait_needs_answers:
  "io_wp e wait_ready (\<lambda>_ _ _. (\<exists>n. e n AwReady) \<and> (\<exists>n. e n WReady)) (\<lambda>_ _ _. True) s t"
  unfolding wait_ready_def
  by (rule io_wp_loop [where I = "\<lambda>_ _. True"])
    (auto simp: io_wp_simps wp_trivial intro: io_wp_mono [OF wp_trivial])

text \<open>
  C28: Whatever the block does, the bench ends.  Where it returns, it returns 0, so that no failed
  test is seen by the one who ran it, and then the block was ready at some time for address and
  data; a block that is never ready is waited for until the time overflows.
\<close>

theorem bench_ends:
  "\<exists>s' u. bench_main e s [] = Some (Inr 0, s', u) \<and> (\<exists>n. e n AwReady) \<and> (\<exists>n. e n WReady) \<or>
     bench_main e s [] = Some (Inl TimeOverflow, s', u)"
proof -
  let ?R = "(\<exists>n. e n AwReady) \<and> (\<exists>n. e n WReady)"
  obtain r s' u where run: "bench_main e s [] = Some (r, s', u)" using io_totalD [OF total_bench] by blast
  have axi: "io_wp e (io_then test_axi_write k) (\<lambda>r _ _. r = 0 \<and> ?R) (\<lambda>_ _ _. True) s t"
    if k: "\<And>s t. io_wp e k (\<lambda>r _ _. r = 0) (\<lambda>_ _ _. True) s t" for k :: "int bench_io" and s t
    unfolding test_axi_write_def io_then_assoc io_wp_then [of e wait_ready]
  proof (rule io_wp_mono [OF wait_needs_answers])
    fix a s' t'
    assume R: ?R
    show "io_wp e (io_then (io_modify (\<lambda>s. s\<lparr>s_axil_awvalid := True, s_axil_wvalid := True, s_axil_awaddr := 0,
          s_axil_wdata := 0\<rparr>)) (io_then (io_for [0..<4 :: nat] (\<lambda>i. drive_axil))
          (io_then (io_modify (\<lambda>s. s\<lparr>s_axil_awvalid := False, s_axil_wvalid := False\<rparr>)) k)))
        (\<lambda>r _ _. r = 0 \<and> ?R) (\<lambda>_ _ _. True) s' t'"
      unfolding io_wp_then
      by (rule io_wp_mono [OF wp_trivial], rule io_wp_mono [OF wp_trivial], rule io_wp_mono [OF wp_trivial],
          rule io_wp_mono [OF k]) (simp_all add: R)
  qed
  have "io_wp e (io_then test_slave_mode (io_then (io_do CloseTrace) (io_ret (0 :: int)))) (\<lambda>r _ _. r = 0) (\<lambda>_ _ _. True) s t"
    for s t unfolding io_wp_then [of e test_slave_mode] by (rule io_wp_mono [OF wp_trivial]) (simp_all add: io_wp_simps)
  note rest = axi [OF this]
  have "io_wp e bench_main (\<lambda>r _ _. r = 0 \<and> ?R) (\<lambda>_ _ _. True) s []"
    unfolding bench_main_def io_wp_then [of e "io_do _"] io_wp_then [of e initial_reset] io_wp_then [of e test_master_mode]
    by (rule io_wp_mono [OF wp_trivial], rule io_wp_mono [OF wp_trivial], rule io_wp_mono [OF wp_trivial])
      (simp_all add: rest)
  with run show ?thesis
    by (cases r) (auto simp: io_wp_def intro: bench_exit.exhaust)
qed

end
