(* ===== verification/P2PBox.thy ===== *)
theory P2PBox
  imports Prelude "HOL-Library.Sublist"
begin

text \<open>
  The box of the FPGA at 250 MHz and the address maps of both boxes:
  \<open>fpga/hw/plugins/inject_timestamp/p2p_250mhz.sv\<close>, \<open>box_250mhz/box_250mhz_address_map.v\<close>,
  \<open>box_250mhz/box_250mhz_axi_crossbar.tcl\<close> and \<open>box_322mhz/box_322mhz_address_map.v\<close>.  The
  switches, pipelines and crossbars they connect are not in the repository: what is modelled is
  which lane of a bus goes where, what packets keep and the destination they get, and the address
  a slave sees.
\<close>

section \<open>Lanes and destinations\<close>

text \<open>The lane of queue set \<open>ii\<close> at interface \<open>i\<close>, on a bus of one lane for each pair.\<close>

definition qdma_lane :: "nat \<Rightarrow> nat \<Rightarrow> nat" where
  "qdma_lane i ii = 2 * ii + i"

definition qdma_lanes :: "nat \<Rightarrow> nat \<Rightarrow> nat list" where
  "qdma_lanes NUM_INTF NUM_QDMA = concat (map (\<lambda>i. map (qdma_lane i) [0..<NUM_QDMA]) [0..<NUM_INTF])"

definition adap_tx_dst :: "nat \<Rightarrow> u16" where
  "adap_tx_dst i = push_bit (6 + i) 1"

definition qdma_c2h_dst :: "nat \<Rightarrow> u16" where
  "qdma_c2h_dst i = push_bit i 1"

lemma set_qdma_lanes: "set (qdma_lanes n q) = {2 * ii + i | i ii. i < n \<and> ii < q}"
  unfolding qdma_lanes_def qdma_lane_def by force

lemma length_qdma_lanes: "length (qdma_lanes n q) = n * q"
  by (induction n) (simp_all add: qdma_lanes_def)

text \<open>
  With more than one QDMA core, the lanes of the packet buses fit their width, each used
  once, exactly when the box has two interfaces: with one, the second core is past the end of
  the bus, and with three or more two cores share a lane.
\<close>

theorem lanes_fit_two_interfaces:
  assumes "1 < NUM_QDMA" and "1 \<le> NUM_INTF"
  shows "distinct (qdma_lanes NUM_INTF NUM_QDMA) \<and> set (qdma_lanes NUM_INTF NUM_QDMA) = {..<NUM_INTF * NUM_QDMA} \<longleftrightarrow>
    NUM_INTF = 2"
proof
  let ?n = NUM_INTF and ?q = NUM_QDMA
  assume "distinct (qdma_lanes ?n ?q) \<and> set (qdma_lanes ?n ?q) = {..<?n * ?q}"
  then have lanes: "x < ?n * ?q \<longleftrightarrow> (\<exists>i ii. x = 2 * ii + i \<and> i < ?n \<and> ii < ?q)" for x
    by (auto simp: set_qdma_lanes set_eq_iff)
  obtain n q where nq: "?n = Suc n" "?q = Suc (Suc q)"
    using assms by (metis One_nat_def Suc_le_D less_imp_Suc_add plus_1_eq_Suc add_Suc_right)
  have "2 * Suc q + n < ?n * ?q" 
    by (intro lanes [THEN iffD2] exI [of _ n] exI [of _ "Suc q"]) (simp add: nq)
  then have "?n \<noteq> 1" using nq by (cases n) auto
  moreover obtain i ii where last: "?n * ?q - 1 = 2 * ii + i" "i < ?n" "ii < ?q" using lanes [of "?n * ?q - 1"] assms by auto
  have "2 * ii + i \<le> 2 * Suc q + n" using last(2, 3) nq by simp
  then have "?n * ?q - 1 \<le> 2 * Suc q + n" using last(1) by simp
  then have "n * Suc q \<le> 1 * Suc q" using nq by (simp add: algebra_simps)
  then have "n \<le> 1" by (simp only: mult_le_cancel2)
  ultimately show "?n = 2" using nq by auto
next
  assume two: "NUM_INTF = 2"
  have "m \<in> set (qdma_lanes 2 NUM_QDMA) \<longleftrightarrow> m < 2 * NUM_QDMA" for m
  proof
    assume "m < 2 * NUM_QDMA"
    then have "m div 2 < NUM_QDMA" and "m mod 2 < 2" and "m = 2 * (m div 2) + m mod 2" by auto
    then show "m \<in> set (qdma_lanes 2 NUM_QDMA)" unfolding set_qdma_lanes by blast
  qed (auto simp: set_qdma_lanes)
  then have set: "set (qdma_lanes 2 NUM_QDMA) = {..<2 * NUM_QDMA}" by auto
  moreover have "distinct (qdma_lanes 2 NUM_QDMA)"
    by (rule card_distinct) (simp add: set length_qdma_lanes)
  ultimately show "distinct (qdma_lanes NUM_INTF NUM_QDMA) \<and> set (qdma_lanes NUM_INTF NUM_QDMA) = {..<NUM_INTF * NUM_QDMA}"
    by (simp add: two)
qed

theorem lanes_fit_two_interfaces_witness:
  "\<not> (distinct (qdma_lanes 1 2) \<and> set (qdma_lanes 1 2) = {..<1 * 2})"
  using lanes_fit_two_interfaces [of 2 1] by simp

text \<open>
  Packets of different interfaces get different destinations, and none gets the one of the
  other direction, for as many interfaces as the field has bits for.
\<close>

theorem destinations_differ:
  assumes "i < 6" and "j < 6"
  shows "(adap_tx_dst i = adap_tx_dst j \<longleftrightarrow> i = j) \<and> (qdma_c2h_dst i = qdma_c2h_dst j \<longleftrightarrow> i = j) \<and>
    adap_tx_dst i \<noteq> qdma_c2h_dst j"
proof -
  have "(push_bit k 1 :: u16) = push_bit l 1 \<longleftrightarrow> k = l" if "k < 16" "l < 16" for k l
    using that by (auto simp: bit_eq_iff bit_simps)
  then show ?thesis using assms by (simp add: adap_tx_dst_def qdma_c2h_dst_def)
qed

section \<open>Addresses\<close>

text \<open>
  The windows the script gives the crossbar of the 250 MHz box, one for each slave: the base
  address and the number of address bits.  The base of the first is not set; it is an argument.
\<close>

definition box_250mhz_windows :: "u32 \<Rightarrow> nat \<Rightarrow> (u32 \<times> nat) list" where
  "box_250mhz_windows m00_base num_phys_func =
     [(m00_base, 7), (0x80, 7)] @
     (if num_phys_func = 2 then [(0x100, 7), (0x180, 7), (0x1000, 12)] else [(0x1000, 12)])"

definition in_window :: "u32 \<Rightarrow> u32 \<times> nat \<Rightarrow> bool" where
  "in_window a w \<longleftrightarrow> fst w \<le> a \<and> a - fst w < 2 ^ snd w"

definition C_P2P_BASE_ADDR :: u32 where "C_P2P_BASE_ADDR = 0"
definition C_SIZE :: u32 where "C_SIZE = 0x80"
definition C_DUMMY_BASE_ADDR_250 :: u32 where "C_DUMMY_BASE_ADDR_250 = 0x1000"
definition C_DUMMY_BASE_ADDR_322 :: u32 where "C_DUMMY_BASE_ADDR_322 = 0x200000"

definition box_250mhz_slave_addr :: "nat \<Rightarrow> nat \<Rightarrow> u32 \<Rightarrow> u32" where
  "box_250mhz_slave_addr NUM_INTF i a =
     (if i < NUM_INTF * 2 then a - C_SIZE * of_nat i - C_P2P_BASE_ADDR else a - C_DUMMY_BASE_ADDR_250)"

definition box_322mhz_p2p_addr :: "u32 \<Rightarrow> u32" where
  "box_322mhz_p2p_addr a = a - C_P2P_BASE_ADDR"

definition box_322mhz_dummy_addr :: "u32 \<Rightarrow> u32" where
  "box_322mhz_dummy_addr a = a - C_DUMMY_BASE_ADDR_322"

text \<open>
  In the 250 MHz box every slave sees addresses from 0 on: an address in the window of a
  slave is below the size of the window once the base is taken off, and the windows overlap
  nowhere.
\<close>

theorem box_250mhz_addresses:
  assumes "NUM_INTF = 1 \<or> NUM_INTF = 2" and "i < 2 * NUM_INTF + 1"
    and "in_window a (box_250mhz_windows 0 NUM_INTF ! i)"
  shows "box_250mhz_slave_addr NUM_INTF i a < (if i < 2 * NUM_INTF then 0x80 else 0x1000) \<and>
    (\<forall>j < 2 * NUM_INTF + 1. in_window a (box_250mhz_windows 0 NUM_INTF ! j) \<longrightarrow> j = i)"
proof -
  consider "NUM_INTF = 1" "i = 0" | "NUM_INTF = 1" "i = 1" | "NUM_INTF = 1" "i = 2"
    | "NUM_INTF = 2" "i = 0" | "NUM_INTF = 2" "i = 1" | "NUM_INTF = 2" "i = 2" | "NUM_INTF = 2" "i = 3" | "NUM_INTF = 2" "i = 4"
    using assms(1, 2) by (auto simp: numeral_eq_Suc less_Suc_eq)
  then show ?thesis using assms(3)
    by cases (simp_all add: box_250mhz_windows_def in_window_def box_250mhz_slave_addr_def C_SIZE_def C_P2P_BASE_ADDR_def
        C_DUMMY_BASE_ADDR_250_def All_less_Suc eval_nat_numeral, (uint_arith; simp)+)
qed

theorem box_250mhz_addresses_witness:
  "box_250mhz_slave_addr 2 3 0x1FC < 0x80"
proof -
  have "in_window 0x1FC (box_250mhz_windows 0 2 ! 3)" by (simp add: in_window_def box_250mhz_windows_def)
  from box_250mhz_addresses [OF _ _ this] show ?thesis by simp
qed

text \<open>
  With more than one QDMA core each interface has two switches, and each switch a lane of the
  control bus.  Every lane up to twice the number of interfaces leads to one switch, and the
  registers of the switches of interface \<open>i\<close> lie at 0x100 times \<open>i\<close>, those of the switch
  towards the host first.
\<close>

definition egress_ctrl :: "nat \<Rightarrow> nat" where "egress_ctrl i = 2 * i + 1"
definition ingress_ctrl :: "nat \<Rightarrow> nat" where "ingress_ctrl i = 2 * i"

theorem switches_share_bus:
  "distinct (map ingress_ctrl [0..<n] @ map egress_ctrl [0..<n]) \<and>
   set (map ingress_ctrl [0..<n] @ map egress_ctrl [0..<n]) = {..<n * 2}"
proof -
  have "k \<in> set (map ingress_ctrl [0..<n] @ map egress_ctrl [0..<n])" if "k < n * 2" for k
    using that by (cases "even k") (auto simp: ingress_ctrl_def egress_ctrl_def elim!: evenE oddE)
  then show ?thesis
    by (auto simp: ingress_ctrl_def egress_ctrl_def distinct_map inj_on_def) presburger
qed

lemma in_switch_window: "a < 0x80 \<Longrightarrow> b \<le> 0x180 \<Longrightarrow> in_window (b + a) (b, 7)"
  unfolding in_window_def fst_conv snd_conv by uint_arith simp_all

theorem switch_registers:
  assumes "NUM_INTF = 1 \<or> NUM_INTF = 2" and "i < NUM_INTF" and "a < 0x80"
  shows "box_250mhz_slave_addr NUM_INTF (ingress_ctrl i) (0x100 * of_nat i + a) = a \<and>
    box_250mhz_slave_addr NUM_INTF (egress_ctrl i) (0x100 * of_nat i + 0x80 + a) = a \<and>
    in_window (0x100 * of_nat i + a) (box_250mhz_windows 0 NUM_INTF ! ingress_ctrl i) \<and>
    in_window (0x100 * of_nat i + 0x80 + a) (box_250mhz_windows 0 NUM_INTF ! egress_ctrl i)"
proof -
  consider "NUM_INTF = 1" "i = 0" | "NUM_INTF = 2" "i = 0" | "NUM_INTF = 2" "i = 1"
    using assms(1, 2) by (auto simp: numeral_eq_Suc less_Suc_eq)
  then show ?thesis using assms(3)
    using in_switch_window [of a 0]
    by cases (simp_all add: in_switch_window box_250mhz_windows_def box_250mhz_slave_addr_def C_SIZE_def C_P2P_BASE_ADDR_def
        ingress_ctrl_def egress_ctrl_def)
qed

text \<open>
  In the 322 MHz box the spare slave sees no address near 0: all those of its window in the
  address map, from 0x1000 to 0x1FFF, wrap around below 0.
\<close>

theorem box_322mhz_dummy_wraps:
  assumes "0x1000 \<le> a" and "a \<le> 0x1FFF"
  shows "0xFFE01000 \<le> box_322mhz_dummy_addr a \<and> box_322mhz_dummy_addr a \<le> 0xFFE01FFF"
  using assms unfolding box_322mhz_dummy_addr_def C_DUMMY_BASE_ADDR_322_def by uint_arith simp_all

theorem box_322mhz_dummy_wraps_witness: "0xFFE01000 \<le> box_322mhz_dummy_addr 0x1004"
  using box_322mhz_dummy_wraps [of "0x1004"] by simp

section \<open>Packets of a box with one QDMA core\<close>

text \<open>
  A beat of a stream between a QDMA core and a packet adapter.  The pipeline carries size,
  source and destination in one field of 48 bits, size lowest.
\<close>

record box_beat =
  beat_tdata :: "512 word"
  beat_tkeep :: "64 word"
  beat_tlast :: bool
  tuser_size :: u16
  tuser_src :: u16
  tuser_dst :: u16

type_synonym piped_beat = "512 word \<times> 64 word \<times> bool \<times> 48 word"

definition join_tuser :: "box_beat \<Rightarrow> 48 word" where
  "join_tuser b = (word_cat (tuser_dst b) (word_cat (tuser_src b) (tuser_size b) :: 32 word) :: 48 word)"

definition user_part :: "nat \<Rightarrow> 48 word \<Rightarrow> u16" where
  "user_part k u = ucast (drop_bit k u)"

definition into_pipeline :: "box_beat \<Rightarrow> piped_beat" where
  "into_pipeline b = (beat_tdata b, beat_tkeep b, beat_tlast b, join_tuser b)"

definition out_of_pipeline :: "u16 \<Rightarrow> piped_beat \<Rightarrow> box_beat" where
  "out_of_pipeline dst = (\<lambda>(d, k, l, u). \<lparr>beat_tdata = d, beat_tkeep = k, beat_tlast = l,
     tuser_size = user_part 0 u, tuser_src = user_part 16 u, tuser_dst = dst\<rparr>)"

text \<open>
  Both directions of interface \<open>i\<close>, over the streams that have passed.  The pipelines are blocks
  of the shell: each is the function from what it has taken to what it has given.
\<close>

definition box_250mhz_tx :: "(piped_beat list \<Rightarrow> piped_beat list) \<Rightarrow> nat \<Rightarrow> box_beat list \<Rightarrow> box_beat list" where
  "box_250mhz_tx pipeline i bs = map (out_of_pipeline (adap_tx_dst i)) (pipeline (map into_pipeline bs))"

definition box_250mhz_rx :: "(piped_beat list \<Rightarrow> piped_beat list) \<Rightarrow> nat \<Rightarrow> box_beat list \<Rightarrow> box_beat list" where
  "box_250mhz_rx pipeline i bs = map (out_of_pipeline (qdma_c2h_dst i)) (pipeline (map into_pipeline bs))"

lemma user_parts: "user_part 0 (join_tuser b) = tuser_size b" "user_part 16 (join_tuser b) = tuser_src b"
  by (rule bit_word_eqI; auto simp: user_part_def join_tuser_def bit_simps bit_word_cat_iff)+

lemma through_pipeline: "out_of_pipeline dst (into_pipeline b) = b\<lparr>tuser_dst := dst\<rparr>"
  by (simp add: out_of_pipeline_def into_pipeline_def user_parts)

lemma piped_prefix:
  assumes "prefix (pipeline (map into_pipeline bs)) (map into_pipeline bs)"
  shows "prefix (map (out_of_pipeline dst) (pipeline (map into_pipeline bs))) (map (tuser_dst_update (\<lambda>_. dst)) bs)"
proof -
  have "map (tuser_dst_update (\<lambda>_. dst)) bs = map (out_of_pipeline dst) (map into_pipeline bs)"
    by (simp add: through_pipeline)
  with assms show ?thesis by (simp only: map_mono_prefix)
qed

text \<open>
  A box with one QDMA core passes packets on as they are: if a pipeline gives what it has
  taken, in order and no more, then the beats that leave an interface are the first of those
  that came in, with data, marks, size and source unchanged, and with the destination that
  names the interface and the direction.
\<close>

theorem box_250mhz_passes:
  assumes "\<And>xs. prefix (tx_pipeline xs) xs" and "\<And>xs. prefix (rx_pipeline xs) xs"
  shows "prefix (box_250mhz_tx tx_pipeline i bs) (map (tuser_dst_update (\<lambda>_. push_bit (6 + i) 1)) bs) \<and>
    prefix (box_250mhz_rx rx_pipeline i bs) (map (tuser_dst_update (\<lambda>_. push_bit i 1)) bs)"
  unfolding box_250mhz_tx_def box_250mhz_rx_def adap_tx_dst_def qdma_c2h_dst_def
  by (intro conjI piped_prefix assms)

text \<open>A pipeline with room for two beats, which have not left it yet.\<close>

theorem box_250mhz_passes_witness:
  "prefix (box_250mhz_tx (\<lambda>xs. take (length xs - 2) xs) 1 [b, b\<lparr>tuser_src := 3\<rparr>, b])
     (map (tuser_dst_update (\<lambda>_. 128)) [b, b\<lparr>tuser_src := 3\<rparr>, b])"
  using box_250mhz_passes [of "\<lambda>xs. take (length xs - 2) xs" "\<lambda>xs. xs" 1 "[b, b\<lparr>tuser_src := 3\<rparr>, b]"]
  by (simp add: take_is_prefix)

section \<open>Packets of a box with more QDMA cores\<close>

text \<open>
  Interface \<open>i\<close> takes the lanes of its cores to one switch, and the lanes of the other switch to
  its cores.  The switches are outside the repository: each is the function from the streams it
  has taken to those it has given.  Towards the host the destination is the one the switch hands
  on; towards the adapter it is set as with one core.
\<close>

definition out_of_switch :: "piped_beat \<Rightarrow> box_beat" where
  "out_of_switch x = out_of_pipeline (user_part 32 (snd (snd (snd x)))) x"

definition box_250mhz_egress ::
  "(piped_beat list list \<Rightarrow> piped_beat list) \<Rightarrow> nat \<Rightarrow> nat \<Rightarrow> (nat \<Rightarrow> box_beat list) \<Rightarrow> box_beat list" where
  "box_250mhz_egress switch NUM_QDMA i lanes =
     map (out_of_pipeline (adap_tx_dst i)) (switch (map (\<lambda>ii. map into_pipeline (lanes (qdma_lane i ii))) [0..<NUM_QDMA]))"

definition box_250mhz_ingress ::
  "(piped_beat list \<Rightarrow> nat \<Rightarrow> piped_beat list) \<Rightarrow> nat \<Rightarrow> nat \<Rightarrow> box_beat list \<Rightarrow> (nat \<times> box_beat list) list" where
  "box_250mhz_ingress switch NUM_QDMA i bs =
     map (\<lambda>ii. (qdma_lane i ii, map out_of_switch (switch (map into_pipeline bs) ii))) [0..<NUM_QDMA]"

lemma user_part_dst: "user_part 32 (join_tuser b) = tuser_dst b"
  by (rule bit_word_eqI) (auto simp: user_part_def join_tuser_def bit_simps bit_word_cat_iff)

lemma through_switch: "out_of_switch (into_pipeline b) = b"
proof -
  have "snd (snd (snd (into_pipeline b))) = join_tuser b" by (simp add: into_pipeline_def)
  then show ?thesis by (simp add: out_of_switch_def through_pipeline user_part_dst)
qed

text \<open>
  Whatever order a switch puts beats in: if it gives only what it has taken, a beat that leaves
  for the adapter came in on a lane of the same interface, and only its destination is new; a
  beat that leaves for the host is one that came in from the adapter, with nothing changed.
\<close>

theorem box_250mhz_switches:
  assumes "\<And>xss. set (egress xss) \<subseteq> \<Union> (set ` set xss)" and "\<And>xs ii. set (ingress xs ii) \<subseteq> set xs"
  shows "set (box_250mhz_egress egress NUM_QDMA i lanes) \<subseteq>
      {b\<lparr>tuser_dst := push_bit (6 + i) 1\<rparr> | b ii. ii < NUM_QDMA \<and> b \<in> set (lanes (2 * ii + i))} \<and>
    (\<forall>(lane, out) \<in> set (box_250mhz_ingress ingress NUM_QDMA i bs). set out \<subseteq> set bs)"
proof
  have in_switch: "set (egress xss) \<subseteq> \<Union> (set ` set xss)" for xss by (rule assms(1))
  show "set (box_250mhz_egress egress NUM_QDMA i lanes) \<subseteq>
      {b\<lparr>tuser_dst := push_bit (6 + i) 1\<rparr> | b ii. ii < NUM_QDMA \<and> b \<in> set (lanes (2 * ii + i))}"
    using in_switch [of "map (\<lambda>ii. map into_pipeline (lanes (qdma_lane i ii))) [0..<NUM_QDMA]"]
    by (force simp: box_250mhz_egress_def adap_tx_dst_def qdma_lane_def through_pipeline)
  have "set (map out_of_switch (ingress (map into_pipeline bs) ii)) \<subseteq> set bs" for ii
    using assms(2) [of "map into_pipeline bs" ii] by (force simp: through_switch)
  then show "\<forall>(lane, out) \<in> set (box_250mhz_ingress ingress NUM_QDMA i bs). set out \<subseteq> set bs"
    by (auto simp: box_250mhz_ingress_def)
qed

end
