(* ===== verification/Spec2Isabelle.thy ===== *)
theory Spec2Isabelle
  imports Prelude CText OnicRegs QdmaRegs OnicPort Onic Pipeline Forwarder Stats StatsLines StatsLife ClkSync DmaSplit Commands CommandTable CommandPorts DmaCommands CommandRuns MainProgram MainSafety CommandFields SyncPulse TimestampInject InjectPlugin TestBench P2PBox
begin

text \<open>
  A model of the host software of a traffic inspector that sits between two FPGA network
  cards, with the theorems that make it correct.  File names are relative to \<open>src/\<close>.

  \<^bold>\<open>The program.\<close>  \<open>server/src/main.cpp\<close> builds two cards (\<open>Onic\<close>), each with two QDMA ports
  (\<open>OnicPort\<close>) and two 100G CMACs behind one register window.  A forwarding context names the
  port packets come in at and the port they leave by; a receive thread moves bursts of packets
  from the first to a ring and a transmit thread moves them from the ring to the second
  (\<open>pipeline.cpp\<close>).  A statistics thread (\<open>StatsLog\<close>) may read the counters of ports and CMACs
  and the time stamps a plugin of the FPGA writes into VLAN packets, and send them to Kafka.
  The main thread shows the counters until it is interrupted.  Beside it stand the command
  interpreter of the DMA tests (\<open>commands.c\<close>) and the program that sends the packets that keep
  the clocks of the cards together (\<open>server/src_clk_sync/main.cpp\<close>).  In each card, a plugin
  (\<open>fpga/hw/plugins/inject_timestamp\<close>) looks at the packets at 322 MHz: a detector finds the
  synchronisation packets, a clock block counts them and the ticks since the last one, and an
  inserter writes a time stamp into the packet.

  \<^bold>\<open>How it is modelled.\<close>  Almost every line calls DPDK, the driver, Kafka or the C library.  A
  component is therefore a \<open>record\<close> for the state it keeps, a \<open>datatype\<close> with one constructor
  per function outside the repository it calls, and programs over both (\<open>Prelude\<close>: type
  \<open>io\<close>, composed with \<open>io_bind\<close>, \<open>io_then\<close>, \<open>io_when\<close>, \<open>io_for\<close>, \<open>io_loop\<close>).  A program runs
  in an environment, an arbitrary function that answers each call, and leaves a trace of the
  calls and answers.  Nothing is assumed of the environment beyond the types of its answers,
  and a theorem that needs more states it as a hypothesis (a flag that, once raised, stays
  raised; a card that reports itself ready).  \<open>None\<close> stands for a run that never ends; \<open>Inl\<close>
  for one that ends the process or is undefined in C (an index outside of an array, a
  remainder by 0); \<open>Inr\<close> for a return.  Loops without a bound are \<open>io_loop\<close>, a
  \<open>partial_function (option)\<close>, so that no fuel is chosen anywhere; that they end is a theorem
  where it holds (all threads and \<open>main\<close> once they are told to stop, the wait for the shell
  once the card is ready), and for the sender of clock packets the opposite is.  Loops over queues, ports and
  packets are folds over lists.  Integers have the width of their C type: \<open>u8\<close> to \<open>u64\<close> are
  words, \<open>int\<close> is brought into range by \<open>to_cint\<close> where the code can leave it.

  \<^bold>\<open>The theories, in the order they build on each other.\<close>
  \<^item> \<open>Prelude\<close>: programs, their weakest conditions (\<open>io_wp\<close>), and the closure rules for what
    they keep: coming to an end (\<open>total_rules\<close>), not making a call (\<open>quiet_rules\<close>), only adding
    to the trace (\<open>extends_rules\<close>), keeping a part of the state (\<open>keeps_rules\<close>).
  \<^item> \<open>CText\<close>: \<open>atoi\<close>, \<open>strtol\<close>, \<open>strtoull\<close>, \<open>fgets\<close>, decimal and hexadecimal output.
  \<^item> \<open>OnicRegs\<close> (\<open>onic_regs.h\<close>): one definition per register, as the macros compute it.
    \<open>QdmaRegs\<close> (\<open>qdma_regs.h\<close>): the registers and the packed contexts of the QDMA core, with the
    locale \<open>packed_union\<close> for a union of words and bit fields, interpreted for all four.
  \<^item> \<open>OnicPort\<close> (\<open>onic_port.h\<close>, \<open>onic_port.cpp\<close>): set-up, close, reset and removal of a port and
    its DPDK callbacks.  The locale \<open>spin_section\<close> is the contract of a body that runs under
    the lock of the port, interpreted for reset and removal.
  \<^item> \<open>RegAccess\<close>, \<open>Onic\<close> (\<open>onic.h\<close>, \<open>onic.cpp\<close>): the register interface as a locale, which the
    card provides; bring-up of the CMACs, their statistics, construction and destruction.
  \<^item> \<open>PolledLoop\<close>, \<open>Pipeline\<close> (\<open>pipeline.cpp\<close>, \<open>forward_context.h\<close>): the loop all threads have in
    common, with the locale \<open>stoppable\<close> for a thread that a flag ends, interpreted for every
    thread of the program, and invariants of a whole run (\<open>steady\<close>); the three forwarding threads.  \<open>Forwarder\<close>: the receive and the
    transmit thread at work together, in every interleaving of their calls that agrees with
    the ring between them.
  \<^item> \<open>Stats\<close> (\<open>stats.h\<close>, \<open>stats.cpp\<close>, \<open>onic_helper.h\<close>): time stamps, both producers, Kafka.
    \<open>StatsLines\<close>: the messages, and a reader of Influx lines (the format
    \<open>server/tools/data_containers/telegrafconf/telegraf.conf\<close> asks for) as their
    specification.  \<open>StatsLife\<close>: the object from its constructor to its destructor.
  \<^item> \<open>ClkSync\<close> (\<open>server/src_clk_sync/main.cpp\<close>): the packet, the arguments and the paced loop.
  \<^item> \<open>DmaSplit\<close>, \<open>Commands\<close>, \<open>CommandTable\<close> (\<open>commands.c\<close>): the arithmetic that divides a
    transfer among queues and descriptors (locale \<open>split\<close>, interpreted for both directions),
    the handlers, and the table that leads a line to its handler.  \<open>CommandPorts\<close>,
    \<open>DmaCommands\<close>, \<open>CommandRuns\<close> and \<open>CommandFields\<close> (the structures the words of a line go
    to) hold their properties; \<open>DmaCommands\<close> proves the passes of
    both transfers once, in the locale \<open>queue_body\<close>.
  \<^item> \<open>MainProgram\<close>, \<open>MainSafety\<close> (\<open>main.cpp\<close>, \<open>print_schema\<close> of \<open>forward_context.h\<close>): \<open>main\<close>, and
    how its contexts and its end fit the threads.
  \<^item> \<open>SyncPulse\<close> (\<open>fpga/hw/IPs/clk_sync_pulse\<close>), \<open>TimestampInject\<close> (\<open>packet_detect\<close>,
    \<open>timestamp_inject\<close>), \<open>InjectPlugin\<close> (\<open>p2p_322mhz.sv\<close>): the SystemVerilog of the cards.  A
    circuit is a record of its registers and the state after a rising edge of its clock; a wire
    is a function.  Byte \<open>k\<close> of a packet is on the lanes \<open>8 k\<close> to \<open>8 k + 7\<close>, as AXI streams have it.
    \<open>P2PBox\<close>: the lanes, destinations and addresses of the 250 MHz box, its packets (the
    pipelines and switches are arguments), and the address maps.
  \<^item> \<open>TestBench\<close> (\<open>clk_sync_pulse/tb/testbench.cpp\<close>): the C++ bench, run on the model of the
    clock block, with \<open>eval\<close> of the generated class as Verilator documents it.

  \<^bold>\<open>What is shown.\<close>  Packets (\<open>Pipeline\<close>): every packet of the transmit thread goes to the card
  or back to its pool exactly once, and the queues take turns; the receive threads release the
  wrong packets.  Both threads (\<open>Forwarder\<close>): packets leave in the order in which they came
  in, none is invented, and each is released twice, the defect of the receive thread.  Cards (\<open>Onic\<close>): bring-up writes what a link needs and nothing else, and ends
  exactly when the card answers; no two registers overlap.  Ports (\<open>OnicPort\<close>): the set-up in
  order, close, reset and removal.  Commands: every line reaches one handler with its words in
  order, every handler ends and asks for no port beyond the table, files are closed once, and a
  transfer makes the calls planned from shares that cover the file; the cases where the code
  does otherwise (negative sizes and ports, more queues than bytes) are theorems too.
  Statistics: a message of the producers reads back as exactly the counters it was made from,
  except those of the latencies, which no reader accepts; the Kafka handles are used between
  making and giving them back only.  Clocks: latencies, intervals and pacing, and that the packet the
  sender builds is one the inspector recognises.  Cards: stamps of eight bytes go where the
  search says, but carry a constant, since the clock block as it is built counts no ticks; the
  sender's packets are not detected, and the host reads other bytes than the card stamps.  The
  test bench ends, returns 0, and always reports a failed test.  The whole (\<open>MainSafety\<close>): \<open>main\<close> sets up
  contexts no thread can fail on, stops the threads before the cards go, and ends when it is
  interrupted.

  \<^bold>\<open>What is not modelled.\<close>  What DPDK, the QDMA driver, Kafka, the command line library and the
  test application behind \<open>commands.c\<close> (its \<open>testapp.h\<close> is not in the repository) do inside:
  their functions are calls.  What another thread does reaches a thread as answers (the stop
  flag, the contents of a ring), and calls are atomic, so races inside DPDK are not seen.  Lines on the
  console are kept where the program computes them from its state (statistics, schema, usage)
  and left out where they only report an error.
  Of the FPGA, the blocks of the shell and of the vendor (register slices, pipelines, switches,
  crossbars, register slaves, the reset block) are outside the repository; ports that are only
  wired through to them have no definition.  The Python test bench drives only such blocks.  The
  scripts, containers and patches build and deploy the program and are not code of it.
\<close>

end
